(* ===== verification/Prelude.thy ===== *)
theory Prelude
  imports Main "HOL-Library.Sublist"
begin

text \<open>
  Shared vocabulary of the development.

  \<^item> Go strings and byte slices are both \<open>string\<close> (lists of bytes), so a conversion between
    \<^verbatim>\<open>string\<close> and \<^verbatim>\<open>[]byte\<close> is the identity.
  \<^item> Go errors are values of \<open>go_error\<close>: a leaf names the dynamic type the program tests with
    \<^verbatim>\<open>errors.AsType\<close> or \<^verbatim>\<open>errors.Is\<close>, and \<open>Wrapped\<close> is \<^verbatim>\<open>fmt.Errorf\<close> with one \<^verbatim>\<open>%w\<close> verb.
    A \<open>Sentinel\<close> is a package variable that \<^verbatim>\<open>errors.Is\<close> compares by identity.
  \<^item> A fallible Go call is a \<open>res\<close>: a value, an error, or a panic. The panic is kept apart from
    the error because the program recovers from it nowhere in the terraform runner.
  \<^item> The functions of package \<^verbatim>\<open>strings\<close> that the program uses, on bytes.
\<close>

section \<open>Results and errors\<close>

datatype go_error =
    ErrorString string
  | Sentinel string
  | StatusError int
  | UrlError string
  | ExitError int
  | NotExist string
  | DeadlineExceeded
  | Canceled
  | NoHandlerError string
  | RunTooLargeError string nat nat
  | Permanent go_error
  | Wrapped string go_error string

datatype 'a res = Ok 'a | Err go_error | Panic string

text \<open>Decimal rendering of integers, \<^verbatim>\<open>%d\<close>.\<close>

fun nat_digits :: "nat \<Rightarrow> string" where
  "nat_digits n =
     (if n < 10 then [char_of (48 + n)] else nat_digits (n div 10) @ [char_of (48 + n mod 10)])"

declare nat_digits.simps [simp del]

definition itoa :: "int \<Rightarrow> string" where
  "itoa i = (if i < 0 then ''-'' @ nat_digits (nat (- i)) else nat_digits (nat i))"

text \<open>The text of an error, \<^verbatim>\<open>err.Error()\<close>.\<close>

text \<open>The methods \<^verbatim>\<open>Error\<close> of the program's own errors.\<close>

definition StatusError_Error :: "int \<Rightarrow> string" where
  "StatusError_Error n = ''unexpected HTTP status: '' @ itoa n"

definition NoHandlerError_Error :: "string \<Rightarrow> string" where
  "NoHandlerError_Error t = ''no implementation handler configured for type '' @ [CHR 0x27] @ t @ [CHR 0x27]"

definition RunTooLargeError_Error :: "string \<Rightarrow> nat \<Rightarrow> nat \<Rightarrow> string" where
  "RunTooLargeError_Error r d m =
     ''run '' @ r @ '' data size ('' @ nat_digits d @ '' bytes) exceeds Kubernetes secret limit (''
     @ nat_digits m @ '' bytes)''"

fun error_text :: "go_error \<Rightarrow> string" where
  "error_text (ErrorString m) = m"
| "error_text (Sentinel m) = m"
| "error_text (StatusError n) = StatusError_Error n"
| "error_text (UrlError m) = m"
| "error_text (ExitError n) = ''exit status '' @ itoa n"
| "error_text (NotExist m) = m"
| "error_text DeadlineExceeded = ''context deadline exceeded''"
| "error_text Canceled = ''context canceled''"
| "error_text (NoHandlerError t) = NoHandlerError_Error t"
| "error_text (RunTooLargeError r d m) = RunTooLargeError_Error r d m"
| "error_text (Permanent e) = error_text e"
| "error_text (Wrapped pre e post) = pre @ error_text e @ post"

text \<open>\<^verbatim>\<open>errors.AsType[*meshapi.StatusError]\<close>, \<^verbatim>\<open>errors.AsType[*url.Error]\<close> and the like walk the chain.\<close>

fun as_status_error :: "go_error \<Rightarrow> int option" where
  "as_status_error (StatusError n) = Some n"
| "as_status_error (Permanent e) = as_status_error e"
| "as_status_error (Wrapped _ e _) = as_status_error e"
| "as_status_error _ = None"

fun as_url_error :: "go_error \<Rightarrow> string option" where
  "as_url_error (UrlError m) = Some m"
| "as_url_error (Permanent e) = as_url_error e"
| "as_url_error (Wrapped _ e _) = as_url_error e"
| "as_url_error _ = None"

fun as_exit_error :: "go_error \<Rightarrow> int option" where
  "as_exit_error (ExitError n) = Some n"
| "as_exit_error (Permanent e) = as_exit_error e"
| "as_exit_error (Wrapped _ e _) = as_exit_error e"
| "as_exit_error _ = None"

fun is_not_exist :: "go_error \<Rightarrow> bool" where
  "is_not_exist (NotExist _) = True"
| "is_not_exist (Permanent e) = is_not_exist e"
| "is_not_exist (Wrapped _ e _) = is_not_exist e"
| "is_not_exist _ = False"

fun is_sentinel :: "string \<Rightarrow> go_error \<Rightarrow> bool" where
  "is_sentinel m (Sentinel m') = (m = m')"
| "is_sentinel m (Permanent e) = is_sentinel m e"
| "is_sentinel m (Wrapped _ e _) = is_sentinel m e"
| "is_sentinel m _ = False"

section \<open>Computations\<close>

text \<open>
  A computation on a state of type \<open>'s\<close>: a result and the state it leaves.
\<close>

type_synonym ('s, 'a) prog = "'s \<Rightarrow> 'a res \<times> 's"

text \<open>Sequencing of fallible computations: an error or a panic ends the sequence.\<close>

definition ret :: "'a \<Rightarrow> ('s, 'a) prog" where
  "ret a s = (Ok a, s)"

definition throw :: "go_error \<Rightarrow> ('s, 'a) prog" where
  "throw e s = (Err e, s)"

definition panic :: "string \<Rightarrow> ('s, 'a) prog" where
  "panic m s = (Panic m, s)"

definition bnd :: "('s, 'a) prog \<Rightarrow> ('a \<Rightarrow> ('s, 'b) prog) \<Rightarrow> ('s, 'b) prog" where
  "bnd m k s = (case m s of (Ok a, s') \<Rightarrow> k a s' | (Err e, s') \<Rightarrow> (Err e, s') | (Panic p, s') \<Rightarrow> (Panic p, s'))"

text \<open>A call whose error the program inspects itself instead of returning it.\<close>

definition attempt :: "('s, 'a) prog \<Rightarrow> ('a res \<Rightarrow> ('s, 'b) prog) \<Rightarrow> ('s, 'b) prog" where
  "attempt m k s = (case m s of (Panic p, s') \<Rightarrow> (Panic p, s') | (r, s') \<Rightarrow> k r s')"

definition gets :: "('s \<Rightarrow> 'a) \<Rightarrow> ('s, 'a) prog" where
  "gets f s = (Ok (f s), s)"

definition modify :: "('s \<Rightarrow> 's) \<Rightarrow> ('s, unit) prog" where
  "modify f s = (Ok (), f s)"

definition liftres :: "'a res \<Rightarrow> ('s, 'a) prog" where
  "liftres r s = (r, s)"

text \<open>A call whose error is wrapped by the program before it returns it.\<close>

definition wrap_err :: "string \<Rightarrow> ('s, 'a) prog \<Rightarrow> ('s, 'a) prog" where
  "wrap_err m c = attempt c (\<lambda>r. case r of
       Ok a \<Rightarrow> ret a | Err e \<Rightarrow> throw (Wrapped m e '''') | Panic p \<Rightarrow> panic p)"

text \<open>A deferred call runs whatever the body returned; its own panic replaces the result.\<close>

definition deferred :: "('s, 'b) prog \<Rightarrow> ('s, 'a) prog \<Rightarrow> ('s, 'a) prog" where
  "deferred d m s =
     (case m s of (r, s1) \<Rightarrow> (case d s1 of (Panic p, s2) \<Rightarrow> (Panic p, s2) | (_, s2) \<Rightarrow> (r, s2)))"

text \<open>A computation on a part of the state.\<close>

definition zoom :: "('s \<Rightarrow> 't) \<Rightarrow> ('t \<Rightarrow> 's \<Rightarrow> 's) \<Rightarrow> ('t, 'a) prog \<Rightarrow> ('s, 'a) prog" where
  "zoom part put m s = (case m (part s) of (r, t) \<Rightarrow> (r, put t s))"

text \<open>The same without a state.\<close>

fun rbind :: "'a res \<Rightarrow> ('a \<Rightarrow> 'b res) \<Rightarrow> 'b res" where
  "rbind (Ok a) k = k a"
| "rbind (Err e) k = Err e"
| "rbind (Panic m) k = Panic m"

fun wrap_res :: "string \<Rightarrow> 'a res \<Rightarrow> 'a res" where
  "wrap_res t (Err e) = Err (Wrapped t e '''')"
| "wrap_res t r = r"

text \<open>A loop over a list that stops at the first failure.\<close>

fun map_res :: "('a \<Rightarrow> 'b res) \<Rightarrow> 'a list \<Rightarrow> 'b list res" where
  "map_res f [] = Ok []"
| "map_res f (x # xs) = rbind (f x) (\<lambda>y. rbind (map_res f xs) (\<lambda>ys. Ok (y # ys)))"

section \<open>Package strings\<close>

definition HasPrefix :: "string \<Rightarrow> string \<Rightarrow> bool" where
  "HasPrefix s p = (take (length p) s = p)"

definition HasSuffix :: "string \<Rightarrow> string \<Rightarrow> bool" where
  "HasSuffix s p = HasPrefix (rev s) (rev p)"

fun Contains :: "string \<Rightarrow> string \<Rightarrow> bool" where
  "Contains [] p = (p = [])"
| "Contains (c # s) p = (HasPrefix (c # s) p \<or> Contains s p)"

definition TrimPrefix :: "string \<Rightarrow> string \<Rightarrow> string" where
  "TrimPrefix s p = (if HasPrefix s p then drop (length p) s else s)"

definition TrimSuffix :: "string \<Rightarrow> string \<Rightarrow> string" where
  "TrimSuffix s p = (if HasSuffix s p then take (length s - length p) s else s)"

definition TrimLeft :: "string \<Rightarrow> char list \<Rightarrow> string" where
  "TrimLeft s cutset = dropWhile (\<lambda>c. c \<in> set cutset) s"

text \<open>The ASCII white space of \<^verbatim>\<open>strings.TrimSpace\<close>: tab, line feed, vertical tab, form feed,
  carriage return and space.\<close>

definition ascii_space :: "char list" where
  "ascii_space = [CHR 0x09, CHR 0x0A, CHR 0x0B, CHR 0x0C, CHR 0x0D, CHR 0x20]"

definition TrimSpace :: "string \<Rightarrow> string" where
  "TrimSpace s = rev (TrimLeft (rev (TrimLeft s ascii_space)) ascii_space)"

text \<open>\<^verbatim>\<open>strings.ReplaceAll\<close> for a non-empty \<open>old\<close>; \<open>n\<close> counts the bytes of the match still to skip.\<close>

fun replace_from :: "string \<Rightarrow> string \<Rightarrow> nat \<Rightarrow> string \<Rightarrow> string" where
  "replace_from old new n [] = []"
| "replace_from old new (Suc n) (c # s) = replace_from old new n s"
| "replace_from old new 0 (c # s) =
     (if HasPrefix (c # s) old then new @ replace_from old new (length old - 1) s
      else c # replace_from old new 0 s)"

definition ReplaceAll :: "string \<Rightarrow> string \<Rightarrow> string \<Rightarrow> string" where
  "ReplaceAll s old new = replace_from old new 0 s"

text \<open>\<^verbatim>\<open>strings.Split\<close> on a one-byte separator, and \<^verbatim>\<open>strings.Join\<close>.\<close>

fun split_on :: "char \<Rightarrow> string \<Rightarrow> string list" where
  "split_on sep [] = [[]]"
| "split_on sep (c # s) =
     (if c = sep then [] # split_on sep s
      else (case split_on sep s of [] \<Rightarrow> [[c]] | w # ws \<Rightarrow> (c # w) # ws))"

fun Join :: "string list \<Rightarrow> string \<Rightarrow> string" where
  "Join [] sep = []"
| "Join [w] sep = w"
| "Join (w # v # ws) sep = w @ sep @ Join (v # ws) sep"

text \<open>\<^verbatim>\<open>cmp.Or\<close> on strings: the first non-empty one.\<close>

definition cmp_or :: "string \<Rightarrow> string \<Rightarrow> string" where
  "cmp_or a b = (if a \<noteq> [] then a else b)"

definition LF :: char where "LF = CHR 0x0A"

text \<open>A text in single quotes.\<close>

definition quoted :: "string \<Rightarrow> string" where
  "quoted s = [CHR 0x27] @ s @ [CHR 0x27]"

section \<open>Dynamic values\<close>

text \<open>
  Go's \<^verbatim>\<open>any\<close> as the program uses it: what \<^verbatim>\<open>encoding/json\<close> decodes into it. A number (a \<^verbatim>\<open>float64\<close>)
  is kept as the two texts the program prints for it, by \<^verbatim>\<open>%v\<close> and as JSON; an object is an
  association list in the order of its keys, each key once.
\<close>

datatype any =
    JNull
  | JBool bool
  | JNum string string
  | JStr string
  | JArr "any list"
  | JObj "(string \<times> any) list"

text \<open>\<^verbatim>\<open>fmt.Sprintf("%v", value)\<close>.\<close>

fun sprint_v :: "any \<Rightarrow> string" where
  "sprint_v JNull = ''<nil>''"
| "sprint_v (JBool b) = (if b then ''true'' else ''false'')"
| "sprint_v (JNum t _) = t"
| "sprint_v (JStr t) = t"
| "sprint_v (JArr vs) = ''['' @ Join (map sprint_v vs) '' '' @ '']''"
| "sprint_v (JObj kvs) = ''map['' @ Join (map (\<lambda>(k, v). k @ '':'' @ sprint_v v) kvs) '' '' @ '']''"

section \<open>Shared lemmas\<close>

lemma rbind_Ok [simp]: "rbind r k = Ok b \<longleftrightarrow> (\<exists>a. r = Ok a \<and> k a = Ok b)"
  by (cases r) auto

lemma wrap_res_Ok [simp]: "wrap_res t r = Ok a \<longleftrightarrow> r = Ok a"
  by (cases r) auto

lemma map_res_Ok: "map_res f xs = Ok ys \<longleftrightarrow> list_all2 (\<lambda>x y. f x = Ok y) xs ys"
  by (induction xs arbitrary: ys) (auto simp: list_all2_Cons1)

named_theorems str_simps \<open>facts on the string functions\<close>

lemma HasPrefix_iff [str_simps]: "HasPrefix s p \<longleftrightarrow> prefix p s"
  unfolding HasPrefix_def
  by (metis append_eq_conv_conj prefix_def take_is_prefix)

lemma HasSuffix_iff [str_simps]: "HasSuffix s p \<longleftrightarrow> suffix p s"
  by (simp add: HasSuffix_def HasPrefix_iff suffix_to_prefix)

lemma HasSuffix_self [simp]: "HasSuffix (a @ b) b"
  by (simp add: HasSuffix_iff suffix_def)

lemma HasPrefix_self [simp]: "HasPrefix (a @ b) a"
  by (simp add: HasPrefix_iff)

lemma TrimPrefix_append [simp]: "TrimPrefix (p @ s) p = s"
  by (simp add: TrimPrefix_def)

lemma Contains_append: "Contains (a @ p @ b) p"
proof (induction a)
  case Nil
  have "HasPrefix (p @ b) p" by simp
  then show ?case by (cases "p @ b") auto
next
  case (Cons c a)
  then show ?case by simp
qed

lemma split_on_nonempty [simp]: "split_on sep s \<noteq> []"
  by (cases s) (auto split: list.splits)

lemma Join_split_on: "Join (split_on sep s) [sep] = s"
proof (induction s)
  case Nil
  show ?case by simp
next
  case (Cons c s)
  obtain w ws where ws: "split_on sep s = w # ws"
    using split_on_nonempty by (metis list.exhaust)
  show ?case using Cons ws by (cases ws) auto
qed

lemma nat_digits_nonempty [simp]: "nat_digits n \<noteq> []"
  by (subst nat_digits.simps) simp

text \<open>A mapped list keeps what the map keeps, position by position.\<close>

lemma map_upt_nth:
  "i < length xs \<Longrightarrow> map (\<lambda>j. f j (xs ! j)) [0..<length xs] ! i = f i (xs ! i)"
  by simp

text \<open>Runs of composed computations.\<close>

lemma attempt_run:
  "attempt m f s = (r, s') \<longleftrightarrow> (\<exists>x s1. m s = (x, s1) \<and> (case x of Panic p \<Rightarrow> r = Panic p \<and> s' = s1 | _ \<Rightarrow> f x s1 = (r, s')))"
  by (auto simp: attempt_def split: prod.splits res.splits)

lemma bnd_ok: "bnd m k s = (Ok b, t) \<Longrightarrow> \<exists>a u. m s = (Ok a, u) \<and> k a u = (Ok b, t)"
  by (auto simp: bnd_def split: prod.splits res.splits)

lemma attempt_ok: "attempt m k s = (Ok b, t) \<Longrightarrow> \<exists>r u. m s = (r, u) \<and> k r u = (Ok b, t)"
  by (auto simp: attempt_def split: prod.splits res.splits)

lemma bnd_run:
  "bnd m f s = (r, s') \<longleftrightarrow> (\<exists>x s1. m s = (x, s1) \<and>
    (case x of Ok a \<Rightarrow> f a s1 = (r, s') | Err e \<Rightarrow> r = Err e \<and> s' = s1 | Panic p \<Rightarrow> r = Panic p \<and> s' = s1))"
  by (auto simp: bnd_def split: prod.splits res.splits)

lemma wrap_err_run:
  "wrap_err m c s = (r, s') \<longleftrightarrow> (\<exists>x. c s = (x, s') \<and> r = (case x of Err e \<Rightarrow> Err (Wrapped m e '''') | y \<Rightarrow> y))"
  by (auto simp: wrap_err_def attempt_def ret_def throw_def split: prod.splits res.splits)

lemma attempt_Err: "fst (attempt m f s) = Err e \<Longrightarrow> \<exists>x t. fst (f x t) = Err e"
  by (auto simp: attempt_def split: res.splits prod.splits)

section \<open>What a computation adds to a log\<close>

text \<open>
  \<open>emits log P m\<close>: whatever \<open>m\<close> returns, it only appends to the \<open>log\<close> in the state, and each entry it
  appends satisfies \<open>P\<close>.
\<close>

named_theorems emits_intros \<open>composition of emits\<close>

definition emits :: "('s \<Rightarrow> 'e list) \<Rightarrow> ('e \<Rightarrow> bool) \<Rightarrow> ('s, 'a) prog \<Rightarrow> bool" where
  "emits log P m \<longleftrightarrow> (\<forall>s. \<exists>es. log (snd (m s)) = log s @ es \<and> list_all P es)"

lemma emitsI: "(\<And>s r s'. m s = (r, s') \<Longrightarrow> \<exists>es. log s' = log s @ es \<and> list_all P es) \<Longrightarrow> emits log P m"
  unfolding emits_def by (metis prod.collapse)

lemma emitsD: "emits log P m \<Longrightarrow> m s = (r, s') \<Longrightarrow> \<exists>es. log s' = log s @ es \<and> list_all P es"
  unfolding emits_def by (metis snd_conv)

lemma emits_silent [emits_intros]:
  "emits log P (ret a)" "emits log P (throw e)" "emits log P (panic p)" "emits log P (gets f)" "emits log P (liftres x)"
  by (auto simp: emits_def ret_def throw_def panic_def gets_def liftres_def)

lemma emits_modify [emits_intros]: "(\<And>s. log (f s) = log s) \<Longrightarrow> emits log P (modify f)"
  by (auto simp: emits_def modify_def)

lemma emits_prefix: "emits log P m \<Longrightarrow> m s = (r, s') \<Longrightarrow> prefix (log s) (log s')"
  using emitsD [of log P m s r s'] by (auto simp: prefix_def)

lemma emits_trans:
  assumes "emits log P m" "m s = (r, s1)" "\<exists>es. log s' = log s1 @ es \<and> list_all P es"
  shows "\<exists>es. log s' = log s @ es \<and> list_all P es"
  using emitsD [OF assms(1,2)] assms(3) by (force intro: exI [of _ "_ @ _"])

lemma emits_bnd_result:
  assumes "emits log P m" "\<And>a s t. m s = (Ok a, t) \<Longrightarrow> emits log P (k a)"
  shows "emits log P (bnd m k)"
proof (rule emitsI)
  fix s r s' assume s: "bnd m k s = (r, s')"
  obtain x s1 where m: "m s = (x, s1)" by fastforce
  show "\<exists>es. log s' = log s @ es \<and> list_all P es"
    by (rule emits_trans [OF assms(1) m]) (use s m emitsD [OF assms(2)] in \<open>auto simp: bnd_def split: res.splits\<close>)
qed

lemma emits_bnd [emits_intros]:
  "emits log P m \<Longrightarrow> (\<And>a. emits log P (k a)) \<Longrightarrow> emits log P (bnd m k)"
  by (rule emits_bnd_result)

lemma emits_attempt [emits_intros]:
  assumes "emits log P m" "\<And>a. emits log P (k a)"
  shows "emits log P (attempt m k)"
proof (rule emitsI)
  fix s r s' assume s: "attempt m k s = (r, s')"
  obtain x s1 where m: "m s = (x, s1)" by fastforce
  show "\<exists>es. log s' = log s @ es \<and> list_all P es"
    by (rule emits_trans [OF assms(1) m])
      (use s m emitsD [OF assms(2)] in \<open>auto simp: attempt_def split: res.splits\<close>)
qed

lemma emits_deferred [emits_intros]:
  assumes "emits log P d" "emits log P m"
  shows "emits log P (deferred d m)"
proof (rule emitsI)
  fix s r s' assume s: "deferred d m s = (r, s')"
  obtain x s1 where m: "m s = (x, s1)" by fastforce
  obtain y s2 where d: "d s1 = (y, s2)" by fastforce
  have "s' = s2" using s m d by (auto simp: deferred_def split: res.splits)
  then show "\<exists>es. log s' = log s @ es \<and> list_all P es"
    using emits_trans [OF assms(2) m] emitsD [OF assms(1) d] by simp
qed

lemma emits_cases [emits_intros]:
  "(b \<Longrightarrow> emits log P m) \<Longrightarrow> (\<not> b \<Longrightarrow> emits log P m') \<Longrightarrow> emits log P (if b then m else m')"
  "(\<And>a. emits log P (f a)) \<Longrightarrow> (\<And>e. emits log P (g e)) \<Longrightarrow> (\<And>p. emits log P (h p)) \<Longrightarrow>
    emits log P (case r of Ok a \<Rightarrow> f a | Err e \<Rightarrow> g e | Panic p \<Rightarrow> h p)"
  "(emits log P m) \<Longrightarrow> (\<And>a. emits log P (f a)) \<Longrightarrow> emits log P (case v of None \<Rightarrow> m | Some a \<Rightarrow> f a)"
  "(\<And>a b. emits log P (q a b)) \<Longrightarrow> emits log P (case pr of (a, b) \<Rightarrow> q a b)"
  by (auto split: res.splits option.splits prod.splits)

lemma emits_wrap_err [emits_intros]: "emits log P m \<Longrightarrow> emits log P (wrap_err t m)"
  unfolding wrap_err_def by (auto intro!: emits_intros)

lemma emits_weaken: "emits log P m \<Longrightarrow> (\<And>e. P e \<Longrightarrow> Q e) \<Longrightarrow> emits log Q m"
  unfolding emits_def by (meson list.pred_mono_strong)

section \<open>State machines\<close>

text \<open>What every step keeps holds in every reachable state.\<close>

locale step_invariant =
  fixes step :: "'s \<Rightarrow> 's \<Rightarrow> bool" and I :: "'s \<Rightarrow> bool"
  assumes kept: "step s s' \<Longrightarrow> I s \<Longrightarrow> I s'"
begin

lemma reachable: "step\<^sup>*\<^sup>* s s' \<Longrightarrow> I s \<Longrightarrow> I s'"
  by (induction rule: rtranclp_induct) (auto intro: kept)

end

text \<open>Where every step lowers a measure, at most that many steps are left.\<close>

locale step_measure =
  fixes step :: "'s \<Rightarrow> 's \<Rightarrow> bool" and rank :: "'s \<Rightarrow> nat"
  assumes lowered: "step s s' \<Longrightarrow> rank s' < rank s"
begin

lemma steps_bounded: "(step ^^ n) s s' \<Longrightarrow> n + rank s' \<le> rank s"
proof (induction n arbitrary: s')
  case (Suc n)
  then obtain t where "(step ^^ n) s t" "step t s'" by auto
  with Suc.IH [of t] lowered [of t s'] show ?case by simp
qed simp

end

end
