(* ===== verification/Base64.thy ===== *)
theory Base64
  imports Prelude
begin

text \<open>
  \<^verbatim>\<open>base64.StdEncoding\<close> of Go's standard library, which the program uses for the run JSON, for
  encrypted values, for file inputs and for Basic authentication: \<^verbatim>\<open>EncodeToString\<close>,
  \<^verbatim>\<open>DecodeString\<close> (line breaks are skipped, the unused bits of the last quantum are ignored) and
  \<^verbatim>\<open>DecodedLen\<close>. The main facts are the round trip and that \<^verbatim>\<open>DecodedLen\<close> bounds the decoded size.
\<close>

section \<open>Alphabet\<close>

definition b64_alphabet :: string where
  "b64_alphabet = ''ABCDEFGHIJKLMNOPQRSTUVWXYZabcdefghijklmnopqrstuvwxyz0123456789+/''"

definition b64_char :: "nat \<Rightarrow> char" where
  "b64_char n = b64_alphabet ! n"

definition b64_val :: "char \<Rightarrow> nat option" where
  "b64_val c = find (\<lambda>n. b64_char n = c) [0..<64]"

definition pad :: char where "pad = CHR ''=''"

section \<open>Encoding\<close>

fun b64_encode :: "string \<Rightarrow> string" where
  "b64_encode [] = []"
| "b64_encode [a] =
     [b64_char (of_char a div 4), b64_char (of_char a mod 4 * 16), pad, pad]"
| "b64_encode [a, b] =
     [b64_char (of_char a div 4), b64_char (of_char a mod 4 * 16 + of_char b div 16),
      b64_char (of_char b mod 16 * 4), pad]"
| "b64_encode (a # b # c # rest) =
     b64_char (of_char a div 4) # b64_char (of_char a mod 4 * 16 + of_char b div 16) #
     b64_char (of_char b mod 16 * 4 + of_char c div 64) # b64_char (of_char c mod 64) #
     b64_encode rest"

section \<open>Decoding\<close>

text \<open>The bytes of a full quantum, and of a last quantum with one or two padding characters.\<close>

definition quantum3 :: "nat \<Rightarrow> nat \<Rightarrow> nat \<Rightarrow> nat \<Rightarrow> string" where
  "quantum3 p q r t =
     [char_of (p * 4 + q div 16), char_of (q mod 16 * 16 + r div 4), char_of (r mod 4 * 64 + t)]"

definition decode_full :: "char \<Rightarrow> char \<Rightarrow> char \<Rightarrow> char \<Rightarrow> string option" where
  "decode_full a b c d =
     (case (b64_val a, b64_val b, b64_val c, b64_val d) of
        (Some p, Some q, Some r, Some t) \<Rightarrow> Some (quantum3 p q r t)
      | _ \<Rightarrow> None)"

definition decode_last :: "char \<Rightarrow> char \<Rightarrow> char \<Rightarrow> char \<Rightarrow> string option" where
  "decode_last a b c d =
     (if d = pad \<and> c = pad
      then (case (b64_val a, b64_val b) of
              (Some p, Some q) \<Rightarrow> Some (take 1 (quantum3 p q 0 0)) | _ \<Rightarrow> None)
      else if d = pad
      then (case (b64_val a, b64_val b, b64_val c) of
              (Some p, Some q, Some r) \<Rightarrow> Some (take 2 (quantum3 p q r 0)) | _ \<Rightarrow> None)
      else decode_full a b c d)"

fun b64_decode_quanta :: "string \<Rightarrow> string option" where
  "b64_decode_quanta [] = Some []"
| "b64_decode_quanta [a, b, c, d] = decode_last a b c d"
| "b64_decode_quanta (a # b # c # d # rest) =
     (case decode_full a b c d of
        None \<Rightarrow> None
      | Some bs \<Rightarrow> map_option ((@) bs) (b64_decode_quanta rest))"
| "b64_decode_quanta _ = None"

definition b64_decode :: "string \<Rightarrow> string res" where
  "b64_decode s =
     (case b64_decode_quanta (filter (\<lambda>c. c \<noteq> CHR 0x0A \<and> c \<noteq> CHR 0x0D) s) of
        Some bs \<Rightarrow> Ok bs
      | None \<Rightarrow> Err (ErrorString ''illegal base64 data''))"

definition DecodedLen :: "nat \<Rightarrow> nat" where
  "DecodedLen n = n div 4 * 3"

text \<open>\<^verbatim>\<open>base64.RawURLEncoding\<close>: two other letters, and no padding.\<close>

definition url_char :: "char \<Rightarrow> char" where
  "url_char c = (if c = CHR ''+'' then CHR ''-'' else if c = CHR ''/'' then CHR ''_'' else c)"

definition std_char :: "char \<Rightarrow> char option" where
  "std_char c =
     (if c \<in> {CHR ''+'', CHR ''/'', pad} then None
      else Some (if c = CHR ''-'' then CHR ''+'' else if c = CHR ''_'' then CHR ''/'' else c))"

definition raw_url_encode :: "string \<Rightarrow> string" where
  "raw_url_encode bs = map url_char (filter (\<lambda>c. c \<noteq> pad) (b64_encode bs))"

definition raw_url_decode :: "string \<Rightarrow> string option" where
  "raw_url_decode s =
     (let cs = map std_char (filter (\<lambda>c. c \<noteq> CHR 0x0A \<and> c \<noteq> CHR 0x0D) s)
      in if None \<in> set cs \<or> length cs mod 4 = 1 then None
         else b64_decode_quanta (map the cs @ replicate ((4 - length cs mod 4) mod 4) pad))"

section \<open>Lemmas\<close>

lemma b64_val_char: "n < 64 \<Longrightarrow> b64_val (b64_char n) = Some n"
proof -
  have "list_all (\<lambda>n. b64_val (b64_char n) = Some n) [0..<64]" by code_simp
  then show "n < 64 \<Longrightarrow> ?thesis" by (auto simp: list_all_iff)
qed

lemma b64_char_plain:
  "n < 64 \<Longrightarrow> b64_char n \<noteq> pad \<and> b64_char n \<noteq> CHR 0x0A \<and> b64_char n \<noteq> CHR 0x0D"
proof -
  have "list_all (\<lambda>n. b64_char n \<noteq> pad \<and> b64_char n \<noteq> CHR 0x0A \<and> b64_char n \<noteq> CHR 0x0D) [0..<64]"
    by code_simp
  then show "n < 64 \<Longrightarrow> ?thesis" by (auto simp: list_all_iff)
qed

lemma b64_digit_bounds:
  fixes a b c :: nat
  assumes "a < 256" "b < 256" "c < 256"
  shows "a div 4 < 64" "a mod 4 * 16 < 64" "a mod 4 * 16 + b div 16 < 64" "b mod 16 * 4 < 64"
    "b mod 16 * 4 + c div 64 < 64" "c mod 64 < 64"
proof -
  have q: "a mod 4 < 4" "b mod 16 < 16" "b div 16 < 16" "c div 64 < 4"
    using assms by (simp_all add: less_mult_imp_div_less)
  then show "a mod 4 * 16 < 64" "a mod 4 * 16 + b div 16 < 64" "b mod 16 * 4 < 64"
    "b mod 16 * 4 + c div 64 < 64" by linarith+
  show "a div 4 < 64" "c mod 64 < 64" using assms by (simp_all add: less_mult_imp_div_less)
qed

lemma b64_regroup:
  fixes x y z :: nat
  assumes "y < 256" "z < 256"
  shows "x div 4 * 4 + (x mod 4 * 16 + y div 16) div 16 = x"
    "(x mod 4 * 16 + y div 16) mod 16 * 16 + (y mod 16 * 4 + z div 64) div 4 = y"
    "(y mod 16 * 4 + z div 64) mod 4 * 64 + z mod 64 = z"
proof -
  have "y div 16 < 16" "z div 64 < 4" using assms by (simp_all add: less_mult_imp_div_less)
  then show "x div 4 * 4 + (x mod 4 * 16 + y div 16) div 16 = x"
    "(x mod 4 * 16 + y div 16) mod 16 * 16 + (y mod 16 * 4 + z div 64) div 4 = y"
    "(y mod 16 * 4 + z div 64) mod 4 * 64 + z mod 64 = z" by simp_all
qed

lemma quantum3_digits:
  "quantum3 (of_char a div 4) (of_char a mod 4 * 16 + of_char b div 16)
     (of_char b mod 16 * 4 + of_char c div 64) (of_char c mod 64) = [a, b, c]"
proof -
  have "of_char a div 4 * 4 + (of_char a mod 4 * 16 + of_char b div 16) div 16 = (of_char a :: nat)"
    by (rule b64_regroup [of _ 0]) simp_all
  then show ?thesis
    unfolding quantum3_def by (simp only: b64_regroup nat_of_char_less_256 char_of_char)
qed

lemma quantum3_digits2:
  "take 2 (quantum3 (of_char a div 4) (of_char a mod 4 * 16 + of_char b div 16) (of_char b mod 16 * 4) 0) = [a, b]"
  using b64_regroup(1) [of "of_char b" 0 "of_char a"] b64_regroup(2) [of "of_char b" 0 "of_char a"]
  by (simp add: quantum3_def del: div_mult_self3 div_mult_self4)

lemma quantum3_digits1: "take 1 (quantum3 (of_char a div 4) (of_char a mod 4 * 16) 0 0) = [a]"
  using b64_regroup(1) [of 0 0 "of_char a"] by (simp add: quantum3_def)

lemmas b64_digit = b64_digit_bounds [OF nat_of_char_less_256 nat_of_char_less_256 nat_of_char_less_256]

lemma decode_full_step:
  assumes "decode_full a b c d = Some bs" "b64_decode_quanta rest = Some cs" "d \<noteq> pad"
  shows "b64_decode_quanta (a # b # c # d # rest) = Some (bs @ cs)"
  using assms by (cases rest) (auto simp: decode_last_def)

lemma quanta_encode: "b64_decode_quanta (b64_encode bs) = Some bs"
proof (induction bs rule: b64_encode.induct)
  case (2 a)
  then show ?case using quantum3_digits1 [of a]
    by (simp add: decode_last_def b64_val_char b64_digit)
next
  case (3 a b)
  then show ?case using quantum3_digits2 [of a b]
    by (simp add: decode_last_def b64_val_char b64_char_plain b64_digit)
next
  case (4 a b c rest)
  let ?f = "decode_full (b64_char (of_char a div 4)) (b64_char (of_char a mod 4 * 16 + of_char b div 16))
      (b64_char (of_char b mod 16 * 4 + of_char c div 64)) (b64_char (of_char c mod 64))"
  have "?f = Some [a, b, c]"
    by (simp add: decode_full_def b64_val_char b64_digit quantum3_digits)
  from decode_full_step [OF this 4] show ?case by (simp add: b64_char_plain b64_digit)
qed simp

lemma b64_encode_no_breaks: "filter (\<lambda>c. c \<noteq> CHR 0x0A \<and> c \<noteq> CHR 0x0D) (b64_encode bs) = b64_encode bs"
  by (induction bs rule: b64_encode.induct) (auto simp: b64_char_plain b64_digit pad_def)

lemma b64_roundtrip: "b64_decode (b64_encode bs) = Ok bs"
  by (simp add: b64_decode_def b64_encode_no_breaks quanta_encode)

lemma length_quantum3 [simp]: "length (quantum3 p q r t) = 3"
  by (simp add: quantum3_def)

lemma quanta_length: "b64_decode_quanta s = Some bs \<Longrightarrow> length bs \<le> DecodedLen (length s)"
proof (induction s arbitrary: bs rule: b64_decode_quanta.induct)
  case (2 a b c d)
  then show ?case
    by (auto simp: decode_last_def decode_full_def DecodedLen_def split: if_splits option.splits)
next
  case (3 a b c d v va)
  from 3(2) obtain cs ds where d: "decode_full a b c d = Some cs" "b64_decode_quanta (v # va) = Some ds" "bs = cs @ ds"
    by (auto split: option.splits)
  moreover from d have "length cs = 3" by (auto simp: decode_full_def split: option.splits)
  moreover from 3(1) [OF d(1,2)] have "length ds \<le> DecodedLen (length (v # va))" .
  moreover have "length (a # b # c # d # v # va) div 4 = Suc (length (v # va) div 4)"
    by (simp add: div_add_self2 [of 4 "Suc (length va)", symmetric])
  ultimately show ?case by (simp add: DecodedLen_def)
qed auto

text \<open>\<^verbatim>\<open>DecodedLen\<close> never underestimates the decoded size.\<close>

lemma b64_decode_length: "b64_decode s = Ok bs \<Longrightarrow> length bs \<le> DecodedLen (length s)"
proof -
  assume "b64_decode s = Ok bs"
  then have "b64_decode_quanta (filter (\<lambda>c. c \<noteq> CHR 0x0A \<and> c \<noteq> CHR 0x0D) s) = Some bs" (is "b64_decode_quanta ?t = _")
    by (simp add: b64_decode_def split: option.splits)
  then have "length bs \<le> DecodedLen (length ?t)" by (rule quanta_length)
  also have "\<dots> \<le> DecodedLen (length s)"
    by (simp add: DecodedLen_def div_le_mono)
  finally show ?thesis .
qed

end
