(* ===== verification/MeshCrypto.thy ===== *)
theory MeshCrypto
  imports Base64
begin

text \<open>
  \<^verbatim>\<open>go-meshapi-client/crypto\<close>: the framing of encrypted values and the checks around it.

  The primitives of Go's \<^verbatim>\<open>crypto\<close> packages are parameters: \<open>Seal\<close> and \<open>Open\<close> of AES-GCM as functions
  of the key, and RSA-OAEP as functions inside the keys. What is documented about them and
  modelled here: \<^verbatim>\<open>aes.NewCipher\<close> takes keys of 16, 24 or 32 bytes only, and the GCM of
  \<^verbatim>\<open>cipher.NewGCM\<close> panics on a nonce that is not 12 bytes long. An encrypted value is
  \<^verbatim>\<open>base64(RSA(key) ++ len(IV) ++ IV ++ ciphertext)\<close> with a four-byte big-endian length.
\<close>

section \<open>Data\<close>

text \<open>The AEAD primitives: key, nonce, text.\<close>

record aead =
  Seal :: "string \<Rightarrow> string \<Rightarrow> string \<Rightarrow> string"
  Open :: "string \<Rightarrow> string \<Rightarrow> string \<Rightarrow> string option"

record rsa_public =
  pub_N :: nat
  pub_E :: nat
  pub_EncryptOAEP :: "string \<Rightarrow> string option"

record rsa_private =
  priv_PublicKey :: rsa_public
  priv_Size :: nat
  priv_DecryptOAEP :: "string \<Rightarrow> string option"
  priv_Validate :: "go_error option"

record cert_crypto =
  mc_publicKey :: "rsa_public option"
  mc_privateKey :: "rsa_private option"

definition IV_LENGTH :: nat where "IV_LENGTH = 12"
definition INT_LENGTH_IN_BYTES :: nat where "INT_LENGTH_IN_BYTES = 4"
definition RSK_LENGTH :: nat where "RSK_LENGTH = 16"

section \<open>Big-endian lengths\<close>

definition PutUint32 :: "nat \<Rightarrow> string" where
  "PutUint32 n = [char_of (n div 16777216), char_of (n div 65536), char_of (n div 256), char_of n]"

text \<open>\<^verbatim>\<open>binary.BigEndian.Uint32\<close> of the first four bytes.\<close>

definition Uint32 :: "string \<Rightarrow> nat" where
  "Uint32 b = of_char (b ! 0) * 16777216 + of_char (b ! 1) * 65536 + of_char (b ! 2) * 256 + of_char (b ! 3)"

section \<open>Symmetric part\<close>

definition NewSymmetricCrypto :: "string \<Rightarrow> string res" where
  "NewSymmetricCrypto secret =
     (if length secret \<in> {16, 24, 32} then Ok secret
      else Err (ErrorString (''crypto/aes: invalid key size '' @ nat_digits (length secret))))"

text \<open>\<open>iv\<close> is what the random source returned.\<close>

definition EncryptSymmetric :: "aead \<Rightarrow> string \<Rightarrow> string \<Rightarrow> string \<Rightarrow> string res" where
  "EncryptSymmetric A key iv plainText =
     Ok (PutUint32 IV_LENGTH @ iv @ Seal A key iv plainText)"

definition DecryptSymmetric :: "aead \<Rightarrow> string \<Rightarrow> string \<Rightarrow> string res" where
  "DecryptSymmetric A key cipherText =
     (if length cipherText < INT_LENGTH_IN_BYTES then Panic ''slice bounds out of range''
      else
        let ivLen = Uint32 cipherText
        in if length cipherText < INT_LENGTH_IN_BYTES + ivLen then Panic ''slice bounds out of range''
           else
             let ivBytes = take ivLen (drop INT_LENGTH_IN_BYTES cipherText)
             in if length ivBytes \<noteq> 12
                then Panic ''crypto/cipher: incorrect nonce length given to GCM''
                else (case Open A key ivBytes (drop (INT_LENGTH_IN_BYTES + ivLen) cipherText) of
                        None \<Rightarrow> Err (ErrorString ''cipher: message authentication failed'')
                      | Some plaintext \<Rightarrow> Ok plaintext))"

section \<open>Certificate based part\<close>

text \<open>\<open>rsk\<close> and \<open>iv\<close> are what the random source returned.\<close>

definition EncryptMeshCertBased ::
  "aead \<Rightarrow> rsa_public \<Rightarrow> string \<Rightarrow> string \<Rightarrow> string \<Rightarrow> string res" where
  "EncryptMeshCertBased A pub rsk iv plaintext =
     (case NewSymmetricCrypto rsk of
        Ok key \<Rightarrow>
          (case EncryptSymmetric A key iv plaintext of
             Ok data \<Rightarrow>
               (case pub_EncryptOAEP pub rsk of
                  None \<Rightarrow> Err (ErrorString ''crypto/rsa: message too long for RSA key size'')
                | Some encryptedRSK \<Rightarrow> Ok (b64_encode (encryptedRSK @ data)))
           | Err e \<Rightarrow> Err e | Panic m \<Rightarrow> Panic m)
      | Err e \<Rightarrow> Err e | Panic m \<Rightarrow> Panic m)"

text \<open>
  The receiver is a pointer: on nil the access to \<^verbatim>\<open>c.privateKey\<close> panics. That is the state of the
  package variable \<^verbatim>\<open>Crypto\<close> until \<^verbatim>\<open>main\<close> sets it.
\<close>

definition DecryptMeshCertBased :: "aead \<Rightarrow> cert_crypto option \<Rightarrow> string \<Rightarrow> string res" where
  "DecryptMeshCertBased A c encrypted =
     (case c of
        None \<Rightarrow> Panic ''invalid memory address or nil pointer dereference''
      | Some c \<Rightarrow>
          (case mc_privateKey c of
             None \<Rightarrow> Err (ErrorString ''cannot decrypt sensitive input as private key is missing'')
           | Some priv \<Rightarrow>
               (case b64_decode encrypted of
                  Ok cipherBytes \<Rightarrow>
                    (if length cipherBytes < priv_Size priv
                     then Err (ErrorString ''encrypted value empty or too short'')
                     else
                       (case priv_DecryptOAEP priv (take (priv_Size priv) cipherBytes) of
                          None \<Rightarrow> Err (ErrorString ''crypto/rsa: decryption error'')
                        | Some rsk \<Rightarrow>
                            (case NewSymmetricCrypto rsk of
                               Ok key \<Rightarrow> DecryptSymmetric A key (drop (priv_Size priv) cipherBytes)
                             | Err e \<Rightarrow> Err e | Panic m \<Rightarrow> Panic m)))
                | Err e \<Rightarrow> Err e | Panic m \<Rightarrow> Panic m)))"

section \<open>Keys\<close>

text \<open>
  What \<^verbatim>\<open>pem.Decode\<close> and \<^verbatim>\<open>x509\<close> make of key material: the blocks of a PEM text, and the key a
  block holds. A certificate's key need not be an RSA key.
\<close>

datatype parsed_key = RsaPublic rsa_public | OtherPublic

record key_parser =
  kp_blocks :: "string \<Rightarrow> (string \<times> string) list"
  kp_certificate :: "string \<Rightarrow> parsed_key option"
  kp_pkcs1 :: "string \<Rightarrow> rsa_private option"
  kp_pkcs8 :: "string \<Rightarrow> (rsa_private option) res"

text \<open>The first certificate that parses decides; the type assertion on its key panics.\<close>

fun first_certificate :: "key_parser \<Rightarrow> string list \<Rightarrow> rsa_public res" where
  "first_certificate K [] = Err (ErrorString ''no public key block found'')"
| "first_certificate K (b # bs) =
     (case kp_certificate K b of
        None \<Rightarrow> first_certificate K bs
      | Some (RsaPublic p) \<Rightarrow> Ok p
      | Some OtherPublic \<Rightarrow> Panic ''interface conversion: interface is not *rsa.PublicKey'')"

definition readRSAPublicKeyFromString :: "key_parser \<Rightarrow> string \<Rightarrow> rsa_public res" where
  "readRSAPublicKeyFromString K keyStr =
     first_certificate K (map snd (filter (\<lambda>(t, _). t = ''CERTIFICATE'') (kp_blocks K keyStr)))"

definition readRSAPrivateKey :: "key_parser \<Rightarrow> string \<Rightarrow> rsa_private res" where
  "readRSAPrivateKey K pemContent =
     (case kp_blocks K pemContent of
        [] \<Rightarrow> Err (ErrorString ''no valid PEM block found'')
      | (_, bytes) # _ \<Rightarrow>
          (case kp_pkcs1 K bytes of
             Some pk \<Rightarrow> Ok pk
           | None \<Rightarrow>
               (case kp_pkcs8 K bytes of
                  Ok (Some rsaKey) \<Rightarrow> Ok rsaKey
                | Ok None \<Rightarrow> Err (ErrorString ''private key is not an RSA key'')
                | Err e \<Rightarrow> Err e | Panic m \<Rightarrow> Panic m)))"

definition validateKeyPair :: "rsa_public \<Rightarrow> rsa_private \<Rightarrow> unit res" where
  "validateKeyPair pub priv =
     (case priv_Validate priv of
        Some e \<Rightarrow> Err (ErrorString (''invalid private key: '' @ error_text e))
      | None \<Rightarrow>
          if pub_E pub \<noteq> pub_E (priv_PublicKey priv)
          then Err (ErrorString ''public key and private key do not match: public exponent mismatch'')
          else if pub_N pub \<noteq> pub_N (priv_PublicKey priv)
          then Err (ErrorString ''public key and private key do not match: modulus mismatch'')
          else Ok ())"

definition NewCertBasedDecryptor :: "key_parser \<Rightarrow> string \<Rightarrow> cert_crypto res" where
  "NewCertBasedDecryptor K privateKeyContent =
     (case readRSAPrivateKey K privateKeyContent of
        Ok priv \<Rightarrow> Ok \<lparr>mc_publicKey = None, mc_privateKey = Some priv\<rparr>
      | Err e \<Rightarrow> Err e | Panic m \<Rightarrow> Panic m)"

definition NewCertBasedDecryptorWithValidation :: "key_parser \<Rightarrow> string \<Rightarrow> string \<Rightarrow> cert_crypto res" where
  "NewCertBasedDecryptorWithValidation K privateKeyContent publicKeyContent =
     (case readRSAPrivateKey K privateKeyContent of
        Ok priv \<Rightarrow>
          (case readRSAPublicKeyFromString K publicKeyContent of
             Ok pub \<Rightarrow>
               (case validateKeyPair pub priv of
                  Ok _ \<Rightarrow> Ok \<lparr>mc_publicKey = Some pub, mc_privateKey = Some priv\<rparr>
                | Err e \<Rightarrow> Err e | Panic m \<Rightarrow> Panic m)
           | Err e \<Rightarrow> Err e | Panic m \<Rightarrow> Panic m)
      | Err e \<Rightarrow> Err e | Panic m \<Rightarrow> Panic m)"

text \<open>
  With both keys at hand their mismatch is reported as the error of the public key. The result is the
  instance (built even when a key is missing), the error of the public and that of the private key.
\<close>

text \<open>\<open>pemContent\<close> is what \<^verbatim>\<open>os.ReadFile\<close> returned.\<close>

definition readRSAPrivateKeyFromPemFile :: "key_parser \<Rightarrow> string res \<Rightarrow> rsa_private res" where
  [simp]: "readRSAPrivateKeyFromPemFile K pemContent =
     (case pemContent of Ok pem \<Rightarrow> readRSAPrivateKey K pem | Err e \<Rightarrow> Err e | Panic m \<Rightarrow> Panic m)"

definition NewCertBasedCrypto ::
  "key_parser \<Rightarrow> string res \<Rightarrow> string \<Rightarrow> (cert_crypto \<times> go_error option \<times> go_error option) res" where
  "NewCertBasedCrypto K privateKeyFile publicKey =
     (let privR = readRSAPrivateKeyFromPemFile K privateKeyFile
      in case (readRSAPublicKeyFromString K publicKey, privR) of
           (Panic m, _) \<Rightarrow> Panic m
         | (_, Panic m) \<Rightarrow> Panic m
         | (Ok pub, Ok priv) \<Rightarrow>
             (let c = \<lparr>mc_publicKey = Some pub, mc_privateKey = Some priv\<rparr>
              in case validateKeyPair pub priv of
                   Ok _ \<Rightarrow> Ok (c, None, None) | Err e \<Rightarrow> Ok (c, Some e, None) | Panic m \<Rightarrow> Panic m)
         | (Ok pub, Err e) \<Rightarrow> Ok (\<lparr>mc_publicKey = Some pub, mc_privateKey = None\<rparr>, None, Some e)
         | (Err e, Ok priv) \<Rightarrow> Ok (\<lparr>mc_publicKey = None, mc_privateKey = Some priv\<rparr>, Some e, None)
         | (Err e, Err e') \<Rightarrow> Ok (\<lparr>mc_publicKey = None, mc_privateKey = None\<rparr>, Some e, Some e'))"

section \<open>Lemmas\<close>

lemma Uint32_IV_LENGTH: "Uint32 (PutUint32 12 @ rest) = 12"
  by (simp add: Uint32_def PutUint32_def)

lemma length_PutUint32 [simp]: "length (PutUint32 n) = 4"
  by (simp add: PutUint32_def)

text \<open>Decrypting the frame that \<^verbatim>\<open>EncryptSymmetric\<close> wrote opens the sealed text under its nonce.\<close>

lemma DecryptSymmetric_frame:
  assumes "length iv = IV_LENGTH"
  shows "DecryptSymmetric A key (PutUint32 IV_LENGTH @ iv @ ct) =
    (case Open A key iv ct of None \<Rightarrow> Err (ErrorString ''cipher: message authentication failed'')
     | Some p \<Rightarrow> Ok p)"
  using assms
  by (simp add: DecryptSymmetric_def Uint32_IV_LENGTH INT_LENGTH_IN_BYTES_def Let_def IV_LENGTH_def)

text \<open>What the primitives promise for one key pair and one symmetric key.\<close>

definition primitives_invert :: "aead \<Rightarrow> rsa_public \<Rightarrow> rsa_private \<Rightarrow> string \<Rightarrow> bool" where
  "primitives_invert A pub priv rsk \<longleftrightarrow>
     (\<forall>iv p. length iv = IV_LENGTH \<longrightarrow> Open A rsk iv (Seal A rsk iv p) = Some p) \<and>
     (\<exists>enc. pub_EncryptOAEP pub rsk = Some enc \<and> length enc = priv_Size priv \<and>
            priv_DecryptOAEP priv enc = Some rsk)"

text \<open>
  C26: a value encrypted for a key pair decrypts to itself with the private key of that pair,
  through the base64 layer, the RSA-wrapped key and the framed nonce, for every plaintext, every
  random 16-byte key and every random nonce.
\<close>

theorem cert_based_roundtrip:
  assumes "primitives_invert A pub priv rsk" "length rsk = RSK_LENGTH" "length iv = IV_LENGTH"
  shows "\<exists>v. EncryptMeshCertBased A pub rsk iv p = Ok v \<and>
    DecryptMeshCertBased A (Some \<lparr>mc_publicKey = pk, mc_privateKey = Some priv\<rparr>) v = Ok p"
proof -
  obtain enc where enc: "pub_EncryptOAEP pub rsk = Some enc" "length enc = priv_Size priv"
    "priv_DecryptOAEP priv enc = Some rsk"
    using assms(1) by (auto simp: primitives_invert_def)
  have key: "NewSymmetricCrypto rsk = Ok rsk"
    using assms(2) by (simp add: NewSymmetricCrypto_def RSK_LENGTH_def)
  let ?data = "PutUint32 IV_LENGTH @ iv @ Seal A rsk iv p"
  have "EncryptMeshCertBased A pub rsk iv p = Ok (b64_encode (enc @ ?data))"
    by (simp add: EncryptMeshCertBased_def key enc EncryptSymmetric_def)
  moreover have "DecryptSymmetric A rsk ?data = Ok p"
    using assms by (simp add: DecryptSymmetric_frame primitives_invert_def)
  ultimately show ?thesis
    using enc key by (simp add: DecryptMeshCertBased_def b64_roundtrip)
qed

text \<open>A cipher that appends a tag, and a key pair that pads to 18 bytes: the hypotheses can hold.\<close>

definition toy_aead :: aead where
  "toy_aead = \<lparr>Seal = (\<lambda>k iv p. p @ ''T''), Open = (\<lambda>k iv c. if c \<noteq> [] \<and> last c = CHR ''T'' then Some (butlast c) else None)\<rparr>"

definition toy_public :: rsa_public where
  "toy_public = \<lparr>pub_N = 33, pub_E = 3, pub_EncryptOAEP = (\<lambda>m. Some (m @ ''pp''))\<rparr>"

definition toy_private :: rsa_private where
  "toy_private = \<lparr>priv_PublicKey = toy_public, priv_Size = 18,
     priv_DecryptOAEP = (\<lambda>c. Some (take 16 c)), priv_Validate = None\<rparr>"

theorem cert_based_roundtrip_witness:
  "\<exists>v. EncryptMeshCertBased toy_aead toy_public ''0123456789abcdef'' ''nonce-nonce-'' ''secret'' = Ok v \<and>
    DecryptMeshCertBased toy_aead (Some \<lparr>mc_publicKey = None, mc_privateKey = Some toy_private\<rparr>) v = Ok ''secret''"
  by (rule cert_based_roundtrip)
    (simp_all add: primitives_invert_def toy_aead_def toy_public_def toy_private_def RSK_LENGTH_def IV_LENGTH_def)

text \<open>
  A ciphertext whose framing is wrong makes the decryption panic instead of returning an error:
  it does so exactly when the text is shorter than its length field, or than the nonce it announces,
  or announces a nonce that is not 12 bytes long.
\<close>

lemma malformed_ciphertext_panics:
  "(\<exists>m. DecryptSymmetric A key ct = Panic m) \<longleftrightarrow>
   length ct < 4 \<or> length ct < 4 + Uint32 ct \<or> Uint32 ct \<noteq> 12"
  by (auto simp: DecryptSymmetric_def INT_LENGTH_IN_BYTES_def Let_def split: option.splits)

text \<open>
  A decryptor that is built with a check of its key pair holds a private key whose public part has
  the modulus and the exponent of the certificate's key.
\<close>

lemma validated_pair_matches:
  assumes "NewCertBasedDecryptorWithValidation K priv pub = Ok c"
  shows "\<exists>p q. mc_publicKey c = Some p \<and> mc_privateKey c = Some q \<and>
    pub_N p = pub_N (priv_PublicKey q) \<and> pub_E p = pub_E (priv_PublicKey q) \<and> priv_Validate q = None"
  using assms
  by (auto simp: NewCertBasedDecryptorWithValidation_def validateKeyPair_def split: res.splits option.splits if_splits)

end
