(* ===== verification/GoStd.thy ===== *)
theory GoStd
  imports Prelude
begin

text \<open>
  The parts of Go's standard library the program uses beyond strings: \<^verbatim>\<open>path.Join\<close> (and
  \<^verbatim>\<open>filepath.Join\<close>, the same on Unix), \<^verbatim>\<open>filepath.Ext\<close>, \<^verbatim>\<open>json.Marshal\<close> and \<^verbatim>\<open>json.MarshalIndent\<close> of
  dynamic values, and maps. A Go map is an association list with distinct keys. Where the program
  ranges over a map, the order of the list is the (arbitrary) order of the iteration; where it
  sorts the keys first, the model sorts, too.
\<close>

section \<open>Paths\<close>

text \<open>One element of a path on top of the elements kept so far (last one first).\<close>

fun clean_step :: "bool \<Rightarrow> string list \<Rightarrow> string \<Rightarrow> string list" where
  "clean_step rooted acc e =
     (if e = [] \<or> e = ''.'' then acc
      else if e = ''..'' then
        (case acc of
           [] \<Rightarrow> (if rooted then [] else [''..''])
         | a # as \<Rightarrow> (if a = ''..'' then ''..'' # acc else as))
      else e # acc)"

definition path_Clean :: "string \<Rightarrow> string" where
  "path_Clean p =
     (let rooted = HasPrefix p ''/'';
          body = Join (rev (foldl (clean_step rooted) [] (split_on CHR ''/'' p))) ''/''
      in if rooted then ''/'' @ body else if body = [] then ''.'' else body)"

definition path_Join :: "string list \<Rightarrow> string" where
  "path_Join elems =
     (case filter (\<lambda>e. e \<noteq> []) elems of [] \<Rightarrow> [] | es \<Rightarrow> path_Clean (Join es ''/''))"

text \<open>The extension: from the last dot of the last element.\<close>

definition filepath_Ext :: "string \<Rightarrow> string" where
  "filepath_Ext p =
     (let base = last (split_on CHR ''/'' p)
      in if CHR ''.'' \<in> set base then CHR ''.'' # last (split_on CHR ''.'' base) else [])"

definition ToLower_char :: "char \<Rightarrow> char" where
  "ToLower_char c =
     (let n = (of_char c :: nat) in if 65 \<le> n \<and> n \<le> 90 then char_of (n + 32) else c)"

text \<open>\<^verbatim>\<open>strings.ToLower\<close> on ASCII.\<close>

definition ToLower :: "string \<Rightarrow> string" where
  "ToLower s = map ToLower_char s"

section \<open>JSON\<close>

definition hex_digit :: "nat \<Rightarrow> char" where
  "hex_digit n = (if n < 10 then char_of (48 + n) else char_of (87 + n))"

text \<open>
  The escapes of \<^verbatim>\<open>json.Marshal\<close> in a string: quote, backslash, control characters, and the HTML
  characters. Bytes from 128 on (UTF-8) are copied; the separators U+2028 and U+2029 are escaped.
\<close>

definition json_char :: "char \<Rightarrow> string" where
  "json_char c =
     (let n = (of_char c :: nat)
      in if c = CHR 0x22 then [CHR 0x5C, CHR 0x22]
         else if c = CHR 0x5C then [CHR 0x5C, CHR 0x5C]
         else if n = 8 then CHR 0x5C # ''b''
         else if n = 12 then CHR 0x5C # ''f''
         else if n = 10 then CHR 0x5C # ''n''
         else if n = 13 then CHR 0x5C # ''r''
         else if n = 9 then CHR 0x5C # ''t''
         else if n < 32 \<or> c = CHR ''<'' \<or> c = CHR ''>'' \<or> c = CHR ''&''
         then CHR 0x5C # ''u00'' @ [hex_digit (n div 16), hex_digit (n mod 16)]
         else [c])"

fun json_chars :: "string \<Rightarrow> string" where
  "json_chars [] = []"
| "json_chars (a # b # c # s) =
     (if a = CHR 0xE2 \<and> b = CHR 0x80 \<and> c = CHR 0xA8 then CHR 0x5C # ''u2028'' @ json_chars s
      else if a = CHR 0xE2 \<and> b = CHR 0x80 \<and> c = CHR 0xA9 then CHR 0x5C # ''u2029'' @ json_chars s
      else json_char a @ json_chars (b # c # s))"
| "json_chars (a # s) = json_char a @ json_chars s"

definition json_string :: "string \<Rightarrow> string" where
  "json_string s = CHR 0x22 # json_chars s @ [CHR 0x22]"

fun json_Marshal :: "any \<Rightarrow> string" where
  "json_Marshal JNull = ''null''"
| "json_Marshal (JBool b) = (if b then ''true'' else ''false'')"
| "json_Marshal (JNum _ t) = t"
| "json_Marshal (JStr t) = json_string t"
| "json_Marshal (JArr vs) = ''['' @ Join (map json_Marshal vs) '','' @ '']''"
| "json_Marshal (JObj kvs) =
     ''{'' @ Join (map (\<lambda>(k, v). json_string k @ '':'' @ json_Marshal v) kvs) '','' @ ''}''"

definition json_newline :: "nat \<Rightarrow> string" where
  "json_newline d = LF # concat (replicate d ''  '')"

text \<open>\<^verbatim>\<open>json.MarshalIndent(v, "", "  ")\<close>; \<open>d\<close> is the depth.\<close>

fun json_indent :: "nat \<Rightarrow> any \<Rightarrow> string" where
  "json_indent d (JArr vs) =
     (if vs = [] then ''[]''
      else ''['' @ json_newline (Suc d)
           @ Join (map (json_indent (Suc d)) vs) ('','' @ json_newline (Suc d))
           @ json_newline d @ '']'')"
| "json_indent d (JObj kvs) =
     (if kvs = [] then ''{}''
      else ''{'' @ json_newline (Suc d)
           @ Join (map (\<lambda>(k, v). json_string k @ '': '' @ json_indent (Suc d) v) kvs)
                  ('','' @ json_newline (Suc d))
           @ json_newline d @ ''}'')"
| "json_indent d v = json_Marshal v"

definition json_MarshalIndent :: "any \<Rightarrow> string" where
  "json_MarshalIndent v = json_indent 0 v"

section \<open>URLs\<close>

definition hex_upper :: "nat \<Rightarrow> char" where
  "hex_upper n = (if n < 10 then char_of (48 + n) else char_of (55 + n))"

definition percent :: "char \<Rightarrow> string" where
  "percent c = (let n = of_char c in [CHR ''%'', hex_upper (n div 16), hex_upper (n mod 16)])"

definition unreserved :: "char \<Rightarrow> bool" where
  "unreserved c =
     (let n = (of_char c :: nat)
      in (48 \<le> n \<and> n \<le> 57) \<or> (65 \<le> n \<and> n \<le> 90) \<or> (97 \<le> n \<and> n \<le> 122) \<or> c \<in> set ''-_.~'')"

text \<open>\<^verbatim>\<open>url.PathEscape\<close> and \<^verbatim>\<open>url.QueryEscape\<close>.\<close>

definition PathEscape :: "string \<Rightarrow> string" where
  "PathEscape s = concat (map (\<lambda>c. if unreserved c \<or> c \<in> set ''$&+:=@'' then [c] else percent c) s)"

definition QueryEscape :: "string \<Rightarrow> string" where
  "QueryEscape s = concat (map (\<lambda>c. if unreserved c then [c] else if c = CHR '' '' then ''+'' else percent c) s)"

section \<open>Maps\<close>

text \<open>\<^verbatim>\<open>m[k] = v\<close>.\<close>

fun map_put :: "'k \<Rightarrow> 'v \<Rightarrow> ('k \<times> 'v) list \<Rightarrow> ('k \<times> 'v) list" where
  "map_put k v [] = [(k, v)]"
| "map_put k v ((a, b) # m) = (if a = k then (a, v) # m else (a, b) # map_put k v m)"

definition map_keys :: "('k \<times> 'v) list \<Rightarrow> 'k set" where
  "map_keys m = fst ` set m"

text \<open>\<^verbatim>\<open>maps.Copy(dst, src)\<close>.\<close>

definition maps_Copy :: "('k \<times> 'v) list \<Rightarrow> ('k \<times> 'v) list \<Rightarrow> ('k \<times> 'v) list" where
  "maps_Copy dst src = foldl (\<lambda>m (k, v). map_put k v m) dst src"

text \<open>The order of Go strings: bytewise, a prefix first.\<close>

fun str_less_eq :: "string \<Rightarrow> string \<Rightarrow> bool" where
  "str_less_eq [] t = True"
| "str_less_eq (c # s) [] = False"
| "str_less_eq (c # s) (d # t) =
     ((of_char c :: nat) < of_char d \<or> (c = d \<and> str_less_eq s t))"

fun insert_by_key :: "string \<times> 'v \<Rightarrow> (string \<times> 'v) list \<Rightarrow> (string \<times> 'v) list" where
  "insert_by_key x [] = [x]"
| "insert_by_key x (y # ys) = (if str_less_eq (fst x) (fst y) then x # y # ys else y # insert_by_key x ys)"

definition SortedByKeys :: "(string \<times> 'v) list \<Rightarrow> (string \<times> 'v) list" where
  "SortedByKeys m = foldr insert_by_key m []"

section \<open>Lemmas\<close>

named_theorems map_simps \<open>facts on association lists as Go maps\<close>

lemma map_of_map_put [map_simps]: "map_of (map_put k v m) = (map_of m)(k \<mapsto> v)"
  by (induction m) auto

lemma keys_map_put [simp]: "map_keys (map_put k v m) = insert k (map_keys m)"
  unfolding map_keys_def by (induction k v m rule: map_put.induct) auto

lemma keys_Nil [simp]: "map_keys [] = {}"
  by (simp add: map_keys_def)

lemma keys_map_of: "k \<in> map_keys m \<longleftrightarrow> map_of m k \<noteq> None"
  by (force simp: map_keys_def map_of_eq_None_iff)

lemma distinct_map_put [map_simps]: "distinct (map fst (map_put k v m)) = distinct (map fst m)"
proof (induction k v m rule: map_put.induct)
  case (2 k v a b m)
  then show ?case using keys_map_put [of k v m] by (auto simp: map_keys_def)
qed simp

lemma maps_Copy_Cons: "maps_Copy dst ((k, v) # src) = maps_Copy (map_put k v dst) src"
  by (simp add: maps_Copy_def)

lemma map_of_maps_Copy [map_simps]:
  "distinct (map fst src) \<Longrightarrow> map_of (maps_Copy dst src) = map_of dst ++ map_of src"
proof (induction src arbitrary: dst)
  case (Cons x src)
  obtain a b where x: "x = (a, b)" by fastforce
  have "map_of src a = None" using Cons.prems x by (simp add: map_of_eq_None_iff)
  then have "map_of (map_put a b dst) ++ map_of src = map_of dst ++ (map_of src)(a \<mapsto> b)"
    by (auto simp: map_of_map_put map_add_def fun_eq_iff split: option.splits)
  also have "(map_of src)(a \<mapsto> b) = map_of (x # src)" using x by (auto simp: fun_eq_iff)
  finally show ?case
    using Cons x by (simp del: map_of.simps add: maps_Copy_Cons)
qed (simp add: maps_Copy_def)

lemma mset_insert_by_key: "set (insert_by_key x xs) = insert x (set xs)"
  by (induction xs) auto

lemma set_SortedByKeys [simp]: "set (SortedByKeys m) = set m"
  unfolding SortedByKeys_def by (induction m) (auto simp: mset_insert_by_key)

lemma str_less_eq_total: "str_less_eq s t \<or> str_less_eq t s"
proof (induction s t rule: str_less_eq.induct)
  case (3 c s d t)
  consider "(of_char c :: nat) < of_char d" | "(of_char d :: nat) < of_char c" | "c = d"
    by (metis linorder_neqE_nat of_char_eq_iff)
  then show ?case using 3 by cases auto
qed simp_all

lemma str_less_eq_trans: "str_less_eq s t \<Longrightarrow> str_less_eq t u \<Longrightarrow> str_less_eq s u"
proof (induction s t arbitrary: u rule: str_less_eq.induct)
  case (3 c s d t)
  then show ?case by (cases u) auto
qed (auto)

text \<open>The sorted iteration really visits the keys in ascending order.\<close>

lemma sorted_insert_by_key:
  "sorted_wrt str_less_eq (map fst xs) \<Longrightarrow> sorted_wrt str_less_eq (map fst (insert_by_key x xs))"
proof (induction xs)
  case (Cons y ys)
  have "str_less_eq (fst y) (fst x)" if "\<not> str_less_eq (fst x) (fst y)"
    using that str_less_eq_total by blast
  then show ?case
    using Cons by (auto simp: mset_insert_by_key intro: str_less_eq_trans)
qed simp

lemma sorted_SortedByKeys: "sorted_wrt str_less_eq (map fst (SortedByKeys m))"
  unfolding SortedByKeys_def by (induction m) (auto simp: sorted_insert_by_key)

end
