(* ===== verification/RunStatus.thy ===== *)
theory RunStatus
  imports Prelude
begin

text \<open>
  The status a run reports: \<^verbatim>\<open>executionstatus.go\<close>, \<^verbatim>\<open>stepids.go\<close>, \<^verbatim>\<open>datatype.go\<close> and
  \<^verbatim>\<open>runstatus.go\<close> of \<^verbatim>\<open>tf-block-runner/tfrun\<close>.

  A run holds a list of steps and the index of the current one; \<open>-1\<close> is the index before the
  steps are set up. The Go code keeps pointers to the steps. Here a status is a value, and a
  change through the pointer \<^verbatim>\<open>currentStepStatus()\<close> returns is \<open>update_current_step\<close>.
\<close>

section \<open>Data\<close>

datatype execution_status = PENDING | IN_PROGRESS | SUCCEEDED | FAILED | ABORTED

definition isTerminalState :: "execution_status \<Rightarrow> bool" where
  "isTerminalState st = (st = SUCCEEDED \<or> st = FAILED \<or> st = ABORTED)"

fun status_str :: "execution_status \<Rightarrow> string" where
  "status_str PENDING = ''PENDING''"
| "status_str IN_PROGRESS = ''IN_PROGRESS''"
| "status_str SUCCEEDED = ''SUCCEEDED''"
| "status_str FAILED = ''FAILED''"
| "status_str ABORTED = ''ABORTED''"

datatype data_type =
    DATA_TYPE_STRING
  | DATA_TYPE_INTEGER
  | DATA_TYPE_BOOLEAN
  | DATA_TYPE_CODE
  | DATA_TYPE_SINGLESELECT
  | DATA_TYPE_MULTISELECT
  | DATA_TYPE_FILE
  | DATA_TYPE_LIST
  | DATA_TYPE_OTHER string

text \<open>\<^verbatim>\<open>DataType\<close> is a string type in Go: any other string is a value of it, too.\<close>

fun data_type_str :: "data_type \<Rightarrow> string" where
  "data_type_str DATA_TYPE_STRING = ''STRING''"
| "data_type_str DATA_TYPE_INTEGER = ''INTEGER''"
| "data_type_str DATA_TYPE_BOOLEAN = ''BOOLEAN''"
| "data_type_str DATA_TYPE_CODE = ''CODE''"
| "data_type_str DATA_TYPE_SINGLESELECT = ''SINGLE_SELECT''"
| "data_type_str DATA_TYPE_MULTISELECT = ''MULTI_SELECT''"
| "data_type_str DATA_TYPE_FILE = ''FILE''"
| "data_type_str DATA_TYPE_LIST = ''LIST''"
| "data_type_str (DATA_TYPE_OTHER s) = s"

definition data_types :: "data_type list" where
  "data_types = [DATA_TYPE_STRING, DATA_TYPE_INTEGER, DATA_TYPE_BOOLEAN, DATA_TYPE_CODE,
     DATA_TYPE_SINGLESELECT, DATA_TYPE_MULTISELECT, DATA_TYPE_FILE, DATA_TYPE_LIST]"

definition to_data_type :: "string \<Rightarrow> data_type" where
  "to_data_type s = (case find (\<lambda>t. data_type_str t = s) data_types of
     Some t \<Rightarrow> t | None \<Rightarrow> DATA_TYPE_OTHER s)"

record tf_output =
  out_Value :: any
  out_Type :: data_type
  out_Sensitive :: bool

record step_status =
  step_Name :: string
  step_DisplayName :: string
  step_Status :: execution_status
  step_Outputs :: "(string \<times> tf_output) list"
  step_UserMessage :: "string option"
  step_SystemMessage :: "string option"
  step_LogStartIdx :: nat

record run_status =
  run_Id :: string
  run_Status :: execution_status
  run_Steps :: "step_status list"
  run_CurrentStepIndex :: int
  run_Summary :: "string option"
  run_ChangesDetected :: "bool option"

section \<open>Step identifiers\<close>

definition StepTrigger :: string where "StepTrigger = ''trigger''"
definition StepSources :: string where "StepSources = ''sources''"
definition StepInput :: string where "StepInput = ''input''"
definition StepInitTf :: string where "StepInitTf = ''init_tf''"
definition StepPreRunScript :: string where "StepPreRunScript = ''pre_run_script''"
definition StepExecuteTf :: string where "StepExecuteTf = ''execute_tf''"
definition StepOutput :: string where "StepOutput = ''output''"

text \<open>A step as every \<^verbatim>\<open>initRunSteps\<close> creates it.\<close>

definition pending_step :: "string \<Rightarrow> string \<Rightarrow> step_status" where
  "pending_step name display =
     \<lparr>step_Name = name, step_DisplayName = display, step_Status = PENDING, step_Outputs = [],
      step_UserMessage = None, step_SystemMessage = None, step_LogStartIdx = 0\<rparr>"

section \<open>Operations\<close>

definition currentStepStatus :: "run_status \<Rightarrow> step_status option" where
  "currentStepStatus r =
     (if run_CurrentStepIndex r \<ge> 0 \<and> run_CurrentStepIndex r < int (length (run_Steps r))
      then Some (run_Steps r ! nat (run_CurrentStepIndex r)) else None)"

text \<open>A write through the pointer that \<^verbatim>\<open>currentStepStatus()\<close> returns, when it is not nil.\<close>

definition update_current_step :: "(step_status \<Rightarrow> step_status) \<Rightarrow> run_status \<Rightarrow> run_status" where
  "update_current_step f r =
     (case currentStepStatus r of
        None \<Rightarrow> r
      | Some st \<Rightarrow> r\<lparr>run_Steps := (run_Steps r)[nat (run_CurrentStepIndex r) := f st]\<rparr>)"

definition firstStep :: "run_status \<Rightarrow> unit res \<times> run_status" where
  "firstStep r =
     (if length (run_Steps r) = 0 then (Err (ErrorString ''no_steps''), r)
      else (Ok (), r\<lparr>run_CurrentStepIndex := 0\<rparr>))"

definition status_nextStep :: "run_status \<Rightarrow> unit res \<times> run_status" where
  "status_nextStep r =
     (if run_CurrentStepIndex r + 1 < int (length (run_Steps r))
      then (Ok (), r\<lparr>run_CurrentStepIndex := run_CurrentStepIndex r + 1\<rparr>)
      else (Err (ErrorString ''stepIdx_too_high''), r))"

definition aborted_message :: string where
  "aborted_message = ''Aborted due to failure in an earlier step''"

text \<open>The body of the loop in \<^verbatim>\<open>failRunAndNotFinishedSteps\<close>, for the step at index \<open>idx\<close>.\<close>

definition fail_step :: "int \<Rightarrow> int \<Rightarrow> step_status \<Rightarrow> step_status" where
  "fail_step cur idx st =
     (let st1 = (if idx \<ge> cur then st\<lparr>step_Status := FAILED\<rparr> else st)
      in if idx > cur then st1\<lparr>step_SystemMessage := Some aborted_message\<rparr> else st1)"

definition failRunAndNotFinishedSteps :: "run_status \<Rightarrow> run_status" where
  "failRunAndNotFinishedSteps r =
     r\<lparr>run_Steps := map (\<lambda>(i, st). fail_step (run_CurrentStepIndex r) (int i) st)
                       (enumerate 0 (run_Steps r)),
       run_Status := FAILED\<rparr>"

section \<open>Invariants\<close>

text \<open>The index points at a step, or nothing is set up yet.\<close>

definition index_ok :: "run_status \<Rightarrow> bool" where
  "index_ok r \<longleftrightarrow> 0 \<le> run_CurrentStepIndex r \<and> run_CurrentStepIndex r < int (length (run_Steps r))"

text \<open>
  The shape of a run that is under way: every step before the current one has succeeded, the
  current one has not ended, no step after it has started.
\<close>

definition steps_ordered :: "run_status \<Rightarrow> bool" where
  "steps_ordered r \<longleftrightarrow>
     (\<forall>i < length (run_Steps r).
        (int i < run_CurrentStepIndex r \<longrightarrow> step_Status (run_Steps r ! i) = SUCCEEDED) \<and>
        (int i = run_CurrentStepIndex r \<longrightarrow> \<not> isTerminalState (step_Status (run_Steps r ! i))) \<and>
        (int i > run_CurrentStepIndex r \<longrightarrow> step_Status (run_Steps r ! i) = PENDING))"

text \<open>
  The shape of a failed run: every step before the current one has succeeded, the current one and
  all later ones have failed, and the later ones say why.
\<close>

definition steps_failed_from_current :: "run_status \<Rightarrow> bool" where
  "steps_failed_from_current r \<longleftrightarrow>
     (\<forall>i < length (run_Steps r).
        (int i < run_CurrentStepIndex r \<longrightarrow> step_Status (run_Steps r ! i) = SUCCEEDED) \<and>
        (int i \<ge> run_CurrentStepIndex r \<longrightarrow> step_Status (run_Steps r ! i) = FAILED) \<and>
        (int i > run_CurrentStepIndex r \<longrightarrow> step_SystemMessage (run_Steps r ! i) = Some aborted_message))"

section \<open>Progress\<close>

text \<open>
  How a reported status may change: a step that has started does not become pending again, one that has
  ended stays as it ended, and the current step only moves forward. A report without steps (before they
  are set up) precedes any other.
\<close>

definition status_le :: "execution_status \<Rightarrow> execution_status \<Rightarrow> bool" where
  "status_le a b \<longleftrightarrow> a = b \<or> a = PENDING \<or> a = IN_PROGRESS \<and> b \<noteq> PENDING"

definition step_le :: "step_status \<Rightarrow> step_status \<Rightarrow> bool" where
  "step_le s t \<longleftrightarrow> step_Name s = step_Name t \<and> step_DisplayName s = step_DisplayName t \<and>
     status_le (step_Status s) (step_Status t)"

definition steps_le :: "run_status \<Rightarrow> run_status \<Rightarrow> bool" where
  "steps_le r t \<longleftrightarrow> run_CurrentStepIndex r \<le> run_CurrentStepIndex t \<and>
     (run_Steps r = [] \<or> list_all2 step_le (run_Steps r) (run_Steps t))"

definition run_le :: "run_status \<Rightarrow> run_status \<Rightarrow> bool" where
  "run_le r t \<longleftrightarrow> steps_le r t \<and> status_le (run_Status r) (run_Status t)"

section \<open>Lemmas\<close>

named_theorems status_defs \<open>definitions of the operations on a run status\<close>

declare currentStepStatus_def [status_defs] update_current_step_def [status_defs]
  firstStep_def [status_defs] status_nextStep_def [status_defs]

lemma isTerminalState_simps [simp]:
  "\<not> isTerminalState PENDING" "\<not> isTerminalState IN_PROGRESS"
  "isTerminalState SUCCEEDED" "isTerminalState FAILED" "isTerminalState ABORTED"
  by (simp_all add: isTerminalState_def)

lemma status_str_inject [simp]: "status_str a = status_str b \<longleftrightarrow> a = b"
  by (cases a; cases b) simp_all

lemma to_data_type_str: "data_type_str (to_data_type s) = s"
  by (auto simp: to_data_type_def find_Some_iff split: option.splits)

lemma currentStepStatus_Some_iff: "currentStepStatus r \<noteq> None \<longleftrightarrow> index_ok r"
  by (simp add: currentStepStatus_def index_ok_def)

lemma index_ok_current:
  "index_ok r \<Longrightarrow> currentStepStatus r = Some (run_Steps r ! nat (run_CurrentStepIndex r))"
  by (simp add: currentStepStatus_def index_ok_def)

lemma update_current_step_frame [simp]:
  "run_Id (update_current_step f r) = run_Id r"
  "run_Status (update_current_step f r) = run_Status r"
  "run_CurrentStepIndex (update_current_step f r) = run_CurrentStepIndex r"
  "run_Summary (update_current_step f r) = run_Summary r"
  "run_ChangesDetected (update_current_step f r) = run_ChangesDetected r"
  "length (run_Steps (update_current_step f r)) = length (run_Steps r)"
  by (simp_all add: update_current_step_def split: option.splits)

lemma update_current_step_nth:
  "i < length (run_Steps r) \<Longrightarrow>
   run_Steps (update_current_step f r) ! i =
     (if int i = run_CurrentStepIndex r then f (run_Steps r ! i) else run_Steps r ! i)"
  by (auto simp: update_current_step_def currentStepStatus_def nth_list_update)

lemma failRun_frame [simp]:
  "run_Id (failRunAndNotFinishedSteps r) = run_Id r"
  "run_Status (failRunAndNotFinishedSteps r) = FAILED"
  "run_CurrentStepIndex (failRunAndNotFinishedSteps r) = run_CurrentStepIndex r"
  "run_Summary (failRunAndNotFinishedSteps r) = run_Summary r"
  "run_ChangesDetected (failRunAndNotFinishedSteps r) = run_ChangesDetected r"
  "length (run_Steps (failRunAndNotFinishedSteps r)) = length (run_Steps r)"
  by (simp_all add: failRunAndNotFinishedSteps_def)

lemma failRun_nth:
  "i < length (run_Steps r) \<Longrightarrow>
   run_Steps (failRunAndNotFinishedSteps r) ! i =
     fail_step (run_CurrentStepIndex r) (int i) (run_Steps r ! i)"
  by (simp add: failRunAndNotFinishedSteps_def nth_enumerate_eq)

lemma fail_step_simps [simp]:
  "step_Name (fail_step c i st) = step_Name st"
  "step_DisplayName (fail_step c i st) = step_DisplayName st"
  "step_Status (fail_step c i st) = (if i \<ge> c then FAILED else step_Status st)"
  "step_Outputs (fail_step c i st) = step_Outputs st"
  "step_UserMessage (fail_step c i st) = step_UserMessage st"
  "step_SystemMessage (fail_step c i st) = (if i > c then Some aborted_message else step_SystemMessage st)"
  "step_LogStartIdx (fail_step c i st) = step_LogStartIdx st"
  by (simp_all add: fail_step_def Let_def)

lemma index_ok_update [simp]: "index_ok (update_current_step f r) = index_ok r"
  by (simp add: index_ok_def)

lemma index_ok_failRun [simp]: "index_ok (failRunAndNotFinishedSteps r) = index_ok r"
  by (simp add: index_ok_def)

lemma steps_ordered_update:
  "(\<And>st. step_Status (f st) = step_Status st) \<Longrightarrow> steps_ordered (update_current_step f r) = steps_ordered r"
  by (auto simp: steps_ordered_def update_current_step_nth)

lemma steps_failed_failRun: "steps_ordered r \<Longrightarrow> steps_failed_from_current (failRunAndNotFinishedSteps r)"
  by (auto simp: steps_failed_from_current_def steps_ordered_def failRun_nth)

lemma steps_failed_update:
  "steps_failed_from_current r \<Longrightarrow> (\<And>st. step_Status (f st) = step_Status st) \<Longrightarrow>
   steps_failed_from_current (update_current_step f r)"
  by (auto simp: steps_failed_from_current_def update_current_step_nth)

text \<open>Progress is a preorder.\<close>

lemma status_le_refl [simp]: "status_le a a"
  by (simp add: status_le_def)

lemma status_le_trans: "status_le a b \<Longrightarrow> status_le b c \<Longrightarrow> status_le a c"
  by (auto simp: status_le_def)

lemma status_le_terminal: "isTerminalState a \<Longrightarrow> status_le a b \<longleftrightarrow> a = b"
  by (auto simp: status_le_def)

lemma step_le_refl [simp]: "step_le s s"
  by (simp add: step_le_def)

lemma step_le_trans: "step_le a b \<Longrightarrow> step_le b c \<Longrightarrow> step_le a c"
  by (auto simp: step_le_def intro: status_le_trans)

lemma steps_le_nth:
  assumes "run_CurrentStepIndex r \<le> run_CurrentStepIndex t" "length (run_Steps r) = length (run_Steps t)"
    and "\<And>i. i < length (run_Steps r) \<Longrightarrow> step_le (run_Steps r ! i) (run_Steps t ! i)"
  shows "steps_le r t"
  using assms by (simp add: steps_le_def list_all2_conv_all_nth)

lemma steps_le_refl [simp]: "steps_le r r"
  by (rule steps_le_nth) (simp_all add: step_le_def)

lemma steps_le_trans:
  assumes "steps_le a b" "steps_le b c"
  shows "steps_le a c"
proof (cases "run_Steps a = []")
  case True
  then show ?thesis using assms by (auto simp: steps_le_def)
next
  case False
  then have ab: "list_all2 step_le (run_Steps a) (run_Steps b)"
    using assms(1) by (simp add: steps_le_def)
  with False have "run_Steps b \<noteq> []" by (auto dest: list_all2_lengthD)
  then have "list_all2 step_le (run_Steps b) (run_Steps c)" using assms(2) by (simp add: steps_le_def)
  with ab have "list_all2 step_le (run_Steps a) (run_Steps c)"
    by (rule list_all2_trans [OF step_le_trans, rotated -2])
  then show ?thesis using assms by (simp add: steps_le_def)
qed

lemma run_le_refl [simp]: "run_le r r"
  by (simp add: run_le_def)

lemma run_le_trans: "run_le a b \<Longrightarrow> run_le b c \<Longrightarrow> run_le a c"
  unfolding run_le_def by (blast intro: steps_le_trans status_le_trans)

text \<open>Changing the current step is progress when its status makes progress.\<close>

lemma run_le_update:
  assumes "\<And>st. currentStepStatus r = Some st \<Longrightarrow> step_le st (g st)"
  shows "run_le r (update_current_step g r)"
proof -
  have "step_le (run_Steps r ! i) (run_Steps (update_current_step g r) ! i)" if i: "i < length (run_Steps r)" for i
  proof (cases "int i = run_CurrentStepIndex r")
    case True
    then have "currentStepStatus r = Some (run_Steps r ! i)"
      using i by (simp add: currentStepStatus_def flip: True)
    from assms [OF this] show ?thesis using i True by (simp add: update_current_step_nth)
  next
    case False
    then show ?thesis using i by (simp add: update_current_step_nth step_le_def)
  qed
  then have "steps_le r (update_current_step g r)" by (intro steps_le_nth) simp_all
  then show ?thesis by (simp add: run_le_def)
qed

text \<open>Failing a run that is under way is progress.\<close>

lemma run_le_fail:
  assumes "steps_ordered r" "run_Status r = IN_PROGRESS"
  shows "run_le r (failRunAndNotFinishedSteps r)"
proof -
  have "step_le (run_Steps r ! i) (run_Steps (failRunAndNotFinishedSteps r) ! i)" if "i < length (run_Steps r)" for i
  proof -
    have "status_le (step_Status (run_Steps r ! i)) FAILED" if "run_CurrentStepIndex r \<le> int i"
      using assms(1) that \<open>i < length (run_Steps r)\<close>
      by (cases "step_Status (run_Steps r ! i)") (auto simp: steps_ordered_def status_le_def order_le_less)
    then show ?thesis using that by (simp add: failRun_nth step_le_def)
  qed
  then have "steps_le r (failRunAndNotFinishedSteps r)" by (intro steps_le_nth) simp_all
  then show ?thesis using assms(2) by (simp add: run_le_def status_le_def)
qed

end
