(* ===== verification/RunModel.thy ===== *)
theory RunModel
  imports MeshCrypto GoStd RunStatus
begin

text \<open>
  The run as the server sends it and as the terraform runner keeps it: the transfer types of
  \<^verbatim>\<open>go-meshapi-client/meshapi/dtos.go\<close>, and \<^verbatim>\<open>behavior.go\<close>, \<^verbatim>\<open>run.go\<close> and \<^verbatim>\<open>dtos.go\<close> of
  \<^verbatim>\<open>tf-block-runner/tfrun\<close>.

  The JSON codec of the transfer types is generated from their field tags by \<^verbatim>\<open>encoding/json\<close>; it
  is a parameter (\<open>dto_codec\<close>). Pointers to strings are options. The time stamps \<^verbatim>\<open>RequestedAt\<close> and
  \<^verbatim>\<open>CreatedOn\<close> are left out: nothing reads them.
\<close>

section \<open>Transfer types\<close>

record input_dto =
  in_Key :: string
  in_Value :: any
  in_Type :: string
  in_IsSensitive :: bool
  in_Env :: bool

record link_dto =
  lk_Href :: string
  lk_Templated :: bool

record links_dto =
  link_Self :: link_dto
  link_RegisterSource :: link_dto
  link_UpdateSource :: link_dto
  link_MeshstackBaseUrl :: link_dto
  link_Artifact :: link_dto
  link_ArtifactUpload :: link_dto
  link_TfStateLock :: link_dto

text \<open>Why a run was started, and by whom: strings of which the API documents these.\<close>

datatype trigger_reason =
    BuildingBlockCreation | ManualExecution | UserStatusChange | PlatformTenantIdUpdate | ProjectPermissionsChange
  | WorkspacePermissionChange | BuildingBlockUpgrade | BuildingBlockInputsUpdate | BuildingBlockDefinitionDeletion
  | BuildingBlockDeletion | BuildingBlockPurge | DependencyOutputChanged | ParentRunSucceeded | PreflightSucceeded
  | OtherReason string

datatype author_type = AuthorUser | AuthorApiKey | AuthorApiUser | AuthorSystem | OtherAuthor string

record author_dto =
  au_Identifier :: string
  au_Type :: author_type
  au_DisplayName :: "string option"
  au_Username :: "string option"
  au_Email :: "string option"
  au_Euid :: "string option"

record run_trigger_dto =
  tr_Reason :: trigger_reason
  tr_Author :: author_dto

text \<open>\<open>RunDetailsDTO\<close> with its nested structs flattened; the implementation is raw JSON text.\<close>

record run_details =
  rd_ApiVersion :: string
  rd_Kind :: string
  rd_Uuid :: string
  rd_RunNumber :: int
  rd_Behavior :: string
  rd_RunToken :: string
  rd_BuildingBlockUuid :: string
  rd_DisplayName :: string
  rd_WorkspaceIdentifier :: string
  rd_ProjectIdentifier :: string
  rd_FullPlatformIdentifier :: string
  rd_Inputs :: "input_dto list"
  rd_ParentBuildingBlocks :: "(string \<times> string) list"
  rd_DefinitionUuid :: string
  rd_DefinitionWorkspace :: string
  rd_DefinitionVersion :: int
  rd_Implementation :: string
  rd_Trigger :: "run_trigger_dto option"
  rd_Status :: string
  rd_Links :: links_dto

record known_host_dto =
  khd_Host :: string
  khd_KeyType :: string
  khd_KeyValue :: string

record terraform_impl =
  ti_Type :: string
  ti_TerraformVersion :: string
  ti_RepositoryUrl :: string
  ti_RepositoryPath :: "string option"
  ti_RefName :: "string option"
  ti_SshPrivateKey :: "string option"
  ti_KnownHost :: "known_host_dto option"
  ti_Async :: bool
  ti_UseMeshHttpBackendFallback :: bool
  ti_PreRunScript :: "string option"

text \<open>\<^verbatim>\<open>json.Marshal\<close> and \<^verbatim>\<open>json.Unmarshal\<close> at the transfer types.\<close>

record dto_codec =
  dc_MarshalRun :: "run_details \<Rightarrow> string res"
  dc_UnmarshalRun :: "string \<Rightarrow> run_details res"
  dc_UnmarshalTerraform :: "string \<Rightarrow> terraform_impl res"
  dc_UnmarshalType :: "string \<Rightarrow> string res"

definition ParseRunDetails :: "dto_codec \<Rightarrow> string \<Rightarrow> run_details res" where
  [simp]: "ParseRunDetails C data = dc_UnmarshalRun C data"

text \<open>What a status update carries.\<close>

record output_dto =
  od_Value :: any
  od_Type :: string
  od_Sensitive :: bool

record step_update_dto =
  su_Id :: string
  su_DisplayName :: string
  su_Status :: "string option"
  su_UserMessage :: "string option"
  su_SystemMessage :: "string option"
  su_Outputs :: "(string \<times> output_dto) list"

record run_update_dto =
  ru_BlockRunId :: string
  ru_Source :: string
  ru_Type :: string
  ru_Status :: "string option"
  ru_Summary :: "string option"
  ru_Steps :: "(step_update_dto list) option"
  ru_ChangesDetected :: "bool option"

section \<open>Implementation types\<close>

datatype impl_type = ImplManual | ImplTerraform | ImplGitHubWorkflow | ImplGitLabCICD | ImplAzureDevOps
  | ImplOther string

fun impl_type_str :: "impl_type \<Rightarrow> string" where
  "impl_type_str ImplManual = ''MANUAL''"
| "impl_type_str ImplTerraform = ''TERRAFORM''"
| "impl_type_str ImplGitHubWorkflow = ''GITHUB_WORKFLOW''"
| "impl_type_str ImplGitLabCICD = ''GITLAB_CICD''"
| "impl_type_str ImplAzureDevOps = ''AZURE_DEVOPS''"
| "impl_type_str (ImplOther s) = s"

definition to_impl_type :: "string \<Rightarrow> impl_type" where
  "to_impl_type s =
     (case find (\<lambda>t. impl_type_str t = s)
             [ImplManual, ImplTerraform, ImplGitHubWorkflow, ImplGitLabCICD, ImplAzureDevOps] of
        Some t \<Rightarrow> t | None \<Rightarrow> ImplOther s)"

definition GetImplementationType :: "dto_codec \<Rightarrow> run_details \<Rightarrow> impl_type res" where
  "GetImplementationType C d =
     (case dc_UnmarshalType C (rd_Implementation d) of
        Ok t \<Rightarrow> Ok (to_impl_type t)
      | Err e \<Rightarrow> Err (Wrapped ''failed to extract implementation type: '' e '''')
      | Panic m \<Rightarrow> Panic m)"

text \<open>The runner types are strings, too; those not named by a constant pass through.\<close>

definition ToRunnerType :: "impl_type \<Rightarrow> string" where
  "ToRunnerType t =
     (case t of
        ImplGitLabCICD \<Rightarrow> ''GITLAB_PIPELINE''
      | ImplAzureDevOps \<Rightarrow> ''AZURE_DEVOPS_PIPELINE''
      | _ \<Rightarrow> impl_type_str t)"

record run_info_dto =
  rid_Uuid :: string
  rid_WorkspaceIdentifier :: string
  rid_DefinitionUuid :: string
  rid_DefinitionWorkspace :: string

definition GetRunInfo :: "run_details \<Rightarrow> run_info_dto" where
  "GetRunInfo d = \<lparr>rid_Uuid = rd_Uuid d, rid_WorkspaceIdentifier = rd_WorkspaceIdentifier d,
     rid_DefinitionUuid = rd_DefinitionUuid d, rid_DefinitionWorkspace = rd_DefinitionWorkspace d\<rparr>"

section \<open>Behavior\<close>

datatype behavior = APPLY | DETECT | DESTROY | UNKNOWN_BEHAVIOR

text \<open>\<^verbatim>\<open>log.Fatalf\<close> ends the process.\<close>

fun behavior_str :: "behavior \<Rightarrow> string res" where
  "behavior_str APPLY = Ok ''APPLY''"
| "behavior_str DETECT = Ok ''DETECT''"
| "behavior_str DESTROY = Ok ''DESTROY''"
| "behavior_str UNKNOWN_BEHAVIOR = Panic ''Behavior.str() not implemented for 3''"

definition behaviors :: "behavior list" where
  "behaviors = [APPLY, DETECT, DESTROY]"

definition DetermineBehavior :: "string \<Rightarrow> behavior res" where
  "DetermineBehavior s =
     (case find (\<lambda>b. behavior_str b = Ok s) behaviors of
        Some b \<Rightarrow> Ok b
      | None \<Rightarrow> Err (ErrorString ''cannot determine Behavior type''))"

section \<open>The internal run\<close>

record variable =
  var_value :: any
  var_env :: bool
  var_Type :: data_type
  var_isSensitive :: bool

record known_host =
  kh_host :: string
  kh_key :: string
  kh_value :: string

datatype auth = NoAuth | SshAuth "known_host option" string

record git_source =
  gs_url :: string
  gs_path :: "string option"
  gs_refName :: "string option"
  gs_auth :: auth

record run =
  r_Id :: string
  r_TerraformVersion :: string
  r_Behavior :: behavior
  r_WorkspaceIdentifier :: "string option"
  r_ProjectIdentifier :: "string option"
  r_FullPlatformIdentifier :: "string option"
  r_BuildingBlockId :: string
  r_BuildingBlockName :: string
  r_IsAsync :: bool
  r_Vars :: "(string \<times> variable) list"
  r_RunJsonBase64 :: string
  r_Source :: git_source
  r_UseMeshBackendFallback :: bool
  r_PreRunScript :: "string option"
  r_RunToken :: string
  r_MeshstackBaseUrl :: string
  r_ArtifactUrl :: string
  r_ArtifactUploadUrl :: string
  r_TfStateLockUrl :: string

definition decrypt_hint :: string where
  "decrypt_hint = ''. This typically indicates a key mismatch - the private key provided to this building block block runner does not match the public key used to encrypt the input. Please verify: 1) The correct building block block runner is configured for this building block definition, 2) The private key configured in the runner matches the public key for the runner configured in meshStack, or 3) Create and publish a new building block definition version and re-upload the plaintext for secret inputs so they are re-encrypted with the correct key''"

definition decryptIfSensitive :: "aead \<Rightarrow> cert_crypto option \<Rightarrow> variable \<Rightarrow> any res" where
  "decryptIfSensitive A crypto v =
     (if var_isSensitive v
      then (if var_Type v \<in> {DATA_TYPE_CODE, DATA_TYPE_STRING, DATA_TYPE_FILE}
            then (case DecryptMeshCertBased A crypto (sprint_v (var_value v)) of
                    Ok t \<Rightarrow> Ok (JStr t)
                  | Err e \<Rightarrow> Err (Wrapped ''failed to decrypt secret input: '' e decrypt_hint)
                  | Panic m \<Rightarrow> Panic m)
            else Ok (var_value v))
      else Ok (var_value v))"

definition toWorkspaceStr :: "run \<Rightarrow> string" where
  "toWorkspaceStr r =
     (let part = (\<lambda>x. case x of Some t \<Rightarrow> t | None \<Rightarrow> ''_'')
      in part (r_WorkspaceIdentifier r) @ ''.'' @ part (r_ProjectIdentifier r) @ ''.''
         @ part (r_FullPlatformIdentifier r) @ '':'' @ r_BuildingBlockId r)"

section \<open>Conversion\<close>

definition knownHostsToInternal :: "known_host_dto option \<Rightarrow> known_host option" where
  "knownHostsToInternal dto =
     map_option (\<lambda>d. \<lparr>kh_host = khd_Host d, kh_key = khd_KeyType d, kh_value = khd_KeyValue d\<rparr>) dto"

definition terraformImplAuthMethod :: "terraform_impl \<Rightarrow> auth" where
  "terraformImplAuthMethod impl =
     (case ti_SshPrivateKey impl of
        None \<Rightarrow> NoAuth
      | Some k \<Rightarrow> SshAuth (knownHostsToInternal (ti_KnownHost impl)) k)"

definition terraformImplToGitSource :: "terraform_impl \<Rightarrow> git_source" where
  "terraformImplToGitSource impl =
     \<lparr>gs_url = ti_RepositoryUrl impl, gs_path = ti_RepositoryPath impl, gs_refName = ti_RefName impl,
      gs_auth = terraformImplAuthMethod impl\<rparr>"

definition toInternalVariableMap :: "input_dto list \<Rightarrow> (string \<times> variable) list" where
  "toInternalVariableMap m =
     foldl (\<lambda>r i. map_put (in_Key i)
                \<lparr>var_value = in_Value i, var_env = in_Env i, var_Type = to_data_type (in_Type i),
                 var_isSensitive = in_IsSensitive i\<rparr> r) [] m"

definition decryptedVariableMap :: "input_dto list \<Rightarrow> (string \<times> variable) list" where
  "decryptedVariableMap m =
     foldl (\<lambda>r i. map_put (in_Key i)
                \<lparr>var_value = in_Value i, var_env = in_Env i, var_Type = to_data_type (in_Type i),
                 var_isSensitive = False\<rparr> r) [] m"

text \<open>Both conversions check and build the same things; they differ in the variables.\<close>

definition dto_to_run ::
  "(input_dto list \<Rightarrow> (string \<times> variable) list) \<Rightarrow> dto_codec \<Rightarrow> run_details \<Rightarrow> run res" where
  "dto_to_run vars C d =
     (case DetermineBehavior (rd_Behavior d) of
        Ok b \<Rightarrow>
          (case dc_UnmarshalTerraform C (rd_Implementation d) of
             Ok impl \<Rightarrow>
               (case dc_MarshalRun C d of
                  Ok jsonBytes \<Rightarrow>
                    Ok \<lparr>r_Id = rd_Uuid d, r_TerraformVersion = ti_TerraformVersion impl, r_Behavior = b,
                        r_WorkspaceIdentifier = Some (rd_WorkspaceIdentifier d),
                        r_ProjectIdentifier = Some (rd_ProjectIdentifier d),
                        r_FullPlatformIdentifier = Some (rd_FullPlatformIdentifier d),
                        r_BuildingBlockId = rd_BuildingBlockUuid d, r_BuildingBlockName = rd_DisplayName d,
                        r_IsAsync = ti_Async impl, r_Vars = vars (rd_Inputs d),
                        r_RunJsonBase64 = b64_encode jsonBytes, r_Source = terraformImplToGitSource impl,
                        r_UseMeshBackendFallback = ti_UseMeshHttpBackendFallback impl,
                        r_PreRunScript = ti_PreRunScript impl, r_RunToken = rd_RunToken d,
                        r_MeshstackBaseUrl = lk_Href (link_MeshstackBaseUrl (rd_Links d)),
                        r_ArtifactUrl = lk_Href (link_Artifact (rd_Links d)),
                        r_ArtifactUploadUrl = lk_Href (link_ArtifactUpload (rd_Links d)),
                        r_TfStateLockUrl = lk_Href (link_TfStateLock (rd_Links d))\<rparr>
                | Err e \<Rightarrow> Err e | Panic m \<Rightarrow> Panic m)
           | Err e \<Rightarrow> Err e | Panic m \<Rightarrow> Panic m)
      | Err e \<Rightarrow> Err e | Panic m \<Rightarrow> Panic m)"

definition runDTOToInternal :: "dto_codec \<Rightarrow> run_details \<Rightarrow> run res" where
  "runDTOToInternal = dto_to_run toInternalVariableMap"

definition ToInternalWithoutDecryption :: "dto_codec \<Rightarrow> run_details \<Rightarrow> run res" where
  "ToInternalWithoutDecryption = dto_to_run decryptedVariableMap"

text \<open>With no steps the update carries no step list at all.\<close>

definition step_toExternal :: "step_status \<Rightarrow> step_update_dto" where
  "step_toExternal st =
     \<lparr>su_Id = step_Name st, su_DisplayName = step_DisplayName st,
      su_Status = Some (status_str (step_Status st)), su_UserMessage = step_UserMessage st,
      su_SystemMessage = step_SystemMessage st,
      su_Outputs = map (\<lambda>(k, v). (k, \<lparr>od_Value = out_Value v, od_Type = data_type_str (out_Type v),
                                     od_Sensitive = out_Sensitive v\<rparr>)) (step_Outputs st)\<rparr>"

definition RunTypeTerraform :: string where [simp]: "RunTypeTerraform = ''TERRAFORM''"

definition toExternal :: "string \<Rightarrow> run_status \<Rightarrow> run_update_dto" where
  "toExternal runnerUuid r =
     \<lparr>ru_BlockRunId = run_Id r, ru_Source = runnerUuid, ru_Type = RunTypeTerraform,
      ru_Status = Some (status_str (run_Status r)), ru_Summary = run_Summary r,
      ru_Steps = (if run_Steps r = [] then None else Some (map step_toExternal (run_Steps r))),
      ru_ChangesDetected = run_ChangesDetected r\<rparr>"

section \<open>Lemmas\<close>

lemma DetermineBehavior_ok_iff: "DetermineBehavior s = Ok b \<longleftrightarrow> behavior_str b = Ok s"
proof -
  have "behavior_str b = Ok s \<Longrightarrow> DetermineBehavior s = Ok b"
    by (cases b) (auto simp: DetermineBehavior_def behaviors_def)
  moreover have "DetermineBehavior s = Ok b \<Longrightarrow> behavior_str b = Ok s"
    by (auto simp: DetermineBehavior_def behaviors_def split: if_splits)
  ultimately show ?thesis by blast
qed

text \<open>Each key of the inputs is a variable, and the last input with the key gives its value.\<close>

lemma foldl_map_put_of:
  "map_of (foldl (\<lambda>r i. map_put (f i) (g i) r) m xs) k =
     (case find (\<lambda>i. f i = k) (rev xs) of Some i \<Rightarrow> Some (g i) | None \<Rightarrow> map_of m k)"
proof (induction xs rule: rev_induct)
  case (snoc x xs)
  then show ?case by (auto simp: map_of_map_put)
qed simp

lemma foldl_map_put_distinct:
  "distinct (map fst m) \<Longrightarrow> distinct (map fst (foldl (\<lambda>r i. map_put (f i) (g i) r) m xs))"
  by (induction xs arbitrary: m) (auto simp: distinct_map_put)

lemma map_put_values: "w \<in> ran (map_of (map_put k u n)) \<Longrightarrow> w = u \<or> w \<in> ran (map_of n)"
  by (auto simp: map_of_map_put ran_def split: if_splits)

lemma foldl_map_put_values:
  "v \<in> ran (map_of (foldl (\<lambda>r i. map_put (f i) (g i) r) m xs)) \<Longrightarrow>
   v \<in> ran (map_of m) \<or> (\<exists>i \<in> set xs. v = g i)"
proof (induction xs arbitrary: m)
  case (Cons x xs)
  from Cons.prems have "v \<in> ran (map_of (foldl (\<lambda>r i. map_put (f i) (g i) r) (map_put (f x) (g x) m) xs))"
    by simp
  from Cons.IH [OF this] map_put_values [of v "f x" "g x" m] show ?case by auto
qed simp

text \<open>In the single-run mode nothing is decrypted again, whatever the inputs say.\<close>

lemma decrypted_variables_plain:
  assumes "map_of (decryptedVariableMap is) k = Some v"
  shows "decryptIfSensitive A crypto v = Ok (var_value v)"
proof -
  have "v \<in> ran (map_of (decryptedVariableMap is))" using assms by (rule ranI)
  then have "\<not> var_isSensitive v"
    unfolding decryptedVariableMap_def by - (drule foldl_map_put_values, auto)
  then show ?thesis by (simp add: decryptIfSensitive_def)
qed

end
