(* ===== verification/TfContext.thy ===== *)
theory TfContext
  imports RunModel
begin

text \<open>
  The context a terraform command runs in: \<^verbatim>\<open>runcontextinfo.go\<close>, \<^verbatim>\<open>logwrapper.go\<close>, the function
  \<^verbatim>\<open>fileContentOrEmpty\<close> of \<^verbatim>\<open>worker.go\<close> and the step handling of \<^verbatim>\<open>GenericTfCmd\<close> in \<^verbatim>\<open>tfcmd.go\<close>.

  \<^item> \<open>run_info\<close> holds the fields of \<^verbatim>\<open>RunContextInfo\<close> that never change during a run, \<open>tf_state\<close>
    the ones that do, together with the update log file, the files of the working directory and
    the history of the run.
  \<^item> Whatever is not code of this repository (terraform, git, the file system's failures, the
    context's deadline) answers through the functions of \<open>tf_env\<close>. Each is a function of the
    history so far, so an environment is free to answer differently at every call. A terraform
    command also returns the chunks of output it wrote while it ran (\<open>env_output\<close>); every chunk
    goes through \<^verbatim>\<open>logwrap.Write\<close>. \<^verbatim>\<open>tfexec\<close> copies stdout and stderr from two goroutines, and the
    lock in \<^verbatim>\<open>Write\<close> puts their chunks in one sequence.
  \<^item> A computation is a function from the state to a result and a state. The operator's local log
    (\<^verbatim>\<open>PrintlnToLocalLogs\<close>) is not part of the state.
\<close>

section \<open>History and environment\<close>

text \<open>
  How git authenticates over ssh, as go-git is told: the file with the key, the algorithms asked of the
  server (none means the default), and how its host key is checked: not at all, or by the callback of
  \<^verbatim>\<open>combinedKnownHostsKeyCallback\<close> for an entry of the run and a directory.
\<close>

datatype host_key_check = InsecureIgnoreHostKey | CombinedKnownHosts "known_host option" string

record ssh_transport =
  tr_KeyFile :: string
  tr_HostKeyAlgorithms :: "string list"
  tr_HostKeyCallback :: host_key_check

text \<open>
  The calls that leave the program, with their arguments: file system, git, and terraform. Paths
  and file contents are arguments, so the history shows what was written where.
\<close>

datatype tf_call =
    CallWriteFile string string
  | CallOpenFile string
  | CallClose string
  | CallMkdir string
  | CallMkdirAll string
  | CallRename string string
  | CallRemove string
  | CallRemoveAll string
  | CallSymlink string string
  | CallBash string string
  | CallPlainClone string string "ssh_transport option"
  | CallCheckout string
  | CallInstall string string
  | CallNewTerraform string string
  | CallDownloadTofu string
  | CallSetEnv "(string \<times> string) list"
  | CallInit
  | CallWorkspaceList
  | CallWorkspaceSelect string
  | CallWorkspaceNew string
  | CallWorkspaceDelete string
  | CallApply "string option"
  | CallPlan string
  | CallDestroy "string list"
  | CallOutput
  | CallScript "string list" "string list" "string option"
  | CallDownload string string
  | CallUpload string string

text \<open>
  Questions the program asks the outside: they return a text or an error. \<open>QStat\<close> answers
  \<^verbatim>\<open>dir\<close> for a directory.
\<close>

datatype tf_query =
    QStat string
  | QReadFile string
  | QTempFile string string
  | QCommandOutput
  | QHead
  | QWorktree
  | QResolveRevision string
  | QLoadKey string
  | QUnixTime
  | QOpenRoot string
  | QExecPath
  | QTofuNew
  | QTofuBinary

datatype tf_event =
    Published run_status
  | LogWrite string
  | Called tf_call

text \<open>
  What terraform reports for one output: its type as JSON, its value, its sensitivity. The value is
  the raw JSON (\<^verbatim>\<open>json.RawMessage\<close>), which is \<^verbatim>\<open>nil\<close> only when there is none: \<open>Some JNull\<close> is a value.
\<close>

record output_meta =
  om_Type :: any
  om_Value :: "any option"
  om_Sensitive :: bool

text \<open>A file or directory below a directory, as \<^verbatim>\<open>filepath.Walk\<close> visits it: path relative to the root.\<close>

record walk_entry =
  we_path :: string
  we_isDir :: bool
  we_error :: "go_error option"

type_synonym history = "tf_event list"

record tf_env =
  env_logWriteError :: "history \<Rightarrow> string \<Rightarrow> nat option"
  env_logReadFails :: "history \<Rightarrow> bool"
  env_ctxErr :: "history \<Rightarrow> go_error option"
  env_ctxCause :: "history \<Rightarrow> string"
  env_call :: "history \<Rightarrow> tf_call \<Rightarrow> unit res"
  env_output :: "history \<Rightarrow> string list"
  env_query :: "history \<Rightarrow> tf_query \<Rightarrow> string res"
  env_workspaces :: "history \<Rightarrow> string list \<times> string"
  env_changed :: "history \<Rightarrow> bool"
  env_outputs :: "history \<Rightarrow> (string \<times> output_meta) list"
  env_readDir :: "history \<Rightarrow> ((string \<times> bool) list) res"
  env_walk :: "history \<Rightarrow> string \<Rightarrow> walk_entry list"

section \<open>State\<close>

record run_info =
  ri_runId :: string
  ri_runJsonBase64 :: string
  ri_bbId :: string
  ri_workspaceIdentifier :: string
  ri_asyncRun :: bool
  ri_useMeshBackendFallback :: bool
  ri_workingDirectory :: string
  ri_artifactFilePath :: string
  ri_runToken :: string
  ri_meshstackBaseUrl :: string
  ri_tfStateLockUrl :: string
  ri_timeoutMins :: int
  ri_logOpened :: bool

record tf_state =
  ts_runStatus :: run_status
  ts_reportStatus :: run_status
  ts_logFile :: string
  ts_logSize :: nat
  ts_onWrite :: bool
  ts_useWorkspaces :: bool
  ts_filename_state :: string
  ts_trace :: history
  ts_crashed :: "string option"

type_synonym 'a comp = "(tf_state, 'a) prog"

section \<open>Publishing\<close>

text \<open>\<^verbatim>\<open>clone\<close> copies the steps, so the published value is the current one.\<close>

definition publishStatus :: "tf_state \<Rightarrow> tf_state" where
  "publishStatus s =
     s\<lparr>ts_reportStatus := ts_runStatus s, ts_trace := ts_trace s @ [Published (ts_runStatus s)]\<rparr>"

definition commitStatus :: "tf_state \<Rightarrow> tf_state" where
  "commitStatus s = publishStatus s"

definition reportFailed :: "tf_state \<Rightarrow> tf_state" where
  "reportFailed s = s\<lparr>ts_reportStatus := (ts_reportStatus s)\<lparr>run_Status := FAILED\<rparr>\<rparr>"

section \<open>Log file and step messages\<close>

text \<open>
  \<^verbatim>\<open>b[startIdx:endIdx]\<close> of the file's bytes: a slice out of range panics. (Go checks the upper
  bound against the capacity of \<open>b\<close>, which is at least its length.)
\<close>

definition fileContentOrEmpty :: "tf_env \<Rightarrow> tf_state \<Rightarrow> nat \<Rightarrow> nat \<Rightarrow> string res" where
  "fileContentOrEmpty env s startIdx endIdx =
     (if env_logReadFails env (ts_trace s) then Ok []
      else if startIdx \<le> endIdx \<and> endIdx \<le> length (ts_logFile s)
      then Ok (take (endIdx - startIdx) (drop startIdx (ts_logFile s)))
      else Panic ''slice bounds out of range'')"

definition crash :: "string \<Rightarrow> tf_state \<Rightarrow> tf_state" where
  "crash m s = s\<lparr>ts_crashed := Some m\<rparr>"

definition upd_run :: "(run_status \<Rightarrow> run_status) \<Rightarrow> tf_state \<Rightarrow> tf_state" where
  "upd_run f s = s\<lparr>ts_runStatus := f (ts_runStatus s)\<rparr>"

definition setCurrentStepMessage :: "tf_env \<Rightarrow> string option \<Rightarrow> tf_state \<Rightarrow> tf_state" where
  "setCurrentStepMessage env userMessage s =
     (case currentStepStatus (ts_runStatus s) of
        None \<Rightarrow> s
      | Some st \<Rightarrow>
          (let s1 = (case userMessage of
                       None \<Rightarrow> s
                     | Some m \<Rightarrow> upd_run (update_current_step (\<lambda>t. t\<lparr>step_UserMessage := Some m\<rparr>)) s)
           in case fileContentOrEmpty env s1 (step_LogStartIdx st) (ts_logSize s1) of
                Ok logs \<Rightarrow> upd_run (update_current_step (\<lambda>t. t\<lparr>step_SystemMessage := Some logs\<rparr>)) s1
              | Err _ \<Rightarrow> s1
              | Panic m \<Rightarrow> crash m s1))"

text \<open>
  \<^verbatim>\<open>logwrap.Write\<close>: append to the file, then count the bytes and run the callback, which
  \<^verbatim>\<open>assignOutput\<close> sets to \<^verbatim>\<open>setCurrentStepMessage(nil); commitStatus()\<close>. A failed write leaves the
  bytes it wrote in the file and does neither.
\<close>

definition logwrap_Write :: "tf_env \<Rightarrow> string \<Rightarrow> tf_state \<Rightarrow> tf_state" where
  "logwrap_Write env p s =
     (case env_logWriteError env (ts_trace s) p of
        Some n \<Rightarrow> s\<lparr>ts_logFile := ts_logFile s @ take n p, ts_trace := ts_trace s @ [LogWrite p]\<rparr>
      | None \<Rightarrow>
          (let s1 = s\<lparr>ts_logFile := ts_logFile s @ p, ts_logSize := ts_logSize s + length p,
                      ts_trace := ts_trace s @ [LogWrite p]\<rparr>
           in if ts_onWrite s1 then commitStatus (setCurrentStepMessage env None s1) else s1))"

definition PrintlnToUpdateLogs :: "tf_env \<Rightarrow> string \<Rightarrow> tf_state \<Rightarrow> tf_state" where
  "PrintlnToUpdateLogs env m s = logwrap_Write env (m @ [LF]) s"

definition printUpdate :: "tf_env \<Rightarrow> string \<Rightarrow> unit comp" where
  "printUpdate env m = modify (PrintlnToUpdateLogs env m)"

text \<open>A call to the outside: it is recorded and its result returned.\<close>

definition sys :: "tf_env \<Rightarrow> tf_call \<Rightarrow> unit comp" where
  "sys env c s =
     (let s1 = s\<lparr>ts_trace := ts_trace s @ [Called c]\<rparr> in (env_call env (ts_trace s1) c, s1))"

text \<open>A terraform command: like \<open>sys\<close>, and every chunk of its output is logged.\<close>

definition invoke :: "tf_env \<Rightarrow> tf_call \<Rightarrow> unit comp" where
  "invoke env c s =
     (let s1 = s\<lparr>ts_trace := ts_trace s @ [Called c]\<rparr>
      in (env_call env (ts_trace s1) c, fold (logwrap_Write env) (env_output env (ts_trace s1)) s1))"

definition query :: "tf_env \<Rightarrow> tf_query \<Rightarrow> string comp" where
  "query env q s = (env_query env (ts_trace s) q, s)"

text \<open>A failure that the program logs in its own words before it returns it.\<close>

definition log_err :: "tf_env \<Rightarrow> string \<Rightarrow> 'a comp \<Rightarrow> 'a comp" where
  "log_err env m c = attempt c (\<lambda>r. case r of
       Ok a \<Rightarrow> ret a
     | Err e \<Rightarrow> bnd (printUpdate env m) (\<lambda>_. throw e)
     | Panic p \<Rightarrow> panic p)"

text \<open>A deferred call whose error is dropped: it runs whatever the function returns.\<close>

definition deferred :: "unit comp \<Rightarrow> 'a comp \<Rightarrow> 'a comp" where
  "deferred d c s = (case c s of (r, s1) \<Rightarrow> (r, snd (d s1)))"

section \<open>Steps\<close>

definition cmd_firstStep :: "tf_state \<Rightarrow> tf_state" where
  "cmd_firstStep s = s\<lparr>ts_runStatus := snd (firstStep (ts_runStatus s))\<rparr>"

definition setCurrentStepStatus :: "execution_status \<Rightarrow> tf_state \<Rightarrow> tf_state" where
  "setCurrentStepStatus e = upd_run (update_current_step (\<lambda>t. t\<lparr>step_Status := e\<rparr>))"

definition cmd_nextStep :: "run_info \<Rightarrow> tf_state \<Rightarrow> tf_state" where
  "cmd_nextStep ri s =
     (if ri_asyncRun ri then s
      else
        let s1 = upd_run (update_current_step (\<lambda>t. t\<lparr>step_Status := SUCCEEDED\<rparr>)) s;
            (r, rs) = status_nextStep (ts_runStatus s1);
            s2 = s1\<lparr>ts_runStatus := rs\<rparr>
        in case r of
             Ok _ \<Rightarrow> upd_run (update_current_step
                       (\<lambda>t. t\<lparr>step_Status := IN_PROGRESS, step_LogStartIdx := ts_logSize s2\<rparr>)) s2
           | _ \<Rightarrow> s2)"

definition setRunStatus :: "execution_status \<Rightarrow> tf_state \<Rightarrow> tf_state" where
  "setRunStatus e = upd_run (\<lambda>r. r\<lparr>run_Status := e\<rparr>)"

definition startRun :: "tf_state \<Rightarrow> tf_state" where
  "startRun s = commitStatus (setRunStatus IN_PROGRESS (cmd_firstStep s))"

definition advanceStep :: "tf_env \<Rightarrow> run_info \<Rightarrow> string option \<Rightarrow> tf_state \<Rightarrow> tf_state" where
  "advanceStep env ri userMessage s =
     commitStatus (cmd_nextStep ri (setCurrentStepMessage env userMessage s))"

definition completeRun :: "tf_env \<Rightarrow> string option \<Rightarrow> tf_state \<Rightarrow> tf_state" where
  "completeRun env userMessage s =
     commitStatus (setRunStatus SUCCEEDED (setCurrentStepStatus SUCCEEDED
       (setCurrentStepMessage env userMessage s)))"

text \<open>The user-facing text of a failure; \<open>E2 80 94\<close> is the dash of the Go literal.\<close>

definition failure_text :: "string \<Rightarrow> string" where
  "failure_text t =
     (if HasPrefix t ''exit status ''
      then ''command failed ('' @ t @ '') '' @ [CHR 0xE2, CHR 0x80, CHR 0x94]
           @ '' check the step logs above for error details.''
      else t)"

definition timeout_text :: "run_info \<Rightarrow> string" where
  "timeout_text ri =
     ''execution step stopped, because it exceeded the configured timeout of ''
     @ itoa (ri_timeoutMins ri) @ '' minutes''"

text \<open>A timeout or a cancellation of the run's context replaces the message and is logged, too.\<close>

definition context_message :: "tf_env \<Rightarrow> run_info \<Rightarrow> string \<Rightarrow> tf_state \<Rightarrow> string \<times> tf_state" where
  "context_message env ri msgText s =
     (if env_ctxErr env (ts_trace s) = Some DeadlineExceeded
      then (timeout_text ri, PrintlnToUpdateLogs env (timeout_text ri) s)
      else if env_ctxErr env (ts_trace s) = Some Canceled
      then (let m = ''execution step cancelled: '' @ env_ctxCause env (ts_trace s)
            in (m, PrintlnToUpdateLogs env m s))
      else (msgText, s))"

definition failWithUserMsg ::
  "tf_env \<Rightarrow> run_info \<Rightarrow> go_error \<Rightarrow> string option \<Rightarrow> tf_state \<Rightarrow> tf_state" where
  "failWithUserMsg env ri err overrideUserMsg s =
     (let s1 = upd_run failRunAndNotFinishedSteps s
      in case currentStepStatus (ts_runStatus s1) of
           None \<Rightarrow> commitStatus (setCurrentStepMessage env None s1)
         | Some _ \<Rightarrow>
             let msg1 = failure_text (error_text err);
                 (msg2, s2) = context_message env ri msg1 (PrintlnToUpdateLogs env msg1 s1);
                 userMsg = (case overrideUserMsg of Some m \<Rightarrow> m | None \<Rightarrow> msg2)
             in commitStatus (setCurrentStepMessage env (Some userMsg) s2))"

definition cmd_fail :: "tf_env \<Rightarrow> run_info \<Rightarrow> go_error \<Rightarrow> tf_state \<Rightarrow> tf_state" where
  "cmd_fail env ri err = failWithUserMsg env ri err None"

text \<open>
  The shape \<^verbatim>\<open>if err := m; err != nil { tfcmd.fail(err); return }\<close> of the \<^verbatim>\<open>execute\<close> methods. A panic
  ends the process.
\<close>

definition or_fail ::
  "(go_error \<Rightarrow> tf_state \<Rightarrow> tf_state) \<Rightarrow> 'a comp \<Rightarrow> ('a \<Rightarrow> tf_state \<Rightarrow> tf_state) \<Rightarrow> tf_state \<Rightarrow> tf_state" where
  "or_fail h m k s =
     (case m s of (Ok a, s') \<Rightarrow> k a s' | (Err e, s') \<Rightarrow> h e s' | (Panic p, s') \<Rightarrow> crash p s')"

end
