(* ===== verification/TfInvariants.thy ===== *)
theory TfInvariants
  imports TfContext
begin

text \<open>
  The invariant of a running command. \<open>consistent\<close> says what a reported status may look like;
  \<open>phase n k\<close> says that a command with \<open>n\<close> steps is in step \<open>k\<close>, that the log offsets are in
  range and that everything published so far was consistent. The lemmas show how the operations of
  \<^verbatim>\<open>TfContext\<close> move between phases.

  Most of what a command does between two steps must not disturb any of this. The locale
  \<open>tf_frame\<close> states what a property of the state has to promise (it survives a write to the log,
  a recorded call that is not one of the commands proper, and the two flags); every computation
  built from those is shown once, inside the locale, to keep such a property. The properties are
  \<open>live\<close> (in a phase, nothing but progress published) and \<open>within A\<close> (and of the commands proper only
  those in \<open>A\<close> called).
\<close>

section \<open>The invariant\<close>

definition consistent :: "run_status \<Rightarrow> bool" where
  "consistent r \<longleftrightarrow> index_ok r \<and>
     (case run_Status r of
        IN_PROGRESS \<Rightarrow> steps_ordered r
      | FAILED \<Rightarrow> steps_failed_from_current r
      | SUCCEEDED \<Rightarrow> list_all (\<lambda>st. step_Status st = SUCCEEDED) (run_Steps r)
      | _ \<Rightarrow> False)"

fun published :: "history \<Rightarrow> run_status list" where
  "published [] = []"
| "published (Published r # es) = r # published es"
| "published (LogWrite p # es) = published es"
| "published (Called c # es) = published es"

fun calls :: "history \<Rightarrow> tf_call list" where
  "calls [] = []"
| "calls (Published r # es) = calls es"
| "calls (LogWrite p # es) = calls es"
| "calls (Called c # es) = c # calls es"

definition log_ok :: "tf_state \<Rightarrow> bool" where
  "log_ok s \<longleftrightarrow> ts_logSize s \<le> length (ts_logFile s) \<and>
     list_all (\<lambda>st. step_LogStartIdx st \<le> ts_logSize s) (run_Steps (ts_runStatus s))"

text \<open>The reports published so far, and the status as it stands, only ever made progress.\<close>

definition progressing :: "tf_state \<Rightarrow> bool" where
  "progressing s \<longleftrightarrow> sorted_wrt run_le (published (ts_trace s) @ [ts_runStatus s])"

definition sound :: "tf_state \<Rightarrow> bool" where
  "sound s \<longleftrightarrow> ts_crashed s = None \<and> log_ok s \<and> consistent (ts_runStatus s) \<and>
     list_all consistent (published (ts_trace s)) \<and> progressing s"

definition at_status :: "execution_status \<Rightarrow> nat \<Rightarrow> nat \<Rightarrow> tf_state \<Rightarrow> bool" where
  "at_status e n k s \<longleftrightarrow> sound s \<and> run_Status (ts_runStatus s) = e \<and>
     length (run_Steps (ts_runStatus s)) = n \<and> run_CurrentStepIndex (ts_runStatus s) = int k"

abbreviation phase :: "nat \<Rightarrow> nat \<Rightarrow> tf_state \<Rightarrow> bool" where
  "phase \<equiv> at_status IN_PROGRESS"

text \<open>How a command ends: the last published status is the current one, and it is terminal.\<close>

definition ended :: "execution_status \<Rightarrow> nat \<Rightarrow> tf_state \<Rightarrow> bool" where
  "ended e n s \<longleftrightarrow> sound s \<and> run_Status (ts_runStatus s) = e \<and>
     length (run_Steps (ts_runStatus s)) = n \<and> ts_reportStatus s = ts_runStatus s \<and>
     published (ts_trace s) \<noteq> [] \<and> last (published (ts_trace s)) = ts_runStatus s"

lemma progressing_step:
  assumes "progressing s" "run_le (ts_runStatus s) (ts_runStatus t)" "published (ts_trace t) = published (ts_trace s)"
  shows "progressing t"
  using assms by (auto simp: progressing_def sorted_wrt_append intro: run_le_trans)

text \<open>A computation that stays in its phase, whatever it returns.\<close>

definition keeps :: "(tf_state \<Rightarrow> bool) \<Rightarrow> 'a comp \<Rightarrow> bool" where
  "keeps P m \<longleftrightarrow> (\<forall>s. P s \<longrightarrow> P (snd (m s)))"

named_theorems keeps_intros \<open>computations that keep a phase\<close>

section \<open>History\<close>

lemma published_append [simp]: "published (xs @ ys) = published xs @ published ys"
  by (induction xs rule: published.induct) auto

lemma calls_append [simp]: "calls (xs @ ys) = calls xs @ calls ys"
  by (induction xs rule: calls.induct) auto

section \<open>Step messages\<close>

text \<open>Setting a message changes the messages of the current step and nothing else.\<close>

definition message_only :: "(step_status \<Rightarrow> step_status) \<Rightarrow> bool" where
  "message_only g \<longleftrightarrow> (\<forall>t. step_Name (g t) = step_Name t \<and> step_DisplayName (g t) = step_DisplayName t \<and>
     step_Status (g t) = step_Status t \<and> step_Outputs (g t) = step_Outputs t \<and>
     step_LogStartIdx (g t) = step_LogStartIdx t)"

lemma message_onlyD:
  "message_only g \<Longrightarrow> step_Status (g t) = step_Status t"
  "message_only g \<Longrightarrow> step_LogStartIdx (g t) = step_LogStartIdx t"
  "message_only g \<Longrightarrow> step_Outputs (g t) = step_Outputs t"
  "message_only g \<Longrightarrow> step_Name (g t) = step_Name t"
  by (simp_all add: message_only_def)

lemma update_current_step_comp:
  "update_current_step f (update_current_step g r) = update_current_step (f \<circ> g) r"
  by (auto simp: update_current_step_def currentStepStatus_def)

lemma list_all_update:
  "list_all P (run_Steps r) \<Longrightarrow> (\<And>t. P t \<Longrightarrow> P (g t)) \<Longrightarrow>
   list_all P (run_Steps (update_current_step g r))"
  by (auto simp: list_all_length update_current_step_nth)

lemma message_nth:
  "message_only g \<Longrightarrow> i < length (run_Steps r) \<Longrightarrow>
   step_Status (run_Steps (update_current_step g r) ! i) = step_Status (run_Steps r ! i)"
  by (simp add: update_current_step_nth message_onlyD)

lemma consistent_message: "message_only g \<Longrightarrow> consistent (update_current_step g r) = consistent r"
proof -
  assume g: "message_only g"
  have later: "run_Steps (update_current_step g r) ! i = run_Steps r ! i"
    if "i < length (run_Steps r)" "int i > run_CurrentStepIndex r" for i
    using that by (simp add: update_current_step_nth)
  have "steps_failed_from_current (update_current_step g r) = steps_failed_from_current r"
    by (simp add: steps_failed_from_current_def message_nth [OF g] later cong: imp_cong)
  moreover have "list_all (\<lambda>st. step_Status st = SUCCEEDED) (run_Steps (update_current_step g r)) =
      list_all (\<lambda>st. step_Status st = SUCCEEDED) (run_Steps r)"
    by (simp add: list_all_length message_nth [OF g] cong: imp_cong)
  moreover have "steps_ordered (update_current_step g r) = steps_ordered r"
    by (rule steps_ordered_update) (rule message_onlyD(1) [OF g])
  ultimately show ?thesis by (simp add: consistent_def cong: execution_status.case_cong)
qed

lemma log_ok_message: "message_only g \<Longrightarrow> log_ok s \<Longrightarrow> log_ok (upd_run (update_current_step g) s)"
  by (auto simp: log_ok_def upd_run_def message_onlyD intro!: list_all_update)

lemma setCurrentStepMessage_shape:
  assumes "log_ok s"
  obtains g where "message_only g" "\<And>t. step_UserMessage (g t) = (if um = None then step_UserMessage t else um)"
    "setCurrentStepMessage env um s = upd_run (update_current_step g) s"
proof (cases "currentStepStatus (ts_runStatus s)")
  case None
  let ?g = "\<lambda>t. t\<lparr>step_UserMessage := (if um = None then step_UserMessage t else um)\<rparr>"
  show ?thesis
    by (rule that [of ?g])
      (use None in \<open>auto simp: message_only_def setCurrentStepMessage_def upd_run_def update_current_step_def\<close>)
next
  case (Some st)
  then have mem: "st \<in> set (run_Steps (ts_runStatus s))"
    by (auto simp: currentStepStatus_def split: if_splits)
  then have le: "step_LogStartIdx st \<le> ts_logSize s" "ts_logSize s \<le> length (ts_logFile s)"
    using assms by (auto simp: log_ok_def list_all_iff)
  define s1 where "s1 = (case um of None \<Rightarrow> s
      | Some m \<Rightarrow> upd_run (update_current_step (\<lambda>t. t\<lparr>step_UserMessage := Some m\<rparr>)) s)"
  have s1: "ts_logSize s1 = ts_logSize s" "ts_logFile s1 = ts_logFile s" "ts_trace s1 = ts_trace s"
    by (auto simp: s1_def upd_run_def split: option.splits)
  have "\<exists>logs. fileContentOrEmpty env s1 (step_LogStartIdx st) (ts_logSize s1) = Ok logs"
    using le s1 by (simp add: fileContentOrEmpty_def)
  then obtain logs where logs: "fileContentOrEmpty env s1 (step_LogStartIdx st) (ts_logSize s1) = Ok logs" ..
  have eq: "setCurrentStepMessage env um s =
      upd_run (update_current_step (\<lambda>t. t\<lparr>step_SystemMessage := Some logs\<rparr>)) s1"
    using Some logs by (simp add: setCurrentStepMessage_def s1_def Let_def)
  let ?g = "\<lambda>t. (if um = None then t else t\<lparr>step_UserMessage := um\<rparr>)\<lparr>step_SystemMessage := Some logs\<rparr>"
  have "message_only ?g" by (simp add: message_only_def)
  moreover have "setCurrentStepMessage env um s = upd_run (update_current_step ?g) s"
    unfolding eq s1_def
    by (cases um) (simp_all add: upd_run_def update_current_step_comp comp_def)
  ultimately show ?thesis by (intro that [of ?g]) auto
qed

section \<open>Operations and the invariant\<close>

lemma upd_run_simps [simp]:
  "ts_runStatus (upd_run f s) = f (ts_runStatus s)" "ts_reportStatus (upd_run f s) = ts_reportStatus s"
  "ts_logFile (upd_run f s) = ts_logFile s" "ts_logSize (upd_run f s) = ts_logSize s"
  "ts_onWrite (upd_run f s) = ts_onWrite s" "ts_useWorkspaces (upd_run f s) = ts_useWorkspaces s"
  "ts_trace (upd_run f s) = ts_trace s"
  "ts_crashed (upd_run f s) = ts_crashed s"
  by (simp_all add: upd_run_def)

lemma commitStatus_simps [simp]:
  "ts_runStatus (commitStatus s) = ts_runStatus s" "ts_reportStatus (commitStatus s) = ts_runStatus s"
  "ts_logFile (commitStatus s) = ts_logFile s" "ts_logSize (commitStatus s) = ts_logSize s"
  "ts_onWrite (commitStatus s) = ts_onWrite s" "ts_useWorkspaces (commitStatus s) = ts_useWorkspaces s"
  "ts_crashed (commitStatus s) = ts_crashed s"
  "ts_trace (commitStatus s) = ts_trace s @ [Published (ts_runStatus s)]"
  by (simp_all add: commitStatus_def publishStatus_def)

lemma sound_commit: "sound s \<Longrightarrow> sound (commitStatus s)"
  by (auto simp: sound_def log_ok_def progressing_def sorted_wrt_append)

lemma sound_log_ok: "sound s \<Longrightarrow> log_ok s"
  by (simp add: sound_def)

text \<open>Only the status itself and the log offsets of its steps matter for a change of the status.\<close>

lemma sound_upd:
  assumes "sound s" "consistent r" "run_le (ts_runStatus s) r"
    "list_all (\<lambda>st. step_LogStartIdx st \<le> ts_logSize s) (run_Steps r)"
  shows "sound (s\<lparr>ts_runStatus := r\<rparr>)"
  using assms progressing_step [of s "s\<lparr>ts_runStatus := r\<rparr>"] by (simp add: sound_def log_ok_def)

lemma message_run_le: "message_only g \<Longrightarrow> run_le r (update_current_step g r)"
  by (rule run_le_update) (simp add: step_le_def message_only_def)

lemma sound_message: "message_only g \<Longrightarrow> sound s \<Longrightarrow> sound (upd_run (update_current_step g) s)"
  unfolding upd_run_def
  by (rule sound_upd)
    (auto simp: sound_def consistent_message log_ok_def message_run_le message_onlyD intro!: list_all_update)

lemma sound_setMessage: "sound s \<Longrightarrow> sound (setCurrentStepMessage env um s)"
  by (metis setCurrentStepMessage_shape sound_def sound_message)

lemma setMessage_frame:
  assumes "log_ok s"
  shows "ts_reportStatus (setCurrentStepMessage env um s) = ts_reportStatus s"
    "ts_trace (setCurrentStepMessage env um s) = ts_trace s"
    "ts_logSize (setCurrentStepMessage env um s) = ts_logSize s"
    "ts_logFile (setCurrentStepMessage env um s) = ts_logFile s"
    "ts_onWrite (setCurrentStepMessage env um s) = ts_onWrite s"
    "ts_useWorkspaces (setCurrentStepMessage env um s) = ts_useWorkspaces s"
    "run_Status (ts_runStatus (setCurrentStepMessage env um s)) = run_Status (ts_runStatus s)"
    "run_CurrentStepIndex (ts_runStatus (setCurrentStepMessage env um s)) = run_CurrentStepIndex (ts_runStatus s)"
    "run_ChangesDetected (ts_runStatus (setCurrentStepMessage env um s)) = run_ChangesDetected (ts_runStatus s)"
    "length (run_Steps (ts_runStatus (setCurrentStepMessage env um s))) = length (run_Steps (ts_runStatus s))"
  by (rule setCurrentStepMessage_shape [OF assms, of um env], simp)+

lemma log_append_sound:
  "sound s \<Longrightarrow> sound (s\<lparr>ts_logFile := ts_logFile s @ p, ts_logSize := ts_logSize s + length p,
                      ts_trace := ts_trace s @ [LogWrite p]\<rparr>)"
  by (auto simp: sound_def log_ok_def list_all_iff progressing_def)

lemma sound_Write: "sound s \<Longrightarrow> sound (logwrap_Write env p s)"
proof -
  assume s: "sound s"
  then have "sound (s\<lparr>ts_logFile := ts_logFile s @ take n p, ts_trace := ts_trace s @ [LogWrite p]\<rparr>)" for n
    by (auto simp: sound_def log_ok_def progressing_def)
  then show ?thesis using s
    by (auto simp: logwrap_Write_def Let_def split: option.splits
        intro!: sound_commit sound_setMessage log_append_sound)
qed

lemma Write_frame:
  assumes "sound s"
  shows "run_Status (ts_runStatus (logwrap_Write env p s)) = run_Status (ts_runStatus s)"
    "run_CurrentStepIndex (ts_runStatus (logwrap_Write env p s)) = run_CurrentStepIndex (ts_runStatus s)"
    "run_ChangesDetected (ts_runStatus (logwrap_Write env p s)) = run_ChangesDetected (ts_runStatus s)"
    "length (run_Steps (ts_runStatus (logwrap_Write env p s))) = length (run_Steps (ts_runStatus s))"
    "ts_useWorkspaces (logwrap_Write env p s) = ts_useWorkspaces s"
  using log_append_sound [OF assms, unfolded sound_def]
  by (auto simp: logwrap_Write_def Let_def setMessage_frame split: option.splits)

lemma phase_Write: "at_status e n k s \<Longrightarrow> at_status e n k (logwrap_Write env p s)"
  by (simp add: at_status_def sound_Write Write_frame)

lemma phase_PrintlnToUpdateLogs: "at_status e n k s \<Longrightarrow> at_status e n k (PrintlnToUpdateLogs env p s)"
  by (simp add: PrintlnToUpdateLogs_def phase_Write)

lemma phase_fold_Write: "at_status e n k s \<Longrightarrow> at_status e n k (fold (logwrap_Write env) ps s)"
  by (induction ps arbitrary: s) (auto simp: phase_Write)

text \<open>Changes that touch neither the status, the log nor the history keep the phase.\<close>

lemma phase_frame:
  assumes "at_status e n k s" "ts_runStatus t = ts_runStatus s" "ts_logFile t = ts_logFile s"
    "ts_logSize t = ts_logSize s" "published (ts_trace t) = published (ts_trace s)"
    "ts_crashed t = ts_crashed s"
  shows "at_status e n k t"
  using assms by (simp add: at_status_def sound_def log_ok_def progressing_def)

section \<open>Computations that keep a phase\<close>

lemma keepsD: "keeps P m \<Longrightarrow> P s \<Longrightarrow> m s = (r, t) \<Longrightarrow> P t"
  by (metis keeps_def snd_conv)

lemma keeps_ret [keeps_intros]: "keeps P (ret a)"
  and keeps_throw [keeps_intros]: "keeps P (throw e)"
  and keeps_panic [keeps_intros]: "keeps P (panic m)"
  and keeps_gets [keeps_intros]: "keeps P (gets f)"
  by (simp_all add: keeps_def ret_def throw_def panic_def gets_def)

lemma keeps_bnd [keeps_intros]: "keeps P m \<Longrightarrow> (\<And>a. keeps P (k a)) \<Longrightarrow> keeps P (bnd m k)"
  by (auto simp: keeps_def bnd_def split: prod.splits res.splits)

lemma keeps_attempt [keeps_intros]: "keeps P m \<Longrightarrow> (\<And>a. keeps P (k a)) \<Longrightarrow> keeps P (attempt m k)"
  by (auto simp: keeps_def attempt_def split: prod.splits res.splits)

lemma keeps_if [keeps_intros]: "(b \<Longrightarrow> keeps P m) \<Longrightarrow> (\<not> b \<Longrightarrow> keeps P m') \<Longrightarrow> keeps P (if b then m else m')"
  by simp

lemma keeps_option [keeps_intros]:
  "keeps P m \<Longrightarrow> (\<And>a. keeps P (f a)) \<Longrightarrow> keeps P (case x of None \<Rightarrow> m | Some a \<Rightarrow> f a)"
  by (simp split: option.splits)

lemma keeps_res [keeps_intros]:
  "(\<And>a. keeps P (f a)) \<Longrightarrow> (\<And>e. keeps P (g e)) \<Longrightarrow> (\<And>m. keeps P (h m)) \<Longrightarrow>
   keeps P (case x of Ok a \<Rightarrow> f a | Err e \<Rightarrow> g e | Panic m \<Rightarrow> h m)"
  by (simp split: res.splits)

lemma keeps_modify: "(\<And>s. P s \<Longrightarrow> P (f s)) \<Longrightarrow> keeps P (modify f)"
  by (simp add: keeps_def modify_def)

lemma keeps_query [keeps_intros]: "keeps P (query env q)"
  by (simp add: keeps_def query_def)

lemma keeps_liftres [keeps_intros]: "keeps P (liftres r)"
  by (simp add: keeps_def liftres_def)

lemma keeps_deferred [keeps_intros]: "keeps P d \<Longrightarrow> keeps P c \<Longrightarrow> keeps P (deferred d c)"
  by (auto simp: keeps_def deferred_def split: prod.splits res.splits)

section \<open>The frame of a command\<close>

text \<open>The calls that prepare a command, as opposed to the ones that carry it out.\<close>

fun prep_call :: "tf_call \<Rightarrow> bool" where
  "prep_call (CallApply _) = False"
| "prep_call (CallPlan _) = False"
| "prep_call (CallDestroy _) = False"
| "prep_call CallOutput = False"
| "prep_call (CallDownload _ _) = False"
| "prep_call (CallUpload _ _) = False"
| "prep_call _ = True"

lemma prep_calls [keeps_intros]:
  "prep_call (CallWriteFile p t)" "prep_call (CallOpenFile p)" "prep_call (CallClose p)"
  "prep_call (CallMkdir p)" "prep_call (CallMkdirAll p)" "prep_call (CallRename p q)"
  "prep_call (CallRemove p)" "prep_call (CallRemoveAll p)" "prep_call (CallSymlink p q)"
  "prep_call (CallBash p t)" "prep_call (CallPlainClone u p tr)" "prep_call (CallCheckout h)"
  "prep_call (CallInstall v p)" "prep_call (CallNewTerraform p q)" "prep_call (CallDownloadTofu v)"
  "prep_call (CallSetEnv e)" "prep_call CallInit" "prep_call CallWorkspaceList"
  "prep_call (CallWorkspaceSelect w)" "prep_call (CallWorkspaceNew w)"
  "prep_call (CallWorkspaceDelete w)" "prep_call (CallScript as es i)"
  by simp_all

definition record_call :: "tf_call \<Rightarrow> tf_state \<Rightarrow> tf_state" where
  "record_call c s = s\<lparr>ts_trace := ts_trace s @ [Called c]\<rparr>"

locale tf_frame =
  fixes P :: "tf_state \<Rightarrow> bool"
  assumes P_Write: "P s \<Longrightarrow> P (logwrap_Write env p s)"
    and P_call: "prep_call c \<Longrightarrow> P s \<Longrightarrow> P (record_call c s)"
    and P_onWrite: "P s \<Longrightarrow> P (s\<lparr>ts_onWrite := b\<rparr>)"
    and P_useWorkspaces: "P s \<Longrightarrow> P (s\<lparr>ts_useWorkspaces := b\<rparr>)"
begin

lemma P_fold_Write: "P s \<Longrightarrow> P (fold (logwrap_Write env) ps s)"
  by (induction ps arbitrary: s) (auto simp: P_Write)

lemma keeps_printUpdate [keeps_intros]: "keeps P (printUpdate env m)"
  unfolding printUpdate_def PrintlnToUpdateLogs_def by (rule keeps_modify) (rule P_Write)

lemma keeps_sys [keeps_intros]: "prep_call c \<Longrightarrow> keeps P (sys env c)"
  using P_call by (auto simp: keeps_def sys_def Let_def record_call_def)

lemma keeps_invoke [keeps_intros]: "prep_call c \<Longrightarrow> keeps P (invoke env c)"
  using P_call by (auto simp: keeps_def invoke_def Let_def record_call_def intro!: P_fold_Write)

lemma keeps_log_err [keeps_intros]: "keeps P c \<Longrightarrow> keeps P (log_err env m c)"
  unfolding log_err_def by (intro keeps_intros)

end

text \<open>
  \<open>live\<close>: in a phase, and every status published so far says that the run is in progress.
  \<open>within A\<close>: and of the commands proper only those in \<open>A\<close> have been called.
\<close>

definition live :: "nat \<Rightarrow> nat \<Rightarrow> tf_state \<Rightarrow> bool" where
  "live n k s \<longleftrightarrow> phase n k s \<and> list_all (\<lambda>r. run_Status r = IN_PROGRESS) (published (ts_trace s))"

definition within :: "(tf_call \<Rightarrow> bool) \<Rightarrow> nat \<Rightarrow> nat \<Rightarrow> tf_state \<Rightarrow> bool" where
  "within A n k s \<longleftrightarrow> live n k s \<and> list_all (\<lambda>c. prep_call c \<or> A c) (calls (ts_trace s))"

abbreviation running :: "nat \<Rightarrow> nat \<Rightarrow> tf_state \<Rightarrow> bool" where
  "running \<equiv> within (\<lambda>_. False)"

text \<open>What a write to the log adds to the history: itself, and the status as it stands.\<close>

lemma Write_history:
  assumes "sound s"
  shows "calls (ts_trace (logwrap_Write env p s)) = calls (ts_trace s)"
    "list_all (\<lambda>r. run_Status r = run_Status (ts_runStatus s)) rs \<Longrightarrow>
     published (ts_trace s) = rs \<Longrightarrow>
     list_all (\<lambda>r. run_Status r = run_Status (ts_runStatus s)) (published (ts_trace (logwrap_Write env p s)))"
  using log_append_sound [OF assms, unfolded sound_def]
  by (auto simp: logwrap_Write_def Let_def setMessage_frame split: option.splits)

lemma live_sound: "live n k s \<Longrightarrow> sound s"
  by (simp add: live_def at_status_def)

lemma live_Write: "live n k s \<Longrightarrow> live n k (logwrap_Write env p s)"
  using Write_history(2) [OF live_sound, of n k s "published (ts_trace s)" env p]
    phase_Write [of IN_PROGRESS n k s env p]
  by (auto simp: live_def at_status_def)

lemma live_frame:
  assumes "live n k s" "ts_runStatus t = ts_runStatus s" "ts_logFile t = ts_logFile s"
    "ts_logSize t = ts_logSize s" "published (ts_trace t) = published (ts_trace s)"
    "ts_crashed t = ts_crashed s"
  shows "live n k t"
  using assms phase_frame [of IN_PROGRESS n k s t] by (simp add: live_def)

interpretation live: tf_frame "live n k" for n k
  by unfold_locales (simp add: live_Write, auto simp: record_call_def elim!: live_frame)

interpretation within: tf_frame "within A n k" for A n k
  by unfold_locales
    (auto simp: within_def record_call_def live_Write Write_history(1) [OF live_sound] elim!: live_frame)

text \<open>A command proper of \<open>A\<close> stays within \<open>A\<close>; any call at all keeps the run live.\<close>

lemma within_live: "within A n k s \<Longrightarrow> live n k s"
  by (simp add: within_def)

lemma within_mono: "within A n k s \<Longrightarrow> (\<And>c. A c \<Longrightarrow> B c) \<Longrightarrow> within B n k s"
  by (auto simp: within_def list_all_iff)

lemma live_within: "live n k s = within (\<lambda>_. True) n k s"
  by (simp add: within_def list_all_iff)

lemma within_record: "A c \<Longrightarrow> within A n k s \<Longrightarrow> within A n k (record_call c s)"
  by (auto simp: within_def record_call_def elim: live_frame)

lemma within_invoke: "A c \<Longrightarrow> keeps (within A n k) (invoke env c)"
  using within_record [of A c n k]
  by (auto simp: keeps_def invoke_def Let_def record_call_def intro!: within.P_fold_Write)

lemma within_sys: "A c \<Longrightarrow> keeps (within A n k) (sys env c)"
  using within_record [of A c n k] by (auto simp: keeps_def sys_def Let_def record_call_def)

lemma live_invoke: "keeps (live n k) (invoke env c)"
  and live_sys: "keeps (live n k) (sys env c)"
  using within_invoke [of "\<lambda>_. True" c n k env] within_sys [of "\<lambda>_. True" c n k env]
  by (simp_all add: keeps_def live_within)

section \<open>Steps of a command\<close>

text \<open>While the run is under way, the current step has not ended: ending it is progress.\<close>

lemma under_way_le:
  assumes "consistent r" "run_Status r = IN_PROGRESS" "currentStepStatus r = Some st"
    "\<And>t. step_Name (g t) = step_Name t" "\<And>t. step_DisplayName (g t) = step_DisplayName t"
    "\<And>t. step_Status (g t) = e" "e \<noteq> PENDING"
  shows "step_le st (g st)"
proof -
  have "\<not> isTerminalState (step_Status st)"
    using assms(1-3) by (auto simp: consistent_def steps_ordered_def currentStepStatus_def split: if_splits)
  then show ?thesis using assms(4-7) by (cases "step_Status st") (auto simp: step_le_def status_le_def)
qed

text \<open>Going to the next step is progress: the current one succeeds and the next, pending one begins.\<close>

lemma run_le_advance:
  assumes "phase n k s" "Suc k < n"
    and "r1 = update_current_step (\<lambda>t. t\<lparr>step_Status := SUCCEEDED\<rparr>) (ts_runStatus s)"
    and "r2 = update_current_step (\<lambda>t. t\<lparr>step_Status := IN_PROGRESS, step_LogStartIdx := m\<rparr>)
      (r1\<lparr>run_CurrentStepIndex := int k + 1\<rparr>)"
  shows "run_le (ts_runStatus s) r2"
proof -
  have idx: "run_CurrentStepIndex r1 = int k" "length (run_Steps r1) = n" "run_Status r1 = IN_PROGRESS"
    using assms(1) by (auto simp: assms(3) at_status_def)
  have "run_le (ts_runStatus s) r1"
    unfolding assms(3) using assms(1) by (intro run_le_update under_way_le) (auto simp: at_status_def sound_def)
  moreover have "run_le r1 (r1\<lparr>run_CurrentStepIndex := int k + 1\<rparr>)"
    using idx by (simp add: run_le_def steps_le_def list_all2_refl step_le_def)
  moreover have "run_le (r1\<lparr>run_CurrentStepIndex := int k + 1\<rparr>) r2"
    unfolding assms(4)
  proof (rule run_le_update)
    fix st assume "currentStepStatus (r1\<lparr>run_CurrentStepIndex := int k + 1\<rparr>) = Some st"
    then have "st = run_Steps r1 ! Suc k" by (auto simp: currentStepStatus_def nat_add_distrib split: if_splits)
    then have "step_Status st = PENDING"
      using assms(1,2)
      by (auto simp: assms(3) update_current_step_nth at_status_def sound_def consistent_def steps_ordered_def)
    then show "step_le st (st\<lparr>step_Status := IN_PROGRESS, step_LogStartIdx := m\<rparr>)"
      by (simp add: step_le_def status_le_def)
  qed
  ultimately show ?thesis by (blast intro: run_le_trans)
qed

lemma advance_sync:
  assumes "phase n k s" "Suc k < n" "\<not> ri_asyncRun ri"
  shows "phase n (Suc k) (advanceStep env ri um s)"
proof -
  from assms(1) have s: "sound s" "log_ok s" by (auto simp: at_status_def sound_def)
  obtain g where g: "message_only g"
    and eq: "setCurrentStepMessage env um s = upd_run (update_current_step g) s"
    using setCurrentStepMessage_shape [OF s(2)] by metis
  define s1 where "s1 = setCurrentStepMessage env um s"
  have s1: "phase n k s1"
    using assms(1) s by (simp add: at_status_def s1_def sound_setMessage setMessage_frame)
  define r1 where "r1 = update_current_step (\<lambda>t. t\<lparr>step_Status := SUCCEEDED\<rparr>) (ts_runStatus s1)"
  define r2 where "r2 = update_current_step
      (\<lambda>t. t\<lparr>step_Status := IN_PROGRESS, step_LogStartIdx := ts_logSize s1\<rparr>)
      (r1\<lparr>run_CurrentStepIndex := int k + 1\<rparr>)"
  have next_eq: "cmd_nextStep ri s1 = s1\<lparr>ts_runStatus := r2\<rparr>"
    using assms(2,3) s1 by (simp add: cmd_nextStep_def status_nextStep_def at_status_def r1_def r2_def upd_run_def)
  have idx: "run_CurrentStepIndex r1 = int k" "length (run_Steps r1) = n" "run_Status r1 = IN_PROGRESS"
    using s1 by (auto simp: r1_def at_status_def)
  have ord: "steps_ordered r2"
    using s1 idx
    by (auto simp: steps_ordered_def r2_def r1_def update_current_step_nth at_status_def sound_def consistent_def)
  have "consistent r2"
    using ord idx assms(2) by (auto simp: consistent_def r2_def index_ok_def)
  moreover have "list_all (\<lambda>st. step_LogStartIdx st \<le> ts_logSize s1) (run_Steps r2)"
    using s1 by (auto simp: r2_def r1_def at_status_def sound_def log_ok_def intro!: list_all_update)
  moreover have "run_le (ts_runStatus s1) r2"
    by (rule run_le_advance [OF s1 assms(2) r1_def r2_def])
  ultimately have "sound (s1\<lparr>ts_runStatus := r2\<rparr>)"
    using s1 by (intro sound_upd) (auto simp: at_status_def)
  then have "phase n (Suc k) (s1\<lparr>ts_runStatus := r2\<rparr>)"
    using idx by (simp add: at_status_def r2_def)
  then have "phase n (Suc k) (commitStatus (s1\<lparr>ts_runStatus := r2\<rparr>))"
    by (simp add: at_status_def sound_commit)
  then show ?thesis by (simp add: advanceStep_def next_eq flip: s1_def)
qed

lemma advance_async:
  assumes "phase n k s" "ri_asyncRun ri"
  shows "phase n k (advanceStep env ri um s)"
proof -
  from assms(1) have s: "sound s" "log_ok s" by (auto simp: at_status_def sound_def)
  have "phase n k (setCurrentStepMessage env um s)"
    using assms(1) s by (simp add: at_status_def sound_setMessage setMessage_frame)
  then show ?thesis
    using assms(2) by (simp add: advanceStep_def cmd_nextStep_def at_status_def sound_commit)
qed

lemma complete_ended:
  assumes "phase n k s" "Suc k = n"
  shows "ended SUCCEEDED n (completeRun env um s)"
proof -
  from assms(1) have s: "sound s" "log_ok s" by (auto simp: at_status_def sound_def)
  define s1 where "s1 = setCurrentStepMessage env um s"
  have s1: "phase n k s1"
    using assms(1) s by (simp add: at_status_def s1_def sound_setMessage setMessage_frame)
  define r2 where "r2 = (update_current_step (\<lambda>t. t\<lparr>step_Status := SUCCEEDED\<rparr>) (ts_runStatus s1))
      \<lparr>run_Status := SUCCEEDED\<rparr>"
  have "list_all (\<lambda>st. step_Status st = SUCCEEDED) (run_Steps r2)"
    using s1 assms(2)
    by (auto simp: list_all_length r2_def update_current_step_nth at_status_def sound_def consistent_def
        steps_ordered_def) 
  then have "consistent r2"
    using s1 by (auto simp: consistent_def r2_def index_ok_def at_status_def sound_def)
  moreover have "list_all (\<lambda>st. step_LogStartIdx st \<le> ts_logSize s1) (run_Steps r2)"
    using s1 by (auto simp: r2_def at_status_def sound_def log_ok_def intro!: list_all_update)
  moreover have "run_le (ts_runStatus s1) r2"
  proof -
    have "run_le (ts_runStatus s1) (update_current_step (\<lambda>t. t\<lparr>step_Status := SUCCEEDED\<rparr>) (ts_runStatus s1))"
      using s1 by (intro run_le_update under_way_le) (auto simp: at_status_def sound_def)
    then show ?thesis using s1 by (auto simp: run_le_def r2_def steps_le_def at_status_def status_le_def)
  qed
  ultimately have "sound (s1\<lparr>ts_runStatus := r2\<rparr>)"
    using s1 by (intro sound_upd) (auto simp: at_status_def)
  then have "sound (commitStatus (s1\<lparr>ts_runStatus := r2\<rparr>))" by (rule sound_commit)
  moreover have "completeRun env um s = commitStatus (s1\<lparr>ts_runStatus := r2\<rparr>)"
    by (simp add: completeRun_def setRunStatus_def setCurrentStepStatus_def upd_run_def r2_def flip: s1_def)
  ultimately show ?thesis using s1 by (auto simp: ended_def r2_def at_status_def)
qed

text \<open>A failure ends the command as failed, in the step it happened in.\<close>

lemma at_status_setMessage: "at_status e n k s \<Longrightarrow> at_status e n k (setCurrentStepMessage env um s)"
  by (simp add: at_status_def sound_setMessage setMessage_frame [OF sound_log_ok])

lemma failRun_at:
  assumes "phase n k s"
  shows "at_status FAILED n k (upd_run failRunAndNotFinishedSteps s)"
proof -
  have "sound (upd_run failRunAndNotFinishedSteps s)"
    unfolding upd_run_def using assms
    by (intro sound_upd)
      (auto simp: at_status_def sound_def consistent_def steps_failed_failRun log_ok_def list_all_length
        failRun_nth intro: run_le_fail)
  then show ?thesis using assms by (simp add: at_status_def)
qed

lemma ended_commit:
  "at_status e n k s \<Longrightarrow> ended e n (commitStatus s) \<and> run_CurrentStepIndex (ts_runStatus (commitStatus s)) = int k"
  by (simp add: ended_def at_status_def sound_commit)

lemma context_message_at: "at_status e n k s \<Longrightarrow> at_status e n k (snd (context_message env ri m s))"
  by (simp add: context_message_def Let_def phase_PrintlnToUpdateLogs)

text \<open>What an operation adds to the history: reports with the run status \<open>e\<close>, and no calls.\<close>

definition adds :: "execution_status \<Rightarrow> tf_state \<Rightarrow> tf_state \<Rightarrow> bool" where
  "adds e s t \<longleftrightarrow> calls (ts_trace t) = calls (ts_trace s) \<and>
     (\<exists>rs. published (ts_trace t) = published (ts_trace s) @ rs \<and> list_all (\<lambda>r. run_Status r = e) rs)"

lemma adds_trans: "adds e s t \<Longrightarrow> adds e t u \<Longrightarrow> adds e s u"
  by (fastforce simp: adds_def)

lemma adds_refl: "ts_trace t = ts_trace s \<Longrightarrow> adds e s t"
  by (simp add: adds_def)

lemma adds_Write:
  assumes "at_status e n k s"
  shows "adds e s (logwrap_Write env p s)"
proof -
  from assms have "sound s" by (simp add: at_status_def)
  from sound_log_ok [OF log_append_sound [OF this]] assms show ?thesis
    by (auto simp: adds_def at_status_def logwrap_Write_def Let_def setMessage_frame split: option.splits)
qed

lemma adds_context_message: "at_status e n k s \<Longrightarrow> adds e s (snd (context_message env ri m s))"
  by (simp add: context_message_def Let_def PrintlnToUpdateLogs_def adds_Write adds_refl)

lemma fail_shape:
  assumes "phase n k s"
  shows "\<exists>m s2. failWithUserMsg env ri err um s = commitStatus (setCurrentStepMessage env m s2) \<and>
    at_status FAILED n k s2 \<and> adds FAILED s s2"
proof -
  define s1 where "s1 = upd_run failRunAndNotFinishedSteps s"
  have s1: "at_status FAILED n k s1" using failRun_at [OF assms] by (simp add: s1_def)
  then have "index_ok (ts_runStatus s1)" by (simp add: at_status_def sound_def consistent_def)
  then obtain st where st: "currentStepStatus (ts_runStatus s1) = Some st"
    using currentStepStatus_Some_iff by blast
  define msg where "msg = failure_text (error_text err)"
  define s' where "s' = PrintlnToUpdateLogs env msg s1"
  obtain m2 s2 where c: "context_message env ri msg s' = (m2, s2)" by fastforce
  have eq: "failWithUserMsg env ri err um s =
      commitStatus (setCurrentStepMessage env (Some (case um of Some m \<Rightarrow> m | None \<Rightarrow> m2)) s2)"
    using st c by (simp add: failWithUserMsg_def Let_def flip: s1_def msg_def s'_def)
  have s': "at_status FAILED n k s'" using s1 by (simp add: s'_def phase_PrintlnToUpdateLogs)
  have "adds FAILED s s1" by (simp add: adds_def s1_def)
  moreover have "adds FAILED s1 s'" using adds_Write [OF s1] by (simp add: s'_def PrintlnToUpdateLogs_def)
  moreover have "adds FAILED s' s2" using adds_context_message [OF s'] c by (metis snd_conv)
  ultimately have "adds FAILED s s2" by (blast intro: adds_trans)
  moreover have "at_status FAILED n k s2" using context_message_at [OF s'] c by (metis snd_conv)
  ultimately show ?thesis using eq by blast
qed

lemma fail_ended:
  assumes "phase n k s"
  shows "ended FAILED n (failWithUserMsg env ri err um s) \<and>
    run_CurrentStepIndex (ts_runStatus (failWithUserMsg env ri err um s)) = int k"
  using fail_shape [OF assms] ended_commit [OF at_status_setMessage] by metis

text \<open>The state in which \<^verbatim>\<open>execute\<close> is called: the steps are registered and none has started.\<close>

definition registered :: "nat \<Rightarrow> tf_state \<Rightarrow> bool" where
  "registered n s \<longleftrightarrow> 0 < n \<and> length (run_Steps (ts_runStatus s)) = n \<and>
     list_all (\<lambda>st. step_Status st = PENDING \<and> step_LogStartIdx st = 0) (run_Steps (ts_runStatus s)) \<and>
     ts_crashed s = None \<and> ts_logSize s \<le> length (ts_logFile s) \<and> published (ts_trace s) = []"

lemma startRun_phase: "registered n s \<Longrightarrow> phase n 0 (startRun s)"
  by (auto simp: registered_def at_status_def startRun_def sound_def setRunStatus_def cmd_firstStep_def
      firstStep_def upd_run_def log_ok_def consistent_def index_ok_def steps_ordered_def list_all_length
      progressing_def)

section \<open>The execute methods\<close>

text \<open>A step further, or, for an asynchronous run, in the only step there is.\<close>

definition step_no :: "run_info \<Rightarrow> nat \<Rightarrow> nat" where
  "step_no ri k = (if ri_asyncRun ri then 0 else k)"

definition steps_fit :: "run_info \<Rightarrow> nat \<Rightarrow> nat \<Rightarrow> bool" where
  "steps_fit ri n m \<longleftrightarrow> n = (if ri_asyncRun ri then 1 else m)"

lemma advance_phase:
  assumes "phase n (step_no ri k) s" "steps_fit ri n m" "Suc k < m"
  shows "phase n (step_no ri (Suc k)) (advanceStep env ri um s)"
  using assms advance_sync [of n k s ri env um] advance_async [of n 0 s ri env um]
  by (auto simp: step_no_def steps_fit_def split: if_splits)

lemma advance_history:
  assumes "log_ok s"
  shows "calls (ts_trace (advanceStep env ri um s)) = calls (ts_trace s)"
    "published (ts_trace (advanceStep env ri um s)) =
       published (ts_trace s) @ [ts_runStatus (advanceStep env ri um s)]"
  using setMessage_frame(2) [OF assms, of env um]
  by (simp_all add: advanceStep_def cmd_nextStep_def Let_def split: prod.splits res.splits)

lemma advance_live:
  assumes "live n (step_no ri k) s" "steps_fit ri n m" "Suc k < m"
  shows "live n (step_no ri (Suc k)) (advanceStep env ri um s)"
proof -
  have "phase n (step_no ri (Suc k)) (advanceStep env ri um s)"
    using assms advance_phase by (auto simp: live_def)
  then show ?thesis
    using assms(1) advance_history(2) [OF sound_log_ok [OF live_sound [OF assms(1)]], of env ri um]
    by (simp add: live_def at_status_def)
qed

lemma advance_within:
  assumes "within A n (step_no ri k) s" "steps_fit ri n m" "Suc k < m"
  shows "within A n (step_no ri (Suc k)) (advanceStep env ri um s)"
  using assms advance_live [of n ri k s m env um]
    advance_history(1) [OF sound_log_ok [OF live_sound], of n "step_no ri k" s env ri um]
  by (simp add: within_def)

lemma startRun_running: "registered n s \<Longrightarrow> calls (ts_trace s) = [] \<Longrightarrow> running n (step_no ri 0) (startRun s)"
  using startRun_phase [of n s]
  by (auto simp: within_def live_def registered_def step_no_def startRun_def setRunStatus_def
      cmd_firstStep_def at_status_def)

text \<open>
  \<open>reports_end e rs\<close>: the reports \<open>rs\<close> say that the run is in progress, then, from some point on to
  the last one, that it ended as \<open>e\<close>. \<open>done_ok n s\<close> is what every command promises: every report
  is consistent and makes progress over all earlier ones; and the command crashed, with every report
  saying that the run is in progress, or a terminal status is published last and no report after the
  first terminal one says anything else.
\<close>

definition reports_ok :: "run_status list \<Rightarrow> bool" where
  "reports_ok rs \<longleftrightarrow> list_all consistent rs \<and> sorted_wrt run_le rs"

definition reports_end :: "execution_status \<Rightarrow> run_status list \<Rightarrow> bool" where
  "reports_end e rs \<longleftrightarrow> dropWhile (\<lambda>r. run_Status r = IN_PROGRESS) rs \<noteq> [] \<and>
     list_all (\<lambda>r. run_Status r = e) (dropWhile (\<lambda>r. run_Status r = IN_PROGRESS) rs)"

definition done_ok :: "nat \<Rightarrow> tf_state \<Rightarrow> bool" where
  "done_ok n s \<longleftrightarrow> reports_ok (published (ts_trace s)) \<and>
     (ts_crashed s \<noteq> None \<and> list_all (\<lambda>r. run_Status r = IN_PROGRESS) (published (ts_trace s)) \<or>
      (\<exists>e \<in> {SUCCEEDED, FAILED}. ended e n s \<and> reports_end e (published (ts_trace s))))"

lemma sound_reports: "sound s \<Longrightarrow> reports_ok (published (ts_trace s))"
  by (simp add: sound_def progressing_def reports_ok_def sorted_wrt_append)

lemma ended_reports: "ended e n s \<Longrightarrow> reports_ok (published (ts_trace s))"
  by (simp add: ended_def sound_reports)

lemma reports_endI:
  assumes "list_all (\<lambda>r. run_Status r = IN_PROGRESS) as" "list_all (\<lambda>r. run_Status r = e) bs" "bs \<noteq> []"
    "e \<noteq> IN_PROGRESS"
  shows "reports_end e (as @ bs)"
proof -
  have "dropWhile (\<lambda>r. run_Status r = IN_PROGRESS) (as @ bs) = bs"
    using assms by (cases bs) (auto simp: list_all_iff)
  then show ?thesis using assms by (simp add: reports_end_def)
qed

lemma fail_reports:
  assumes "phase n k s"
  shows "\<exists>rs. published (ts_trace (failWithUserMsg env ri err um s)) = published (ts_trace s) @ rs \<and>
    list_all (\<lambda>r. run_Status r = FAILED) rs \<and> rs \<noteq> []"
    and fail_calls: "calls (ts_trace (failWithUserMsg env ri err um s)) = calls (ts_trace s)"
proof -
  obtain m s2 where eq: "failWithUserMsg env ri err um s = commitStatus (setCurrentStepMessage env m s2)"
      and s2: "at_status FAILED n k s2" "adds FAILED s s2"
    using fail_shape [OF assms] by blast
  have tr: "ts_trace (setCurrentStepMessage env m s2) = ts_trace s2"
    using s2(1) by (simp add: setMessage_frame [OF sound_log_ok] at_status_def)
  moreover have "run_Status (ts_runStatus (setCurrentStepMessage env m s2)) = FAILED"
    using at_status_setMessage [OF s2(1)] by (simp add: at_status_def)
  ultimately show "\<exists>rs. published (ts_trace (failWithUserMsg env ri err um s)) = published (ts_trace s) @ rs \<and>
      list_all (\<lambda>r. run_Status r = FAILED) rs \<and> rs \<noteq> []"
    using s2(2) by (auto simp: eq adds_def)
  show "calls (ts_trace (failWithUserMsg env ri err um s)) = calls (ts_trace s)"
    using s2(2) tr by (simp add: eq adds_def)
qed

text \<open>A command that stopped early: it crashed or failed in some step, from a state with \<open>P\<close>.\<close>

definition stopped ::
  "tf_env \<Rightarrow> run_info \<Rightarrow> (nat \<Rightarrow> tf_state \<Rightarrow> bool) \<Rightarrow> tf_state \<Rightarrow> bool" where
  "stopped env ri P t \<longleftrightarrow>
     (\<exists>k s. P k s \<and> ((\<exists>p. t = crash p s) \<or> (\<exists>err um. t = failWithUserMsg env ri err um s)))"

lemma stopped_crash: "P k s \<Longrightarrow> stopped env ri P (crash p s)"
  by (auto simp: stopped_def)

lemma stopped_fail: "P k s \<Longrightarrow> stopped env ri P (failWithUserMsg env ri err um s)"
  unfolding stopped_def by blast

lemma stopped_mono: "stopped env ri P t \<Longrightarrow> (\<And>k s. P k s \<Longrightarrow> Q k s) \<Longrightarrow> stopped env ri Q t"
  unfolding stopped_def by blast

lemma fail_done: "live n k s \<Longrightarrow> done_ok n (failWithUserMsg env ri err um s)"
  using fail_ended [of n k s env ri err um] fail_reports [of n k s env ri err um]
    ended_reports [of FAILED n "failWithUserMsg env ri err um s"]
  by (auto simp: done_ok_def live_def intro!: reports_endI)

lemma crash_done: "live n k s \<Longrightarrow> done_ok n (crash p s)"
  using sound_reports [OF live_sound] by (simp add: done_ok_def crash_def live_def)

lemma stopped_done: "stopped env ri (live n) t \<Longrightarrow> done_ok n t"
  unfolding stopped_def using fail_done crash_done by blast

text \<open>
  The rule for one link of the chain: the computation keeps the property, its failure is handled by
  failing the command (perhaps after a note in the log), its success continues.
\<close>

lemma or_fail_rule:
  assumes "P k s" "keeps (P k) m"
    and "\<And>t. stopped env ri P t \<Longrightarrow> Q t"
    and "\<And>e t. P k t \<Longrightarrow> stopped env ri P (h e t)"
    and "\<And>a t. P k t \<Longrightarrow> m s = (Ok a, t) \<Longrightarrow> Q (f a t)"
  shows "Q (or_fail h m f s)"
proof -
  obtain r t where m: "m s = (r, t)" by fastforce
  have "P k t" using keepsD [OF assms(2,1) m] .
  then show ?thesis
    using m assms(3-5) stopped_crash [of P k t env ri] by (cases r) (auto simp: or_fail_def)
qed

lemma stopped_cmd_fail: "P k s \<Longrightarrow> stopped env ri P (cmd_fail env ri err s)"
  by (simp add: cmd_fail_def stopped_fail)

lemma complete_reports:
  assumes "live n k s" "Suc k = n"
  shows "published (ts_trace (completeRun env um s)) =
    published (ts_trace s) @ [ts_runStatus (completeRun env um s)]"
  using setMessage_frame(2) [OF sound_log_ok [OF live_sound [OF assms(1)]]]
  by (simp add: completeRun_def setRunStatus_def setCurrentStepStatus_def)

lemma complete_done: "live n k s \<Longrightarrow> Suc k = n \<Longrightarrow> done_ok n (completeRun env um s)"
  using complete_ended [of n k s env um] complete_reports [of n k s env um]
    ended_reports [of SUCCEEDED n "completeRun env um s"]
  by (auto simp: done_ok_def live_def ended_def intro!: reports_endI)

end
