(* ===== verification/HclConfig.thy ===== *)
theory HclConfig
  imports GoStd
begin

text \<open>
  Terraform configuration and variable files: \<^verbatim>\<open>tfconfig_parse.go\<close>, \<^verbatim>\<open>backendsearch.go\<close> and
  \<^verbatim>\<open>tfcmd_vars.go\<close> of \<^verbatim>\<open>tf-block-runner/tfrun\<close>.

  The HCL libraries are parameters (\<open>hcl_lib\<close>). A parsed file is described by what the program
  asks of it: its \<^verbatim>\<open>terraform\<close> blocks with their backends, and its \<^verbatim>\<open>variable\<close> blocks. A \<^verbatim>\<open>cty\<close> value
  is kept as the HCL text that \<^verbatim>\<open>hclwrite\<close> prints for it. A variables file is the list of its
  attributes; \<^verbatim>\<open>SetAttributeValue\<close> replaces the value of an attribute or appends it.

  \<^verbatim>\<open>gocty\<close> is documented to handle scalars; whether it handles anything else is left open. \<^verbatim>\<open>json.Marshal\<close>
  does not fail on a value that was decoded from JSON, so the branches for that failure have no
  counterpart here.
\<close>

section \<open>Diagnostics and libraries\<close>

record diag =
  dg_error :: bool
  dg_Summary :: string
  dg_Detail :: string

type_synonym diags = "diag list"

definition HasErrors :: "diags \<Rightarrow> bool" where
  "HasErrors ds = list_ex dg_error ds"

type_synonym cty = string

text \<open>What \<^verbatim>\<open>PartialContent\<close> returns: the content (nil is \<open>None\<close>) and diagnostics.\<close>

type_synonym 'a content = "'a option \<times> diags"

record variable_block =
  vb_Labels :: "string list"
  vb_type :: "(string option) content"

record hcl_file =
  hf_terraform :: "((string list) content list) content"
  hf_variables :: "(variable_block list) content"

record hcl_lib =
  lib_ParseHCL :: "string \<Rightarrow> string \<Rightarrow> hcl_file \<times> diags"
  lib_ParseJSON :: "string \<Rightarrow> string \<Rightarrow> hcl_file \<times> diags"
  lib_DiagsText :: "diags \<Rightarrow> string"
  lib_StringVal :: "string \<Rightarrow> cty"
  lib_NullVal :: cty
  lib_ImpliedType :: "any \<Rightarrow> bool"
  lib_ToCtyValue :: "any \<Rightarrow> cty res"
  lib_unmarshalJson :: "string \<Rightarrow> (cty res) option"
  lib_parseHcl :: "string \<Rightarrow> string \<Rightarrow> cty \<times> diags"
  lib_ctyMarshal :: "cty \<Rightarrow> string res"
  lib_VarsBytes :: "(string \<times> cty) list \<Rightarrow> string"
  lib_DeclBytes :: "(string \<times> bool) list \<Rightarrow> string"
  lib_BackendBytes :: "(string \<times> string) list \<Rightarrow> string"

section \<open>Terraform configuration\<close>

text \<open>
  The files of a directory that are parsed, in the order of the directory, each with its name, its
  content and its diagnostics. \<open>read\<close> reads one file of the directory.
\<close>

definition read_entry ::
  "(string \<Rightarrow> string \<Rightarrow> hcl_file \<times> diags) \<Rightarrow> (string \<Rightarrow> string res) \<Rightarrow> string \<Rightarrow> string \<times> hcl_file option \<times> diags" where
  "read_entry parseAs read name =
     (case read name of
        Ok content \<Rightarrow> (case parseAs content name of (f, ds) \<Rightarrow> (name, Some f, ds))
      | Err e \<Rightarrow> ([], None, [\<lparr>dg_error = True, dg_Summary = ''Failed to read file '' @ name, dg_Detail = error_text e\<rparr>])
      | Panic m \<Rightarrow> ([], None, [\<lparr>dg_error = True, dg_Summary = ''Failed to read file '' @ name, dg_Detail = m\<rparr>]))"

definition ParseTerraformConfig ::
  "hcl_lib \<Rightarrow> ((string \<times> bool) list) res \<Rightarrow> (string \<Rightarrow> string res) \<Rightarrow> (string \<times> hcl_file option \<times> diags) list" where
  "ParseTerraformConfig L entries read =
     (case entries of
        Ok es \<Rightarrow>
          concat (map (\<lambda>(name, isDir).
            if isDir then []
            else if ToLower (filepath_Ext name) = ''.tf'' then [read_entry (lib_ParseHCL L) read name]
            else if ToLower (filepath_Ext name) = ''.json'' then [read_entry (lib_ParseJSON L) read name]
            else []) es)
      | Err e \<Rightarrow> [([], None, [\<lparr>dg_error = True, dg_Summary = ''Failed to read entries in Terraform config dir'',
                        dg_Detail = error_text e\<rparr>])]
      | Panic m \<Rightarrow> [([], None, [\<lparr>dg_error = True, dg_Summary = ''Failed to read entries in Terraform config dir'',
                        dg_Detail = m\<rparr>])])"

text \<open>One block of a file: its first label is the name, the raw text of \<^verbatim>\<open>type\<close> its type.\<close>

definition variable_input ::
  "variable_block \<Rightarrow> (string \<times> string) list \<times> diags \<Rightarrow> (string \<times> string) list \<times> diags" where
  "variable_input b acc =
     (case acc of (result, errs) \<Rightarrow>
        (case vb_Labels b of
           [varName] \<Rightarrow>
             (case vb_type b of (content, ds) \<Rightarrow>
                if HasErrors ds then (result, errs @ ds)
                else (case content of
                        Some (Some t) \<Rightarrow> (map_put varName t result, errs)
                      | _ \<Rightarrow> (map_put varName ''any'' result, errs)))
         | _ \<Rightarrow> (result, errs)))"

fun variable_inputs_from ::
  "(string \<times> hcl_file option \<times> diags) list \<Rightarrow> (string \<times> string) list \<times> diags \<Rightarrow> (string \<times> string) list \<times> diags" where
  "variable_inputs_from [] acc = acc"
| "variable_inputs_from ((name, f, ds) # fs) (result, errs) =
     (if HasErrors ds then variable_inputs_from fs (result, errs @ ds)
      else (case f of
              None \<Rightarrow> variable_inputs_from fs (result, errs)
            | Some file \<Rightarrow>
                (case hf_variables file of
                   (Some blocks, ds') \<Rightarrow>
                     if HasErrors ds' then variable_inputs_from fs (result, errs @ ds')
                     else variable_inputs_from fs (fold variable_input blocks (result, errs))
                 | (None, ds') \<Rightarrow> variable_inputs_from fs (result, errs @ ds'))))"

definition ParseVariableInputs ::
  "hcl_lib \<Rightarrow> ((string \<times> bool) list) res \<Rightarrow> (string \<Rightarrow> string res) \<Rightarrow> (string \<times> string) list \<times> diags" where
  "ParseVariableInputs L entries read =
     variable_inputs_from (ParseTerraformConfig L entries read) ([], [])"

text \<open>
  The search over the \<^verbatim>\<open>terraform\<close> blocks of one file: a decision, or \<open>None\<close> to go on with the next
  file. The schema asks for \<^verbatim>\<open>backend\<close> blocks only; the type of each block is checked again.
\<close>

fun find_backend_in :: "string \<Rightarrow> (string list) content list \<Rightarrow> (bool \<times> string \<times> diags) option" where
  "find_backend_in file [] = None"
| "find_backend_in file ((content, ds) # bs) =
     (case content of
        Some types \<Rightarrow>
          if HasErrors ds then Some (False, [], ds)
          else if ''backend'' \<in> set types then Some (True, file, [])
          else find_backend_in file bs
      | None \<Rightarrow> Some (False, [], ds))"

fun find_backend_from :: "(string \<times> hcl_file option \<times> diags) list \<Rightarrow> bool \<times> string \<times> diags" where
  "find_backend_from [] = (False, [], [])"
| "find_backend_from ((name, f, ds) # fs) =
     (if HasErrors ds then (False, [], ds)
      else (case f of
              None \<Rightarrow> find_backend_from fs
            | Some file \<Rightarrow>
                (case hf_terraform file of
                   (Some blocks, ds') \<Rightarrow>
                     if HasErrors ds' then (False, [], ds')
                     else (case find_backend_in name blocks of Some r \<Rightarrow> r | None \<Rightarrow> find_backend_from fs)
                 | (None, ds') \<Rightarrow> (False, [], ds'))))"

definition FindBackendConfig ::
  "hcl_lib \<Rightarrow> ((string \<times> bool) list) res \<Rightarrow> (string \<Rightarrow> string res) \<Rightarrow> bool \<times> string \<times> diags" where
  "FindBackendConfig L entries read = find_backend_from (ParseTerraformConfig L entries read)"

section \<open>The variables file\<close>

type_synonym vars_file = "(string \<times> cty) list"

definition SetAttributeValue :: "string \<Rightarrow> cty \<Rightarrow> vars_file \<Rightarrow> vars_file" where
  "SetAttributeValue = map_put"

definition convertErrorDiagsToWarnings :: "diags \<Rightarrow> diags" where
  "convertErrorDiagsToWarnings ds = map (\<lambda>d. if dg_error d then d\<lparr>dg_error := False\<rparr> else d) ds"

definition parseJsonOrHcl :: "hcl_lib \<Rightarrow> string \<Rightarrow> string \<Rightarrow> cty \<times> diags" where
  "parseJsonOrHcl L name raw =
     (case lib_unmarshalJson L raw of
        Some (Ok v) \<Rightarrow> (v, [])
      | Some (Err e) \<Rightarrow> ([], [\<lparr>dg_error = True, dg_Summary = ''Cannot convert JSON to cty.Value'',
                             dg_Detail = ''The given JSON cannot be converted: '' @ error_text e\<rparr>])
      | Some (Panic m) \<Rightarrow> ([], [\<lparr>dg_error = True, dg_Summary = ''Cannot convert JSON to cty.Value'',
                             dg_Detail = m\<rparr>])
      | None \<Rightarrow> lib_parseHcl L name raw)"

text \<open>\<^verbatim>\<open>AddVariable\<close> of a string: its type is implied and the conversion succeeds.\<close>

definition add_string :: "hcl_lib \<Rightarrow> string \<Rightarrow> string \<Rightarrow> vars_file \<Rightarrow> diags \<times> vars_file" where
  "add_string L name s f = ([], SetAttributeValue name (lib_StringVal L s) f)"

definition raw_fallback :: "hcl_lib \<Rightarrow> string \<Rightarrow> string \<Rightarrow> diags \<Rightarrow> vars_file \<Rightarrow> diags \<times> vars_file" where
  "raw_fallback L name rawExpression ds f =
     (case add_string L name rawExpression f of (ds', f') \<Rightarrow>
        (ds @ [\<lparr>dg_error = False, dg_Summary = ''Failed to parse input as JSON or HCL'',
                dg_Detail = ''Cannot parse input as JSON or as HCL value expression, will fallback to string variable''\<rparr>]
            @ ds', f'))"

definition AddRawVariable :: "hcl_lib \<Rightarrow> string \<Rightarrow> string \<Rightarrow> bool \<Rightarrow> vars_file \<Rightarrow> diags \<times> vars_file" where
  "AddRawVariable L name rawExpression encodeAsJsonString f =
     (case parseJsonOrHcl L name rawExpression of (v, ds) \<Rightarrow>
        if HasErrors ds then raw_fallback L name rawExpression (convertErrorDiagsToWarnings ds) f
        else if encodeAsJsonString then
          (case lib_ctyMarshal L v of
             Ok vJson \<Rightarrow> (case add_string L name vJson f of (ds', f') \<Rightarrow> (ds @ ds', f'))
           | Err e \<Rightarrow> raw_fallback L name rawExpression
               (ds @ [\<lparr>dg_error = False, dg_Summary = ''Cannot marshal raw HCL value to JSON'',
                       dg_Detail = ''The given raw HCL cannot be marshalled: '' @ error_text e\<rparr>]) f
           | Panic m \<Rightarrow> raw_fallback L name rawExpression
               (ds @ [\<lparr>dg_error = False, dg_Summary = ''Cannot marshal raw HCL value to JSON'',
                       dg_Detail = m\<rparr>]) f)
        else ([], SetAttributeValue name v f))"

definition AddVariable :: "hcl_lib \<Rightarrow> string \<Rightarrow> any \<Rightarrow> bool \<Rightarrow> vars_file \<Rightarrow> diags \<times> vars_file" where
  "AddVariable L name value encodeAsJsonString f =
     (if encodeAsJsonString then add_string L name (json_Marshal value) f
      else (case value of
              JNull \<Rightarrow> ([], SetAttributeValue name (lib_NullVal L) f)
            | JStr s \<Rightarrow> add_string L name s f
            | _ \<Rightarrow>
                if lib_ImpliedType L value then
                  (case lib_ToCtyValue L value of
                     Ok v \<Rightarrow> ([], SetAttributeValue name v f)
                   | Err e \<Rightarrow> ([\<lparr>dg_error = True, dg_Summary = ''Cannot convert value to cty.Value'',
                                dg_Detail = ''The given value cannot be converted: '' @ error_text e\<rparr>], f)
                   | Panic m \<Rightarrow> ([\<lparr>dg_error = True, dg_Summary = ''Cannot convert value to cty.Value'',
                                  dg_Detail = m\<rparr>], f))
                else AddRawVariable L name (json_Marshal value) False f))"

section \<open>Lemmas\<close>

lemma HasErrors_append [simp]: "HasErrors (a @ b) \<longleftrightarrow> HasErrors a \<or> HasErrors b"
  by (simp add: HasErrors_def)

lemma HasErrors_Nil [simp]: "\<not> HasErrors []"
  by (simp add: HasErrors_def)

lemma HasErrors_Cons [simp]: "HasErrors (d # ds) \<longleftrightarrow> dg_error d \<or> HasErrors ds"
  by (simp add: HasErrors_def)

lemma convert_no_errors [simp]: "\<not> HasErrors (convertErrorDiagsToWarnings ds)"
  by (induction ds) (auto simp: convertErrorDiagsToWarnings_def HasErrors_def)

lemma add_string_simp: "add_string L name s f = ([], SetAttributeValue name (lib_StringVal L s) f)"
  by (simp add: add_string_def)

text \<open>A raw variable is always written: what neither JSON nor HCL reads becomes a string.\<close>

definition written :: "string \<Rightarrow> vars_file \<Rightarrow> diags \<times> vars_file \<Rightarrow> bool" where
  "written name f r \<longleftrightarrow> \<not> HasErrors (fst r) \<and> (\<exists>v. snd r = map_put name v f)"

lemma written_add_string: "written name f (add_string L name s f)"
  by (auto simp: written_def add_string_def SetAttributeValue_def)

lemma written_fallback: "\<not> HasErrors ds \<Longrightarrow> written name f (raw_fallback L name raw ds f)"
  by (auto simp: written_def raw_fallback_def add_string_def SetAttributeValue_def)

lemma written_AddRawVariable: "written name f (AddRawVariable L name raw enc f)"
proof -
  obtain v ds where p: "parseJsonOrHcl L name raw = (v, ds)" by fastforce
  show ?thesis
  proof (cases "HasErrors ds")
    case True
    then show ?thesis by (simp add: AddRawVariable_def p written_fallback)
  next
    case False
    then show ?thesis
      by (cases "lib_ctyMarshal L v")
        (simp_all add: AddRawVariable_def p written_fallback,
         auto simp: written_def add_string_def SetAttributeValue_def)
  qed
qed

text \<open>Adding a variable writes its attribute or reports an error, and leaves all others alone.\<close>

lemma AddVariable_cases:
  "written name f (AddVariable L name value enc f) \<or>
   (HasErrors (fst (AddVariable L name value enc f)) \<and> snd (AddVariable L name value enc f) = f)"
proof -
  have set: "written name f ([], SetAttributeValue name v f)" for v
    by (auto simp: written_def SetAttributeValue_def)
  show ?thesis
    by (cases "value"; cases "lib_ToCtyValue L value")
      (simp_all add: AddVariable_def written_add_string written_AddRawVariable set)
qed

lemma AddVariable_other:
  "AddVariable L name value enc f = (ds, f') \<Longrightarrow> k \<noteq> name \<Longrightarrow> map_of f' k = map_of f k"
  using AddVariable_cases [of name f L "value" enc] by (auto simp: map_of_map_put written_def)

lemma AddVariable_string:
  "AddVariable L name (JStr s) False f = ([], map_put name (lib_StringVal L s) f)"
  by (simp add: AddVariable_def add_string_simp SetAttributeValue_def)

end
