(* ===== verification/GitSource.thy ===== *)
theory GitSource
  imports TfInvariants HclConfig
begin

text \<open>
  Getting the sources of a building block: \<^verbatim>\<open>gitsource.go\<close>, \<^verbatim>\<open>git.go\<close>, \<^verbatim>\<open>auth.go\<close>, \<^verbatim>\<open>authNone.go\<close> and
  \<^verbatim>\<open>authSsh.go\<close> of \<^verbatim>\<open>tf-block-runner/tfrun\<close>. Git itself is behind the environment. The theory also
  holds \<open>app\<close>: the package variables and the process environment the runner reads.
\<close>

section \<open>Package variables\<close>

record app =
  app_SkipHostKeyValidation :: bool
  app_RunApiBackendUrl :: string
  app_RunnerUuid :: string
  app_Crypto :: "cert_crypto option"
  app_aead :: aead
  app_LookupEnv :: "string \<Rightarrow> string option"
  app_binDir :: string
  app_hcl :: hcl_lib
  app_versionCompare :: "string \<Rightarrow> string \<Rightarrow> int option"

definition TEMP_CLONE_DIR_PATH :: string where "TEMP_CLONE_DIR_PATH = ''tmp-clone-meshstack''"
definition AZURE_DEVOPS_DOMAIN :: string where "AZURE_DEVOPS_DOMAIN = ''dev.azure.com''"
definition MSG_CLONE_SUCCESS :: string where
  "MSG_CLONE_SUCCESS = ''Successfully cloned sources from your repository.''"
definition MSG_FILES_AQUISITTION_SUCCESS :: string where
  "MSG_FILES_AQUISITTION_SUCCESS = ''Successfully copied files from your repository to the working directory.''"
definition TMP_FILE_KNOWN_HOSTS :: string where "TMP_FILE_KNOWN_HOSTS = ''known_hosts_tmp''"
definition TMP_FILE_SSH_CERT :: string where "TMP_FILE_SSH_CERT = ''ssh_cert''"

definition ErrResolveGeneric :: go_error where "ErrResolveGeneric = Sentinel ''ssh_error_generic''"
definition ErrResolveNoExtraKnownHost :: go_error where
  "ErrResolveNoExtraKnownHost = Sentinel ''ssh_error_no_extra_known_host''"

section \<open>Authentication\<close>

definition AUTH_TYPE_NONE :: string where "AUTH_TYPE_NONE = ''NONE''"
definition AUTH_TYPE_SSH :: string where "AUTH_TYPE_SSH = ''SSH''"

definition NoAuth_name :: string where "NoAuth_name = AUTH_TYPE_NONE"
definition SshAuth_name :: string where "SshAuth_name = AUTH_TYPE_SSH"

fun auth_name :: "auth \<Rightarrow> string" where
  "auth_name NoAuth = NoAuth_name"
| "auth_name (SshAuth kh cert) = SshAuth_name"

lemmas auth_names [simp] = NoAuth_name_def SshAuth_name_def AUTH_TYPE_NONE_def AUTH_TYPE_SSH_def

text \<open>Without a decryptor (single-run mode) the key has already been decrypted.\<close>

definition unwrapCert :: "app \<Rightarrow> string \<Rightarrow> string res" where
  "unwrapCert app certStr =
     (case app_Crypto app of
        None \<Rightarrow> Ok certStr
      | Some c \<Rightarrow> DecryptMeshCertBased (app_aead app) (Some c) certStr)"

definition toKnownHostsFileContent :: "known_host \<Rightarrow> string" where
  "toKnownHostsFileContent kh = kh_host kh @ '' '' @ kh_key kh @ '' '' @ kh_value kh @ [LF]"

definition ERR_MSG_PREPARE :: string where
  "ERR_MSG_PREPARE = ''An error occurred while preparing the SSH auth method. Please try again.''"

definition ERR_MSG_KNOWN_HOSTS_NO_MATCH :: string where
  "ERR_MSG_KNOWN_HOSTS_NO_MATCH = ''No matching known_hosts entry found in the configuration for the target host and key. Please check the configured known_hosts and try again.''"

definition ERR_MSG_KNOWN_HOST_NONE_PROVIDED :: string where
  "ERR_MSG_KNOWN_HOST_NONE_PROVIDED = ''Built in known_host entries do no contain a match for your host. Please add a known host entry to your configuration.''"

definition ERR_MSG_AUTH_PREP :: string where
  "ERR_MSG_AUTH_PREP = ''Something went wrong while initializing the git authentication method. Please try again.''"

definition ERR_MSG_INVALID_KEY :: string where
  "ERR_MSG_INVALID_KEY = ''The provided SSH key is invalid. Please check the key and try again.''"

definition NoAuth_prepare :: "string \<Rightarrow> unit comp" where
  "NoAuth_prepare dir = ret ()"

definition SshAuth_prepare :: "tf_env \<Rightarrow> app \<Rightarrow> known_host option \<Rightarrow> string \<Rightarrow> string \<Rightarrow> unit comp" where
  "SshAuth_prepare env app knownHostEntry certStr dir =
     bnd (liftres (unwrapCert app certStr)) (\<lambda>cert.
     let cert' = (if HasSuffix cert [LF] then cert else cert @ [LF]) in
     bnd (log_err env ERR_MSG_PREPARE (sys env (CallWriteFile (path_Join [dir, TMP_FILE_SSH_CERT]) cert'))) (\<lambda>_.
     case knownHostEntry of
       None \<Rightarrow> ret ()
     | Some kh \<Rightarrow> log_err env ERR_MSG_PREPARE
         (sys env (CallWriteFile (path_Join [dir, TMP_FILE_KNOWN_HOSTS]) (toKnownHostsFileContent kh)))))"

fun auth_prepare :: "tf_env \<Rightarrow> app \<Rightarrow> auth \<Rightarrow> string \<Rightarrow> unit comp" where
  "auth_prepare env app NoAuth dir = NoAuth_prepare dir"
| "auth_prepare env app (SshAuth knownHostEntry certStr) dir = SshAuth_prepare env app knownHostEntry certStr dir"

definition NoAuth_toTransport :: "string \<Rightarrow> ssh_transport option comp" where
  "NoAuth_toTransport url =
     (if HasPrefix url ''git@''
      then throw (ErrorString ''cannot clone via ssh without auth. Please add a .pem file, that contains a private key to your source'')
      else ret None)"

definition knownHostsKeyCallback :: "app \<Rightarrow> known_host option \<Rightarrow> string \<Rightarrow> host_key_check" where
  "knownHostsKeyCallback app knownHostEntry dir =
     (if app_SkipHostKeyValidation app then InsecureIgnoreHostKey else CombinedKnownHosts knownHostEntry dir)"

definition SshAuth_toTransport :: "tf_env \<Rightarrow> app \<Rightarrow> known_host option \<Rightarrow> string \<Rightarrow> ssh_transport option comp" where
  "SshAuth_toTransport env app knownHostEntry prepDir =
     (let pemFile = path_Join [prepDir, TMP_FILE_SSH_CERT] in
      bnd (log_err env ERR_MSG_INVALID_KEY (query env (QLoadKey pemFile))) (\<lambda>_.
      ret (Some \<lparr>tr_KeyFile = pemFile,
                 tr_HostKeyAlgorithms =
                   (case knownHostEntry of
                      Some kh \<Rightarrow> if kh_key kh \<noteq> [] then [kh_key kh] else []
                    | None \<Rightarrow> []),
                 tr_HostKeyCallback = knownHostsKeyCallback app knownHostEntry prepDir\<rparr>)))"

fun toTransport :: "tf_env \<Rightarrow> app \<Rightarrow> auth \<Rightarrow> string \<Rightarrow> string \<Rightarrow> ssh_transport option comp" where
  "toTransport env app NoAuth prepDir url = NoAuth_toTransport url"
| "toTransport env app (SshAuth knownHostEntry certStr) prepDir url = SshAuth_toTransport env app knownHostEntry prepDir"

lemmas auth_methods [simp] = NoAuth_prepare_def SshAuth_prepare_def NoAuth_toTransport_def SshAuth_toTransport_def

section \<open>Known hosts\<close>

text \<open>
  What the callback says when go-git asks it whether to trust a host key. \<open>lookup file\<close> is what
  \<^verbatim>\<open>knownhosts.New(file)\<close> and the callback it returns say about the host and the key: the file is
  unusable (\<open>Err\<close>), the key is refused (\<open>Ok (Some e)\<close>), or it is trusted (\<open>Ok None\<close>).
\<close>

type_synonym kh_lookup = "string \<Rightarrow> (go_error option) res"

definition checkKnownHostsHolder :: "known_host option \<Rightarrow> kh_lookup \<Rightarrow> string \<Rightarrow> unit res" where
  "checkKnownHostsHolder knownHostEntry lookup dir =
     (case knownHostEntry of
        None \<Rightarrow> Err (ErrorString ''no custom known_hosts defined'')
      | Some _ \<Rightarrow>
          (case lookup (path_Join [dir, TMP_FILE_KNOWN_HOSTS]) of
             Ok None \<Rightarrow> Ok ()
           | Ok (Some e) \<Rightarrow> Err (ErrorString ''could not find a valid entry'')
           | Err e \<Rightarrow> Err e | Panic m \<Rightarrow> Panic m))"

definition Getenv :: "app \<Rightarrow> string \<Rightarrow> string" where
  "Getenv app k = (case app_LookupEnv app k of Some v \<Rightarrow> v | None \<Rightarrow> [])"

definition checkKnownHostsEnv :: "app \<Rightarrow> kh_lookup \<Rightarrow> unit res" where
  "checkKnownHostsEnv app lookup =
     (if Getenv app ''SSH_KNOWN_HOSTS'' = [] then Err (ErrorString ''SSH_KNOWN_HOSTS not set'')
      else (case lookup (Getenv app ''SSH_KNOWN_HOSTS'') of
              Ok None \<Rightarrow> Ok ()
            | Ok (Some e) \<Rightarrow> Err (ErrorString (''failed using known_host from environment, due to following error: '' @ error_text e))
            | Err e \<Rightarrow> Err e | Panic m \<Rightarrow> Panic m))"

definition checkLocalKnownHostFile :: "app \<Rightarrow> kh_lookup \<Rightarrow> unit res" where
  "checkLocalKnownHostFile app lookup =
     (case lookup (path_Join [Getenv app ''HOME'', ''.ssh'', ''known_hosts'']) of
        Ok None \<Rightarrow> Ok ()
      | Ok (Some e) \<Rightarrow> Err (ErrorString (''failed using global known_hosts file, due to following error: '' @ error_text e))
      | Err e \<Rightarrow> Err e | Panic m \<Rightarrow> Panic m)"

definition combinedKnownHostsKeyCallback ::
  "app \<Rightarrow> known_host option \<Rightarrow> kh_lookup \<Rightarrow> string \<Rightarrow> unit res" where
  "combinedKnownHostsKeyCallback app knownHostEntry lookup dir =
     (case checkKnownHostsHolder knownHostEntry lookup dir of
        Ok _ \<Rightarrow> Ok ()
      | Panic m \<Rightarrow> Panic m
      | Err _ \<Rightarrow>
          (case checkKnownHostsEnv app lookup of
             Ok _ \<Rightarrow> Ok ()
           | Panic m \<Rightarrow> Panic m
           | Err _ \<Rightarrow>
               (case checkLocalKnownHostFile app lookup of
                  Ok _ \<Rightarrow> Ok ()
                | Panic m \<Rightarrow> Panic m
                | Err _ \<Rightarrow> Err (case knownHostEntry of None \<Rightarrow> ErrResolveNoExtraKnownHost
                                | Some _ \<Rightarrow> ErrResolveGeneric))))"

fun check_host_key :: "app \<Rightarrow> kh_lookup \<Rightarrow> host_key_check \<Rightarrow> unit res" where
  "check_host_key app lookup InsecureIgnoreHostKey = Ok ()"
| "check_host_key app lookup (CombinedKnownHosts knownHostEntry dir) =
     combinedKnownHostsKeyCallback app knownHostEntry lookup dir"

section \<open>Git\<close>

definition resolve_ref :: "tf_env \<Rightarrow> string \<Rightarrow> string comp" where
  "resolve_ref env refName =
     attempt (query env (QResolveRevision (''refs/remotes/origin/'' @ refName))) (\<lambda>r. case r of
       Ok h \<Rightarrow> ret h
     | _ \<Rightarrow> attempt (query env (QResolveRevision (''refs/tags/'' @ refName))) (\<lambda>r. case r of
         Ok h \<Rightarrow> ret h
       | _ \<Rightarrow> query env (QResolveRevision refName)))"

definition checkout_failed :: "string \<Rightarrow> string \<Rightarrow> string" where
  "checkout_failed refName why = ''Failed to '' @ quoted ''git checkout'' @ '' ref '' @ refName @ ''. '' @ why"

definition checkoutRef :: "tf_env \<Rightarrow> string \<Rightarrow> unit comp" where
  "checkoutRef env refName =
     bnd (printUpdate env (''checking out ref '' @ refName)) (\<lambda>_.
     attempt (query env QHead) (\<lambda>r. case r of
       Err e \<Rightarrow> bnd (printUpdate env (error_text e @ checkout_failed refName ''Failed to get HEAD.'')) (\<lambda>_. throw e)
     | Panic m \<Rightarrow> panic m
     | Ok currentHead \<Rightarrow>
         bnd (log_err env (checkout_failed refName ''Failed to fetch worktree.'') (query env QWorktree)) (\<lambda>_.
         bnd (log_err env (checkout_failed refName ''Failed to resolve revision to hash.'') (resolve_ref env refName)) (\<lambda>hash.
         if currentHead = hash
         then printUpdate env (''Skipping '' @ quoted ''git checkout'' @ '' ref '' @ refName
                @ ''. Already on target ref (git hash: '' @ hash @ '').'')
         else log_err env (checkout_failed refName ''Failed to checkout ref.'') (sys env (CallCheckout hash))))))"

definition noAuthClone :: "tf_env \<Rightarrow> string \<Rightarrow> string \<Rightarrow> unit comp" where
  "noAuthClone env dir url =
     bnd (printUpdate env ''attempting to cloning remote repository without authentication.'') (\<lambda>_.
     log_err env (''Failed to '' @ quoted ''git clone'' @ '' '' @ url @ '' without authentication.'')
       (sys env (CallPlainClone url dir None)))"

definition authClone :: "tf_env \<Rightarrow> app \<Rightarrow> auth \<Rightarrow> string \<Rightarrow> string \<Rightarrow> string \<Rightarrow> unit comp" where
  "authClone env app a prepDir dir url =
     bnd (log_err env ERR_MSG_AUTH_PREP
            (toTransport env app a prepDir url)) (\<lambda>gitAuth.
     attempt (sys env (CallPlainClone url dir gitAuth)) (\<lambda>r. case r of
       Ok _ \<Rightarrow> ret ()
     | Panic m \<Rightarrow> panic m
     | Err e \<Rightarrow>
         bnd (printUpdate env
                (if is_sentinel ''ssh_error_no_extra_known_host'' e
                 then ERR_MSG_KNOWN_HOST_NONE_PROVIDED
                 else if is_sentinel ''ssh_error_generic'' e
                 then ERR_MSG_KNOWN_HOSTS_NO_MATCH
                 else ''Failed to '' @ quoted ''git clone'' @ '' '' @ url @ '' with authentication.'')) (\<lambda>_. throw e)))"

definition git_clone :: "tf_env \<Rightarrow> app \<Rightarrow> auth \<Rightarrow> string \<Rightarrow> string \<Rightarrow> string \<Rightarrow> unit comp" where
  "git_clone env app a prepDir url targetdir =
     (if auth_name a = AUTH_TYPE_NONE then noAuthClone env targetdir url
      else authClone env app a prepDir targetdir url)"

text \<open>\<^verbatim>\<open>filepath.Walk\<close> over the tree below \<open>src\<close>, an entry before what is below it.\<close>

fun move_entries :: "tf_env \<Rightarrow> string \<Rightarrow> string \<Rightarrow> walk_entry list \<Rightarrow> unit comp" where
  "move_entries env src dst [] = ret ()"
| "move_entries env src dst (w # ws) =
     (case we_error w of
        Some e \<Rightarrow> throw e
      | None \<Rightarrow>
          let destPath = path_Join [dst, we_path w] in
          bnd (if we_isDir w then sys env (CallMkdirAll destPath)
               else sys env (CallRename (path_Join [src, we_path w]) destPath)) (\<lambda>_.
          move_entries env src dst ws))"

definition moveDirContent :: "tf_env \<Rightarrow> string \<Rightarrow> string \<Rightarrow> unit comp" where
  "moveDirContent env src dst =
     bnd (gets (\<lambda>s. env_walk env (ts_trace s) src)) (move_entries env src dst)"

definition azure_command :: "string \<Rightarrow> auth \<Rightarrow> string \<Rightarrow> string \<Rightarrow> string" where
  "azure_command dir a url tmpDir =
     ''GIT_SSH_COMMAND='' @ [CHR 0x22] @ ''ssh ''
     @ (if auth_name a = AUTH_TYPE_SSH then ''-i '' @ path_Join [dir, TMP_FILE_SSH_CERT] @ '' '' else [])
     @ ''-o StrictHostKeyChecking=no'' @ [CHR 0x22] @ '' git clone '' @ url @ '' '' @ tmpDir @ [LF]"

definition azureClone :: "tf_env \<Rightarrow> string \<Rightarrow> string \<Rightarrow> auth \<Rightarrow> unit comp" where
  "azureClone env dir url a =
     attempt (sys env (CallBash [] (azure_command dir a url (path_Join [dir, TEMP_CLONE_DIR_PATH])))) (\<lambda>r. case r of
       Ok _ \<Rightarrow> ret ()
     | Panic m \<Rightarrow> panic m
     | Err e \<Rightarrow>
         bnd (printUpdate env (''Git clone error: '' @ error_text e)) (\<lambda>_.
         attempt (query env QCommandOutput) (\<lambda>o1.
         bnd (printUpdate env (''Git clone output: '' @ (case o1 of Ok t \<Rightarrow> t | _ \<Rightarrow> []))) (\<lambda>_.
         bnd (printUpdate env (''Failed to '' @ quoted ''git clone'' @ '' '' @ url @ '' with authentication.'')) (\<lambda>_.
         throw e)))))"

definition azureCheckoutRef :: "tf_env \<Rightarrow> string \<Rightarrow> string \<Rightarrow> unit comp" where
  "azureCheckoutRef env dir ref = sys env (CallBash dir (''git checkout '' @ ref @ [LF]))"

section \<open>Copying the sources\<close>

definition acquire :: "tf_env \<Rightarrow> app \<Rightarrow> git_source \<Rightarrow> string \<Rightarrow> string \<Rightarrow> unit comp" where
  "acquire env app g dir tmpDir =
     (if Contains (gs_url g) AZURE_DEVOPS_DOMAIN
      then bnd (azureClone env dir (gs_url g) (gs_auth g)) (\<lambda>_.
           case gs_refName g of None \<Rightarrow> ret () | Some ref \<Rightarrow> azureCheckoutRef env tmpDir ref)
      else bnd (git_clone env app (gs_auth g) dir (gs_url g) tmpDir) (\<lambda>_.
           case gs_refName g of None \<Rightarrow> ret () | Some ref \<Rightarrow> checkoutRef env ref))"

text \<open>
  The message about a missing path dereferences \<^verbatim>\<open>g.path\<close>, which is nil when no path is configured.
\<close>

definition copy_sources :: "tf_env \<Rightarrow> git_source \<Rightarrow> string \<Rightarrow> string \<Rightarrow> unit comp" where
  "copy_sources env g dir tmpDir =
     (let sourceDir = (case gs_path g of None \<Rightarrow> tmpDir | Some p \<Rightarrow> path_Join [tmpDir, p]) in
      attempt (query env (QStat sourceDir)) (\<lambda>r. case r of
        Ok _ \<Rightarrow>
          bnd (moveDirContent env sourceDir dir) (\<lambda>_.
          printUpdate env MSG_FILES_AQUISITTION_SUCCESS)
      | Panic m \<Rightarrow> panic m
      | Err _ \<Rightarrow>
          (case gs_path g of
             None \<Rightarrow> panic ''invalid memory address or nil pointer dereference''
           | Some p \<Rightarrow>
               bnd (printUpdate env (''The specified path '' @ quoted p
                      @ '' does not exist, please check repository configuration.'')) (\<lambda>_.
               throw (ErrorString ''specified path does not exist'')))))"

definition CopyToTargetDir :: "tf_env \<Rightarrow> app \<Rightarrow> git_source \<Rightarrow> string \<Rightarrow> unit comp" where
  "CopyToTargetDir env app g dir =
     (let fromStr = gs_url g @ (case gs_path g of None \<Rightarrow> [] | Some p \<Rightarrow> ''/'' @ TrimLeft p ''/'');
          securityStr = (if app_SkipHostKeyValidation app then ''(insecure)'' else []);
          tmpDir = path_Join [dir, TEMP_CLONE_DIR_PATH] in
      bnd (printUpdate env (''Attempt to copy sources from '' @ fromStr @ '' '' @ securityStr)) (\<lambda>_.
      bnd (auth_prepare env app (gs_auth g) dir) (\<lambda>_.
      bnd (sys env (CallMkdir tmpDir)) (\<lambda>_.
      deferred (sys env (CallRemoveAll tmpDir))
        (bnd (acquire env app g dir tmpDir) (\<lambda>_.
         bnd (printUpdate env MSG_CLONE_SUCCESS) (\<lambda>_.
         copy_sources env g dir tmpDir)))))))"

section \<open>Lemmas\<close>

context tf_frame
begin

text \<open>Getting the sources stays in the step it runs in.\<close>

lemma keeps_auth_prepare [keeps_intros]: "keeps P (auth_prepare env app a dir)"
  by (cases a) (auto simp: Let_def intro!: keeps_intros split: option.splits)

lemma keeps_toTransport [keeps_intros]: "keeps P (toTransport env app a dir url)"
  by (cases a) (auto simp: Let_def intro!: keeps_intros)

lemma keeps_move_entries [keeps_intros]: "keeps P (move_entries env src dst ws)"
proof (induction ws)
  case (Cons w ws)
  then show ?case by (cases "we_error w") (auto simp: Let_def intro!: keeps_intros split: option.splits)
qed (simp add: keeps_intros)

lemma keeps_git [keeps_intros]:
  "keeps P (checkoutRef env ref)"
  "keeps P (git_clone env app a dir url target)"
  "keeps P (moveDirContent env src dst)"
  "keeps P (azureClone env dir url a)"
  "keeps P (azureCheckoutRef env dir ref)"
  unfolding checkoutRef_def git_clone_def noAuthClone_def authClone_def moveDirContent_def
    azureClone_def azureCheckoutRef_def resolve_ref_def
  by (intro keeps_intros)+


lemma keeps_CopyToTargetDir [keeps_intros]: "keeps P (CopyToTargetDir env app g dir)"
  unfolding CopyToTargetDir_def Let_def acquire_def copy_sources_def
  by (intro keeps_intros)

end

section \<open>Whom a clone trusts\<close>

text \<open>
  A host key is accepted only by a file that vouches for it: the known hosts of the run, those of the
  environment, or those of the user.
\<close>

definition vouched :: "app \<Rightarrow> kh_lookup \<Rightarrow> known_host option \<Rightarrow> string \<Rightarrow> bool" where
  "vouched app lookup kh dir \<longleftrightarrow>
     (kh \<noteq> None \<and> lookup (path_Join [dir, TMP_FILE_KNOWN_HOSTS]) = Ok None) \<or>
     (Getenv app ''SSH_KNOWN_HOSTS'' \<noteq> [] \<and> lookup (Getenv app ''SSH_KNOWN_HOSTS'') = Ok None) \<or>
     lookup (path_Join [Getenv app ''HOME'', ''.ssh'', ''known_hosts'']) = Ok None"

lemma host_key_accepted:
  "check_host_key app lookup (CombinedKnownHosts kh dir) = Ok u \<Longrightarrow> vouched app lookup kh dir"
  by (auto simp: combinedKnownHostsKeyCallback_def checkKnownHostsHolder_def checkKnownHostsEnv_def
      checkLocalKnownHostFile_def vouched_def split: res.splits option.splits if_splits)

text \<open>The calls of the program, without what its log and status add to the history.\<close>

lemma calls_Write: "calls (ts_trace (logwrap_Write env p s)) = calls (ts_trace s)"
  by (auto simp: logwrap_Write_def Let_def setCurrentStepMessage_def commitStatus_def publishStatus_def upd_run_def
      crash_def split: option.splits res.splits)

abbreviation called :: "tf_state \<Rightarrow> tf_call list" where
  "called s \<equiv> calls (ts_trace s)"

lemma called_sys [emits_intros]: "Q c \<Longrightarrow> emits called Q (sys env c)"
  by (auto simp: emits_def sys_def Let_def)

lemma called_query [emits_intros]: "emits called Q (query env q)"
  by (simp add: emits_def query_def)

lemma called_print [emits_intros]: "emits called Q (printUpdate env m)"
  by (simp add: printUpdate_def PrintlnToUpdateLogs_def calls_Write emits_intros)

lemma called_log_err [emits_intros]: "emits called Q c \<Longrightarrow> emits called Q (log_err env m c)"
  unfolding log_err_def by (auto intro!: emits_intros)

lemma called_move_entries [emits_intros]:
  "(\<And>p. Q (CallMkdirAll p)) \<Longrightarrow> (\<And>p q. Q (CallRename p q)) \<Longrightarrow> emits called Q (move_entries env src dst ws)"
proof (induction ws)
  case (Cons w ws)
  then show ?case by (auto simp: Let_def intro!: emits_intros)
qed (simp add: emits_intros)

text \<open>What a clone is given: the directory, and for a source with a key the check of the host key.\<close>

definition clone_ok :: "app \<Rightarrow> git_source \<Rightarrow> string \<Rightarrow> tf_call \<Rightarrow> bool" where
  "clone_ok app g dir c \<longleftrightarrow>
     (\<forall>url target tr. c = CallPlainClone url target tr \<longrightarrow>
       url = gs_url g \<and> target = path_Join [dir, TEMP_CLONE_DIR_PATH] \<and>
       (case gs_auth g of
          NoAuth \<Rightarrow> tr = None
        | SshAuth kh cert \<Rightarrow> \<exists>algs. tr = Some \<lparr>tr_KeyFile = path_Join [dir, TMP_FILE_SSH_CERT], tr_HostKeyAlgorithms = algs,
            tr_HostKeyCallback = knownHostsKeyCallback app kh dir\<rparr>))"

lemma clone_ok_other [emits_intros]:
  "clone_ok app g dir (CallWriteFile p t)" "clone_ok app g dir (CallMkdir p)" "clone_ok app g dir (CallMkdirAll p)"
  "clone_ok app g dir (CallRename p q)" "clone_ok app g dir (CallRemoveAll p)" "clone_ok app g dir (CallBash p t)"
  "clone_ok app g dir (CallCheckout h)"
  by (simp_all add: clone_ok_def)

lemma toTransport_result:
  "toTransport env app a dir url s = (Ok tr, t) \<Longrightarrow>
    (case a of
       NoAuth \<Rightarrow> tr = None
     | SshAuth kh cert \<Rightarrow> \<exists>algs. tr = Some \<lparr>tr_KeyFile = path_Join [dir, TMP_FILE_SSH_CERT], tr_HostKeyAlgorithms = algs,
         tr_HostKeyCallback = knownHostsKeyCallback app kh dir\<rparr>)"
  by (cases a) (auto simp: Let_def bnd_def ret_def throw_def split: prod.splits res.splits if_splits)

lemma called_deferred [emits_intros]:
  "emits called Q d \<Longrightarrow> emits called Q c \<Longrightarrow> emits called Q (TfContext.deferred d c)"
  unfolding emits_def TfContext.deferred_def
  by (simp split: prod.splits) (metis (no_types, lifting) append.assoc list_all_append snd_conv)

lemma called_auth_prepare: "emits called (clone_ok app g dir) (auth_prepare env app' a dir')"
  by (cases a) (auto simp: Let_def intro!: emits_intros)

lemma called_toTransport: "emits called Q (toTransport env app a dir url)"
  by (cases a) (auto simp: Let_def intro!: emits_intros)

lemma called_git_clone:
  "emits called (clone_ok app g dir)
     (git_clone env app (gs_auth g) dir (gs_url g) (path_Join [dir, TEMP_CLONE_DIR_PATH]))"
proof (cases "auth_name (gs_auth g) = AUTH_TYPE_NONE")
  case True
  then have "gs_auth g = NoAuth" by (cases "gs_auth g") simp_all
  then show ?thesis
    by (auto simp: git_clone_def noAuthClone_def clone_ok_def intro!: emits_intros)
next
  case False
  let ?t = "log_err env ERR_MSG_AUTH_PREP (toTransport env app (gs_auth g) dir (gs_url g))"
  have clone: "emits called (clone_ok app g dir)
      (sys env (CallPlainClone (gs_url g) (path_Join [dir, TEMP_CLONE_DIR_PATH]) tr))" if "?t s = (Ok tr, t)" for tr s t
  proof -
    obtain s' t' where "toTransport env app (gs_auth g) dir (gs_url g) s' = (Ok tr, t')"
      using \<open>?t s = (Ok tr, t)\<close>
      by (auto simp: log_err_def attempt_def ret_def throw_def panic_def bnd_def split: prod.splits res.splits)
    from toTransport_result [OF this] show ?thesis
      by (intro called_sys) (auto simp: clone_ok_def split: auth.splits)
  qed
  show ?thesis
    unfolding git_clone_def authClone_def if_not_P [OF False]
    by (rule emits_bnd_result) (auto intro!: emits_intros called_toTransport clone)
qed

lemma called_CopyToTargetDir:
  "emits called (clone_ok app g dir) (CopyToTargetDir env app g dir)"
  unfolding CopyToTargetDir_def Let_def acquire_def copy_sources_def checkoutRef_def resolve_ref_def
    moveDirContent_def azureClone_def azureCheckoutRef_def
  by (auto intro!: emits_intros called_auth_prepare called_git_clone)

end
