(* ===== verification/TfInputs.thy ===== *)
theory TfInputs
  imports GitSource
begin

text \<open>
  How the inputs of a run reach terraform: the environment (\<^verbatim>\<open>cleanSystemEnv\<close>, \<^verbatim>\<open>buildTfEnv\<close>), the
  files (\<^verbatim>\<open>saveInputFiles\<close>) and the variables (\<^verbatim>\<open>vars\<close>) of \<^verbatim>\<open>tfcmd.go\<close>. The theory also holds
  \<open>generic_tf_cmd\<close>, the struct \<^verbatim>\<open>GenericTfCmd\<close> with its parameters.
\<close>

section \<open>The command\<close>

text \<open>\<^verbatim>\<open>TfCmdParams\<close>; its \<^verbatim>\<open>useWorkspaces\<close> changes during a run and is part of the state.\<close>

record tf_cmd_params =
  p_buildingBlockId :: string
  p_tfVersion :: string
  p_suggestedWorkspace :: string
  p_vars :: "(string \<times> variable) list"
  p_source :: "git_source option"
  p_preRunScript :: "string option"
  p_runMode :: string
  p_artifactUrl :: string
  p_artifactUploadUrl :: string

record generic_tf_cmd =
  cmd_env :: tf_env
  cmd_app :: app
  cmd_info :: run_info
  cmd_params :: tf_cmd_params

definition cmd_print :: "generic_tf_cmd \<Rightarrow> string \<Rightarrow> unit comp" where
  "cmd_print c m = printUpdate (cmd_env c) m"

definition cmd_sys :: "generic_tf_cmd \<Rightarrow> tf_call \<Rightarrow> unit comp" where
  "cmd_sys c k = sys (cmd_env c) k"

definition wd :: "generic_tf_cmd \<Rightarrow> string" where
  "wd c = ri_workingDirectory (cmd_info c)"

definition decrypt_var :: "generic_tf_cmd \<Rightarrow> variable \<Rightarrow> any comp" where
  "decrypt_var c v = liftres (decryptIfSensitive (app_aead (cmd_app c)) (app_Crypto (cmd_app c)) v)"

section \<open>Environment\<close>

definition core_env_keys :: "string list" where
  "core_env_keys = [''HOME'', ''PATH'', ''PWD'', ''TMPDIR'', ''TMP'', ''TEMP'']"

definition compat_env_keys :: "string list" where
  "compat_env_keys = [''SSH_KNOWN_HOSTS'', ''NIX_CONFIG'', ''MESHSTACK_ENDPOINT'',
     ''MESHSTACK_SKIP_VERSION_CHECK'', ''CUSTOM_CA_CERTS_PATH'', ''TF_LOG'', ''TF_LOG_CORE'',
     ''TF_LOG_PROVIDER'', ''TF_LOG_PATH'', ''CHECKPOINT_DISABLE'', ''TF_IN_AUTOMATION'']"

definition copy_env_key :: "app \<Rightarrow> (string \<times> string) list \<Rightarrow> string \<Rightarrow> (string \<times> string) list" where
  "copy_env_key app e k = (case app_LookupEnv app k of Some v \<Rightarrow> map_put k v e | None \<Rightarrow> e)"

definition cleanSystemEnv :: "app \<Rightarrow> (string \<times> string) list" where
  "cleanSystemEnv app = foldl (copy_env_key app) (foldl (copy_env_key app) [] core_env_keys) compat_env_keys"

definition TfVarEnvPrefix :: string where "TfVarEnvPrefix = ''TF_VAR_''"

definition encodeVarValueForEnv :: "any \<Rightarrow> data_type \<Rightarrow> string" where
  "encodeVarValueForEnv v t = (if t = DATA_TYPE_MULTISELECT then json_Marshal v else sprint_v v)"

definition git_ssh_command :: "generic_tf_cmd \<Rightarrow> string" where
  "git_ssh_command c =
     ''ssh -i '' @ quoted (path_Join [wd c, TMP_FILE_SSH_CERT])
     @ (if app_SkipHostKeyValidation (cmd_app c) then '' -o StrictHostKeyChecking=no'' else [])"

fun add_env_vars ::
  "generic_tf_cmd \<Rightarrow> (string \<times> variable) list \<Rightarrow> (string \<times> string) list \<Rightarrow> ((string \<times> string) list) comp" where
  "add_env_vars c [] e = ret e"
| "add_env_vars c ((varName, v) # vs) e =
     (if var_env v \<and> \<not> HasPrefix varName TfVarEnvPrefix
      then attempt (decrypt_var c v) (\<lambda>r. case r of
             Ok val \<Rightarrow> add_env_vars c vs (map_put varName (encodeVarValueForEnv val (var_Type v)) e)
           | Panic m \<Rightarrow> panic m
           | Err err \<Rightarrow>
               bnd (cmd_print c (''Failed to decrypt input '' @ quoted varName @ '': '' @ error_text err)) (\<lambda>_.
               throw (ErrorString (''input decryption failed for '' @ quoted varName))))
      else add_env_vars c vs e)"

definition buildTfEnv :: "generic_tf_cmd \<Rightarrow> ((string \<times> string) list) comp" where
  "buildTfEnv c =
     (let e0 = cleanSystemEnv (cmd_app c);
          e1 = (case p_source (cmd_params c) of
                  Some g \<Rightarrow> if auth_name (gs_auth g) = ''SSH''
                            then map_put ''GIT_SSH_COMMAND'' (git_ssh_command c) e0 else e0
                | None \<Rightarrow> e0)
      in bnd (add_env_vars c (p_vars (cmd_params c)) e1) (\<lambda>e2.
         ret (if ri_useMeshBackendFallback (cmd_info c) \<and> ri_runToken (cmd_info c) \<noteq> []
              then map_put ''TF_HTTP_PASSWORD'' (ri_runToken (cmd_info c)) (map_put ''TF_HTTP_USERNAME'' ''x'' e2)
              else e2)))"

section \<open>Files\<close>

text \<open>
  The leftmost match of the regular expression \<^verbatim>\<open>data:(.*?);base64,\<close>: its length, wherever it
  starts. The dot does not match a line feed.
\<close>

fun find_base64_mark :: "string \<Rightarrow> nat option" where
  "find_base64_mark [] = None"
| "find_base64_mark (c # s) =
     (if HasPrefix (c # s) '';base64,'' then Some 8
      else if c = LF then None
      else map_option Suc (find_base64_mark s))"

fun data_url_match :: "string \<Rightarrow> nat option" where
  "data_url_match [] = None"
| "data_url_match (c # s) =
     (case (if HasPrefix (c # s) ''data:'' then find_base64_mark (drop 5 (c # s)) else None) of
        Some n \<Rightarrow> Some (5 + n)
      | None \<Rightarrow> data_url_match s)"

definition extractContentFromDataUrl :: "string \<Rightarrow> string res" where
  "extractContentFromDataUrl dataUrl =
     (case data_url_match dataUrl of
        None \<Rightarrow> Err (ErrorString ''no data content found in DataURL'')
      | Some n \<Rightarrow> b64_decode (drop n dataUrl))"

definition check_target :: "generic_tf_cmd \<Rightarrow> string \<Rightarrow> string \<Rightarrow> unit comp" where
  "check_target c k vPath =
     attempt (query (cmd_env c) (QStat vPath)) (\<lambda>r. case r of
       Ok _ \<Rightarrow> cmd_print c (''A file with the name '' @ quoted k
                @ '' already exists in the working directory and will be overwritten by a file input.'')
     | Panic m \<Rightarrow> panic m
     | Err e \<Rightarrow> if is_not_exist e then ret ()
               else bnd (cmd_print c (''Could not access file: '' @ k)) (\<lambda>_. throw e))"

definition save_file :: "generic_tf_cmd \<Rightarrow> string \<Rightarrow> variable \<Rightarrow> unit comp" where
  "save_file c k v =
     (let vPath = path_Join [wd c, k] in
      bnd (check_target c k vPath) (\<lambda>_.
      attempt (decrypt_var c v) (\<lambda>r. case r of
        Panic m \<Rightarrow> panic m
      | Err e \<Rightarrow>
          bnd (cmd_print c (''Failed to decrypt file input '' @ quoted k @ '': '' @ error_text e)) (\<lambda>_.
          throw (ErrorString (''file input decryption failed for '' @ quoted k)))
      | Ok val \<Rightarrow>
          bnd (log_err (cmd_env c) ''Unable to decode file content from DataURL''
                 (liftres (extractContentFromDataUrl (sprint_v val)))) (\<lambda>fileContent.
          log_err (cmd_env c) ''Unable to write variable file'' (cmd_sys c (CallWriteFile vPath fileContent))))))"

fun save_files :: "generic_tf_cmd \<Rightarrow> (string \<times> variable) list \<Rightarrow> nat \<Rightarrow> nat comp" where
  "save_files c [] savedFiles = ret savedFiles"
| "save_files c ((k, v) # vs) savedFiles =
     (if var_Type v \<noteq> DATA_TYPE_FILE then save_files c vs savedFiles
      else if var_env v then
        (let m = ''variable '' @ quoted k @ '' with type FILE cannot be marked as environment var''
         in bnd (cmd_print c m) (\<lambda>_. throw (ErrorString m)))
      else bnd (save_file c k v) (\<lambda>_. save_files c vs (Suc savedFiles)))"

definition saveInputFiles :: "generic_tf_cmd \<Rightarrow> nat comp" where
  "saveInputFiles c = save_files c (p_vars (cmd_params c)) 0"

section \<open>Variables\<close>

fun print_diags :: "generic_tf_cmd \<Rightarrow> string \<Rightarrow> diags \<Rightarrow> unit comp" where
  "print_diags c name [] = ret ()"
| "print_diags c name (d # ds) =
     bnd (cmd_print c (''While adding variable '' @ quoted name @ '': '' @ dg_Summary d @ '': '' @ dg_Detail d))
       (\<lambda>_. print_diags c name ds)"

text \<open>A value of another type for a variable declared as string is embedded as JSON text.\<close>

definition encode_as_string :: "(string \<times> string) list \<Rightarrow> string \<Rightarrow> data_type \<Rightarrow> bool" where
  "encode_as_string existing varName t \<longleftrightarrow>
     t \<notin> {DATA_TYPE_STRING, DATA_TYPE_SINGLESELECT} \<and> map_of existing varName = Some ''string''"

definition add_input_var ::
  "generic_tf_cmd \<Rightarrow> (string \<times> string) list \<Rightarrow> string \<Rightarrow> variable \<Rightarrow> vars_file \<Rightarrow> vars_file comp" where
  "add_input_var c existing varName v f =
     attempt (decrypt_var c v) (\<lambda>r. case r of
       Panic m \<Rightarrow> panic m
     | Err e \<Rightarrow>
         bnd (cmd_print c (''Failed to decrypt input '' @ quoted varName @ '': '' @ error_text e)) (\<lambda>_.
         throw (ErrorString (''input decryption failed for '' @ quoted varName)))
     | Ok val \<Rightarrow>
         (let enc = encode_as_string existing varName (var_Type v);
              L = app_hcl (cmd_app c);
              (ds, f') = (if var_Type v = DATA_TYPE_CODE \<or> var_Type v = DATA_TYPE_LIST
                          then AddRawVariable L varName (sprint_v val) enc f
                          else AddVariable L varName val enc f)
          in bnd (print_diags c varName ds) (\<lambda>_. ret f')))"

text \<open>The name under which an input becomes a variable, if it does.\<close>

definition input_var_name :: "(string \<times> variable) list \<Rightarrow> string \<Rightarrow> variable \<Rightarrow> string option" where
  "input_var_name all varName v =
     (if var_Type v = DATA_TYPE_FILE then None
      else if var_env v then
        (if HasPrefix varName TfVarEnvPrefix
         then (let trimmed = TrimPrefix varName TfVarEnvPrefix
               in if map_of all trimmed \<noteq> None then None else Some trimmed)
         else None)
      else Some varName)"

fun add_input_vars ::
  "generic_tf_cmd \<Rightarrow> (string \<times> string) list \<Rightarrow> (string \<times> variable) list \<Rightarrow> vars_file \<Rightarrow> vars_file comp" where
  "add_input_vars c existing [] f = ret f"
| "add_input_vars c existing ((varName, v) # vs) f =
     (case input_var_name (p_vars (cmd_params c)) varName v of
        None \<Rightarrow> add_input_vars c existing vs f
      | Some name \<Rightarrow> bnd (add_input_var c existing name v f) (add_input_vars c existing vs))"

text \<open>The variables meshStack provides: name, value, run-scoped.\<close>

definition meshStackVars :: "run_info \<Rightarrow> (string \<times> string \<times> bool) list" where
  "meshStackVars ri =
     [(''meshstack_building_block_id'', ri_bbId ri, False),
      (''meshstack_building_block_run_b64'', ri_runJsonBase64 ri, True),
      (''meshstack_building_block_run_id'', ri_runId ri, True)]"

definition includeRunScopedVars :: "tf_cmd_params \<Rightarrow> bool" where
  "includeRunScopedVars p \<longleftrightarrow> p_runMode p \<noteq> ''DETECT'' \<and> p_artifactUrl p = []"

text \<open>Writes the values and collects the declarations still missing: name, run-scoped.\<close>

fun add_mesh_vars ::
  "generic_tf_cmd \<Rightarrow> (string \<times> string) list \<Rightarrow> (string \<times> string \<times> bool) list \<Rightarrow> vars_file \<Rightarrow> (string \<times> bool) list \<Rightarrow>
   (vars_file \<times> (string \<times> bool) list) comp" where
  "add_mesh_vars c existing [] f decls = ret (f, decls)"
| "add_mesh_vars c existing ((name, val, runScoped) # ms) f decls =
     (let (ds, f') = (if \<not> runScoped \<or> includeRunScopedVars (cmd_params c)
                      then AddVariable (app_hcl (cmd_app c)) name (JStr val) False f else ([], f))
      in if HasErrors ds
         then bnd (print_diags c name ds) (\<lambda>_. add_mesh_vars c existing ms f' decls)
         else add_mesh_vars c existing ms f'
                (if map_of existing name \<noteq> None then decls else decls @ [(name, runScoped)]))"

definition write_decls :: "generic_tf_cmd \<Rightarrow> (string \<times> bool) list \<Rightarrow> unit comp" where
  "write_decls c decls =
     (let content = lib_DeclBytes (app_hcl (cmd_app c)) decls;
          name = path_Join [wd c, ''meshStack_run_vars.tf''] in
      if content = [] then ret ()
      else attempt (query (cmd_env c) (QStat name)) (\<lambda>r. case r of
             Err e \<Rightarrow>
               if is_not_exist e
               then attempt (cmd_sys c (CallWriteFile name content)) (\<lambda>r. case r of
                      Err e \<Rightarrow> throw (Wrapped ''failed to write meshStack_run_vars.tf: '' e '''')
                    | _ \<Rightarrow> ret ())
               else ret ()
           | _ \<Rightarrow> ret ()))"

definition tfvars_filename :: string where
  "tfvars_filename = ''aaaaaa_meshstack-e48f8924-a6c0-4ff0-9528-ff3c1f6f94d8.auto.tfvars''"

definition write_tfvars :: "generic_tf_cmd \<Rightarrow> vars_file \<Rightarrow> unit comp" where
  "write_tfvars c f =
     attempt (cmd_sys c (CallWriteFile (path_Join [wd c, tfvars_filename]) (lib_VarsBytes (app_hcl (cmd_app c)) f))) (\<lambda>r.
       case r of
         Err e \<Rightarrow>
           bnd (cmd_print c (''Unable to write '' @ tfvars_filename @ '' file'')) (\<lambda>_.
           throw (Wrapped (''failed to write '' @ tfvars_filename @ '': '') e ''''))
       | _ \<Rightarrow> ret ())"

definition read_variable_inputs :: "generic_tf_cmd \<Rightarrow> ((string \<times> string) list) comp" where
  "read_variable_inputs c =
     bnd (gets (\<lambda>s. ParseVariableInputs (app_hcl (cmd_app c)) (env_readDir (cmd_env c) (ts_trace s))
                      (\<lambda>n. env_query (cmd_env c) (ts_trace s) (QReadFile (path_Join [wd c, n]))))) (\<lambda>(inputs, ds).
     if HasErrors ds
     then bnd (cmd_print c (''Failed to parse Terraform config for variable inputs: ''
                 @ lib_DiagsText (app_hcl (cmd_app c)) ds)) (\<lambda>_. ret [])
     else ret inputs)"

definition cmd_vars :: "generic_tf_cmd \<Rightarrow> unit comp" where
  "cmd_vars c =
     bnd (read_variable_inputs c) (\<lambda>existing.
     bnd (add_input_vars c existing (SortedByKeys (p_vars (cmd_params c))) []) (\<lambda>f.
     bnd (add_mesh_vars c existing (meshStackVars (cmd_info c)) f []) (\<lambda>(f', decls).
     bnd (write_decls c decls) (\<lambda>_.
     write_tfvars c f'))))"

section \<open>Lemmas\<close>

lemma keeps_prod [keeps_intros]: "(\<And>a b. keeps P (f a b)) \<Longrightarrow> keeps P (case x of (a, b) \<Rightarrow> f a b)"
  by (simp split: prod.splits)

context tf_frame
begin

lemma keeps_cmd [keeps_intros]:
  "keeps P (cmd_print c m)" "prep_call call \<Longrightarrow> keeps P (cmd_sys c call)"
  "keeps P (decrypt_var c v)"
  by (simp_all add: cmd_print_def cmd_sys_def decrypt_var_def keeps_intros)

lemma keeps_add_env_vars [keeps_intros]: "keeps P (add_env_vars c vs e)"
  by (induction c vs e rule: add_env_vars.induct) (auto intro!: keeps_intros)

lemma keeps_buildTfEnv [keeps_intros]: "keeps P (buildTfEnv c)"
  unfolding buildTfEnv_def Let_def by (intro keeps_intros)

lemma keeps_save_files [keeps_intros]: "keeps P (save_files c vs m)"
  by (induction c vs m rule: save_files.induct)
    (auto simp: save_file_def check_target_def Let_def intro!: keeps_intros)

lemma keeps_saveInputFiles [keeps_intros]: "keeps P (saveInputFiles c)"
  unfolding saveInputFiles_def by (intro keeps_intros)

lemma keeps_print_diags [keeps_intros]: "keeps P (print_diags c name ds)"
  by (induction ds) (auto intro!: keeps_intros)

lemma keeps_add_input_vars [keeps_intros]: "keeps P (add_input_vars c existing vs f)"
  by (induction vs arbitrary: f)
    (auto simp: add_input_var_def Let_def split: option.splits intro!: keeps_intros)

lemma keeps_add_mesh_vars [keeps_intros]: "keeps P (add_mesh_vars c existing ms f decls)"
  by (induction ms arbitrary: f decls) (auto simp: Let_def intro!: keeps_intros)

lemma keeps_vars [keeps_intros]: "keeps P (cmd_vars c)"
  unfolding cmd_vars_def read_variable_inputs_def write_decls_def write_tfvars_def Let_def
  by (intro keeps_intros)

end

end
