(* ===== verification/ScriptCmd.thy ===== *)
theory ScriptCmd
  imports TfInputs
begin

text \<open>
  Hook scripts: \<^verbatim>\<open>scriptcmd.go\<close> of \<^verbatim>\<open>tf-block-runner/tfrun\<close> and \<^verbatim>\<open>runPreRunScript\<close> of \<^verbatim>\<open>tfcmd.go\<close>. The
  script process is behind the environment; the call records its arguments, its environment and
  its standard input.
\<close>

section \<open>Data\<close>

record script_params =
  sp_Name :: string
  sp_Script :: string
  sp_RunMode :: string
  sp_WorkDir :: string
  sp_TerraformBinDir :: string
  sp_RunJsonBase64 :: string
  sp_ExtraEnv :: "(string \<times> string) list"

record script_result =
  sr_UserMessage :: string
  sr_SystemMessage :: string
  sr_ExitCode :: int

definition no_result :: script_result where
  "no_result = \<lparr>sr_UserMessage = [], sr_SystemMessage = [], sr_ExitCode = 0\<rparr>"

section \<open>Pieces\<close>

definition CRLF :: string where "CRLF = [CHR 0x0D, CHR 0x0A]"

definition writeScriptFile :: "tf_env \<Rightarrow> string \<Rightarrow> string \<Rightarrow> string \<Rightarrow> string comp" where
  "writeScriptFile env dir name script =
     (let scriptPath = path_Join [dir, ''meshstack-'' @ name @ ''.sh''] in
      attempt (sys env (CallWriteFile scriptPath (ReplaceAll script CRLF [LF]))) (\<lambda>r. case r of
        Err e \<Rightarrow> throw (Wrapped (''failed to write '' @ name @ '' script: '') e '''')
      | _ \<Rightarrow> ret scriptPath))"

definition createUserMsgFile :: "tf_env \<Rightarrow> string \<Rightarrow> string comp" where
  "createUserMsgFile env dir =
     attempt (query env (QTempFile dir ''meshstack-user-message-*.txt'')) (\<lambda>r. case r of
       Ok name \<Rightarrow> ret name
     | Err e \<Rightarrow> throw (Wrapped ''failed to create user message temp file: '' e '''')
     | Panic m \<Rightarrow> panic m)"

definition decodeRunJSON :: "string \<Rightarrow> string res" where
  "decodeRunJSON base64Json =
     (if base64Json = [] then Ok []
      else (case b64_decode base64Json of
              Ok decoded \<Rightarrow> Ok decoded
            | Err e \<Rightarrow> Err (Wrapped ''could not decode run JSON: '' e '''')
            | Panic m \<Rightarrow> Panic m))"

text \<open>The loop over the environment: every entry for \<^verbatim>\<open>PATH\<close> is replaced, and its value is remembered.\<close>

fun prepend_loop :: "string list \<Rightarrow> string list \<Rightarrow> string list \<times> string list \<times> bool" where
  "prepend_loop paths [] = ([], paths, False)"
| "prepend_loop paths (kv # environ) =
     (if HasPrefix kv ''PATH=''
      then let existing = TrimPrefix kv ''PATH='';
               paths' = (if existing \<noteq> [] then paths @ [existing] else paths);
               (rest, paths'', _) = prepend_loop paths' environ
           in ((''PATH='' @ Join paths' '':'') # rest, paths'', True)
      else let (rest, paths', found) = prepend_loop paths environ in (kv # rest, paths', found))"

definition prependToPathEnvironmentVariable :: "string list \<Rightarrow> string list \<Rightarrow> string list" where
  "prependToPathEnvironmentVariable environ paths =
     (let ps = filter (\<lambda>p. TrimSpace p \<noteq> []) paths in
      if ps = [] then environ
      else let (environ', ps', pathFound) = prepend_loop ps environ
           in if pathFound then environ' else environ' @ [''PATH='' @ Join ps' '':''])"

definition buildScriptEnvironmentVariables ::
  "app \<Rightarrow> string \<Rightarrow> string \<Rightarrow> (string \<times> string) list \<Rightarrow> string list" where
  "buildScriptEnvironmentVariables app terraformBinDir userMsgPath extraEnv =
     (let merged = map_put ''MESHSTACK_USER_MESSAGE'' userMsgPath (maps_Copy (cleanSystemEnv app) extraEnv)
      in prependToPathEnvironmentVariable (map (\<lambda>(k, v). k @ ''='' @ v) merged) [terraformBinDir])"

definition buildScriptCmd :: "string \<Rightarrow> string list \<Rightarrow> string \<Rightarrow> string list \<Rightarrow> tf_call" where
  "buildScriptCmd scriptPath environ stdin scriptArgs =
     CallScript ([''--noprofile'', ''--norc'', ''-e'', ''-o'', ''pipefail'', scriptPath] @ scriptArgs)
       environ (if stdin \<noteq> [] then Some stdin else None)"

definition extractExitCode :: "go_error option \<Rightarrow> int" where
  "extractExitCode runErr =
     (case runErr of None \<Rightarrow> 0
      | Some e \<Rightarrow> (case as_exit_error e of Some n \<Rightarrow> n | None \<Rightarrow> -1))"

definition readUserMsgFile :: "tf_env \<Rightarrow> string \<Rightarrow> string comp" where
  "readUserMsgFile env filePath =
     attempt (query env (QReadFile filePath)) (\<lambda>r. case r of Ok data \<Rightarrow> ret (TrimSpace data) | _ \<Rightarrow> ret [])"

section \<open>Running a script\<close>

text \<open>The result is returned next to the error, so that its messages are reported either way.\<close>

definition script_failed :: "script_params \<Rightarrow> int \<Rightarrow> go_error \<Rightarrow> go_error" where
  "script_failed p exitCode e =
     Wrapped (sp_Name p @ '' script failed with exit code '' @ itoa exitCode @ '': '') e ''''"

definition run_prepared :: "tf_env \<Rightarrow> app \<Rightarrow> script_params \<Rightarrow> string \<Rightarrow> string \<Rightarrow> (script_result \<times> go_error option) comp" where
  "run_prepared env app p scriptPath userMsgPath =
     (case decodeRunJSON (sp_RunJsonBase64 p) of
        Err e \<Rightarrow> ret (no_result, Some e)
      | Panic m \<Rightarrow> panic m
      | Ok runJSON \<Rightarrow>
          attempt (sys env (buildScriptCmd scriptPath
                     (buildScriptEnvironmentVariables app (sp_TerraformBinDir p) userMsgPath (sp_ExtraEnv p))
                     runJSON [sp_RunMode p])) (\<lambda>r.
          let runErr = (case r of Err e \<Rightarrow> Some e | _ \<Rightarrow> None);
              exitCode = extractExitCode runErr in
          attempt (query env QCommandOutput) (\<lambda>out.
          bnd (readUserMsgFile env userMsgPath) (\<lambda>userMsg.
          ret (\<lparr>sr_UserMessage = userMsg, sr_SystemMessage = (case out of Ok t \<Rightarrow> t | _ \<Rightarrow> []),
                sr_ExitCode = exitCode\<rparr>,
               map_option (script_failed p exitCode) runErr)))))"

definition RunScript :: "tf_env \<Rightarrow> app \<Rightarrow> script_params \<Rightarrow> (script_result \<times> go_error option) comp" where
  "RunScript env app p =
     attempt (writeScriptFile env (sp_WorkDir p) (sp_Name p) (sp_Script p)) (\<lambda>r. case r of
       Err e \<Rightarrow> ret (no_result, Some e)
     | Panic m \<Rightarrow> panic m
     | Ok scriptPath \<Rightarrow>
         attempt (createUserMsgFile env (sp_WorkDir p)) (\<lambda>r. case r of
           Err e \<Rightarrow> ret (no_result, Some e)
         | Panic m \<Rightarrow> panic m
         | Ok userMsgPath \<Rightarrow>
             deferred (sys env (CallRemove userMsgPath)) (run_prepared env app p scriptPath userMsgPath)))"

definition pre_run_params :: "generic_tf_cmd \<Rightarrow> string \<Rightarrow> (string \<times> string) list \<Rightarrow> script_params" where
  "pre_run_params c script extraEnv =
     \<lparr>sp_Name = ''pre-run'', sp_Script = script, sp_RunMode = p_runMode (cmd_params c),
      sp_WorkDir = wd c, sp_TerraformBinDir = path_Join [app_binDir (cmd_app c), p_tfVersion (cmd_params c)],
      sp_RunJsonBase64 = ri_runJsonBase64 (cmd_info c), sp_ExtraEnv = extraEnv\<rparr>"

definition runPreRunScript ::
  "generic_tf_cmd \<Rightarrow> (string \<times> string) list \<Rightarrow> (string option \<times> go_error option) comp" where
  "runPreRunScript c extraEnv =
     (case p_preRunScript (cmd_params c) of
        None \<Rightarrow> bnd (cmd_print c ''No pre-run script configured, skipping.'') (\<lambda>_. ret (None, None))
      | Some script \<Rightarrow>
          if TrimSpace script = []
          then bnd (cmd_print c ''No pre-run script configured, skipping.'') (\<lambda>_. ret (None, None))
          else
            bnd (RunScript (cmd_env c) (cmd_app c) (pre_run_params c script extraEnv)) (\<lambda>(result, runErr).
            bnd (if sr_UserMessage result \<noteq> [] \<and> runErr \<noteq> None
                 then cmd_print c (sr_UserMessage result) else ret ()) (\<lambda>_.
            bnd (if sr_SystemMessage result \<noteq> [] then cmd_print c (sr_SystemMessage result) else ret ()) (\<lambda>_.
            bnd (cmd_print c (''pre-run script exited with code '' @ itoa (sr_ExitCode result))) (\<lambda>_.
            ret (if sr_UserMessage result \<noteq> [] then Some (sr_UserMessage result) else None, runErr))))))"

section \<open>Lemmas\<close>

context tf_frame
begin

lemma keeps_RunScript [keeps_intros]: "keeps P (RunScript env app p)"
  unfolding RunScript_def writeScriptFile_def createUserMsgFile_def run_prepared_def readUserMsgFile_def
    buildScriptCmd_def Let_def
  by (intro keeps_intros)

lemma keeps_runPreRunScript [keeps_intros]: "keeps P (runPreRunScript c e)"
  unfolding runPreRunScript_def by (intro keeps_intros)

end

text \<open>The terraform directory comes first in the path of a script, and the other entries stay.\<close>

lemma prepend_loop_none:
  "\<forall>kv \<in> set es. \<not> HasPrefix kv ''PATH='' \<Longrightarrow> prepend_loop ps es = (es, ps, False)"
  by (induction es) auto

lemma prepend_loop_once:
  assumes "\<forall>kv \<in> set as. \<not> HasPrefix kv ''PATH=''" "\<forall>kv \<in> set bs. \<not> HasPrefix kv ''PATH=''" "q \<noteq> []"
  shows "prepend_loop ps (as @ (''PATH='' @ q) # bs) =
    (as @ (''PATH='' @ Join (ps @ [q]) '':'') # bs, ps @ [q], True)"
  using assms(1)
proof (induction as)
  case Nil
  have "HasPrefix (''PATH='' @ q) ''PATH=''" "TrimPrefix (''PATH='' @ q) ''PATH='' = q"
    by (rule HasPrefix_self, rule TrimPrefix_append)
  then show ?case using assms(2,3) by (simp add: prepend_loop_none Let_def)
qed simp

end
