(* ===== verification/TfCmd.thy ===== *)
theory TfCmd
  imports ScriptCmd
begin

text \<open>
  What all terraform commands share: \<^verbatim>\<open>tfcmd.go\<close> from \<^verbatim>\<open>createFreshCommandWd\<close> to \<^verbatim>\<open>matchOutputType\<close> and
  \<^verbatim>\<open>tfbinaries.go\<close>. The timeouts of the sub-contexts are part of the environment: a call that
  exceeds one returns an error.
\<close>

section \<open>Sources and binaries\<close>

definition createFreshCommandWd :: "generic_tf_cmd \<Rightarrow> unit comp" where
  "createFreshCommandWd c =
     (case p_source (cmd_params c) of
        None \<Rightarrow> panic ''invalid memory address or nil pointer dereference''
      | Some g \<Rightarrow> CopyToTargetDir (cmd_env c) (cmd_app c) g (wd c))"

definition installTofuBinaries :: "tf_env \<Rightarrow> string \<Rightarrow> string \<Rightarrow> unit comp" where
  "installTofuBinaries env ver dir =
     bnd (query env QTofuNew) (\<lambda>_.
     bnd (sys env (CallDownloadTofu ver)) (\<lambda>_.
     bnd (query env QTofuBinary) (\<lambda>tofuBinary.
     let terraformBin = path_Join [dir, ''terraform''] in
     bnd (sys env (CallWriteFile terraformBin tofuBinary)) (\<lambda>_.
     sys env (CallSymlink terraformBin (path_Join [dir, ''tofu'']))))))"

text \<open>
  A binary that is there is used; otherwise the version's directory is reset and filled again.
  \<^verbatim>\<open>version.Must\<close> panics on a version that does not parse. Versions up to 1.5.5 are Terraform, later
  ones OpenTofu.
\<close>

definition install_tf :: "tf_env \<Rightarrow> app \<Rightarrow> string \<Rightarrow> string \<Rightarrow> string comp" where
  "install_tf env app ver expectedExecPath =
     (let versionInstallPath = path_Join [app_binDir app, ver] in
      bnd (sys env (CallRemoveAll versionInstallPath)) (\<lambda>_.
      bnd (sys env (CallMkdirAll versionInstallPath)) (\<lambda>_.
      case app_versionCompare app ver ''1.5.5'' of
        None \<Rightarrow> panic (''Malformed version: '' @ ver)
      | Some d \<Rightarrow>
          if d < 1
          then bnd (sys env (CallInstall ver versionInstallPath)) (\<lambda>_. query env QExecPath)
          else bnd (installTofuBinaries env ver versionInstallPath) (\<lambda>_. ret expectedExecPath))))"

definition GetTF :: "generic_tf_cmd \<Rightarrow> unit comp" where
  "GetTF c =
     (let ver = p_tfVersion (cmd_params c);
          expectedExecPath = path_Join [app_binDir (cmd_app c), ver, ''terraform''] in
      attempt (query (cmd_env c) (QStat expectedExecPath)) (\<lambda>r.
      bnd (if (case r of Ok t \<Rightarrow> t \<noteq> ''dir'' | _ \<Rightarrow> False) then ret expectedExecPath
           else install_tf (cmd_env c) (cmd_app c) ver expectedExecPath) (\<lambda>execPath.
      cmd_sys c (CallNewTerraform (wd c) execPath))))"

section \<open>Backend\<close>

definition detectBackend :: "generic_tf_cmd \<Rightarrow> bool comp" where
  "detectBackend c =
     bnd (gets (\<lambda>s. FindBackendConfig (app_hcl (cmd_app c)) (env_readDir (cmd_env c) (ts_trace s))
                      (\<lambda>n. env_query (cmd_env c) (ts_trace s) (QReadFile (path_Join [wd c, n]))))) (\<lambda>(found, file, ds).
     if HasErrors ds
     then throw (ErrorString (''errors while detecting backend config: '' @ lib_DiagsText (app_hcl (cmd_app c)) ds))
     else if found then bnd (cmd_print c (''Found a backend config in '' @ file)) (\<lambda>_. ret True)
     else ret False)"

definition backend_url :: "generic_tf_cmd \<Rightarrow> string" where
  "backend_url c =
     (let base = (if ri_meshstackBaseUrl (cmd_info c) = [] then app_RunApiBackendUrl (cmd_app c)
                  else ri_meshstackBaseUrl (cmd_info c))
      in base @ ''/api/terraform/state/workspace/'' @ ri_workspaceIdentifier (cmd_info c)
         @ ''/buildingBlock/'' @ ri_bbId (cmd_info c))"

definition backend_attributes :: "generic_tf_cmd \<Rightarrow> (string \<times> string) list" where
  "backend_attributes c =
     (let lockUrl = ri_tfStateLockUrl (cmd_info c) in
      (''address'', backend_url c)
      # (if lockUrl \<noteq> []
         then [(''lock_address'', lockUrl), (''lock_method'', ''POST''),
               (''unlock_address'', lockUrl), (''unlock_method'', ''DELETE'')]
         else []))"

definition run_token_missing :: string where
  "run_token_missing = ''cannot configure meshStack HTTP backend: runToken is empty ''
     @ [CHR 0xE2, CHR 0x80, CHR 0x94] @ '' the run object did not include an ephemeral token''"

definition createMeshStackHttpBackendFile :: "generic_tf_cmd \<Rightarrow> unit comp" where
  "createMeshStackHttpBackendFile c =
     bnd (query (cmd_env c) (QOpenRoot (wd c))) (\<lambda>_.
     bnd (query (cmd_env c) QUnixTime) (\<lambda>now.
     let name = ''meshStack_httpbackend-'' @ now @ ''.tf'' in
     attempt (query (cmd_env c) (QStat (path_Join [wd c, name]))) (\<lambda>r.
     if \<not> (case r of Err e \<Rightarrow> is_not_exist e | _ \<Rightarrow> False)
     then throw (ErrorString (''a file with the name '' @ quoted name @ '' already exists in the working directory''))
     else if ri_runToken (cmd_info c) = [] then throw (ErrorString run_token_missing)
     else cmd_sys c (CallWriteFile (path_Join [wd c, name])
            (lib_BackendBytes (app_hcl (cmd_app c)) (backend_attributes c))))))"

section \<open>Init and workspaces\<close>

definition plainInit :: "generic_tf_cmd \<Rightarrow> unit comp" where
  "plainInit c =
     attempt (invoke (cmd_env c) CallInit) (\<lambda>r. case r of
       Ok _ \<Rightarrow> ret ()
     | Err _ \<Rightarrow> invoke (cmd_env c) CallInit
     | Panic m \<Rightarrow> panic m)"

definition setUseWorkspaces :: "bool \<Rightarrow> unit comp" where
  "setUseWorkspaces b = modify (\<lambda>s. s\<lparr>ts_useWorkspaces := b\<rparr>)"

definition cmd_init :: "generic_tf_cmd \<Rightarrow> unit comp" where
  "cmd_init c =
     bnd (if ri_useMeshBackendFallback (cmd_info c)
          then bnd (detectBackend c) (\<lambda>exists.
               if exists then cmd_print c ''Using existing backend.''
               else bnd (cmd_print c ''Detected no backend. Generating meshStack http backend for init.'') (\<lambda>_.
                    bnd (createMeshStackHttpBackendFile c) (\<lambda>_.
                    setUseWorkspaces False)))
          else ret ()) (\<lambda>_.
     plainInit c)"

text \<open>The name of the workspace that is selected now; empty when there is none yet.\<close>

definition selectWorkspace :: "generic_tf_cmd \<Rightarrow> string comp" where
  "selectWorkspace c =
     (let bbId = p_buildingBlockId (cmd_params c) in
      bnd (invoke (cmd_env c) CallWorkspaceList) (\<lambda>_.
      bnd (gets (\<lambda>s. env_workspaces (cmd_env c) (ts_trace s))) (\<lambda>(available, current).
      if HasSuffix current bbId then ret current
      else (case find (\<lambda>ws. HasSuffix ws bbId) available of
              None \<Rightarrow> ret []
            | Some ws \<Rightarrow>
                attempt (invoke (cmd_env c) (CallWorkspaceSelect ws)) (\<lambda>r. case r of
                  Ok _ \<Rightarrow> ret bbId
                | _ \<Rightarrow> ret [])))))"

definition useWorkspaceIfNeeded :: "generic_tf_cmd \<Rightarrow> unit comp" where
  "useWorkspaceIfNeeded c =
     bnd (gets ts_useWorkspaces) (\<lambda>use.
     if \<not> use then ret ()
     else bnd (selectWorkspace c) (\<lambda>workspace.
          if workspace \<noteq> [] then ret ()
          else invoke (cmd_env c) (CallWorkspaceNew (p_suggestedWorkspace (cmd_params c)))))"

text \<open>Every error is logged locally and dropped, the one of the search included.\<close>

definition deleteWorkspaceIfNeeded :: "generic_tf_cmd \<Rightarrow> unit comp" where
  "deleteWorkspaceIfNeeded c =
     bnd (gets ts_useWorkspaces) (\<lambda>use.
     if \<not> use then ret ()
     else attempt (selectWorkspace c) (\<lambda>r.
          let workspace = (case r of Ok w \<Rightarrow> w | _ \<Rightarrow> []) in
          attempt (invoke (cmd_env c) (CallWorkspaceSelect ''default'')) (\<lambda>r. case r of
            Ok _ \<Rightarrow> attempt (invoke (cmd_env c) (CallWorkspaceDelete workspace)) (\<lambda>_. ret ())
          | _ \<Rightarrow> ret ())))"

definition assignOutput :: "unit comp" where
  "assignOutput = modify (\<lambda>s. s\<lparr>ts_onWrite := True\<rparr>)"

section \<open>Outputs\<close>

definition matchOutputType :: "output_meta \<Rightarrow> data_type" where
  "matchOutputType om =
     (case om_Type om of
        JStr t \<Rightarrow>
          if t = ''number'' then DATA_TYPE_INTEGER
          else if t = ''bool'' then DATA_TYPE_BOOLEAN
          else if t = ''string'' then DATA_TYPE_STRING
          else DATA_TYPE_CODE
      | _ \<Rightarrow> DATA_TYPE_CODE)"

definition parse_output :: "output_meta \<Rightarrow> any \<Rightarrow> tf_output" where
  "parse_output om v =
     (let t = matchOutputType om in
      \<lparr>out_Value = (if t = DATA_TYPE_CODE \<or> t = DATA_TYPE_MULTISELECT then JStr (json_MarshalIndent v) else v),
       out_Type = t, out_Sensitive = om_Sensitive om\<rparr>)"

definition parse_outputs :: "(string \<times> output_meta) list \<Rightarrow> (string \<times> tf_output) list" where
  "parse_outputs output =
     concat (map (\<lambda>(k, om). case om_Value om of None \<Rightarrow> [] | Some v \<Rightarrow> [(k, parse_output om v)]) output)"

definition collectOutput :: "(string \<times> output_meta) list \<Rightarrow> tf_state \<Rightarrow> tf_state" where
  "collectOutput output = upd_run (update_current_step (\<lambda>st. st\<lparr>step_Outputs := parse_outputs output\<rparr>))"

section \<open>Lemmas\<close>

context tf_frame
begin

lemma keeps_createFreshCommandWd [keeps_intros]: "keeps P (createFreshCommandWd c)"
  unfolding createFreshCommandWd_def by (intro keeps_intros)

lemma keeps_GetTF [keeps_intros]: "keeps P (GetTF c)"
  unfolding GetTF_def install_tf_def installTofuBinaries_def Let_def
  by (intro keeps_intros)

lemma keeps_assignOutput [keeps_intros]: "keeps P assignOutput"
  unfolding assignOutput_def by (rule keeps_modify) (rule P_onWrite)

lemma keeps_plainInit [keeps_intros]: "keeps P (plainInit c)"
  unfolding plainInit_def by (intro keeps_intros)

lemma keeps_init [keeps_intros]: "keeps P (cmd_init c)"
  unfolding cmd_init_def detectBackend_def createMeshStackHttpBackendFile_def Let_def setUseWorkspaces_def
  by (intro keeps_intros keeps_modify P_useWorkspaces)

lemma keeps_selectWorkspace [keeps_intros]: "keeps P (selectWorkspace c)"
  unfolding selectWorkspace_def Let_def by (intro keeps_intros)

lemma keeps_useWorkspaceIfNeeded [keeps_intros]: "keeps P (useWorkspaceIfNeeded c)"
  unfolding useWorkspaceIfNeeded_def by (intro keeps_intros)

lemma keeps_deleteWorkspaceIfNeeded [keeps_intros]: "keeps P (deleteWorkspaceIfNeeded c)"
  unfolding deleteWorkspaceIfNeeded_def Let_def by (intro keeps_intros)

end

lemma collectOutput_live: "live n k s \<Longrightarrow> live n k (collectOutput output s)"
proof -
  let ?g = "\<lambda>st. st\<lparr>step_Outputs := parse_outputs output\<rparr>"
  assume l: "live n k s"
  have "consistent (update_current_step ?g (ts_runStatus s))"
    using l steps_ordered_update [of ?g "ts_runStatus s"]
    by (auto simp: live_def at_status_def sound_def consistent_def)
  moreover have "run_le (ts_runStatus s) (update_current_step ?g (ts_runStatus s))"
    by (rule run_le_update) (simp add: step_le_def)
  moreover have "list_all (\<lambda>st. step_LogStartIdx st \<le> ts_logSize s) (run_Steps (update_current_step ?g (ts_runStatus s)))"
    using l by (auto simp: live_def at_status_def sound_def log_ok_def intro!: list_all_update)
  ultimately have "sound (s\<lparr>ts_runStatus := update_current_step ?g (ts_runStatus s)\<rparr>)"
    using l by (intro sound_upd) (simp_all add: live_def at_status_def)
  then show ?thesis
    using l by (simp add: live_def at_status_def collectOutput_def upd_run_def)
qed

text \<open>The terraform init runs once or twice.\<close>

lemma calls_fold_Write: "sound s \<Longrightarrow> sound (fold (logwrap_Write env) ps s) \<and>
  calls (ts_trace (fold (logwrap_Write env) ps s)) = calls (ts_trace s) \<and>
  ts_useWorkspaces (fold (logwrap_Write env) ps s) = ts_useWorkspaces s"
  by (induction ps arbitrary: s) (auto simp: sound_Write Write_history(1) Write_frame(5))

lemma record_sound: "sound s \<Longrightarrow> sound (s\<lparr>ts_trace := ts_trace s @ [Called c]\<rparr>)"
  by (auto simp: sound_def log_ok_def progressing_def)

lemma calls_invoke:
  assumes "sound s"
  shows "calls (ts_trace (snd (invoke env c s))) = calls (ts_trace s) @ [c]" "sound (snd (invoke env c s))"
    "ts_useWorkspaces (snd (invoke env c s)) = ts_useWorkspaces s"
  using calls_fold_Write [OF record_sound [OF assms]] by (auto simp: invoke_def Let_def)

end
