(* ===== verification/TfCommands.thy ===== *)
theory TfCommands
  imports TfCmd
begin

text \<open>
  The three commands: \<^verbatim>\<open>tfplan.go\<close>, \<^verbatim>\<open>tfapply.go\<close> and \<^verbatim>\<open>tfdestroy.go\<close> of \<^verbatim>\<open>tf-block-runner/tfrun\<close>.

  Their \<^verbatim>\<open>execute\<close> methods begin with the same statements, up to the pre-run script; \<open>execute_prefix\<close>
  is that part, with the note that plan and destroy log when init fails as a parameter, and what
  follows as the continuation.
\<close>

section \<open>Steps\<close>

definition set_steps :: "step_status list \<Rightarrow> tf_state \<Rightarrow> tf_state" where
  "set_steps steps = upd_run (\<lambda>r. r\<lparr>run_Steps := steps, run_CurrentStepIndex := 0\<rparr>)"

definition async_steps :: "step_status list" where
  "async_steps = [pending_step StepTrigger ''Prepare Run'']"

definition common_steps :: "step_status list" where
  "common_steps =
     [pending_step StepSources ''Prepare Run and download Sources'',
      pending_step StepInput ''Initialize Inputs'',
      pending_step StepInitTf ''Initialize Terraform and select Workspace'',
      pending_step StepPreRunScript ''Execute Pre-Run Script'']"

definition plan_steps :: "run_info \<Rightarrow> step_status list" where
  "plan_steps ri = (if ri_asyncRun ri then async_steps
     else common_steps @ [pending_step StepExecuteTf ''Run Terraform Plan''])"

definition apply_steps :: "run_info \<Rightarrow> step_status list" where
  "apply_steps ri = (if ri_asyncRun ri then async_steps
     else common_steps @ [pending_step StepExecuteTf ''Run Terraform Apply'',
                          pending_step StepOutput ''Collect Outputs and clean up''])"

definition destroy_steps :: "run_info \<Rightarrow> step_status list" where
  "destroy_steps ri = (if ri_asyncRun ri then async_steps
     else common_steps @ [pending_step StepExecuteTf ''Run Terraform Destroy'',
                          pending_step StepOutput ''Collect Outputs and clean up''])"

definition plan_initRunSteps :: "generic_tf_cmd \<Rightarrow> tf_state \<Rightarrow> tf_state" where
  "plan_initRunSteps c = set_steps (plan_steps (cmd_info c))"

definition apply_initRunSteps :: "generic_tf_cmd \<Rightarrow> tf_state \<Rightarrow> tf_state" where
  "apply_initRunSteps c = set_steps (apply_steps (cmd_info c))"

definition destroy_initRunSteps :: "generic_tf_cmd \<Rightarrow> tf_state \<Rightarrow> tf_state" where
  "destroy_initRunSteps c = set_steps (destroy_steps (cmd_info c))"

section \<open>The common part\<close>

definition fail_cmd :: "generic_tf_cmd \<Rightarrow> go_error \<Rightarrow> tf_state \<Rightarrow> tf_state" where
  "fail_cmd c = cmd_fail (cmd_env c) (cmd_info c)"

definition advance :: "generic_tf_cmd \<Rightarrow> string option \<Rightarrow> tf_state \<Rightarrow> tf_state" where
  "advance c = advanceStep (cmd_env c) (cmd_info c)"

definition HINT_INIT_FAILED :: string where
  "HINT_INIT_FAILED = ''Check provider and / or backend config''"

definition fail_init :: "generic_tf_cmd \<Rightarrow> bool \<Rightarrow> go_error \<Rightarrow> tf_state \<Rightarrow> tf_state" where
  "fail_init c hint err s =
     fail_cmd c err (if hint then PrintlnToUpdateLogs (cmd_env c) HINT_INIT_FAILED s else s)"

definition execute_prefix ::
  "generic_tf_cmd \<Rightarrow> bool \<Rightarrow> (tf_state \<Rightarrow> tf_state) \<Rightarrow> tf_state \<Rightarrow> tf_state" where
  "execute_prefix c hint rest s =
     or_fail (fail_cmd c) (createFreshCommandWd c) (\<lambda>_.
     or_fail (fail_cmd c) (GetTF c) (\<lambda>_.
     or_fail (fail_cmd c) (buildTfEnv c) (\<lambda>tfEnv.
     or_fail (fail_cmd c) (cmd_sys c (CallSetEnv tfEnv)) (\<lambda>_.
     or_fail (fail_cmd c) assignOutput (\<lambda>_ s1.
     or_fail (fail_cmd c) (saveInputFiles c) (\<lambda>_.
     or_fail (fail_cmd c) (cmd_vars c) (\<lambda>_ s2.
     or_fail (fail_init c hint) (cmd_init c) (\<lambda>_.
     or_fail (fail_cmd c) (useWorkspaceIfNeeded c) (\<lambda>_ s3.
     or_fail (fail_cmd c) (runPreRunScript c tfEnv) (\<lambda>(preRunUserMsg, err) s4.
       case err of
         Some e \<Rightarrow> failWithUserMsg (cmd_env c) (cmd_info c) e preRunUserMsg s4
       | None \<Rightarrow> rest (advance c preRunUserMsg s4)) (advance c None s3)))
       (advance c None s2))) (advance c None s1)))))) (startRun s)"

section \<open>Plan\<close>

definition PlanCmd :: "tf_env \<Rightarrow> app \<Rightarrow> run_info \<Rightarrow> tf_cmd_params \<Rightarrow> generic_tf_cmd" where
  "PlanCmd env app runContextInfo params =
     \<lparr>cmd_env = env, cmd_app = app, cmd_info = runContextInfo, cmd_params = params\<rparr>"

definition upload_error :: string where
  "upload_error = ''no artifact upload URL provided for DETECT run; cannot persist plan for a follow-up APPLY''"

definition setChangesDetected :: "bool \<Rightarrow> tf_state \<Rightarrow> tf_state" where
  "setChangesDetected b = upd_run (\<lambda>r. r\<lparr>run_ChangesDetected := Some b\<rparr>)"

definition plan_finish :: "generic_tf_cmd \<Rightarrow> tf_state \<Rightarrow> tf_state" where
  "plan_finish c =
     (let planFile = ri_artifactFilePath (cmd_info c); url = p_artifactUploadUrl (cmd_params c) in
      or_fail (fail_cmd c) (invoke (cmd_env c) (CallPlan planFile)) (\<lambda>_ s.
      let s1 = setChangesDetected (env_changed (cmd_env c) (ts_trace s)) s in
      if url = [] then fail_cmd c (ErrorString upload_error) s1
      else
        or_fail (fail_cmd c) (wrap_err ''failed to read plan artifact: '' (query (cmd_env c) (QReadFile planFile))) (\<lambda>planData.
        or_fail (fail_cmd c) (wrap_err ''failed to upload artifact: '' (cmd_sys c (CallUpload url planData))) (\<lambda>_.
        completeRun (cmd_env c) None)) s1))"

definition plan_execute :: "generic_tf_cmd \<Rightarrow> tf_state \<Rightarrow> tf_state" where
  "plan_execute c = execute_prefix c True (plan_finish c)"

section \<open>Apply\<close>

definition ApplyCmd :: "tf_env \<Rightarrow> app \<Rightarrow> run_info \<Rightarrow> tf_cmd_params \<Rightarrow> generic_tf_cmd" where
  "ApplyCmd env app runContextInfo params =
     \<lparr>cmd_env = env, cmd_app = app, cmd_info = runContextInfo, cmd_params = params\<rparr>"

definition download_hint :: string where
  "download_hint = ''. The dry-run that produced this plan must be re-run before the change can be applied''"

definition stale_hint :: string where
  "stale_hint = ''. The previewed plan is no longer valid '' @ [CHR 0xE2, CHR 0x80, CHR 0x94]
     @ '' the underlying state, configuration, or providers changed since the dry-run. Please re-run the dry-run to produce and approve a fresh plan''"

definition applyPredecessorPlan :: "generic_tf_cmd \<Rightarrow> unit comp" where
  "applyPredecessorPlan c =
     (let planFile = ri_artifactFilePath (cmd_info c) in
      bnd (cmd_print c ''Using the provided plan artifact from the dry-run; applying it verbatim instead of re-planning.'') (\<lambda>_.
      bnd (wrap_err (''failed to create predecessor plan artifact file '' @ planFile @ '': '')
             (cmd_sys c (CallOpenFile planFile))) (\<lambda>_.
      bnd (attempt (cmd_sys c (CallDownload (p_artifactUrl (cmd_params c)) planFile)) (\<lambda>r. case r of
             Ok _ \<Rightarrow> ret ()
           | Panic m \<Rightarrow> panic m
           | Err e \<Rightarrow> attempt (cmd_sys c (CallClose planFile)) (\<lambda>_.
                     throw (Wrapped ''failed to download the previewed terraform plan for this approval: '' e download_hint)))) (\<lambda>_.
      bnd (wrap_err (''failed to write predecessor plan artifact to '' @ planFile @ '': '')
             (cmd_sys c (CallClose planFile))) (\<lambda>_.
      attempt (invoke (cmd_env c) (CallApply (Some planFile))) (\<lambda>r. case r of
        Ok _ \<Rightarrow> ret ()
      | Panic m \<Rightarrow> panic m
      | Err e \<Rightarrow> throw (Wrapped ''applying the previewed terraform plan failed: '' e stale_hint)))))))"

definition freshApply :: "generic_tf_cmd \<Rightarrow> unit comp" where
  "freshApply c =
     bnd (cmd_print c ''No plan artifact linked to this run; running a fresh terraform apply.'') (\<lambda>_.
     invoke (cmd_env c) (CallApply None))"

definition setStateFilename :: "tf_state \<Rightarrow> tf_state" where
  "setStateFilename s = s\<lparr>ts_filename_state := ''terraform.tfstate''\<rparr>"

definition apply_finish :: "generic_tf_cmd \<Rightarrow> tf_state \<Rightarrow> tf_state" where
  "apply_finish c =
     or_fail (fail_cmd c) (if p_artifactUrl (cmd_params c) \<noteq> [] then applyPredecessorPlan c else freshApply c) (\<lambda>_ s1.
     or_fail (fail_cmd c) (invoke (cmd_env c) CallOutput) (\<lambda>_ s2.
     completeRun (cmd_env c) None
       (setStateFilename (collectOutput (env_outputs (cmd_env c) (ts_trace s2)) s2))) (advance c None s1))"

definition apply_execute :: "generic_tf_cmd \<Rightarrow> tf_state \<Rightarrow> tf_state" where
  "apply_execute c = execute_prefix c False (apply_finish c)"

section \<open>Destroy\<close>

definition DestroyCmd :: "tf_env \<Rightarrow> app \<Rightarrow> run_info \<Rightarrow> tf_cmd_params \<Rightarrow> generic_tf_cmd" where
  "DestroyCmd env app runContextInfo params =
     \<lparr>cmd_env = env, cmd_app = app, cmd_info = runContextInfo, cmd_params = params\<rparr>"

definition suppressForgetErrorsMinVersion :: string where "suppressForgetErrorsMinVersion = ''1.12.0''"
definition stateLockTimeout :: string where "stateLockTimeout = ''-lock-timeout=5m''"

definition destroyOptions :: "app \<Rightarrow> string \<Rightarrow> string list" where
  "destroyOptions app tfVersion =
     (case app_versionCompare app tfVersion suppressForgetErrorsMinVersion of
        None \<Rightarrow> [stateLockTimeout]
      | Some d \<Rightarrow> if d < 0 then [stateLockTimeout]
                 else [stateLockTimeout, ''-suppress-forget-errors''])"

definition destroy_finish :: "generic_tf_cmd \<Rightarrow> tf_state \<Rightarrow> tf_state" where
  "destroy_finish c =
     or_fail (fail_cmd c) (if ri_asyncRun (cmd_info c) then invoke (cmd_env c) (CallApply None) else ret ()) (\<lambda>_.
     or_fail (fail_cmd c) (invoke (cmd_env c)
                (CallDestroy (destroyOptions (cmd_app c) (p_tfVersion (cmd_params c))))) (\<lambda>_ s1.
     or_fail (fail_cmd c) (invoke (cmd_env c) CallOutput) (\<lambda>_ s2.
     or_fail (fail_cmd c) (deleteWorkspaceIfNeeded c) (\<lambda>_.
     completeRun (cmd_env c) None) (collectOutput (env_outputs (cmd_env c) (ts_trace s2)) s2))
     (advance c None s1)))"

definition destroy_execute :: "generic_tf_cmd \<Rightarrow> tf_state \<Rightarrow> tf_state" where
  "destroy_execute c = execute_prefix c True (destroy_finish c)"

section \<open>Lemmas\<close>

lemma stopped_fail_cmd: "P k s \<Longrightarrow> stopped (cmd_env c) (cmd_info c) P (fail_cmd c err s)"
  by (simp add: fail_cmd_def stopped_cmd_fail)

lemma stopped_fail_init:
  "running n k s \<Longrightarrow> stopped (cmd_env c) (cmd_info c) (running n) (fail_init c hint err s)"
  using stopped_fail_cmd [of "running n" k s c err]
    stopped_fail_cmd [of "running n" k _ c err, OF within.P_Write]
  by (simp add: fail_init_def PrintlnToUpdateLogs_def)

lemma keeps_wrap_err [keeps_intros]: "keeps P m \<Longrightarrow> keeps P (wrap_err t m)"
  unfolding wrap_err_def by (intro keeps_intros)

text \<open>
  The common part stops early, without any of the commands proper, or goes on in the fifth step of
  a run that is in progress.
\<close>

lemma execute_prefix_rule:
  assumes "registered n s" "calls (ts_trace s) = []" "steps_fit (cmd_info c) n m" "5 \<le> m"
    and stop: "\<And>t. stopped (cmd_env c) (cmd_info c) (running n) t \<Longrightarrow> Q t"
    and go: "\<And>t. running n (step_no (cmd_info c) 4) t \<Longrightarrow> Q (rest t)"
  shows "Q (execute_prefix c hint rest s)"
proof -
  let ?ri = "cmd_info c" and ?env = "cmd_env c"
  note link = or_fail_rule [where P = "running n" and Q = Q, OF _ _ stop]
  note fail = stopped_fail_cmd [where P = "running n"]
  have adv: "running n (step_no ?ri j) t \<Longrightarrow> j < 4 \<Longrightarrow> running n (step_no ?ri (Suc j)) (advance c um t)"
    for j um t
    using advance_within [of "\<lambda>_. False" n ?ri j t m] assms(3,4) by (simp add: advance_def)
  have r0: "running n (step_no ?ri 0) (startRun s)" using startRun_running assms(1,2) by blast
  have script: "Q ((case x of (um, err) \<Rightarrow> (\<lambda>t. case err of
        Some e \<Rightarrow> failWithUserMsg ?env ?ri e um t | None \<Rightarrow> rest (advance c um t))) t)"
    if "running n (step_no ?ri (Suc (Suc (Suc 0)))) t" for x t
    using that adv [OF that] stop stopped_fail [where P = "running n"] go
    by (auto simp: numeral_eq_Suc split: prod.splits option.splits)
  show ?thesis
    unfolding execute_prefix_def
    by (rule link [OF r0] link [OF adv] link script fail stopped_fail_init
        within.keeps_createFreshCommandWd within.keeps_GetTF within.keeps_buildTfEnv within.keeps_cmd
        prep_calls within.keeps_assignOutput within.keeps_saveInputFiles within.keeps_vars
        within.keeps_init within.keeps_useWorkspaceIfNeeded within.keeps_runPreRunScript
        | assumption | (simp; fail))+
qed

text \<open>After the commands proper: every later failure and the completion publish a terminal status.\<close>

lemma live_steps: "steps_fit ri n m \<Longrightarrow> Suc k = m \<Longrightarrow> Suc (step_no ri k) = n"
  by (simp add: steps_fit_def step_no_def)

lemma setChangesDetected_live: "live n k s \<Longrightarrow> live n k (setChangesDetected b s)"
  by (auto simp: live_def at_status_def sound_def setChangesDetected_def consistent_def index_ok_def
      steps_ordered_def log_ok_def progressing_def sorted_wrt_append run_le_def steps_le_def)

lemma wrap_err_ok: "wrap_err m x s = (Ok a, t) \<Longrightarrow> x s = (Ok a, t)"
  by (auto simp: wrap_err_def attempt_def ret_def throw_def panic_def split: prod.splits res.splits)

lemma cmd_sys_trace: "cmd_sys c call s = (r, t) \<Longrightarrow> ts_trace t = ts_trace s @ [Called call]"
  by (auto simp: cmd_sys_def sys_def Let_def)

lemma within_cmd_sys: "A call \<Longrightarrow> keeps (within A n k) (cmd_sys c call)"
  by (simp add: cmd_sys_def within_sys)

lemma live_cmd_sys: "keeps (live n k) (cmd_sys c call)"
  by (simp add: cmd_sys_def live_sys)

text \<open>A plan stops early, or completes right after its plan was uploaded.\<close>

lemma plan_finish_rule:
  assumes "live n k s"
    and stop: "\<And>t. stopped (cmd_env c) (cmd_info c) (live n) t \<Longrightarrow> Q t"
    and fin: "\<And>t h d. live n k t \<Longrightarrow> p_artifactUploadUrl (cmd_params c) \<noteq> [] \<Longrightarrow>
      ts_trace t = h @ [Called (CallUpload (p_artifactUploadUrl (cmd_params c)) d)] \<Longrightarrow>
      Q (completeRun (cmd_env c) None t)"
  shows "Q (plan_finish c s)"
proof -
  note link = or_fail_rule [where P = "live n" and Q = Q, OF _ _ stop]
  note fail = stopped_fail_cmd [where P = "live n"]
  show ?thesis
  proof (cases "p_artifactUploadUrl (cmd_params c) = []")
    case True
    then show ?thesis
      unfolding plan_finish_def Let_def
      by simp (rule link [OF assms(1)] fail stop live_invoke setChangesDetected_live | assumption)+
  next
    case False
    then have finish: "Q (completeRun (cmd_env c) None t)"
      if "live n k t" "wrap_err m (cmd_sys c (CallUpload (p_artifactUploadUrl (cmd_params c)) d)) u = (Ok a, t)"
      for t m d u and a :: unit
      using fin [OF that(1) _ cmd_sys_trace [OF wrap_err_ok [OF that(2)]]] by simp
    from False show ?thesis
      unfolding plan_finish_def Let_def
      by simp (rule link [OF assms(1)] link [OF setChangesDetected_live] link fail finish
          live_invoke keeps_wrap_err keeps_query live_cmd_sys | assumption)+
  qed
qed

text \<open>
  An apply stops early, or completes in the step after; what it calls stays within \<open>A\<close> when its two
  ways to apply do.
\<close>

lemma apply_finish_rule:
  assumes "within A n (step_no (cmd_info c) 4) s" "steps_fit (cmd_info c) n 6" "A CallOutput"
    and applied: "\<And>k. keeps (within A n k)
      (if p_artifactUrl (cmd_params c) \<noteq> [] then applyPredecessorPlan c else freshApply c)"
    and stop: "\<And>t. stopped (cmd_env c) (cmd_info c) (within A n) t \<Longrightarrow> Q t"
    and fin: "\<And>t. within A n (step_no (cmd_info c) 5) t \<Longrightarrow> Q (completeRun (cmd_env c) None t)"
  shows "Q (apply_finish c s)"
proof -
  let ?ri = "cmd_info c"
  note link = or_fail_rule [where P = "within A n" and Q = Q, OF _ _ stop]
  note fail = stopped_fail_cmd [where P = "within A n"]
  have adv: "within A n (step_no ?ri 5) (advance c um t)" if "within A n (step_no ?ri 4) t" for um t
    using advance_within [OF that assms(2)] by (simp add: advance_def)
  have outputs: "within A n k (setStateFilename (collectOutput out t))" if "within A n k t" for k out t
    using that collectOutput_live [of n k t out]
    by (auto simp: within_def setStateFilename_def collectOutput_def elim: live_frame)
  show ?thesis
    unfolding apply_finish_def
    by (rule link [OF assms(1)] link [OF adv] fin [OF outputs] fail applied within_invoke assms(3) | assumption)+
qed

lemma destroy_finish_rule:
  assumes "live n (step_no (cmd_info c) 4) s" "steps_fit (cmd_info c) n 6"
    and stop: "\<And>t. stopped (cmd_env c) (cmd_info c) (live n) t \<Longrightarrow> Q t"
    and fin: "\<And>t. live n (step_no (cmd_info c) 5) t \<Longrightarrow> Q (completeRun (cmd_env c) None t)"
  shows "Q (destroy_finish c s)"
proof -
  let ?ri = "cmd_info c"
  note link = or_fail_rule [where P = "live n" and Q = Q, OF _ _ stop]
  note fail = stopped_fail_cmd [where P = "live n"]
  have adv: "live n (step_no ?ri 5) (advance c um t)" if "live n (step_no ?ri 4) t" for um t
    using advance_live [OF that assms(2)] by (simp add: advance_def)
  have pre: "keeps (live n k) (if b then invoke env call else ret ())" for k b env call
    by (simp add: live_invoke keeps_ret)
  show ?thesis
    unfolding destroy_finish_def
    by (rule link [OF assms(1)] link [OF adv] link [OF collectOutput_live] link fin fail pre live_invoke
        live.keeps_deleteWorkspaceIfNeeded | assumption)+
qed

section \<open>The contract of a command\<close>

text \<open>The state the worker hands to a command: nothing has happened yet.\<close>

definition fresh :: "tf_state \<Rightarrow> bool" where
  "fresh s \<longleftrightarrow> ts_crashed s = None \<and> ts_trace s = [] \<and> ts_logSize s \<le> length (ts_logFile s)"

definition pending_steps :: "step_status list \<Rightarrow> bool" where
  "pending_steps sts \<longleftrightarrow> sts \<noteq> [] \<and> list_all (\<lambda>st. step_Status st = PENDING \<and> step_LogStartIdx st = 0) sts"

lemma registered_set_steps:
  "fresh s \<Longrightarrow> pending_steps sts \<Longrightarrow> registered (length sts) (set_steps sts s) \<and> calls (ts_trace (set_steps sts s)) = []"
  by (auto simp: fresh_def pending_steps_def registered_def set_steps_def)

text \<open>What the worker relies on in a \<^verbatim>\<open>TfCmd\<close>: its steps, and that \<^verbatim>\<open>execute\<close> ends properly.\<close>

locale tf_command =
  fixes steps :: "run_info \<Rightarrow> step_status list"
    and execute :: "generic_tf_cmd \<Rightarrow> tf_state \<Rightarrow> tf_state"
  assumes pending: "pending_steps (steps ri)"
    and executed: "registered (length (steps (cmd_info c))) s \<Longrightarrow> calls (ts_trace s) = [] \<Longrightarrow>
      done_ok (length (steps (cmd_info c))) (execute c s)"
begin

lemma run_done:
  "fresh s \<Longrightarrow> done_ok (length (steps (cmd_info c))) (execute c (set_steps (steps (cmd_info c)) s))"
  using registered_set_steps [OF _ pending] executed by blast

text \<open>A command that does not crash leaves a terminal report, and it is the last thing published.\<close>

lemma run_reported:
  assumes "fresh s" "ts_crashed (execute c (set_steps (steps (cmd_info c)) s)) = None"
  shows "ts_reportStatus (execute c (set_steps (steps (cmd_info c)) s)) =
      last (published (ts_trace (execute c (set_steps (steps (cmd_info c)) s))))"
    "isTerminalState (run_Status (ts_reportStatus (execute c (set_steps (steps (cmd_info c)) s))))"
  using run_done [OF assms(1), of c] assms(2) by (auto simp: done_ok_def ended_def)

text \<open>Success is reported only with every step succeeded.\<close>

lemma run_succeeded:
  assumes "fresh s" "ts_crashed (execute c (set_steps (steps (cmd_info c)) s)) = None"
    "run_Status (ts_reportStatus (execute c (set_steps (steps (cmd_info c)) s))) = SUCCEEDED"
  shows "list_all (\<lambda>st. step_Status st = SUCCEEDED)
      (run_Steps (ts_reportStatus (execute c (set_steps (steps (cmd_info c)) s))))"
  using run_done [OF assms(1), of c] assms(2,3)
  by (auto simp: done_ok_def ended_def sound_def consistent_def)

text \<open>A failure is reported with the step it happened in, the steps before succeeded, the others not.\<close>

lemma run_failed:
  assumes "fresh s" "ts_crashed (execute c (set_steps (steps (cmd_info c)) s)) = None"
    "run_Status (ts_reportStatus (execute c (set_steps (steps (cmd_info c)) s))) = FAILED"
  shows "index_ok (ts_reportStatus (execute c (set_steps (steps (cmd_info c)) s))) \<and>
    steps_failed_from_current (ts_reportStatus (execute c (set_steps (steps (cmd_info c)) s)))"
  using run_done [OF assms(1), of c] assms(2,3)
  by (auto simp: done_ok_def ended_def sound_def consistent_def)

end

lemma pending_step_lists:
  "pending_steps (plan_steps ri)" "pending_steps (apply_steps ri)" "pending_steps (destroy_steps ri)"
  by (simp_all add: pending_steps_def plan_steps_def apply_steps_def destroy_steps_def async_steps_def
      common_steps_def pending_step_def)

lemma fit_step_lists:
  "steps_fit ri (length (plan_steps ri)) 5" "steps_fit ri (length (apply_steps ri)) 6"
  "steps_fit ri (length (destroy_steps ri)) 6"
  by (simp_all add: steps_fit_def plan_steps_def apply_steps_def destroy_steps_def async_steps_def
      common_steps_def)

lemma stopped_running_done: "stopped env ri (running n) t \<Longrightarrow> done_ok n t"
  by (rule stopped_done) (erule stopped_mono, erule within_live)

lemma prefix_done:
  assumes "registered n s" "calls (ts_trace s) = []" "steps_fit (cmd_info c) n m" "5 \<le> m"
    and "\<And>t. running n (step_no (cmd_info c) 4) t \<Longrightarrow> done_ok n (rest t)"
  shows "done_ok n (execute_prefix c hint rest s)"
  by (rule execute_prefix_rule [where Q = "done_ok n", OF assms(1-4) stopped_running_done assms(5)])

interpretation plan: tf_command plan_steps plan_execute
proof (unfold_locales, rule pending_step_lists)
  fix c :: generic_tf_cmd and s
  let ?n = "length (plan_steps (cmd_info c))"
  assume r: "registered ?n s" "calls (ts_trace s) = []"
  note fit = fit_step_lists(1) [of "cmd_info c"]
  have "done_ok ?n (plan_finish c t)" if "running ?n (step_no (cmd_info c) 4) t" for t
    by (rule plan_finish_rule [where Q = "done_ok ?n", OF within_live [OF that] stopped_done])
      (simp_all add: complete_done live_steps [OF fit])
  then show "done_ok ?n (plan_execute c s)"
    unfolding plan_execute_def by (intro prefix_done [OF r fit]) simp_all
qed

lemma keeps_applyPredecessorPlan:
  assumes "A (CallDownload (p_artifactUrl (cmd_params c)) (ri_artifactFilePath (cmd_info c)))"
    "A (CallApply (Some (ri_artifactFilePath (cmd_info c))))"
  shows "keeps (within A n k) (applyPredecessorPlan c)"
  unfolding applyPredecessorPlan_def Let_def
  by (intro keeps_intros within_cmd_sys within_invoke assms)

lemma keeps_freshApply: "A (CallApply None) \<Longrightarrow> keeps (within A n k) (freshApply c)"
  unfolding freshApply_def by (intro keeps_intros within_invoke)

interpretation apply_cmd: tf_command apply_steps apply_execute
proof (unfold_locales, rule pending_step_lists)
  fix c :: generic_tf_cmd and s
  let ?n = "length (apply_steps (cmd_info c))"
  assume r: "registered ?n s" "calls (ts_trace s) = []"
  note fit = fit_step_lists(2) [of "cmd_info c"]
  have stop: "done_ok ?n t" if "stopped (cmd_env c) (cmd_info c) (within (\<lambda>_. True) ?n) t" for t
    using that by (rule stopped_done [OF stopped_mono]) (simp add: live_within)
  have "done_ok ?n (apply_finish c t)" if "running ?n (step_no (cmd_info c) 4) t" for t
    by (rule apply_finish_rule [where A = "\<lambda>_. True" and Q = "done_ok ?n", OF within_mono [OF that] fit _ _ stop])
      (simp_all add: keeps_applyPredecessorPlan keeps_freshApply complete_done [OF _ live_steps [OF fit]]
        flip: live_within)
  then show "done_ok ?n (apply_execute c s)"
    unfolding apply_execute_def by (intro prefix_done [OF r fit]) simp_all
qed

interpretation destroy: tf_command destroy_steps destroy_execute
proof (unfold_locales, rule pending_step_lists)
  fix c :: generic_tf_cmd and s
  let ?n = "length (destroy_steps (cmd_info c))"
  assume r: "registered ?n s" "calls (ts_trace s) = []"
  note fit = fit_step_lists(3) [of "cmd_info c"]
  have "done_ok ?n (destroy_finish c t)" if "running ?n (step_no (cmd_info c) 4) t" for t
    by (rule destroy_finish_rule [where Q = "done_ok ?n", OF within_live [OF that] fit stopped_done])
      (simp_all add: complete_done live_steps [OF fit])
  then show "done_ok ?n (destroy_execute c s)"
    unfolding destroy_execute_def by (intro prefix_done [OF r fit]) simp_all
qed

end
