(* ===== verification/Samples.thy ===== *)
theory Samples
  imports TfCommands
begin

text \<open>
  Concrete inputs at which the witnesses apply the properties of the terraform commands: an
  environment in which every call succeeds, and a run without inputs.
\<close>

definition sample_env :: tf_env where
  "sample_env = \<lparr>env_logWriteError = (\<lambda>h p. None), env_logReadFails = (\<lambda>h. False), env_ctxErr = (\<lambda>h. None),
     env_ctxCause = (\<lambda>h. []), env_call = (\<lambda>h c. Ok ()), env_output = (\<lambda>h. [''o'']),
     env_query = (\<lambda>h q. case q of QStat p \<Rightarrow> if p = ''/w/tmp-clone-meshstack'' then Ok ''dir'' else Err (NotExist p) | _ \<Rightarrow> Ok ''q''),
     env_workspaces = (\<lambda>h. ([], ''default'')), env_changed = (\<lambda>h. True),
     env_outputs = (\<lambda>h. []), env_readDir = (\<lambda>h. Ok []), env_walk = (\<lambda>h s. [])\<rparr>"

definition sample_lib :: hcl_lib where
  "sample_lib = \<lparr>lib_ParseHCL = (\<lambda>a b. (\<lparr>hf_terraform = (None, []), hf_variables = (None, [])\<rparr>, [])),
     lib_ParseJSON = (\<lambda>a b. (\<lparr>hf_terraform = (None, []), hf_variables = (None, [])\<rparr>, [])),
     lib_DiagsText = (\<lambda>_. []), lib_StringVal = (\<lambda>s. s), lib_NullVal = ''null'', lib_ImpliedType = (\<lambda>_. True),
     lib_ToCtyValue = (\<lambda>v. Ok (sprint_v v)), lib_unmarshalJson = (\<lambda>_. None), lib_parseHcl = (\<lambda>n r. (r, [])),
     lib_ctyMarshal = (\<lambda>v. Ok v), lib_VarsBytes = (\<lambda>f. concat (map (\<lambda>(k, v). k @ ''='' @ v) f)), lib_DeclBytes = (\<lambda>d. concat (map fst d)),
     lib_BackendBytes = (\<lambda>a. concat (map (\<lambda>(k, v). k @ ''='' @ v) a))\<rparr>"

definition sample_app :: app where
  "sample_app = \<lparr>app_SkipHostKeyValidation = False, app_RunApiBackendUrl = ''u'', app_RunnerUuid = ''r'',
     app_Crypto = None, app_aead = toy_aead, app_LookupEnv = (\<lambda>k. if k = ''PATH'' then Some ''/bin'' else None),
     app_binDir = ''/tf'', app_hcl = sample_lib, app_versionCompare = (\<lambda>a b. Some 0)\<rparr>"

definition sample_info :: run_info where
  "sample_info = \<lparr>ri_runId = ''r1'', ri_runJsonBase64 = [], ri_bbId = ''bb'', ri_workspaceIdentifier = ''w'',
     ri_asyncRun = False, ri_useMeshBackendFallback = False, ri_workingDirectory = ''/w'',
     ri_artifactFilePath = ''/w/p'', ri_runToken = ''t'', ri_meshstackBaseUrl = [], ri_tfStateLockUrl = [],
     ri_timeoutMins = 60, ri_logOpened = True\<rparr>"

definition sample_params :: tf_cmd_params where
  "sample_params = \<lparr>p_buildingBlockId = ''bb'', p_tfVersion = ''1.5.5'', p_suggestedWorkspace = ''w.bb'',
     p_vars = [], p_source = Some \<lparr>gs_url = ''g'', gs_path = None, gs_refName = None, gs_auth = NoAuth\<rparr>,
     p_preRunScript = None, p_runMode = ''DETECT'', p_artifactUrl = [], p_artifactUploadUrl = ''up''\<rparr>"

definition sample_cmd :: generic_tf_cmd where
  "sample_cmd = \<lparr>cmd_env = sample_env, cmd_app = sample_app, cmd_info = sample_info, cmd_params = sample_params\<rparr>"

definition sample_state :: tf_state where
  "sample_state = \<lparr>ts_runStatus = \<lparr>run_Id = ''r1'', run_Status = IN_PROGRESS, run_Steps = [], run_CurrentStepIndex = -1,
       run_Summary = None, run_ChangesDetected = None\<rparr>,
     ts_reportStatus = \<lparr>run_Id = ''r1'', run_Status = IN_PROGRESS, run_Steps = [], run_CurrentStepIndex = -1,
       run_Summary = None, run_ChangesDetected = None\<rparr>,
     ts_logFile = [], ts_logSize = 0, ts_onWrite = False, ts_useWorkspaces = True, ts_filename_state = [],
     ts_trace = [], ts_crashed = None\<rparr>"

text \<open>An apply of a saved plan, and the same when the download always fails.\<close>

definition sample_saved :: generic_tf_cmd where
  "sample_saved = sample_cmd\<lparr>cmd_params := sample_params\<lparr>p_runMode := ''APPLY'', p_artifactUrl := ''a''\<rparr>\<rparr>"

definition sample_no_download :: generic_tf_cmd where
  "sample_no_download = sample_saved\<lparr>cmd_env := sample_env\<lparr>env_call :=
     (\<lambda>h call. case call of CallDownload u p \<Rightarrow> Err (StatusError 404) | _ \<Rightarrow> Ok ())\<rparr>\<rparr>"

lemma sample_steps [simp]:
  "length (plan_steps (cmd_info sample_cmd)) = 5" "length (apply_steps (cmd_info sample_cmd)) = 6"
  "length (destroy_steps (cmd_info sample_cmd)) = 6"
  "p_artifactUploadUrl (cmd_params sample_cmd) = ''up''"
  by (simp_all add: plan_steps_def apply_steps_def destroy_steps_def common_steps_def sample_cmd_def
      sample_info_def sample_params_def)

lemma fresh_sample [simp]: "fresh sample_state"
  by (simp add: fresh_def sample_state_def)

lemma sound_sample: "sound (startRun (plan_initRunSteps sample_cmd sample_state))"
proof -
  have "registered 5 (plan_initRunSteps sample_cmd sample_state)"
    using registered_set_steps [OF fresh_sample pending_step_lists(1), of "cmd_info sample_cmd"]
    by (simp add: plan_initRunSteps_def)
  from startRun_phase [OF this] show ?thesis by (simp add: at_status_def)
qed

lemma sample_calls_ok [simp]: "env_call (cmd_env sample_cmd) h call = Ok ()"
  by (simp add: sample_cmd_def sample_env_def)

end
