(* ===== verification/TfProperties.thy ===== *)
theory TfProperties
  imports Samples
begin

text \<open>
  The properties of the terraform commands: how they end, what a plan leaves behind, what an apply
  may call, and how their inputs reach terraform.
\<close>

section \<open>How the commands end\<close>

text \<open>
  C1: a plan either crashes the runner (a panic of the code it calls) or ends with a terminal status
  published last, every report before it consistent: steps before the current one SUCCEEDED, later
  ones not started; on failure the current and all later steps FAILED; on success all SUCCEEDED. Each
  report makes progress over all earlier ones, and the reports say IN_PROGRESS up to some point and the
  same terminal status from there on (up to the end, when the command crashes).
\<close>

theorem plan_terminal:
  assumes "fresh s"
  shows "done_ok (length (plan_steps (cmd_info c))) (plan_execute c (plan_initRunSteps c s))"
  unfolding plan_initRunSteps_def by (rule plan.run_done [OF assms])

theorem plan_terminal_witness:
  "done_ok 5 (plan_execute sample_cmd (plan_initRunSteps sample_cmd sample_state))"
  using plan_terminal [OF fresh_sample, of sample_cmd] by simp

text \<open>
  C2: an apply, of a saved plan or a fresh one, ends in the same way.
\<close>

theorem apply_terminal:
  assumes "fresh s"
  shows "done_ok (length (apply_steps (cmd_info c))) (apply_execute c (apply_initRunSteps c s))"
  unfolding apply_initRunSteps_def by (rule apply_cmd.run_done [OF assms])

theorem apply_terminal_witness:
  "done_ok 6 (apply_execute sample_cmd (apply_initRunSteps sample_cmd sample_state))"
  using apply_terminal [OF fresh_sample, of sample_cmd] by simp

text \<open>
  C3: a destroy ends in the same way, the asynchronous one (which applies first) included.
\<close>

theorem destroy_terminal:
  assumes "fresh s"
  shows "done_ok (length (destroy_steps (cmd_info c))) (destroy_execute c (destroy_initRunSteps c s))"
  unfolding destroy_initRunSteps_def by (rule destroy.run_done [OF assms])

theorem destroy_terminal_witness:
  "done_ok 6 (destroy_execute sample_cmd (destroy_initRunSteps sample_cmd sample_state))"
  using destroy_terminal [OF fresh_sample, of sample_cmd] by simp

section \<open>What a plan leaves behind\<close>

lemma complete_trace:
  assumes "live n k s"
  shows "ts_trace (completeRun env um s) = ts_trace s @ [Published (ts_runStatus (completeRun env um s))]"
    "run_Status (ts_runStatus (completeRun env um s)) = SUCCEEDED"
  using setMessage_frame(2) [OF sound_log_ok [OF live_sound [OF assms]]]
  by (simp_all add: completeRun_def setRunStatus_def setCurrentStepStatus_def)

lemma stopped_outcome: "stopped env ri (live n) t \<Longrightarrow> ts_crashed t \<noteq> None \<or> ended FAILED n t"
  using fail_ended by (fastforce simp: stopped_def crash_def live_def)



section \<open>What an apply may call\<close>

text \<open>A command that stopped early has made no further calls.\<close>

lemma stopped_calls:
  "stopped env ri (within A n) t \<Longrightarrow> list_all (\<lambda>c. prep_call c \<or> A c) (calls (ts_trace t))"
  using fail_calls by (fastforce simp: stopped_def within_def live_def crash_def)

lemma complete_calls:
  "within A n k s \<Longrightarrow> list_all (\<lambda>c. prep_call c \<or> A c) (calls (ts_trace (completeRun env um s)))"
  using complete_trace(1) [of n k s env um] by (simp add: within_def)

text \<open>The calls of an apply stay within \<open>A\<close> when those of its way to apply do.\<close>

lemma apply_calls:
  assumes "fresh s" "A CallOutput"
    and "\<And>n k. keeps (within A n k)
      (if p_artifactUrl (cmd_params c) \<noteq> [] then applyPredecessorPlan c else freshApply c)"
  shows "list_all (\<lambda>x. prep_call x \<or> A x) (calls (ts_trace (apply_execute c (apply_initRunSteps c s))))"
proof -
  let ?n = "length (apply_steps (cmd_info c))"
  define Q where "Q t \<longleftrightarrow> list_all (\<lambda>x. prep_call x \<or> A x) (calls (ts_trace t))" for t :: tf_state
  have stop: "Q u" if "stopped (cmd_env c) (cmd_info c) (within A ?n) u" for u
    using stopped_calls [OF that] by (simp add: Q_def)
  have mono: "within A ?n k u" if "running ?n k u" for k u
    using that by (rule within_mono) simp
  have fin: "Q (apply_finish c u)" if "running ?n (step_no (cmd_info c) 4) u" for u
    by (rule apply_finish_rule [where Q = Q and A = A, OF mono [OF that] fit_step_lists(2) assms(2,3) stop])
      (auto simp: Q_def complete_calls)
  have r: "registered ?n (apply_initRunSteps c s)" "calls (ts_trace (apply_initRunSteps c s)) = []"
    using registered_set_steps [OF assms(1) pending_step_lists(2)] by (simp_all add: apply_initRunSteps_def)
  have "Q (apply_execute c (apply_initRunSteps c s))"
    unfolding apply_execute_def
    by (rule execute_prefix_rule [where Q = Q, OF r fit_step_lists(2) _ stop [OF stopped_mono [OF _ mono]] fin])
      simp_all
  then show ?thesis by (simp add: Q_def)
qed

text \<open>
  C5: an apply that is linked to a plan of an earlier dry run never computes a fresh one: it calls
  terraform apply with the plan file or not at all.
\<close>

theorem saved_plan_never_replanned:
  assumes "fresh s" "p_artifactUrl (cmd_params c) \<noteq> []"
  shows "CallApply None \<notin> set (calls (ts_trace (apply_execute c (apply_initRunSteps c s))))"
proof -
  have "list_all (\<lambda>x. prep_call x \<or> x \<noteq> CallApply None) (calls (ts_trace (apply_execute c (apply_initRunSteps c s))))"
    using assms by (intro apply_calls) (simp_all add: keeps_applyPredecessorPlan)
  then show ?thesis by (auto simp: list_all_iff)
qed

theorem saved_plan_never_replanned_witness:
  "CallApply None \<notin> set (calls (ts_trace (apply_execute sample_saved (apply_initRunSteps sample_saved sample_state))))"
  by (rule saved_plan_never_replanned) (simp_all add: sample_saved_def sample_params_def)

lemma keeps_failed_download:
  assumes "\<And>h. \<exists>e. env_call (cmd_env c) h (CallDownload (p_artifactUrl (cmd_params c)) (ri_artifactFilePath (cmd_info c))) = Err e"
    and "A (CallDownload (p_artifactUrl (cmd_params c)) (ri_artifactFilePath (cmd_info c)))"
  shows "keeps (within A n k) (applyPredecessorPlan c)"
proof -
  have stop: "bnd (attempt (cmd_sys c (CallDownload (p_artifactUrl (cmd_params c)) (ri_artifactFilePath (cmd_info c))))
      (\<lambda>r. case r of Ok _ \<Rightarrow> ret () | Panic m \<Rightarrow> panic m | Err e \<Rightarrow> f e)) g =
      attempt (cmd_sys c (CallDownload (p_artifactUrl (cmd_params c)) (ri_artifactFilePath (cmd_info c))))
      (\<lambda>r. case r of Err e \<Rightarrow> bnd (f e) g | _ \<Rightarrow> ret ())" for f and g :: "unit \<Rightarrow> unit comp"
  proof
    fix s :: tf_state
    obtain e where "env_call (cmd_env c) (ts_trace s @ [Called (CallDownload (p_artifactUrl (cmd_params c)) (ri_artifactFilePath (cmd_info c)))])
       (CallDownload (p_artifactUrl (cmd_params c)) (ri_artifactFilePath (cmd_info c))) = Err e"
      using assms(1) by blast
    then show "bnd (attempt (cmd_sys c (CallDownload (p_artifactUrl (cmd_params c)) (ri_artifactFilePath (cmd_info c))))
      (\<lambda>r. case r of Ok _ \<Rightarrow> ret () | Panic m \<Rightarrow> panic m | Err e \<Rightarrow> f e)) g s =
      attempt (cmd_sys c (CallDownload (p_artifactUrl (cmd_params c)) (ri_artifactFilePath (cmd_info c))))
      (\<lambda>r. case r of Err e \<Rightarrow> bnd (f e) g | _ \<Rightarrow> ret ()) s"
      by (simp add: bnd_def attempt_def cmd_sys_def sys_def Let_def split: prod.splits res.splits)
  qed
  have throws: "bnd (attempt m (\<lambda>_. throw e)) g = attempt m (\<lambda>_. throw e)" for m :: "unit comp" and e and g :: "unit \<Rightarrow> unit comp"
    by (auto simp: fun_eq_iff bnd_def attempt_def throw_def split: prod.splits res.splits)
  show ?thesis
    unfolding applyPredecessorPlan_def Let_def stop throws
    by (intro keeps_intros within_cmd_sys assms)
qed

text \<open>
  C6: when the saved plan cannot be downloaded, nothing is applied.
\<close>

theorem failed_download_applies_nothing:
  assumes "fresh s" "p_artifactUrl (cmd_params c) \<noteq> []"
    and "\<And>h. \<exists>e. env_call (cmd_env c) h (CallDownload (p_artifactUrl (cmd_params c)) (ri_artifactFilePath (cmd_info c))) = Err e"
  shows "CallApply p \<notin> set (calls (ts_trace (apply_execute c (apply_initRunSteps c s))))"
proof -
  have "list_all (\<lambda>x. prep_call x \<or> (\<forall>p. x \<noteq> CallApply p)) (calls (ts_trace (apply_execute c (apply_initRunSteps c s))))"
    using assms by (intro apply_calls) (simp_all add: keeps_failed_download)
  then show ?thesis by (auto simp: list_all_iff)
qed

theorem failed_download_applies_nothing_witness:
  "CallApply None \<notin> set (calls (ts_trace (apply_execute sample_no_download (apply_initRunSteps sample_no_download sample_state))))"
  by (rule failed_download_applies_nothing)
    (simp_all add: sample_no_download_def sample_saved_def sample_params_def sample_env_def)

end
