(* ===== verification/InputProperties.thy ===== *)
theory InputProperties
  imports Samples
begin

text \<open>
  The properties of what reaches terraform: its environment, its variables, its files, and the
  calls around init.
\<close>

section \<open>Environment\<close>

definition env_inputs :: "(string \<times> variable) list \<Rightarrow> string set" where
  "env_inputs vs = {k. \<exists>v. (k, v) \<in> set vs \<and> var_env v \<and> \<not> HasPrefix k TfVarEnvPrefix}"

lemma add_env_vars_keys:
  "add_env_vars c vs e s = (Ok e', t) \<Longrightarrow> map_keys e' = map_keys e \<union> env_inputs vs"
proof (induction c vs e arbitrary: s rule: add_env_vars.induct)
  case (1 c e)
  then show ?case by (simp add: ret_def env_inputs_def)
next
  case (2 c varName v vs e)
  show ?case
  proof (cases "var_env v \<and> \<not> HasPrefix varName TfVarEnvPrefix")
    case True
    obtain val u where val: "decrypt_var c v s = (Ok val, u)"
        "add_env_vars c vs (map_put varName (encodeVarValueForEnv val (var_Type v)) e) u = (Ok e', t)"
      using 2(3) True
      by (auto dest!: attempt_ok bnd_ok simp: panic_def throw_def split: res.splits)
    have "map_keys e' = insert varName (map_keys e) \<union> env_inputs vs"
      using 2(1) [OF True val(2)] by simp
    moreover have "env_inputs ((varName, v) # vs) = insert varName (env_inputs vs)"
      using True by (auto simp: env_inputs_def)
    ultimately show ?thesis by auto
  next
    case False
    have "env_inputs ((varName, v) # vs) = env_inputs vs"
      using False by (auto simp: env_inputs_def)
    then show ?thesis using 2(2) [OF False] 2(3) False by auto
  qed
qed

lemma copy_env_keys:
  "map_keys (foldl (copy_env_key app) e ks) = map_keys e \<union> {k \<in> set ks. app_LookupEnv app k \<noteq> None}"
proof (induction ks arbitrary: e)
  case (Cons k ks)
  have "map_keys (copy_env_key app e k) = map_keys e \<union> {x. x = k \<and> app_LookupEnv app k \<noteq> None}"
    by (auto simp: copy_env_key_def split: option.splits)
  then show ?case using Cons by auto
qed simp

text \<open>
  C7: terraform sees no variable of the runner's own environment that is not on the list, whatever
  that environment holds: every name is a listed system variable, GIT_SSH_COMMAND, the name of an
  input marked as environment variable, or one of the two names of the state backend's credentials.
\<close>

theorem terraform_environment_whitelisted:
  assumes "buildTfEnv c s = (Ok e, t)" "k \<in> map_keys e"
  shows "k \<in> set core_env_keys \<or> k \<in> set compat_env_keys \<or> k = ''GIT_SSH_COMMAND'' \<or>
    k \<in> env_inputs (p_vars (cmd_params c)) \<or> k = ''TF_HTTP_USERNAME'' \<or> k = ''TF_HTTP_PASSWORD''"
proof -
  define e1 where "e1 = (case p_source (cmd_params c) of
      Some g \<Rightarrow> if auth_name (gs_auth g) = ''SSH''
        then map_put ''GIT_SSH_COMMAND'' (git_ssh_command c) (cleanSystemEnv (cmd_app c)) else cleanSystemEnv (cmd_app c)
    | None \<Rightarrow> cleanSystemEnv (cmd_app c))"
  obtain e2 u where e2: "add_env_vars c (p_vars (cmd_params c)) e1 s = (Ok e2, u)"
    and e: "e = (if ri_useMeshBackendFallback (cmd_info c) \<and> ri_runToken (cmd_info c) \<noteq> []
       then map_put ''TF_HTTP_PASSWORD'' (ri_runToken (cmd_info c)) (map_put ''TF_HTTP_USERNAME'' ''x'' e2) else e2)"
    using assms(1) unfolding buildTfEnv_def Let_def e1_def by (auto dest!: bnd_ok simp: ret_def)
  have "map_keys (cleanSystemEnv (cmd_app c)) \<subseteq> set core_env_keys \<union> set compat_env_keys"
    unfolding cleanSystemEnv_def copy_env_keys by auto
  then have "map_keys e1 \<subseteq> insert ''GIT_SSH_COMMAND'' (set core_env_keys \<union> set compat_env_keys)"
    unfolding e1_def by (auto split: option.splits)
  moreover have "map_keys e \<subseteq> insert ''TF_HTTP_PASSWORD'' (insert ''TF_HTTP_USERNAME'' (map_keys e2))"
    unfolding e by auto
  ultimately show ?thesis
    using assms(2) add_env_vars_keys [OF e2] by blast
qed

theorem terraform_environment_whitelisted_witness:
  "''PATH'' \<in> set core_env_keys \<or> ''PATH'' \<in> set compat_env_keys \<or> ''PATH'' = ''GIT_SSH_COMMAND'' \<or>
   ''PATH'' \<in> env_inputs (p_vars (cmd_params sample_cmd)) \<or> ''PATH'' = ''TF_HTTP_USERNAME'' \<or>
   ''PATH'' = ''TF_HTTP_PASSWORD''"
proof (rule terraform_environment_whitelisted)
  show "buildTfEnv sample_cmd sample_state = (Ok [(''PATH'', ''/bin'')], sample_state)"
    by (simp add: buildTfEnv_def sample_cmd_def sample_app_def sample_params_def sample_info_def
        cleanSystemEnv_def core_env_keys_def compat_env_keys_def copy_env_key_def bnd_def ret_def)
qed (simp add: map_keys_def)

section \<open>Variables\<close>

lemma add_mesh_vars_skip:
  assumes "\<not> includeRunScopedVars (cmd_params c)"
    "add_mesh_vars c existing ms f decls s = (Ok (f', ds), t)"
    "\<forall>(n, v, rs) \<in> set ms. n = name \<longrightarrow> rs"
  shows "map_of f' name = map_of f name"
  using assms(2,3)
proof (induction ms arbitrary: f decls s)
  case (Cons m ms)
  obtain n v rs where m: "m = (n, v, rs)" by (cases m)
  obtain d g where add: "AddVariable (app_hcl (cmd_app c)) n (JStr v) False f = (d, g)" by fastforce
  have g: "map_of g name = map_of f name" if "\<not> rs"
    using AddVariable_other [OF add, of name] that Cons.prems(2) m by auto
  show ?case
  proof (cases rs)
    case True
    then show ?thesis
      using Cons.IH Cons.prems m assms(1) by (auto simp: Let_def split: if_splits)
  next
    case False
    then show ?thesis
      using Cons.IH [of g] Cons.prems m g add by (fastforce simp: Let_def dest!: bnd_ok split: if_splits)
  qed
qed (simp add: ret_def)

text \<open>
  On a dry run, and on an apply that replays a saved plan, the values of the variables that change
  from run to run (the run id and the run object) are left out of the variables file, so that a plan
  and its replay see the same values.
\<close>

lemma run_scoped_values_omitted:
  assumes "p_runMode (cmd_params c) = ''DETECT'' \<or> p_artifactUrl (cmd_params c) \<noteq> []"
    and "add_mesh_vars c existing (meshStackVars (cmd_info c)) f [] s = (Ok (f', decls), t)"
    and "name \<in> {''meshstack_building_block_run_b64'', ''meshstack_building_block_run_id''}"
  shows "map_of f' name = map_of f name"
proof (rule add_mesh_vars_skip [OF _ assms(2)])
  show "\<not> includeRunScopedVars (cmd_params c)" using assms(1) by (auto simp: includeRunScopedVars_def)
  show "\<forall>(n, v, rs) \<in> set (meshStackVars (cmd_info c)). n = name \<longrightarrow> rs"
    using assms(3) by (auto simp: meshStackVars_def)
qed

section \<open>Files\<close>

lemma find_base64_mark_clean:
  "\<forall>c \<in> set t. c \<noteq> CHR '';'' \<and> c \<noteq> LF \<Longrightarrow> find_base64_mark (t @ '';base64,'' @ x) = Some (length t + 8)"
proof (induction t)
  case Nil
  have "HasPrefix ('';base64,'' @ x) '';base64,''" by (rule HasPrefix_self)
  then show ?case by simp
next
  case (Cons c t)
  then have "\<not> HasPrefix (c # t @ '';base64,'' @ x) '';base64,''" by (auto simp: HasPrefix_def)
  then show ?case using Cons by simp
qed

lemma drop_prefix: "n = length p \<Longrightarrow> drop n (p @ s) = s"
  by simp



text \<open>
  The search for the data URL accepts text in front of it, but then the length of the match is
  cut off the front of the whole text instead of behind the match: with three characters in front the
  content starts inside the marker and does not decode.
\<close>

lemma data_url_prefix_miscut:
  "data_url_match ''abcdata:;base64,QUJD'' = Some 13 \<and>
   drop 13 ''abcdata:;base64,QUJD'' = ''64,QUJD'' \<and>
   extractContentFromDataUrl ''abcdata:;base64,QUJD'' = Err (ErrorString ''illegal base64 data'') \<and>
   b64_decode ''QUJD'' = Ok ''ABC''"
  by code_simp

section \<open>Scripts\<close>

lemma Join_prefix: "HasPrefix (Join (d # ps) sep) d"
  by (cases ps) (simp_all add: HasPrefix_iff)

lemma HasPrefix_append: "HasPrefix s d \<Longrightarrow> HasPrefix (p @ s) (p @ d)"
  by (simp add: HasPrefix_iff)

lemma prepend_loop_path:
  assumes "prepend_loop (d # ps) es = (es', qs, found)"
  shows "(\<forall>kv \<in> set es'. HasPrefix kv ''PATH='' \<longrightarrow> HasPrefix kv (''PATH='' @ d)) \<and> (\<exists>rs. qs = d # rs) \<and>
    (found \<longrightarrow> (\<exists>kv \<in> set es'. HasPrefix kv (''PATH='' @ d)))"
  using assms
proof (induction es arbitrary: ps es' qs found)
  case (Cons kv es)
  show ?case
  proof (cases "HasPrefix kv ''PATH=''")
    case True
    define ps' where "ps' = (if TrimPrefix kv ''PATH='' \<noteq> [] then ps @ [TrimPrefix kv ''PATH=''] else ps)"
    obtain rest qs' f where r: "prepend_loop (d # ps') es = (rest, qs', f)" by (metis prod_cases3)
    have "es' = (''PATH='' @ Join (d # ps') '':'') # rest" "qs = qs'" "found"
      using Cons.prems True r by (auto simp: ps'_def Let_def split: if_splits)
    moreover have "HasPrefix (''PATH='' @ Join (d # ps') '':'') (''PATH='' @ d)"
      by (rule HasPrefix_append [OF Join_prefix])
    ultimately show ?thesis using Cons.IH [OF r] by simp
  next
    case False
    obtain rest qs' f where r: "prepend_loop (d # ps) es = (rest, qs', f)" by (metis prod_cases3)
    have "es' = kv # rest" "qs = qs'" "found = f"
      using Cons.prems False r by auto
    then show ?thesis using Cons.IH [OF r] False by simp
  qed
qed auto

text \<open>
  C10: a hook script finds the downloaded terraform (or tofu) first: its environment has a PATH, and
  every PATH in it starts with the directory of the binaries.
\<close>

lemma script_path_starts_with_binaries:
  assumes "TrimSpace binDir \<noteq> []"
  shows "(\<forall>kv \<in> set (buildScriptEnvironmentVariables app binDir msgPath extra).
      HasPrefix kv ''PATH='' \<longrightarrow> HasPrefix kv (''PATH='' @ binDir)) \<and>
    (\<exists>kv \<in> set (buildScriptEnvironmentVariables app binDir msgPath extra). HasPrefix kv (''PATH='' @ binDir))"
proof -
  define es where "es = map (\<lambda>(k, v). k @ ''='' @ v)
    (map_put ''MESHSTACK_USER_MESSAGE'' msgPath (maps_Copy (cleanSystemEnv app) extra))"
  obtain es' qs found where loop: "prepend_loop [binDir] es = (es', qs, found)" by (metis prod_cases3)
  have eq: "buildScriptEnvironmentVariables app binDir msgPath extra =
      (if found then es' else es' @ [''PATH='' @ Join qs '':''])"
    using assms loop
    by (simp add: buildScriptEnvironmentVariables_def prependToPathEnvironmentVariable_def Let_def es_def)
  obtain rs where rs: "qs = binDir # rs" using prepend_loop_path [OF loop] by blast
  have last: "HasPrefix (''PATH='' @ Join qs '':'') (''PATH='' @ binDir)"
    unfolding rs by (rule HasPrefix_append [OF Join_prefix])
  show ?thesis
    using prepend_loop_path [OF loop] last unfolding eq by simp
qed

section \<open>Sources\<close>


definition sample_private_source :: git_source where
  "sample_private_source = \<lparr>gs_url = ''git@h:r'', gs_path = None, gs_refName = None,
     gs_auth = SshAuth (Some \<lparr>kh_host = ''h'', kh_key = ''ed'', kh_value = ''v''\<rparr>) ''k''\<rparr>"


section \<open>Init\<close>

lemma invoke_eq: "fst (invoke env c s) = env_call env (ts_trace s @ [Called c]) c"
  by (simp add: invoke_def Let_def)

text \<open>
  Terraform init is called once, and a second time exactly when the first call did not succeed;
  the second call's result is the result.
\<close>

lemma init_retried_once:
  assumes "sound s"
  shows "case env_call (cmd_env c) (ts_trace s @ [Called CallInit]) CallInit of
      Ok _ \<Rightarrow> fst (plainInit c s) = Ok () \<and> calls (ts_trace (snd (plainInit c s))) = calls (ts_trace s) @ [CallInit]
    | Err _ \<Rightarrow> (\<exists>h. fst (plainInit c s) = env_call (cmd_env c) h CallInit) \<and>
        calls (ts_trace (snd (plainInit c s))) = calls (ts_trace s) @ [CallInit, CallInit]
    | Panic m \<Rightarrow> fst (plainInit c s) = Panic m"
proof -
  obtain r t where t: "invoke (cmd_env c) CallInit s = (r, t)" by fastforce
  have r: "r = env_call (cmd_env c) (ts_trace s @ [Called CallInit]) CallInit"
    using invoke_eq [of "cmd_env c" CallInit s] t by simp
  have ct: "calls (ts_trace t) = calls (ts_trace s) @ [CallInit]" "sound t"
    using calls_invoke [OF assms, of "cmd_env c" CallInit] t by simp_all
  show ?thesis
    unfolding r [symmetric]
    using t ct calls_invoke(1) [OF ct(2), of "cmd_env c" CallInit] invoke_eq [of "cmd_env c" CallInit t]
    by (auto simp: plainInit_def attempt_def ret_def split: res.splits)
qed

text \<open>
  When the binaries of a version are not installed and the version does not parse, asking for
  them panics, which ends the runner, instead of failing the run.
\<close>

lemma malformed_version_panics:
  assumes "app_versionCompare (cmd_app c) (p_tfVersion (cmd_params c)) ''1.5.5'' = None"
    and "\<And>h p. \<exists>e. env_query (cmd_env c) h (QStat p) = Err e"
    and "\<And>h p. env_call (cmd_env c) h (CallRemoveAll p) = Ok ()" "\<And>h p. env_call (cmd_env c) h (CallMkdirAll p) = Ok ()"
  shows "\<exists>m. fst (GetTF c s) = Panic m"
proof -
  obtain e where "env_query (cmd_env c) (ts_trace s)
      (QStat (path_Join [app_binDir (cmd_app c), p_tfVersion (cmd_params c), ''terraform''])) = Err e"
    using assms(2) by blast
  then show ?thesis
    using assms(1,3,4)
    by (simp add: GetTF_def install_tf_def Let_def attempt_def query_def bnd_def sys_def panic_def)
qed

end
