(* ===== verification/Metrics.thy ===== *)
theory Metrics
  imports Prelude
begin

text \<open>
  The metrics of the run controller, \<^verbatim>\<open>run-controller/controller/metrics.go\<close>: which collectors exist,
  that they are registered once, and how the controller reports to them. The registry of Prometheus refuses a second collector of the same name,
  and \<^verbatim>\<open>promauto\<close> then panics; \<^verbatim>\<open>sync.Once\<close> guards against that. Help texts and buckets are left out.

  What the program reports to its collectors is a list of measurements, the value of a counter the
  number of its increments. An observed duration is a measurement without its value, which nothing reads.
\<close>

section \<open>Collectors\<close>

definition ErrorTypeFetchAPI :: string where "ErrorTypeFetchAPI = ''api_error''"
definition ErrorTypeJobCreation :: string where "ErrorTypeJobCreation = ''job_creation_error''"
definition ErrorTypeRunTooLarge :: string where "ErrorTypeRunTooLarge = ''run_too_large''"
definition ErrorTypeServiceAccountCreation :: string where "ErrorTypeServiceAccountCreation = ''creation_error''"
definition ErrorTypeRegistrationMarshal :: string where "ErrorTypeRegistrationMarshal = ''marshal_error''"
definition ErrorTypeRegistrationPut :: string where "ErrorTypeRegistrationPut = ''put_error''"

datatype collector_kind = CounterVec | HistogramVec | Counter | Gauge

record collector =
  co_Kind :: collector_kind
  co_Name :: string
  co_Labels :: "string list"

record metrics_collector =
  runsFetchErrors :: collector
  runsFetchDuration :: collector
  jobsCreatedTotal :: collector
  jobCreationErrors :: collector
  jobCreationDuration :: collector
  jobsAtCapacitySkips :: collector
  serviceAccountsCreatedTotal :: collector
  serviceAccountCreationErrors :: collector
  decryptionErrors :: collector
  wifTokensIssuedTotal :: collector
  wifTokenErrors :: collector
  runnerRegistrationSuccess :: collector
  runnerRegistrationErrors :: collector
  controllerLoopIterations :: collector
  activeRunners :: collector

section \<open>Registration\<close>

text \<open>The names in the registry, and the instance of the package, once it is made.\<close>

record metrics_state =
  ms_registered :: "string list"
  ms_instance :: "metrics_collector option"

type_synonym 'a metrics = "(metrics_state, 'a) prog"

definition promauto_New :: "collector_kind \<Rightarrow> string \<Rightarrow> string list \<Rightarrow> collector metrics" where
  "promauto_New kind name labels s =
     (if name \<in> set (ms_registered s)
      then (Panic ''duplicate metrics collector registration attempted'', s)
      else (Ok \<lparr>co_Kind = kind, co_Name = name, co_Labels = labels\<rparr>, s\<lparr>ms_registered := ms_registered s @ [name]\<rparr>))"

definition new_metrics :: "metrics_collector metrics" where
  "new_metrics =
     bnd (promauto_New CounterVec ''run_controller_runs_fetch_errors_total'' [''controller_uuid'', ''error_type'']) (\<lambda>fe.
     bnd (promauto_New HistogramVec ''run_controller_runs_fetch_duration_seconds'' [''controller_uuid'']) (\<lambda>fd.
     bnd (promauto_New CounterVec ''run_controller_jobs_created_total'' [''controller_uuid'']) (\<lambda>jc.
     bnd (promauto_New CounterVec ''run_controller_job_creation_errors_total'' [''controller_uuid'', ''error_type'']) (\<lambda>je.
     bnd (promauto_New HistogramVec ''run_controller_job_creation_duration_seconds'' [''controller_uuid'']) (\<lambda>jd.
     bnd (promauto_New CounterVec ''run_controller_jobs_at_capacity_skips_total'' [''controller_uuid'']) (\<lambda>js.
     bnd (promauto_New CounterVec ''run_controller_service_accounts_created_total'' [''controller_uuid'']) (\<lambda>sc.
     bnd (promauto_New CounterVec ''run_controller_service_account_creation_errors_total''
            [''controller_uuid'', ''error_type'']) (\<lambda>se.
     bnd (promauto_New CounterVec ''run_controller_decryption_errors_total'' [''controller_uuid'']) (\<lambda>de.
     bnd (promauto_New CounterVec ''run_controller_wif_tokens_issued_total'' [''controller_uuid'']) (\<lambda>wi.
     bnd (promauto_New CounterVec ''run_controller_wif_token_errors_total'' [''controller_uuid'']) (\<lambda>we.
     bnd (promauto_New CounterVec ''run_controller_runner_registration_success_total'' [''controller_uuid'']) (\<lambda>rs.
     bnd (promauto_New CounterVec ''run_controller_runner_registration_errors_total''
            [''controller_uuid'', ''error_type'']) (\<lambda>re.
     bnd (promauto_New Counter ''run_controller_loop_iterations_total'' []) (\<lambda>li.
     bnd (promauto_New Gauge ''run_controller_active_runners'' []) (\<lambda>ar.
     ret \<lparr>runsFetchErrors = fe, runsFetchDuration = fd, jobsCreatedTotal = jc, jobCreationErrors = je,
          jobCreationDuration = jd, jobsAtCapacitySkips = js, serviceAccountsCreatedTotal = sc,
          serviceAccountCreationErrors = se, decryptionErrors = de, wifTokensIssuedTotal = wi, wifTokenErrors = we,
          runnerRegistrationSuccess = rs, runnerRegistrationErrors = re, controllerLoopIterations = li,
          activeRunners = ar\<rparr>)))))))))))))))"

text \<open>\<^verbatim>\<open>Once.Do\<close>: the function runs for the first caller only.\<close>

definition NewMetricsCollector :: "metrics_collector metrics" where
  "NewMetricsCollector =
     bnd (gets ms_instance) (\<lambda>i. case i of
       Some c \<Rightarrow> ret c
     | None \<Rightarrow> bnd new_metrics (\<lambda>c. bnd (modify (\<lambda>s. s\<lparr>ms_instance := Some c\<rparr>)) (\<lambda>_. ret c)))"

text \<open>\<^verbatim>\<open>WithLabelValues\<close> panics unless it is given one value for each label.\<close>

definition WithLabelValues :: "collector \<Rightarrow> string list \<Rightarrow> (string \<times> string) list res" where
  "WithLabelValues c values =
     (if length values = length (co_Labels c) then Ok (zip (co_Labels c) values)
      else Panic ''inconsistent label cardinality'')"

text \<open>The instance of the process: that of the first call, with an empty registry.\<close>

definition run_metrics :: metrics_collector where
  "run_metrics =
     (let uuid = ''controller_uuid''; err = ''error_type''
      in \<lparr>runsFetchErrors = \<lparr>co_Kind = CounterVec, co_Name = ''run_controller_runs_fetch_errors_total'', co_Labels = [uuid, err]\<rparr>,
          runsFetchDuration = \<lparr>co_Kind = HistogramVec, co_Name = ''run_controller_runs_fetch_duration_seconds'', co_Labels = [uuid]\<rparr>,
          jobsCreatedTotal = \<lparr>co_Kind = CounterVec, co_Name = ''run_controller_jobs_created_total'', co_Labels = [uuid]\<rparr>,
          jobCreationErrors = \<lparr>co_Kind = CounterVec, co_Name = ''run_controller_job_creation_errors_total'', co_Labels = [uuid, err]\<rparr>,
          jobCreationDuration = \<lparr>co_Kind = HistogramVec, co_Name = ''run_controller_job_creation_duration_seconds'', co_Labels = [uuid]\<rparr>,
          jobsAtCapacitySkips = \<lparr>co_Kind = CounterVec, co_Name = ''run_controller_jobs_at_capacity_skips_total'', co_Labels = [uuid]\<rparr>,
          serviceAccountsCreatedTotal = \<lparr>co_Kind = CounterVec, co_Name = ''run_controller_service_accounts_created_total'', co_Labels = [uuid]\<rparr>,
          serviceAccountCreationErrors = \<lparr>co_Kind = CounterVec, co_Name = ''run_controller_service_account_creation_errors_total'',
            co_Labels = [uuid, err]\<rparr>,
          decryptionErrors = \<lparr>co_Kind = CounterVec, co_Name = ''run_controller_decryption_errors_total'', co_Labels = [uuid]\<rparr>,
          wifTokensIssuedTotal = \<lparr>co_Kind = CounterVec, co_Name = ''run_controller_wif_tokens_issued_total'', co_Labels = [uuid]\<rparr>,
          wifTokenErrors = \<lparr>co_Kind = CounterVec, co_Name = ''run_controller_wif_token_errors_total'', co_Labels = [uuid]\<rparr>,
          runnerRegistrationSuccess = \<lparr>co_Kind = CounterVec, co_Name = ''run_controller_runner_registration_success_total'', co_Labels = [uuid]\<rparr>,
          runnerRegistrationErrors = \<lparr>co_Kind = CounterVec, co_Name = ''run_controller_runner_registration_errors_total'',
            co_Labels = [uuid, err]\<rparr>,
          controllerLoopIterations = \<lparr>co_Kind = Counter, co_Name = ''run_controller_loop_iterations_total'', co_Labels = []\<rparr>,
          activeRunners = \<lparr>co_Kind = Gauge, co_Name = ''run_controller_active_runners'', co_Labels = []\<rparr>\<rparr>)"

section \<open>Measurements\<close>

datatype measurement =
    Inc string "(string \<times> string) list"
  | Observe string "(string \<times> string) list"
  | SetTo string "(string \<times> string) list" int

type_synonym measured = "(measurement list, unit) prog"

definition report :: "(string \<Rightarrow> (string \<times> string) list \<Rightarrow> measurement) \<Rightarrow> collector \<Rightarrow> string list \<Rightarrow> measured" where
  "report what c values =
     bnd (liftres (WithLabelValues c values)) (\<lambda>labels. modify (\<lambda>ms. ms @ [what (co_Name c) labels]))"

definition inc :: "collector \<Rightarrow> string list \<Rightarrow> measured" where
  "inc = report Inc"

definition observe :: "collector \<Rightarrow> string list \<Rightarrow> measured" where
  "observe = report Observe"

definition set_gauge :: "collector \<Rightarrow> int \<Rightarrow> measured" where
  "set_gauge c v = report (\<lambda>n l. SetTo n l v) c []"

text \<open>The value of a counter, over all its labels.\<close>

definition counted :: "collector \<Rightarrow> measurement list \<Rightarrow> nat" where
  "counted c ms = length (filter (\<lambda>m. \<exists>l. m = Inc (co_Name c) l) ms)"

section \<open>Lemmas\<close>

lemma promauto_fresh:
  "name \<notin> set (ms_registered s) \<Longrightarrow> promauto_New k name ls s =
     (Ok \<lparr>co_Kind = k, co_Name = name, co_Labels = ls\<rparr>, s\<lparr>ms_registered := ms_registered s @ [name]\<rparr>)"
  by (simp add: promauto_New_def)

text \<open>The first call registers fifteen different names.\<close>

lemma new_metrics_once:
  "\<exists>c ns. new_metrics \<lparr>ms_registered = [], ms_instance = i\<rparr> = (Ok c, \<lparr>ms_registered = ns, ms_instance = i\<rparr>) \<and>
     length ns = 15 \<and> distinct ns \<and> length (co_Labels (jobCreationErrors c)) = 2 \<and> length (co_Labels (jobsCreatedTotal c)) = 1"
  unfolding new_metrics_def
  by (simp add: bnd_def promauto_fresh ret_def)

text \<open>Every later call gives the instance of the first one and registers nothing.\<close>

lemma collector_shared:
  assumes "NewMetricsCollector s = (Ok c, s1)"
  shows "NewMetricsCollector s1 = (Ok c, s1)"
  using assms
  by (cases "ms_instance s")
    (auto simp: NewMetricsCollector_def gets_def modify_def ret_def bnd_def split: prod.splits res.splits)

lemma new_metrics_value:
  "fst (new_metrics \<lparr>ms_registered = [], ms_instance = None\<rparr>) = Ok run_metrics"
  unfolding new_metrics_def run_metrics_def Let_def
  by (simp add: bnd_def promauto_fresh ret_def)

text \<open>In every process the collector is \<open>run_metrics\<close>, whoever asks for it first.\<close>

lemma the_collector:
  "\<exists>s1. NewMetricsCollector \<lparr>ms_registered = [], ms_instance = None\<rparr> = (Ok run_metrics, s1) \<and> ms_instance s1 = Some run_metrics"
proof -
  obtain s1 where "new_metrics \<lparr>ms_registered = [], ms_instance = None\<rparr> = (Ok run_metrics, s1)"
    using new_metrics_value by (metis prod.collapse)
  then show ?thesis by (simp add: NewMetricsCollector_def gets_def modify_def ret_def bnd_def)
qed

lemma collectors_never_clash:
  "\<exists>c s1. NewMetricsCollector \<lparr>ms_registered = [], ms_instance = None\<rparr> = (Ok c, s1) \<and>
     NewMetricsCollector s1 = (Ok c, s1) \<and> length (ms_registered s1) = 15 \<and>
     (\<exists>l. WithLabelValues (jobCreationErrors c) [uuid, ErrorTypeRunTooLarge] = Ok l) \<and>
     (\<exists>l. WithLabelValues (jobsCreatedTotal c) [uuid] = Ok l)"
proof -
  obtain c ns where c: "new_metrics \<lparr>ms_registered = [], ms_instance = None\<rparr> = (Ok c, \<lparr>ms_registered = ns, ms_instance = None\<rparr>)"
    "length ns = 15" "length (co_Labels (jobCreationErrors c)) = 2" "length (co_Labels (jobsCreatedTotal c)) = 1"
    using new_metrics_once by blast
  let ?s1 = "\<lparr>ms_registered = ns, ms_instance = Some c\<rparr>"
  have "NewMetricsCollector \<lparr>ms_registered = [], ms_instance = None\<rparr> = (Ok c, ?s1)"
    using c(1) by (simp add: NewMetricsCollector_def gets_def modify_def ret_def bnd_def)
  then show ?thesis
    using c(2-4) collector_shared by (auto simp: WithLabelValues_def)
qed

text \<open>A report with one value for each label never panics.\<close>

lemma report_run: "length vs = length (co_Labels c) \<Longrightarrow> report w c vs ms = (Ok (), ms @ [w (co_Name c) (zip (co_Labels c) vs)])"
  by (simp add: report_def WithLabelValues_def bnd_def liftres_def modify_def)

lemma collector_labels [simp]:
  "co_Labels (runsFetchErrors run_metrics) = [''controller_uuid'', ''error_type'']"
  "co_Labels (runsFetchDuration run_metrics) = [''controller_uuid'']"
  "co_Labels (jobsCreatedTotal run_metrics) = [''controller_uuid'']"
  "co_Labels (jobCreationErrors run_metrics) = [''controller_uuid'', ''error_type'']"
  "co_Labels (jobCreationDuration run_metrics) = [''controller_uuid'']"
  "co_Labels (jobsAtCapacitySkips run_metrics) = [''controller_uuid'']"
  "co_Labels (serviceAccountsCreatedTotal run_metrics) = [''controller_uuid'']"
  "co_Labels (serviceAccountCreationErrors run_metrics) = [''controller_uuid'', ''error_type'']"
  "co_Labels (decryptionErrors run_metrics) = [''controller_uuid'']"
  "co_Labels (wifTokensIssuedTotal run_metrics) = [''controller_uuid'']"
  "co_Labels (wifTokenErrors run_metrics) = [''controller_uuid'']"
  "co_Labels (runnerRegistrationSuccess run_metrics) = [''controller_uuid'']"
  "co_Labels (runnerRegistrationErrors run_metrics) = [''controller_uuid'', ''error_type'']"
  "co_Labels (controllerLoopIterations run_metrics) = []"
  "co_Labels (activeRunners run_metrics) = []"
  by (simp_all add: run_metrics_def Let_def)

lemma collector_names [simp]:
  "co_Name (runsFetchErrors run_metrics) = ''run_controller_runs_fetch_errors_total''"
  "co_Name (runsFetchDuration run_metrics) = ''run_controller_runs_fetch_duration_seconds''"
  "co_Name (jobsCreatedTotal run_metrics) = ''run_controller_jobs_created_total''"
  "co_Name (jobCreationErrors run_metrics) = ''run_controller_job_creation_errors_total''"
  "co_Name (jobCreationDuration run_metrics) = ''run_controller_job_creation_duration_seconds''"
  "co_Name (jobsAtCapacitySkips run_metrics) = ''run_controller_jobs_at_capacity_skips_total''"
  "co_Name (serviceAccountsCreatedTotal run_metrics) = ''run_controller_service_accounts_created_total''"
  "co_Name (serviceAccountCreationErrors run_metrics) = ''run_controller_service_account_creation_errors_total''"
  "co_Name (decryptionErrors run_metrics) = ''run_controller_decryption_errors_total''"
  "co_Name (wifTokensIssuedTotal run_metrics) = ''run_controller_wif_tokens_issued_total''"
  "co_Name (wifTokenErrors run_metrics) = ''run_controller_wif_token_errors_total''"
  "co_Name (runnerRegistrationSuccess run_metrics) = ''run_controller_runner_registration_success_total''"
  "co_Name (runnerRegistrationErrors run_metrics) = ''run_controller_runner_registration_errors_total''"
  "co_Name (controllerLoopIterations run_metrics) = ''run_controller_loop_iterations_total''"
  "co_Name (activeRunners run_metrics) = ''run_controller_active_runners''"
  by (simp_all add: run_metrics_def Let_def)

lemma counted_simps [simp]:
  "counted c [] = 0"
  "counted c (ms @ ms') = counted c ms + counted c ms'"
  "counted c (Inc n l # ms) = (if n = co_Name c then Suc (counted c ms) else counted c ms)"
  "counted c (Observe n l # ms) = counted c ms"
  "counted c (SetTo n l v # ms) = counted c ms"
  by (simp_all add: counted_def)

end
