(* ===== verification/MeshapiClient.thy ===== *)
theory MeshapiClient
  imports RunModel Metrics
begin

text \<open>
  The client of the meshStack API, \<^verbatim>\<open>go-meshapi-client/meshapi/client.go\<close> and \<^verbatim>\<open>auth.go\<close>.

  \<^item> The network, the clock and the JSON decoders answer through \<open>http_env\<close>, each a function of
    the requests sent so far. A request is a value with its headers and the bytes of its body; a
    response has the bytes that can be read from its body and the error, if any, that reading
    on then meets.
  \<^item> \<open>api_state\<close> is what a client keeps between calls: the cached token of an \<^verbatim>\<open>ApiKeyAuth\<close>, the run
    token of the terraform runner's \<^verbatim>\<open>runApiAuth\<close>, and the requests sent. Times are nanoseconds.
    Beside them stand the measurements of the run controller (\<open>Metrics\<close>); the runners have none.
\<close>

section \<open>Requests and the network\<close>

record http_request =
  req_Method :: string
  req_Url :: string
  req_Headers :: "(string \<times> string) list"
  req_Body :: string

record http_response =
  resp_Status :: int
  resp_Body :: string
  resp_ReadError :: "string option"

record http_env =
  he_NewRequest :: "string \<Rightarrow> string option"
  he_Do :: "http_request list \<Rightarrow> string + http_response"
  he_Now :: "http_request list \<Rightarrow> int"
  he_Timestamp :: "http_request list \<Rightarrow> string"
  he_DecodeLogin :: "string \<Rightarrow> string + string \<times> int"
  he_DecodeAbort :: "string \<Rightarrow> string + bool"

record api_state =
  as_token :: string
  as_expiresAt :: int
  as_runToken :: "string option"
  as_sent :: "http_request list"
  as_measured :: "measurement list"

type_synonym 'a api = "(api_state, 'a) prog"

text \<open>
  \<^verbatim>\<open>http.NewRequest\<close> fails on a URL it cannot parse, with the \<^verbatim>\<open>*url.Error\<close> of \<^verbatim>\<open>url.Parse\<close>; \<^verbatim>\<open>Client.Do\<close>
  sends the request, and its errors are of the type \<^verbatim>\<open>*url.Error\<close>, too. The text of an error stands
  for it where the program does not test its type.
\<close>

definition http_NewRequest :: "http_env \<Rightarrow> string \<Rightarrow> string \<Rightarrow> string \<Rightarrow> http_request api" where
  "http_NewRequest E method url body =
     (case he_NewRequest E url of
        Some m \<Rightarrow> throw (UrlError m)
      | None \<Rightarrow> ret \<lparr>req_Method = method, req_Url = url, req_Headers = [], req_Body = body\<rparr>)"

definition http_Do :: "http_env \<Rightarrow> http_request \<Rightarrow> http_response api" where
  "http_Do E req s =
     (let s1 = s\<lparr>as_sent := as_sent s @ [req]\<rparr> 
      in (case he_Do E (as_sent s1) of Inl m \<Rightarrow> Err (UrlError m) | Inr resp \<Rightarrow> Ok resp, s1))"

definition Header_Set :: "string \<Rightarrow> string \<Rightarrow> http_request \<Rightarrow> http_request" where
  "Header_Set k v req = req\<lparr>req_Headers := map_put k v (req_Headers req)\<rparr>"

definition Header_Del :: "string \<Rightarrow> http_request \<Rightarrow> http_request" where
  "Header_Del k req = req\<lparr>req_Headers := filter (\<lambda>kv. fst kv \<noteq> k) (req_Headers req)\<rparr>"

text \<open>\<^verbatim>\<open>io.ReadAll\<close> of the body, and of the body through an \<^verbatim>\<open>io.LimitReader\<close>.\<close>

definition ReadAll :: "http_response \<Rightarrow> string res" where
  "ReadAll resp = (case resp_ReadError resp of None \<Rightarrow> Ok (resp_Body resp) | Some m \<Rightarrow> Err (ErrorString m))"

definition ReadLimited :: "nat \<Rightarrow> http_response \<Rightarrow> string \<times> string option" where
  "ReadLimited n resp =
     (if n \<le> length (resp_Body resp) then (take n (resp_Body resp), None)
      else (resp_Body resp, resp_ReadError resp))"

text \<open>The result of a decoder of package \<^verbatim>\<open>encoding/json\<close>.\<close>

definition decoded :: "string + 'a \<Rightarrow> 'a res" where
  "decoded r = (case r of Inl m \<Rightarrow> Err (ErrorString m) | Inr a \<Rightarrow> Ok a)"

definition is_2xx :: "http_response \<Rightarrow> bool" where
  "is_2xx resp = (200 \<le> resp_Status resp \<and> resp_Status resp < 300)"

section \<open>Authentication\<close>

text \<open>
  The providers. \<open>RunApiAuth\<close> is the terraform runner's, around the one of its configuration; a
  provider that is \<^verbatim>\<open>nil\<close> is \<open>None\<close>.
\<close>

datatype auth_provider =
    BasicAuth string string
  | BearerTokenAuth string
  | ApiKeyAuth string string string
  | RunApiAuth "auth_provider option"

definition NewApiKeyAuth :: "string \<Rightarrow> string \<Rightarrow> string \<Rightarrow> auth_provider" where
  [simp]: "NewApiKeyAuth baseURL clientId clientSecret = ApiKeyAuth baseURL clientId clientSecret"

definition second :: int where "second = 1000000000"

definition tokenExpiryBuffer :: int where "tokenExpiryBuffer = 30 * second"

text \<open>A value of the 64-bit type \<^verbatim>\<open>time.Duration\<close>: arithmetic on it wraps around.\<close>

definition duration :: "int \<Rightarrow> int" where
  "duration i = (i + 2 ^ 63) mod 2 ^ 64 - 2 ^ 63"

definition tokenLifetime :: "int \<Rightarrow> int" where
  "tokenLifetime expiresIn =
     (let expiry = duration (duration (expiresIn * second) - tokenExpiryBuffer)
      in if expiry \<le> 0 then second else expiry)"

definition fetchToken :: "http_env \<Rightarrow> string \<Rightarrow> string \<Rightarrow> string \<Rightarrow> unit api" where
  "fetchToken E baseURL clientId clientSecret =
     bnd (wrap_err ''create login request: '' (http_NewRequest E ''POST'' (baseURL @ ''/api/login'')
            (json_Marshal (JObj [(''clientId'', JStr clientId), (''clientSecret'', JStr clientSecret)])))) (\<lambda>req.
     bnd (wrap_err ''execute login request: ''
            (http_Do E (Header_Set ''Accept'' ''application/json''
               (Header_Set ''Content-Type'' ''application/json'' req)))) (\<lambda>resp.
     if resp_Status resp \<noteq> 200
     then throw (ErrorString (''login returned HTTP '' @ itoa (resp_Status resp) @ '': '' @ resp_Body resp))
     else bnd (wrap_err ''decode login response: '' (liftres (decoded (he_DecodeLogin E (resp_Body resp))))) (\<lambda>(token, expiresIn).
     if token = [] then throw (ErrorString ''login response contained empty access_token'')
     else modify (\<lambda>s. s\<lparr>as_token := token, as_expiresAt := he_Now E (as_sent s) + tokenLifetime expiresIn\<rparr>))))"

text \<open>A failure to log in is logged and gives an empty header.\<close>

definition ApiKeyAuth_AuthHeader :: "http_env \<Rightarrow> string \<Rightarrow> string \<Rightarrow> string \<Rightarrow> string api" where
  "ApiKeyAuth_AuthHeader E baseURL clientId clientSecret s =
     (if he_Now E (as_sent s) < as_expiresAt s \<and> as_token s \<noteq> [] then ret (''Bearer '' @ as_token s) s
      else attempt (fetchToken E baseURL clientId clientSecret) (\<lambda>r. case r of
             Err _ \<Rightarrow> ret []
           | Ok _ \<Rightarrow> gets (\<lambda>s. ''Bearer '' @ as_token s)
           | Panic m \<Rightarrow> panic m) s)"

text \<open>The terraform runner's provider, \<^verbatim>\<open>runapi.go\<close>: the run token, else the configured credentials.\<close>

definition runApiAuth_AuthHeader :: "'a option \<Rightarrow> ('a \<Rightarrow> string api) \<Rightarrow> string api" where
  "runApiAuth_AuthHeader baseAuth header =
     bnd (gets as_runToken) (\<lambda>t.
       if t \<noteq> None \<and> t \<noteq> Some [] then ret (''Bearer '' @ the t)
       else (case baseAuth of Some a \<Rightarrow> header a | None \<Rightarrow> ret []))"

lemma runApiAuth_cong [fundef_cong]:
  "b = b' \<Longrightarrow> (\<And>a. b' = Some a \<Longrightarrow> h a = h' a) \<Longrightarrow> runApiAuth_AuthHeader b h = runApiAuth_AuthHeader b' h'"
  by (cases b') (simp_all add: runApiAuth_AuthHeader_def cong: if_cong)

fun AuthHeader :: "http_env \<Rightarrow> auth_provider \<Rightarrow> string api" where
  "AuthHeader E (BasicAuth u p) = ret (''Basic '' @ b64_encode (u @ '':'' @ p))"
| "AuthHeader E (BearerTokenAuth t) = ret (''Bearer '' @ t)"
| "AuthHeader E (ApiKeyAuth url i sec) = ApiKeyAuth_AuthHeader E url i sec"
| "AuthHeader E (RunApiAuth base) = runApiAuth_AuthHeader base (AuthHeader E)"

declare runApiAuth_AuthHeader_def [simp]

section \<open>The client\<close>

text \<open>The client, with the identity of the runner, which the program keeps in package variables.\<close>

record client_metadata =
  cm_runnerName :: string
  cm_runnerVersion :: string

definition defaultMetadata :: client_metadata where
  "defaultMetadata = \<lparr>cm_runnerName = ''unknown-runner'', cm_runnerVersion = ''dev''\<rparr>"

definition SetClientMetadata :: "string \<Rightarrow> string \<Rightarrow> client_metadata \<Rightarrow> client_metadata" where
  "SetClientMetadata name version m =
     (let m1 = (if name \<noteq> [] then m\<lparr>cm_runnerName := name\<rparr> else m)
      in if version \<noteq> [] then m1\<lparr>cm_runnerVersion := version\<rparr> else m1)"

definition userAgent :: "client_metadata \<Rightarrow> string" where
  "userAgent m = ''meshcloud-'' @ cm_runnerName m @ ''/'' @ cm_runnerVersion m"

record mesh_client =
  cl_baseURL :: string
  cl_nodeID :: string
  cl_auth :: auth_provider
  cl_meta :: client_metadata

text \<open>The HTTP client that the second one takes sets the time limit of the requests only.\<close>

definition NewClient :: "string \<Rightarrow> string \<Rightarrow> auth_provider \<Rightarrow> client_metadata \<Rightarrow> mesh_client" where
  "NewClient baseURL nodeID auth m = \<lparr>cl_baseURL = baseURL, cl_nodeID = nodeID, cl_auth = auth, cl_meta = m\<rparr>"

definition NewClientWithHTTP :: "string \<Rightarrow> string \<Rightarrow> auth_provider \<Rightarrow> client_metadata \<Rightarrow> mesh_client" where
  "NewClientWithHTTP baseURL nodeID auth m = \<lparr>cl_baseURL = baseURL, cl_nodeID = nodeID, cl_auth = auth, cl_meta = m\<rparr>"

lemmas new_clients [simp] = NewClient_def NewClientWithHTTP_def

definition BlockRunMediaTypeV1 :: string where
  "BlockRunMediaTypeV1 = ''application/vnd.meshcloud.api.meshbuildingblockrun.v1.hal+json''"

definition maxArtifactBytes :: nat where "maxArtifactBytes = 128 * 2 ^ 20"
definition maxErrorBodyBytes :: nat where "maxErrorBodyBytes = 16 * 2 ^ 20"

definition EPGetRun :: "string \<Rightarrow> string" where
  "EPGetRun base = base @ ''/api/meshobjects/meshbuildingblockruns''"

definition EPRunSourceRegistration :: "string \<Rightarrow> string \<Rightarrow> string" where
  "EPRunSourceRegistration base runId = EPGetRun base @ ''/'' @ runId @ ''/status/source''"

definition EPRunSourceUpdate :: "string \<Rightarrow> string \<Rightarrow> string \<Rightarrow> string" where
  "EPRunSourceUpdate base runId source = EPRunSourceRegistration base runId @ ''/'' @ source"

definition standard_headers :: "mesh_client \<Rightarrow> string \<Rightarrow> http_request \<Rightarrow> http_request" where
  "standard_headers c authorization req =
     Header_Set ''X-Meshcloud-Runner-Version'' (cm_runnerVersion (cl_meta c))
     (Header_Set ''X-Meshcloud-Runner-Name'' (cm_runnerName (cl_meta c))
     (Header_Set ''User-Agent'' (userAgent (cl_meta c))
     (Header_Set ''X-Block-Runner-Node-Id'' (cl_nodeID c)
     (Header_Set ''Content-Type'' BlockRunMediaTypeV1
     (Header_Set ''Accept'' BlockRunMediaTypeV1
     (Header_Set ''Authorization'' authorization req))))))"

definition setHeaders :: "http_env \<Rightarrow> mesh_client \<Rightarrow> http_request \<Rightarrow> http_request api" where
  "setHeaders E c req = bnd (AuthHeader E (cl_auth c)) (\<lambda>h. ret (standard_headers c h req))"

definition FetchRun :: "http_env \<Rightarrow> dto_codec \<Rightarrow> mesh_client \<Rightarrow> string \<Rightarrow> (run_details \<times> string) api" where
  "FetchRun E C c runnerUUID =
     bnd (http_NewRequest E ''POST'' (EPGetRun (cl_baseURL c) @ ''/create?forRunnerUuid='' @ runnerUUID) []) (\<lambda>req.
     bnd (setHeaders E c req) (\<lambda>req.
     bnd (http_Do E req) (\<lambda>resp.
     if resp_Status resp \<noteq> 200 \<and> resp_Status resp \<noteq> 201 then throw (StatusError (resp_Status resp))
     else bnd (liftres (ReadAll resp)) (\<lambda>data.
          bnd (wrap_err ''failed to parse run JSON: '' (liftres (ParseRunDetails C data))) (\<lambda>dto.
          if rd_Uuid dto = [] then throw (ErrorString ''fetched run has no UUID'')
          else ret (dto, data))))))"

text \<open>
  The writer takes the bytes it is given, or the first of them and then fails. The result pairs the
  bytes written with the outcome.
\<close>

type_synonym writer = "string \<Rightarrow> (nat \<times> go_error) option"

definition copyArtifact :: "string \<Rightarrow> writer \<Rightarrow> http_response \<Rightarrow> string \<times> unit res" where
  "copyArtifact url w resp =
     (let (data, readErr) = ReadLimited (maxArtifactBytes + 1) resp;
          pre = ''download artifact '' @ url @ '': ''
      in case w data of
           Some (n, e) \<Rightarrow> (take n data, Err (Wrapped (pre @ ''failed to read body: '') e ''''))
         | None \<Rightarrow>
             (data,
              case readErr of
                Some m \<Rightarrow> Err (Wrapped (pre @ ''failed to read body: '') (ErrorString m) '''')
              | None \<Rightarrow>
                  if length data > maxArtifactBytes
                  then Err (ErrorString (pre @ ''artifact exceeds the maximum allowed size of ''
                         @ nat_digits maxArtifactBytes @ '' bytes''))
                  else Ok ()))"

definition DownloadArtifact ::
  "http_env \<Rightarrow> mesh_client \<Rightarrow> string \<Rightarrow> writer \<Rightarrow> (string \<times> unit res) api" where
  "DownloadArtifact E c url w s =
     (let pre = ''download artifact '' @ url;
          request = bnd (wrap_err (pre @ '': failed to create request: '') (http_NewRequest E ''GET'' url [])) (\<lambda>req.
            bnd (setHeaders E c req) (\<lambda>req.
            wrap_err (pre @ '': request failed: '')
              (http_Do E (Header_Del ''Content-Type'' (Header_Set ''Accept'' ''application/octet-stream'' req)))))
      in case request s of
           (Panic m, s1) \<Rightarrow> (Panic m, s1)
         | (Err e, s1) \<Rightarrow> (Ok ([], Err e), s1)
         | (Ok resp, s1) \<Rightarrow>
             if is_2xx resp then (Ok (copyArtifact url w resp), s1)
             else let (body, readErr) = ReadLimited maxErrorBodyBytes resp;
                      head = pre @ '' returned HTTP '' @ itoa (resp_Status resp)
                  in (Ok ([], Err (ErrorString (case readErr of
                        Some m \<Rightarrow> head @ '' (failed to read error body: '' @ m @ '')''
                      | None \<Rightarrow> head @ '': '' @ body))), s1))"

definition UploadArtifact :: "http_env \<Rightarrow> mesh_client \<Rightarrow> string \<Rightarrow> string \<Rightarrow> unit api" where
  "UploadArtifact E c url artifact =
     (let pre = ''upload artifact '' @ url in
      bnd (wrap_err (pre @ '': failed to create request: '') (http_NewRequest E ''PUT'' url artifact)) (\<lambda>req.
      bnd (setHeaders E c req) (\<lambda>req.
      bnd (wrap_err (pre @ '': request failed: '')
             (http_Do E (Header_Set ''Accept'' ''*/*''
                (Header_Set ''Content-Type'' ''application/octet-stream'' req)))) (\<lambda>resp.
      if is_2xx resp then ret ()
      else throw (ErrorString (pre @ '' returned HTTP '' @ itoa (resp_Status resp) @ '': ''
             @ fst (ReadLimited maxErrorBodyBytes resp)))))))"

text \<open>What a registration carries, and its JSON.\<close>

record step_registration_dto =
  sr_Id :: string
  sr_DisplayName :: string
  sr_Status :: "string option"

record source_dto =
  src_Id :: string
  src_ExternalId :: "string option"
  src_ExternalUrl :: "string option"

record registration_dto =
  reg_Source :: source_dto
  reg_Steps :: "step_registration_dto list"

definition json_option :: "string option \<Rightarrow> any" where
  "json_option v = (case v of None \<Rightarrow> JNull | Some t \<Rightarrow> JStr t)"

definition json_omitempty :: "string \<Rightarrow> string option \<Rightarrow> (string \<times> any) list" where
  "json_omitempty k v = (case v of None \<Rightarrow> [] | Some t \<Rightarrow> [(k, JStr t)])"

definition registration_json :: "registration_dto \<Rightarrow> any" where
  "registration_json r =
     JObj [(''source'', JObj ((''id'', JStr (src_Id (reg_Source r)))
              # json_omitempty ''externalId'' (src_ExternalId (reg_Source r))
              @ json_omitempty ''externalUrl'' (src_ExternalUrl (reg_Source r)))),
           (''steps'', JArr (map (\<lambda>st. JObj [(''id'', JStr (sr_Id st)), (''displayName'', JStr (sr_DisplayName st)),
              (''status'', json_option (sr_Status st))]) (reg_Steps r)))]"

definition RegisterSourceAt :: "http_env \<Rightarrow> mesh_client \<Rightarrow> string \<Rightarrow> registration_dto \<Rightarrow> unit api" where
  "RegisterSourceAt E c url registration =
     bnd (wrap_err ''failed to create request: ''
            (http_NewRequest E ''POST'' url (json_Marshal (registration_json registration)))) (\<lambda>req.
     bnd (setHeaders E c req) (\<lambda>req.
     bnd (wrap_err ''request failed: '' (http_Do E req)) (\<lambda>resp.
     if resp_Status resp = 409 then ret ()
     else if is_2xx resp then ret ()
     else throw (ErrorString (''register source returned HTTP '' @ itoa (resp_Status resp) @ '': '' @ resp_Body resp)))))"

definition RegisterSource :: "http_env \<Rightarrow> mesh_client \<Rightarrow> string \<Rightarrow> registration_dto \<Rightarrow> unit api" where
  "RegisterSource E c runID = RegisterSourceAt E c (EPRunSourceRegistration (cl_baseURL c) runID)"

text \<open>The payload is the JSON of the value the caller passes.\<close>

definition PatchStatusAt :: "http_env \<Rightarrow> mesh_client \<Rightarrow> string \<Rightarrow> any \<Rightarrow> string api" where
  "PatchStatusAt E c url payload =
     bnd (wrap_err ''failed to create request: '' (http_NewRequest E ''PATCH'' url (json_Marshal payload))) (\<lambda>req.
     bnd (setHeaders E c req) (\<lambda>req.
     bnd (wrap_err ''request failed: '' (http_Do E req)) (\<lambda>resp.
     if \<not> is_2xx resp
     then throw (Wrapped ''patch status: '' (StatusError (resp_Status resp)) ('': '' @ resp_Body resp))
     else wrap_err ''failed to read response body: '' (liftres (ReadAll resp)))))"

definition PatchStatus :: "http_env \<Rightarrow> mesh_client \<Rightarrow> string \<Rightarrow> string \<Rightarrow> any \<Rightarrow> string api" where
  "PatchStatus E c runID sourceID = PatchStatusAt E c (EPRunSourceUpdate (cl_baseURL c) runID sourceID)"

text \<open>The client measures nothing.\<close>

lemma measures_nothing [emits_intros]:
  "emits as_measured P (http_NewRequest E m url b)" "emits as_measured P (http_Do E req)"
  "emits as_measured P (AuthHeader E auth)" "emits as_measured P (setHeaders E c req)"
proof -
  show new: "emits as_measured P (http_NewRequest E m url b)" for m url b
    unfolding http_NewRequest_def by (auto intro!: emits_intros)
  show send: "emits as_measured P (http_Do E req)" for req
    by (auto simp: emits_def http_Do_def Let_def)
  have "emits as_measured P (fetchToken E url i sec)" for url i sec
    unfolding fetchToken_def by (auto intro!: emits_intros new send)
  then have key: "emits as_measured P (ApiKeyAuth_AuthHeader E url i sec)" for url i sec
  proof -
    have "emits as_measured P (attempt (fetchToken E url i sec) (\<lambda>r. case r of
        Err _ \<Rightarrow> ret [] | Ok _ \<Rightarrow> gets (\<lambda>s. ''Bearer '' @ as_token s) | Panic m \<Rightarrow> panic m))"
      using \<open>\<And>url i sec. emits as_measured P (fetchToken E url i sec)\<close> by (auto intro!: emits_intros)
    then show ?thesis by (auto simp: emits_def ApiKeyAuth_AuthHeader_def ret_def)
  qed
  show auth: "emits as_measured P (AuthHeader E auth)" for auth
  proof (induction auth)
    case (RunApiAuth base)
    then show ?case
      by (cases base) (auto simp: emits_def bnd_def gets_def ret_def)
  qed (auto intro!: emits_intros key)
  show "emits as_measured P (setHeaders E c req)"
    unfolding setHeaders_def by (auto intro!: emits_intros auth)
qed

lemma client_measures_nothing [emits_intros]:
  "emits as_measured P (FetchRun E C c u)" "emits as_measured P (RegisterSourceAt E c url reg)"
  "emits as_measured P (PatchStatusAt E c url p)"
  unfolding FetchRun_def RegisterSourceAt_def PatchStatusAt_def by (auto intro!: emits_intros)

end
