(* ===== verification/RunApi.thy ===== *)
theory RunApi
  imports MeshapiClient
begin

text \<open>
  The terraform runner's access to the API, \<^verbatim>\<open>tf-block-runner/tfrun/runapi.go\<close>, with
  \<^verbatim>\<open>RunApiConfig.NewAuthProvider\<close> of \<^verbatim>\<open>config.go\<close>. The client that the Go value holds and the one it
  builds in \<^verbatim>\<open>FetchRunDetails\<close> differ in the node id only and share the run token in \<open>api_state\<close>.

  The lemmas say which credentials the requests of an operation carry, and what an operation may
  add to the status reports sent.
\<close>

section \<open>Operations\<close>

record run_api_config =
  rac_Url :: string
  rac_User :: string
  rac_Password :: string
  rac_ClientId :: string
  rac_ClientSecret :: string

definition NewAuthProvider :: "run_api_config \<Rightarrow> auth_provider option" where
  "NewAuthProvider c =
     (if rac_ClientId c \<noteq> [] \<and> rac_ClientSecret c \<noteq> []
      then Some (NewApiKeyAuth (rac_Url c) (rac_ClientId c) (rac_ClientSecret c))
      else if rac_User c \<noteq> [] \<and> rac_Password c \<noteq> []
      then Some (BasicAuth (rac_User c) (rac_Password c))
      else None)"

record run_api =
  ra_rid :: string
  ra_client :: mesh_client

definition NewRunApi :: "run_api_config \<Rightarrow> string \<Rightarrow> client_metadata \<Rightarrow> run_api" where
  "NewRunApi c runnerUuid m =
     \<lparr>ra_rid = runnerUuid,
      ra_client = NewClient (rac_Url c) runnerUuid (RunApiAuth (NewAuthProvider c)) m\<rparr>"

definition SetRunToken :: "string \<Rightarrow> unit api" where
  "SetRunToken t = modify (\<lambda>s. s\<lparr>as_runToken := Some t\<rparr>)"

definition ClearRunToken :: "unit api" where
  "ClearRunToken = modify (\<lambda>s. s\<lparr>as_runToken := None\<rparr>)"

definition FetchRunDetails :: "http_env \<Rightarrow> dto_codec \<Rightarrow> run_api \<Rightarrow> string \<Rightarrow> run api" where
  "FetchRunDetails E C api nodePostfix =
     bnd (FetchRun E C ((ra_client api)\<lparr>cl_nodeID := ra_rid api @ ''-'' @ nodePostfix\<rparr>) (ra_rid api)) (\<lambda>(dto, _).
     bnd (SetRunToken (rd_RunToken dto)) (\<lambda>_.
     liftres (runDTOToInternal C dto)))"

definition run_registration :: "string \<Rightarrow> run_status \<Rightarrow> registration_dto" where
  "run_registration rid st =
     \<lparr>reg_Source = \<lparr>src_Id = rid, src_ExternalId = None, src_ExternalUrl = None\<rparr>,
      reg_Steps = map (\<lambda>s. \<lparr>sr_Id = step_Name s, sr_DisplayName = step_DisplayName s, sr_Status = None\<rparr>)
                    (run_Steps st)\<rparr>"

definition Register :: "http_env \<Rightarrow> run_api \<Rightarrow> run_status \<Rightarrow> unit api" where
  "Register E api st = RegisterSource E (ra_client api) (run_Id st) (run_registration (ra_rid api) st)"

text \<open>The JSON of a status update; \<^verbatim>\<open>encoding/json\<close> writes the outputs, a map, in the order of their keys.\<close>

definition outputs_json :: "(string \<times> output_dto) list \<Rightarrow> any" where
  "outputs_json os =
     JObj (map (\<lambda>(k, v). (k, JObj [(''value'', od_Value v), (''type'', JStr (od_Type v)),
       (''isSensitive'', JBool (od_Sensitive v))])) (SortedByKeys os))"

definition step_update_json :: "step_update_dto \<Rightarrow> any" where
  "step_update_json st =
     JObj ([(''id'', JStr (su_Id st)), (''displayName'', JStr (su_DisplayName st))]
       @ json_omitempty ''status'' (su_Status st)
       @ json_omitempty ''userMessage'' (su_UserMessage st)
       @ json_omitempty ''systemMessage'' (su_SystemMessage st)
       @ (if su_Outputs st = [] then [] else [(''outputs'', outputs_json (su_Outputs st))]))"

definition run_update_json :: "string \<Rightarrow> run_update_dto \<Rightarrow> any" where
  "run_update_json createdOn u =
     JObj ([(''blockRunId'', JStr (ru_BlockRunId u)), (''source'', JStr (ru_Source u)),
            (''type'', JStr (ru_Type u)), (''status'', json_option (ru_Status u)),
            (''createdOn'', JStr createdOn), (''summary'', json_option (ru_Summary u)),
            (''steps'', case ru_Steps u of None \<Rightarrow> JNull | Some ss \<Rightarrow> JArr (map step_update_json ss))]
       @ (case ru_ChangesDetected u of None \<Rightarrow> [] | Some b \<Rightarrow> [(''changesDetected'', JBool b)]))"

definition UpdateState :: "http_env \<Rightarrow> run_api \<Rightarrow> run_status \<Rightarrow> bool api" where
  "UpdateState E api st =
     bnd (gets (\<lambda>s. run_update_json (he_Timestamp E (as_sent s)) (toExternal (ra_rid api) st))) (\<lambda>dto.
     bnd (PatchStatus E (ra_client api) (run_Id st) (ra_rid api) dto) (\<lambda>data.
     liftres (decoded (he_DecodeAbort E data))))"

definition DownloadPredecessorArtifact ::
  "http_env \<Rightarrow> run_api \<Rightarrow> string \<Rightarrow> writer \<Rightarrow> (string \<times> unit res) api" where
  "DownloadPredecessorArtifact E api = DownloadArtifact E (ra_client api)"

definition api_UploadArtifact :: "http_env \<Rightarrow> run_api \<Rightarrow> string \<Rightarrow> string \<Rightarrow> unit api" where
  "api_UploadArtifact E api = UploadArtifact E (ra_client api)"

section \<open>What an operation sends\<close>

text \<open>
  \<open>sends P m\<close>: whatever \<open>m\<close> returns, it only adds requests to those sent, and each satisfies \<open>P\<close>
  in the state \<open>m\<close> started from.
\<close>

named_theorems sends_intros

definition sends :: "(api_state \<Rightarrow> bool) \<Rightarrow> (http_request \<Rightarrow> bool) \<Rightarrow> 'a api \<Rightarrow> bool" where
  "sends I P m \<longleftrightarrow> (\<forall>s r s'. I s \<longrightarrow> m s = (r, s') \<longrightarrow>
     I s' \<and> (\<exists>rs. as_sent s' = as_sent s @ rs \<and> list_all P rs))"

lemma sendsD: "sends I P m \<Longrightarrow> I s \<Longrightarrow> m s = (r, s') \<Longrightarrow>
    I s' \<and> (\<exists>rs. as_sent s' = as_sent s @ rs \<and> list_all P rs)"
  unfolding sends_def by blast

lemma sendsI:
  "(\<And>s r s'. I s \<Longrightarrow> m s = (r, s') \<Longrightarrow> I s' \<and> (\<exists>rs. as_sent s' = as_sent s @ rs \<and> list_all P rs)) \<Longrightarrow>
   sends I P m"
  unfolding sends_def by blast

lemma sends_silent:
  "sends I P (ret a)" "sends I P (throw e)" "sends I P (panic p)" "sends I P (gets f)" "sends I P (liftres x)"
  by (auto simp: sends_def ret_def throw_def panic_def gets_def liftres_def)

declare sends_silent [sends_intros]

lemma sends_modify [sends_intros]:
  "(\<And>s. I s \<Longrightarrow> I (f s) \<and> as_sent (f s) = as_sent s) \<Longrightarrow> sends I P (modify f)"
  by (auto simp: sends_def modify_def)

lemma sends_step:
  assumes "sends I P m" "I s" "m s = (r, s1)" "I s1 \<Longrightarrow> I s' \<and> (\<exists>rs. as_sent s' = as_sent s1 @ rs \<and> list_all P rs)"
  shows "I s' \<and> (\<exists>rs. as_sent s' = as_sent s @ rs \<and> list_all P rs)"
  using sendsD [OF assms(1-3)] assms(4) by (force intro: exI [of _ "_ @ _"])

lemma sends_bnd [sends_intros]:
  assumes "sends I P m" "\<And>a. sends I P (k a)"
  shows "sends I P (bnd m k)"
proof (rule sendsI)
  fix s r s' assume s: "I s" "bnd m k s = (r, s')"
  obtain x s1 where m: "m s = (x, s1)" by fastforce
  show "I s' \<and> (\<exists>rs. as_sent s' = as_sent s @ rs \<and> list_all P rs)"
    by (rule sends_step [OF assms(1) s(1) m]) (use s(2) m sendsD [OF assms(2)] in \<open>auto simp: bnd_def split: res.splits\<close>)
qed

lemma sends_attempt [sends_intros]:
  assumes "sends I P m" "\<And>a. sends I P (k a)"
  shows "sends I P (attempt m k)"
proof (rule sendsI)
  fix s r s' assume s: "I s" "attempt m k s = (r, s')"
  obtain x s1 where m: "m s = (x, s1)" by fastforce
  show "I s' \<and> (\<exists>rs. as_sent s' = as_sent s @ rs \<and> list_all P rs)"
    by (rule sends_step [OF assms(1) s(1) m])
      (use s(2) m sendsD [OF assms(2)] in \<open>auto simp: attempt_def split: res.splits\<close>)
qed

lemma sends_cases [sends_intros]:
  "(b \<Longrightarrow> sends I P m) \<Longrightarrow> (\<not> b \<Longrightarrow> sends I P m') \<Longrightarrow> sends I P (if b then m else m')"
  "(\<And>a. sends I P (f a)) \<Longrightarrow> (\<And>e. sends I P (g e)) \<Longrightarrow> (\<And>p. sends I P (h p)) \<Longrightarrow>
   sends I P (case r of Ok a \<Rightarrow> f a | Err e \<Rightarrow> g e | Panic p \<Rightarrow> h p)"
  by (auto split: res.splits)

lemma sends_prod [sends_intros]: "(\<And>a b. sends I P (f a b)) \<Longrightarrow> sends I P (case x of (a, b) \<Rightarrow> f a b)"
  by (cases x) simp

lemma sends_wrap_err [sends_intros]: "sends I P m \<Longrightarrow> sends I P (wrap_err t m)"
  unfolding wrap_err_def by (intro sends_intros)

lemma sends_NewRequest [sends_intros]: "sends I P (http_NewRequest E m u b)"
  unfolding http_NewRequest_def by (cases "he_NewRequest E u") (simp_all add: sends_silent)

lemma sends_Do:
  "P req \<Longrightarrow> (\<And>s. I s \<Longrightarrow> I (s\<lparr>as_sent := as_sent s @ [req]\<rparr>)) \<Longrightarrow> sends I P (http_Do E req)"
  by (auto simp: sends_def http_Do_def Let_def)

section \<open>Credentials\<close>

text \<open>While a run token is set, every request of the client carries it.\<close>

definition holds_token :: "string \<Rightarrow> api_state \<Rightarrow> bool" where
  "holds_token t s \<longleftrightarrow> as_runToken s = Some t \<and> t \<noteq> []"

definition authorized_by :: "string \<Rightarrow> http_request \<Rightarrow> bool" where
  "authorized_by t req \<longleftrightarrow> map_of (req_Headers req) ''Authorization'' = Some (''Bearer '' @ t)"

definition run_client :: "mesh_client \<Rightarrow> bool" where
  "run_client c \<longleftrightarrow> (\<exists>base. cl_auth c = RunApiAuth base)"

lemma Header_Set_of [simp]:
  "map_of (req_Headers (Header_Set k v req)) = (map_of (req_Headers req))(k \<mapsto> v)"
  "req_Method (Header_Set k v req) = req_Method req" "req_Body (Header_Set k v req) = req_Body req"
  "req_Url (Header_Set k v req) = req_Url req"
  by (simp_all add: Header_Set_def map_of_map_put)

lemma map_of_filter_other: "map_of (filter (\<lambda>kv. fst kv \<noteq> k) m) x = (if x = k then None else map_of m x)"
  by (induction m) auto

lemma Header_Del_of [simp]:
  "map_of (req_Headers (Header_Del k req)) x = (if x = k then None else map_of (req_Headers req) x)"
  "req_Method (Header_Del k req) = req_Method req"
  by (simp_all add: Header_Del_def map_of_filter_other)

lemma holds_token_sent [simp]: "holds_token t (s\<lparr>as_sent := rs\<rparr>) = holds_token t s"
  by (simp add: holds_token_def)

lemma setHeaders_token:
  assumes "run_client c" "holds_token t s"
  shows "\<exists>req'. setHeaders E c req s = (Ok req', s) \<and> authorized_by t req' \<and> req_Method req' = req_Method req \<and>
    req_Body req' = req_Body req"
  using assms
  by (auto simp: run_client_def holds_token_def setHeaders_def bnd_def gets_def ret_def authorized_by_def
      standard_headers_def)

lemma sends_with_headers:
  assumes "run_client c" "\<And>req. authorized_by t req \<Longrightarrow> sends (holds_token t) (authorized_by t) (k req)"
  shows "sends (holds_token t) (authorized_by t) (bnd (setHeaders E c req) k)"
proof (rule sendsI)
  fix s r s' assume s: "holds_token t s" "bnd (setHeaders E c req) k s = (r, s')"
  from setHeaders_token [OF assms(1) s(1)] obtain req' where
    req: "setHeaders E c req s = (Ok req', s)" "authorized_by t req'" by blast
  then have "k req' s = (r, s')" using s(2) by (simp add: bnd_def)
  then show "holds_token t s' \<and> (\<exists>rs. as_sent s' = as_sent s @ rs \<and> list_all (authorized_by t) rs)"
    using sendsD [OF assms(2) [OF req(2)] s(1)] by blast
qed

lemmas sends_token = sends_with_headers sends_intros sends_Do

lemma token_UpdateState:
  "run_client (ra_client api) \<Longrightarrow> sends (holds_token t) (authorized_by t) (UpdateState E api st)"
  unfolding UpdateState_def PatchStatus_def PatchStatusAt_def by (intro sends_token) simp_all

lemma token_Register:
  "run_client (ra_client api) \<Longrightarrow> sends (holds_token t) (authorized_by t) (Register E api st)"
  unfolding Register_def RegisterSource_def RegisterSourceAt_def by (intro sends_token) simp_all

lemma token_Upload:
  "run_client (ra_client api) \<Longrightarrow> sends (holds_token t) (authorized_by t) (api_UploadArtifact E api url d)"
  unfolding api_UploadArtifact_def UploadArtifact_def Let_def
  by (intro sends_token) (simp_all add: authorized_by_def)

lemma run_client_NewRunApi [simp]: "run_client (ra_client (NewRunApi cfg u m))"
  by (simp add: run_client_def NewRunApi_def)

lemma run_client_nodeID [simp]: "run_client (c\<lparr>cl_nodeID := n\<rparr>) = run_client c"
  by (simp add: run_client_def)

lemma token_FetchRun:
  "run_client c \<Longrightarrow> sends (holds_token t) (authorized_by t) (FetchRun E C c u)"
  unfolding FetchRun_def by (intro sends_token) simp_all

section \<open>Reports\<close>

text \<open>A request that reports \<open>st\<close>, or one that reports nothing: a status update is a PATCH.\<close>

definition report_of :: "string \<Rightarrow> run_status \<Rightarrow> string \<Rightarrow> string" where
  "report_of rid st createdOn = json_Marshal (run_update_json createdOn (toExternal rid st))"

definition reports_only :: "string \<Rightarrow> run_status \<Rightarrow> http_request \<Rightarrow> bool" where
  "reports_only rid st req \<longleftrightarrow> req_Method req = ''PATCH'' \<longrightarrow> (\<exists>ts. req_Body req = report_of rid st ts)"

lemma sends_NewRequest_then:
  assumes "\<And>req. req_Method req = m \<Longrightarrow> req_Body req = b \<Longrightarrow> sends I P (k req)"
  shows "sends I P (bnd (wrap_err t (http_NewRequest E m u b)) k)"
proof (cases "he_NewRequest E u")
  case None
  let ?req = "\<lparr>req_Method = m, req_Url = u, req_Headers = [], req_Body = b\<rparr>"
  have "bnd (wrap_err t (http_NewRequest E m u b)) k = k ?req"
    using None by (simp add: fun_eq_iff bnd_def wrap_err_def attempt_def http_NewRequest_def ret_def)
  then show ?thesis using assms [of ?req] by simp
next
  case (Some e)
  have "bnd (wrap_err t (http_NewRequest E m u b)) k = throw (Wrapped t (UrlError e) '''')"
    using Some by (simp add: fun_eq_iff bnd_def wrap_err_def attempt_def http_NewRequest_def throw_def)
  then show ?thesis by (simp add: sends_silent)
qed

lemma sends_login: "sends (\<lambda>_. True) (\<lambda>req. req_Method req \<noteq> ''PATCH'') (fetchToken E u i k)"
  unfolding fetchToken_def by (intro sends_NewRequest_then sends_intros sends_Do) simp_all

lemma sends_weaken: "sends I P m \<Longrightarrow> (\<And>r. P r \<Longrightarrow> Q r) \<Longrightarrow> sends I Q m"
  unfolding sends_def by (blast intro: list.pred_mono_strong)

lemma sends_AuthHeader: "sends (\<lambda>_. True) (\<lambda>req. req_Method req \<noteq> ''PATCH'') (AuthHeader E a)"
proof (induction a)
  case (ApiKeyAuth url i k)
  have "sends (\<lambda>_. True) (\<lambda>req. req_Method req \<noteq> ''PATCH'') (attempt (fetchToken E url i k) (\<lambda>r. case r of
      Err _ \<Rightarrow> ret [] | Ok _ \<Rightarrow> gets (\<lambda>s. ''Bearer '' @ as_token s) | Panic m \<Rightarrow> panic m))"
    by (intro sends_intros sends_login)
  then show ?case
    unfolding AuthHeader.simps by (auto simp: sends_def ApiKeyAuth_AuthHeader_def ret_def)
next
  case (RunApiAuth base)
  have "sends (\<lambda>_. True) (\<lambda>req. req_Method req \<noteq> ''PATCH'')
      (case base of Some a \<Rightarrow> AuthHeader E a | None \<Rightarrow> ret [])"
    using RunApiAuth by (cases base) (auto intro: sends_intros)
  then show ?case unfolding AuthHeader.simps runApiAuth_AuthHeader_def by (intro sends_intros) simp
qed (simp_all add: sends_silent)

lemma standard_headers_frame [simp]:
  "req_Method (standard_headers c h req) = req_Method req" "req_Body (standard_headers c h req) = req_Body req"
  "map_of (req_Headers (standard_headers c h req)) ''Authorization'' = Some h"
  by (simp_all add: standard_headers_def)

lemma sends_setHeaders:
  assumes "\<And>req'. req_Method req' = req_Method req \<Longrightarrow> req_Body req' = req_Body req \<Longrightarrow> sends (\<lambda>_. True) P (k req')"
    "\<And>r. req_Method r \<noteq> ''PATCH'' \<Longrightarrow> P r"
  shows "sends (\<lambda>_. True) P (bnd (setHeaders E c req) k)"
proof -
  have "bnd (setHeaders E c req) k = bnd (AuthHeader E (cl_auth c)) (\<lambda>h. k (standard_headers c h req))"
    by (simp add: fun_eq_iff setHeaders_def bnd_def ret_def split: prod.splits res.splits)
  moreover have "sends (\<lambda>_. True) P (AuthHeader E (cl_auth c))"
    using sends_AuthHeader assms(2) by (rule sends_weaken)
  ultimately show ?thesis using assms(1) by (simp add: sends_bnd)
qed

lemma reports_UpdateState: "sends (\<lambda>_. True) (reports_only (ra_rid api) st) (UpdateState E api st)"
proof (rule sendsI)
  fix s r s' assume s: "UpdateState E api st s = (r, s')"
  define dto where "dto = run_update_json (he_Timestamp E (as_sent s)) (toExternal (ra_rid api) st)"
  have "sends (\<lambda>_. True) (reports_only (ra_rid api) st)
      (bnd (PatchStatus E (ra_client api) (run_Id st) (ra_rid api) dto) (\<lambda>data. liftres (decoded (he_DecodeAbort E data))))"
    unfolding PatchStatus_def PatchStatusAt_def
    by (intro sends_intros sends_NewRequest_then sends_setHeaders sends_Do)
      (auto simp: reports_only_def report_of_def dto_def)
  then show "True \<and> (\<exists>rs. as_sent s' = as_sent s @ rs \<and> list_all (reports_only (ra_rid api) st) rs)"
    by (rule sendsD) (use s in \<open>simp_all add: UpdateState_def bnd_def [of "gets _"] gets_def dto_def\<close>)
qed

end
