(* ===== verification/StatusUpdate.thy ===== *)
theory StatusUpdate
  imports RunApi
begin

text \<open>
  Status updates that must not get lost, \<^verbatim>\<open>tf-block-runner/tfrun/statusupdate.go\<close>.

  The package \<^verbatim>\<open>backoff\<close> is a parameter: a function that runs an operation under a schedule.
  \<open>retry_contract\<close> states what its documentation promises of \<^verbatim>\<open>Retry\<close>: it calls the operation until
  it succeeds, returns a permanent error, or it gives up (the context ends), which it does only
  after an attempt that failed; a permanent error is returned without its wrapper. The schedule's
  time-outs act through the environment: an attempt that takes too long is a request that fails.

  \<open>answers n\<close> is what the server's answers to \<open>n\<close> attempts in a row look like to the caller.
\<close>

section \<open>Definitions\<close>

record retry_schedule =
  rs_initialDelay :: int
  rs_maxDelay :: int
  rs_attemptTimeout :: int
  rs_giveUpAfter :: int

definition statusRequestTimeout :: int where "statusRequestTimeout = 30 * second"

definition finalStatusRetry :: retry_schedule where
  "finalStatusRetry = \<lparr>rs_initialDelay = second, rs_maxDelay = 30 * second,
     rs_attemptTimeout = statusRequestTimeout, rs_giveUpAfter = 600 * second\<rparr>"

definition isTransient :: "go_error \<Rightarrow> bool" where
  "isTransient err =
     (case as_status_error err of
        Some n \<Rightarrow> n \<in> {423, 502, 503, 504}
      | None \<Rightarrow> as_url_error err \<noteq> None)"

definition isClientError :: "go_error \<Rightarrow> bool" where
  "isClientError err = (case as_status_error err of Some n \<Rightarrow> 400 \<le> n \<and> n < 500 | None \<Rightarrow> False)"

definition rejected_text :: string where
  "rejected_text = ''meshfed rejected a retry, so an earlier attempt may have delivered the status: ''"

text \<open>One attempt; the flag is the variable \<^verbatim>\<open>retried\<close>.\<close>

type_synonym 's update_op = "run_status \<Rightarrow> ('s, bool) prog"

definition attempt_update :: "'s update_op \<Rightarrow> run_status \<Rightarrow> (bool \<times> 's, unit) prog" where
  "attempt_update upd st =
     (\<lambda>(retried, s).
        case upd st s of
          (Ok _, s1) \<Rightarrow> (Ok (), (retried, s1))
        | (Panic m, s1) \<Rightarrow> (Panic m, (retried, s1))
        | (Err e, s1) \<Rightarrow>
            if isTransient e then (Err e, (True, s1))
            else if retried \<and> isClientError e
            then (Err (Permanent (Wrapped rejected_text e '''')), (retried, s1))
            else (Err (Permanent e), (retried, s1)))"

type_synonym 's retrier = "retry_schedule \<Rightarrow> (bool \<times> 's, unit) prog \<Rightarrow> (bool \<times> 's, unit) prog"

definition updateStateWithRetry ::
  "'s retrier \<Rightarrow> 's update_op \<Rightarrow> retry_schedule \<Rightarrow> run_status \<Rightarrow> ('s, unit) prog" where
  "updateStateWithRetry R upd schedule st s =
     (case R schedule (attempt_update upd st) (False, s) of (r, (_, s1)) \<Rightarrow> (r, s1))"

section \<open>The library's promise\<close>

fun permanent_cause :: "go_error \<Rightarrow> go_error option" where
  "permanent_cause (Permanent e) = Some e"
| "permanent_cause (Wrapped _ e _) = permanent_cause e"
| "permanent_cause _ = None"

inductive retry_run :: "('s, unit) prog \<Rightarrow> 's \<Rightarrow> unit res \<Rightarrow> 's \<Rightarrow> bool" for op where
  success: "op s = (Ok u, s') \<Longrightarrow> retry_run op s (Ok ()) s'"
| permanent: "op s = (Err e, s') \<Longrightarrow> permanent_cause e = Some c \<Longrightarrow> retry_run op s (Err c) s'"
| panicked: "op s = (Panic m, s') \<Longrightarrow> retry_run op s (Panic m) s'"
| give_up: "op s = (Err e, s') \<Longrightarrow> permanent_cause e = None \<Longrightarrow> retry_run op s (Err cause) s'"
| again: "op s = (Err e, s1) \<Longrightarrow> permanent_cause e = None \<Longrightarrow> retry_run op s1 r s' \<Longrightarrow> retry_run op s r s'"

definition retry_contract :: "'s retrier \<Rightarrow> bool" where
  "retry_contract R \<longleftrightarrow>
     (\<forall>schedule op s. retry_run op s (fst (R schedule op s)) (snd (R schedule op s)))"

section \<open>Answers\<close>

fun answers :: "'s update_op \<Rightarrow> run_status \<Rightarrow> nat \<Rightarrow> 's \<Rightarrow> bool res list \<times> 's" where
  "answers upd st 0 s = ([], s)"
| "answers upd st (Suc n) s =
     (case upd st s of (a, s1) \<Rightarrow> case answers upd st n s1 of (as, s2) \<Rightarrow> (a # as, s2))"

text \<open>What the caller gets after the answer \<open>a\<close>, with \<open>again\<close> telling whether it was the answer to a retry.\<close>

definition outcome :: "bool \<Rightarrow> bool res \<Rightarrow> unit res \<Rightarrow> bool" where
  "outcome again a r =
     (case a of
        Ok _ \<Rightarrow> r = Ok ()
      | Panic m \<Rightarrow> r = Panic m
      | Err e \<Rightarrow>
          if isTransient e then (\<exists>cause. r = Err cause)
          else r = Err (if again \<and> isClientError e then Wrapped rejected_text e '''' else e))"

definition transient_answer :: "bool res \<Rightarrow> bool" where
  "transient_answer a = (case a of Err e \<Rightarrow> isTransient e | _ \<Rightarrow> False)"

text \<open>The contract of the operation that is repeated: its own errors are not the library's.\<close>

locale status_api =
  fixes upd :: "'s update_op"
  assumes own_errors: "upd st s = (Err e, s') \<Longrightarrow> permanent_cause e = None"
begin

lemma attempt_Ok: "attempt_update upd st (b, s) = (Ok u, (b', s')) \<longleftrightarrow> b' = b \<and> (\<exists>a. upd st s = (Ok a, s'))"
  by (auto simp: attempt_update_def split: prod.splits res.splits if_splits)

lemma attempt_transient:
  assumes "attempt_update upd st (b, s) = (Err e, (b', s'))" "permanent_cause e = None"
  shows "b' \<and> upd st s = (Err e, s') \<and> isTransient e"
  using assms by (auto simp: attempt_update_def split: prod.splits res.splits if_splits)

lemma attempt_permanent:
  assumes "attempt_update upd st (b, s) = (Err e, (b', s'))" "permanent_cause e = Some c"
  shows "\<exists>a. upd st s = (Err a, s') \<and> \<not> isTransient a \<and>
    c = (if b \<and> isClientError a then Wrapped rejected_text a '''' else a)"
  using assms own_errors by (auto simp: attempt_update_def split: prod.splits res.splits if_splits)

lemma attempt_panic:
  "attempt_update upd st (b, s) = (Panic m, (b', s')) \<Longrightarrow> upd st s = (Panic m, s')"
  by (auto simp: attempt_update_def split: prod.splits res.splits if_splits)

lemma retry_answers:
  assumes "retry_run (attempt_update upd st) t r t'"
  shows "\<exists>n as. answers upd st (Suc n) (snd t) = (as, snd t') \<and> list_all transient_answer (butlast as) \<and>
    outcome (fst t \<or> 0 < n) (last as) r"
  using assms
proof (induction rule: retry_run.induct)
  case (success t u t')
  obtain b s b' s' where [simp]: "t = (b, s)" "t' = (b', s')" by fastforce
  from success attempt_Ok [of st b s u b' s'] obtain a where "upd st s = (Ok a, s')" by auto
  then show ?case by (intro exI [of _ 0] exI [of _ "[Ok a]"]) (simp add: outcome_def)
next
  case (permanent t e t' c)
  obtain b s b' s' where [simp]: "t = (b, s)" "t' = (b', s')" by fastforce
  from permanent attempt_permanent [of st b s e b' s' c] obtain a where
    "upd st s = (Err a, s')" "\<not> isTransient a" "c = (if b \<and> isClientError a then Wrapped rejected_text a '''' else a)"
    by auto
  then show ?case by (intro exI [of _ 0] exI [of _ "[Err a]"]) (simp add: outcome_def)
next
  case (panicked t m t')
  obtain b s b' s' where [simp]: "t = (b, s)" "t' = (b', s')" by fastforce
  from panicked attempt_panic [of st b s m b' s'] have "upd st s = (Panic m, s')" by auto
  then show ?case by (intro exI [of _ 0] exI [of _ "[Panic m]"]) (simp add: outcome_def)
next
  case (give_up t e t' cause)
  obtain b s b' s' where [simp]: "t = (b, s)" "t' = (b', s')" by fastforce
  from give_up attempt_transient [of st b s e b' s'] have "upd st s = (Err e, s')" "isTransient e" by auto
  then show ?case by (intro exI [of _ 0] exI [of _ "[Err e]"]) (simp add: outcome_def)
next
  case (again t e t1 r t')
  obtain b s b1 s1 where [simp]: "t = (b, s)" "t1 = (b1, s1)" by fastforce
  from again(1,2) attempt_transient [of st b s e b1 s1] have a: "b1" "upd st s = (Err e, s1)" "isTransient e"
    by auto
  from again.IH obtain n as where
    "answers upd st (Suc n) s1 = (as, snd t')" "list_all transient_answer (butlast as)"
    "outcome True (last as) r" using a(1) by auto
  then show ?case
    using a by (intro exI [of _ "Suc n"] exI [of _ "Err e # as"])
      (auto simp: transient_answer_def [of "Err e"] split: prod.splits)
qed

lemma retried_answers:
  assumes "retry_contract R" "updateStateWithRetry R upd sched st s = (r, s')"
  shows "\<exists>n as. answers upd st (Suc n) s = (as, s') \<and> list_all transient_answer (butlast as) \<and>
    outcome (0 < n) (last as) r"
proof -
  obtain t where t: "R sched (attempt_update upd st) (False, s) = (r, (t, s'))"
    using assms(2) by (auto simp: updateStateWithRetry_def split: prod.splits)
  have "retry_run (attempt_update upd st) (False, s) r (t, s')"
    using assms(1) t by (metis retry_contract_def fst_conv snd_conv)
  from retry_answers [OF this] show ?thesis by simp
qed

end

section \<open>The terraform runner's updates\<close>

text \<open>\<open>plain m\<close>: a computation that never panics and whose errors are never the library's.\<close>

named_theorems plain_intros

fun plain_result :: "'a res \<Rightarrow> bool" where
  "plain_result (Ok a) = True"
| "plain_result (Err e) = (permanent_cause e = None)"
| "plain_result (Panic m) = False"

definition plain :: "('s, 'a) prog \<Rightarrow> bool" where
  "plain m \<longleftrightarrow> (\<forall>s r s'. m s = (r, s') \<longrightarrow> plain_result r)"

lemma plainD: "plain m \<Longrightarrow> m s = (r, s') \<Longrightarrow> plain_result r"
  unfolding plain_def by blast

lemma plainI: "(\<And>s r s'. m s = (r, s') \<Longrightarrow> plain_result r) \<Longrightarrow> plain m"
  unfolding plain_def by blast

lemma plain_basic [plain_intros]:
  "plain (ret a)" "permanent_cause e = None \<Longrightarrow> plain (throw e)" "plain (gets f)" "plain (modify g)"
  "plain (liftres (decoded r))" "plain (liftres (ReadAll resp))"
  by (auto simp: plain_def ret_def throw_def gets_def modify_def liftres_def decoded_def ReadAll_def
      split: sum.splits option.splits)

lemma plain_bnd [plain_intros]:
  assumes "plain m" "\<And>a. plain (k a)"
  shows "plain (bnd m k)"
proof (rule plainI)
  fix s r s' assume r: "bnd m k s = (r, s')"
  obtain x s1 where "m s = (x, s1)" by fastforce
  with r plainD [OF assms(1) this] plainD [OF assms(2)] show "plain_result r"
    by (cases x) (auto simp: bnd_def)
qed

lemma plain_attempt [plain_intros]:
  assumes "plain m" "\<And>a. plain (k (Ok a))" "\<And>e. permanent_cause e = None \<Longrightarrow> plain (k (Err e))"
  shows "plain (attempt m k)"
proof (rule plainI)
  fix s r s' assume r: "attempt m k s = (r, s')"
  obtain x s1 where "m s = (x, s1)" by fastforce
  with r plainD [OF assms(1) this] plainD [OF assms(2)] plainD [OF assms(3)] show "plain_result r"
    by (cases x) (auto simp: attempt_def)
qed

lemma plain_wrap_err [plain_intros]: "plain m \<Longrightarrow> plain (wrap_err t m)"
  unfolding wrap_err_def by (intro plain_intros) (simp_all add: plain_intros)

lemma plain_if [plain_intros]: "plain a \<Longrightarrow> plain b \<Longrightarrow> plain (if c then a else b)"
  by simp

lemma plain_http [plain_intros]: "plain (http_NewRequest E m u b)" "plain (http_Do E req)"
  by (auto simp: plain_def http_NewRequest_def http_Do_def throw_def ret_def Let_def
      split: option.splits sum.splits)

lemma plain_fetchToken: "plain (fetchToken E u i k)"
  unfolding fetchToken_def by (intro plain_intros) (auto intro!: plain_intros split: prod.splits)

lemma plain_ApiKey: "plain (ApiKeyAuth_AuthHeader E u i k)"
proof -
  from plain_fetchToken [of E u i k] have "plain (attempt (fetchToken E u i k) (\<lambda>r. case r of
      Err _ \<Rightarrow> ret [] | Ok _ \<Rightarrow> gets (\<lambda>s. ''Bearer '' @ as_token s) | Panic m \<Rightarrow> panic m))"
    by (intro plain_attempt) (simp_all add: plain_intros)
  then show ?thesis by (auto simp: plain_def ApiKeyAuth_AuthHeader_def ret_def)
qed

lemma plain_AuthHeader: "plain (AuthHeader E a)"
proof (induction a)
  case (RunApiAuth base)
  then have "plain (case base of Some a \<Rightarrow> AuthHeader E a | None \<Rightarrow> ret [])"
    by (cases base) (auto intro: plain_intros)
  then show ?case by (auto intro!: plain_intros)
qed (simp_all add: plain_intros plain_ApiKey)

lemma plain_UpdateState: "plain (UpdateState E api st)"
  unfolding UpdateState_def PatchStatus_def PatchStatusAt_def setHeaders_def
  by (intro plain_intros plain_AuthHeader) simp_all

interpretation updates: status_api "UpdateState E api" for E api
proof
  fix st s e s' assume "UpdateState E api st s = (Err e, s')"
  then show "permanent_cause e = None" using plainD [OF plain_UpdateState] by fastforce
qed

lemma answers_plain: "answers (UpdateState E api) st n s = (as, s') \<Longrightarrow> list_all plain_result as"
  by (induction n arbitrary: s as) (auto split: prod.splits dest: plainD [OF plain_UpdateState])

lemma retried_no_panic:
  assumes "retry_contract R" "updateStateWithRetry R (UpdateState E api) sched st s = (r, s')"
  shows "r \<noteq> Panic m"
proof -
  from updates.retried_answers [OF assms] obtain n as where
    as: "answers (UpdateState E api) st (Suc n) s = (as, s')" "outcome (0 < n) (last as) r" by blast
  have "last as \<in> set as" using as(1) by (auto split: prod.splits)
  then have "plain_result (last as)" using answers_plain [OF as(1)] by (simp add: list_all_iff)
  then show ?thesis using as(2) by (cases "last as") (auto simp: outcome_def split: if_splits)
qed

text \<open>The headers of a request can always be built: a failed login only leaves the credentials out.\<close>

lemma AuthHeader_returns: "\<exists>v s'. AuthHeader E a s = (Ok v, s')"
proof (induction a arbitrary: s)
  case (ApiKeyAuth u i k)
  show ?case
    by (auto simp: ApiKeyAuth_AuthHeader_def attempt_def ret_def gets_def panic_def
        split: res.splits prod.splits dest: plainD [OF plain_fetchToken])
next
  case (RunApiAuth base)
  then show ?case by (cases base) (auto simp: bnd_def gets_def ret_def)
qed (simp_all add: ret_def)

lemma setHeaders_returns: "\<exists>req' s'. setHeaders E c req s = (Ok req', s')"
  using AuthHeader_returns [of E "cl_auth c" s] by (auto simp: setHeaders_def bnd_def ret_def)

end
