(* ===== verification/ApiProperties.thy ===== *)
theory ApiProperties
  imports StatusUpdate
begin

text \<open>
  Properties of the access to the meshStack API: credentials, the token cache, the size limit of
  artifacts, and the repetition of status updates. The samples at the end of each section are the
  concrete inputs of the witnesses.
\<close>

section \<open>Samples\<close>

text \<open>A server that answers every request with the status \<open>n\<close> and the body \<open>b\<close>, and never advances its clock.\<close>

definition sample_http :: "int \<Rightarrow> string \<Rightarrow> http_env" where
  "sample_http n b = \<lparr>he_NewRequest = (\<lambda>u. None),
     he_Do = (\<lambda>rs. Inr \<lparr>resp_Status = n, resp_Body = b, resp_ReadError = None\<rparr>),
     he_Now = (\<lambda>rs. 1000 * second), he_Timestamp = (\<lambda>rs. ''t''),
     he_DecodeLogin = (\<lambda>t. Inr (''tok'', 3600)), he_DecodeAbort = (\<lambda>t. Inr False)\<rparr>"

definition sample_api :: run_api where
  "sample_api = NewRunApi \<lparr>rac_Url = ''http://m'', rac_User = ''u'', rac_Password = ''p'', rac_ClientId = [],
     rac_ClientSecret = []\<rparr> ''r'' defaultMetadata"

definition sample_api_state :: api_state where
  "sample_api_state = \<lparr>as_token = [], as_expiresAt = 0, as_runToken = None, as_sent = [], as_measured = []\<rparr>"

definition sample_links :: links_dto where
  "sample_links =
     (let no_link = \<lparr>lk_Href = [], lk_Templated = False\<rparr>
      in \<lparr>link_Self = no_link, link_RegisterSource = no_link, link_UpdateSource = no_link, link_MeshstackBaseUrl = no_link,
          link_Artifact = no_link, link_ArtifactUpload = no_link, link_TfStateLock = no_link\<rparr>)"

definition sample_details :: "string \<Rightarrow> run_details" where
  "sample_details b = \<lparr>rd_ApiVersion = ''v1'', rd_Kind = ''run'', rd_Uuid = ''id'', rd_RunNumber = 1, rd_Behavior = b, rd_RunToken = ''rt'',
     rd_BuildingBlockUuid = ''bb'', rd_DisplayName = ''d'', rd_WorkspaceIdentifier = ''w'',
     rd_ProjectIdentifier = ''p'', rd_FullPlatformIdentifier = ''f'', rd_Inputs = [],
     rd_ParentBuildingBlocks = [], rd_DefinitionUuid = ''du'', rd_DefinitionWorkspace = ''dw'', rd_DefinitionVersion = 1,
     rd_Implementation = ''i'', rd_Trigger = None, rd_Status = ''PENDING'', rd_Links = sample_links\<rparr>"

definition sample_impl :: terraform_impl where
  "sample_impl = \<lparr>ti_Type = ''TERRAFORM'', ti_TerraformVersion = ''1.5.5'', ti_RepositoryUrl = ''g'',
     ti_RepositoryPath = None, ti_RefName = None, ti_SshPrivateKey = None, ti_KnownHost = None,
     ti_Async = False, ti_UseMeshHttpBackendFallback = False, ti_PreRunScript = None\<rparr>"

definition sample_codec :: "string \<Rightarrow> dto_codec" where
  "sample_codec b = \<lparr>dc_MarshalRun = (\<lambda>d. Ok ''j''), dc_UnmarshalRun = (\<lambda>t. Ok (sample_details b)),
     dc_UnmarshalTerraform = (\<lambda>t. Ok sample_impl), dc_UnmarshalType = (\<lambda>t. Ok ''TERRAFORM'')\<rparr>"

section \<open>Credentials\<close>

lemma fetched_token:
  assumes "FetchRunDetails E C api pf s = (Ok r, s1)"
  shows "as_runToken s1 = Some (r_RunToken r)"
proof -
  obtain dto d s0 where "FetchRun E C ((ra_client api)\<lparr>cl_nodeID := ra_rid api @ ''-'' @ pf\<rparr>) (ra_rid api) s = (Ok (dto, d), s0)"
      and "runDTOToInternal C dto = Ok r" "s1 = s0\<lparr>as_runToken := Some (rd_RunToken dto)\<rparr>"
    using assms
    by (auto simp: FetchRunDetails_def bnd_def SetRunToken_def modify_def liftres_def split: prod.splits res.splits)
  then show ?thesis
    by (auto simp: runDTOToInternal_def dto_to_run_def split: res.splits)
qed


lemmas sample_defs = sample_http_def sample_api_def sample_api_state_def sample_links_def sample_details_def
  sample_impl_def sample_codec_def


text \<open>
  A run whose details cannot be converted leaves its token behind: the next attempt to fetch a
  run presents the token of that run instead of the configured credentials. (Only a fetched run's
  execution is followed by \<^verbatim>\<open>ClearRunToken\<close>.)
\<close>

lemma stale_run_token:
  assumes "FetchRun E C ((ra_client api)\<lparr>cl_nodeID := ra_rid api @ ''-'' @ pf\<rparr>) (ra_rid api) s = (Ok (dto, data), s0)"
    and "runDTOToInternal C dto = Err e" "rd_RunToken dto \<noteq> []" "ra_client api = ra_client (NewRunApi cfg u m)"
    and "FetchRunDetails E C api pf s = (x, s1)" "FetchRunDetails E C api pf s1 = (y, s2)"
  shows "x = Err e \<and> (\<exists>rs. as_sent s2 = as_sent s1 @ rs \<and>
    list_all (\<lambda>req. map_of (req_Headers req) ''Authorization'' = Some (''Bearer '' @ rd_RunToken dto)) rs)"
proof -
  let ?c = "(ra_client api)\<lparr>cl_nodeID := ra_rid api @ ''-'' @ pf\<rparr>"
  have x: "x = Err e" and s1: "s1 = s0\<lparr>as_runToken := Some (rd_RunToken dto)\<rparr>"
    using assms(1,2,5) by (auto simp: FetchRunDetails_def bnd_def SetRunToken_def modify_def liftres_def)
  have held: "holds_token (rd_RunToken dto) s1" using assms(3) by (simp add: s1 holds_token_def)
  obtain z s3 where z: "FetchRun E C ?c (ra_rid api) s1 = (z, s3)" by fastforce
  have "sends (holds_token (rd_RunToken dto)) (authorized_by (rd_RunToken dto)) (FetchRun E C ?c (ra_rid api))"
    by (rule token_FetchRun) (simp add: assms(4))
  from sendsD [OF this held z] obtain rs where
    rs: "as_sent s3 = as_sent s1 @ rs" "list_all (authorized_by (rd_RunToken dto)) rs" by blast
  have "as_sent s2 = as_sent s3"
    using assms(6) z by (auto simp: FetchRunDetails_def bnd_def SetRunToken_def modify_def liftres_def split: res.splits)
  then show ?thesis using x rs unfolding authorized_by_def by auto
qed

lemma stale_run_token_witness:
  "fst (FetchRunDetails (sample_http 200 ''{}'') (sample_codec ''OTHER'') sample_api ''worker-1'' sample_api_state) =
    Err (ErrorString ''cannot determine Behavior type'')"
proof -
  let ?E = "sample_http 200 ''{}''" and ?C = "sample_codec ''OTHER''"
  have conv: "runDTOToInternal ?C (sample_details ''OTHER'') = Err (ErrorString ''cannot determine Behavior type'')"
    by (simp add: runDTOToInternal_def dto_to_run_def DetermineBehavior_def behaviors_def sample_details_def)
  have tok: "rd_RunToken (sample_details ''OTHER'') \<noteq> []" by (simp add: sample_details_def)
  obtain s0 where "FetchRun ?E ?C ((ra_client sample_api)\<lparr>cl_nodeID := ra_rid sample_api @ ''-'' @ ''worker-1''\<rparr>)
      (ra_rid sample_api) sample_api_state = (Ok (sample_details ''OTHER'', ''{}''), s0)"
    by (simp add: FetchRun_def sample_defs NewRunApi_def NewAuthProvider_def bnd_def
        http_NewRequest_def http_Do_def ret_def throw_def gets_def modify_def setHeaders_def liftres_def ReadAll_def
        wrap_err_def attempt_def Let_def)
  from stale_run_token [OF this conv tok] show ?thesis
    unfolding sample_api_def by (metis prod.collapse)
qed

section \<open>The token cache\<close>

text \<open>
  C23: a token that an API key login gave for a lifetime of more than thirty seconds (and less than
  292 years, beyond which the duration overflows) is reused exactly until thirty seconds before its end.
\<close>

theorem cached_token_reused_until_buffer:
  assumes "fetchToken E url i sec s = (Ok (), s1)"
    and "he_Do E (as_sent s1) = Inr resp" "he_DecodeLogin E (resp_Body resp) = Inr (tok, life)"
    and "30 < life" "life \<le> 9223372036"
    and "as_token s2 = as_token s1" "as_expiresAt s2 = as_expiresAt s1"
    and "he_NewRequest E (url @ ''/api/login'') = None"
  shows "as_sent (snd (AuthHeader E (ApiKeyAuth url i sec) s2)) = as_sent s2 \<longleftrightarrow>
    he_Now E (as_sent s2) < he_Now E (as_sent s1) + (life - 30) * second"
proof -
  have dur: "tokenLifetime life = (life - 30) * second"
    using assms(4,5) by (simp add: tokenLifetime_def duration_def tokenExpiryBuffer_def second_def Let_def)
  have s1: "as_token s1 \<noteq> []" "as_expiresAt s1 = he_Now E (as_sent s1) + tokenLifetime life"
    using assms(1-3)
    by (auto simp: fetchToken_def bnd_def wrap_err_def attempt_def http_NewRequest_def http_Do_def ret_def throw_def
        modify_def liftres_def decoded_def Let_def split: option.splits sum.splits if_splits res.splits)
  have login: "as_sent (snd (fetchToken E url i sec s2)) \<noteq> as_sent s2"
    using assms(8)
    by (auto simp: fetchToken_def bnd_def wrap_err_def attempt_def http_NewRequest_def http_Do_def ret_def throw_def
        modify_def liftres_def decoded_def Let_def split: option.splits sum.splits if_splits res.splits prod.splits)
  have "as_sent (snd (ApiKeyAuth_AuthHeader E url i sec s2)) = as_sent s2 \<longleftrightarrow> he_Now E (as_sent s2) < as_expiresAt s2"
  proof (cases "he_Now E (as_sent s2) < as_expiresAt s2")
    case True
    then show ?thesis using assms(6) s1(1) by (simp add: ApiKeyAuth_AuthHeader_def ret_def)
  next
    case False
    then show ?thesis
      using login
      by (auto simp: ApiKeyAuth_AuthHeader_def attempt_def ret_def gets_def panic_def split: prod.splits res.splits)
  qed
  then show ?thesis using assms(7) s1(2) dur by simp
qed

theorem cached_token_reused_until_buffer_witness:
  "as_sent (snd (AuthHeader (sample_http 200 ''{}'') (ApiKeyAuth ''u'' ''i'' ''k'')
     (snd (fetchToken (sample_http 200 ''{}'') ''u'' ''i'' ''k'' sample_api_state)))) =
   as_sent (snd (fetchToken (sample_http 200 ''{}'') ''u'' ''i'' ''k'' sample_api_state))"
proof -
  let ?E = "sample_http 200 ''{}''"
  obtain s1 where s1: "fetchToken ?E ''u'' ''i'' ''k'' sample_api_state = (Ok (), s1)"
    by (simp add: fetchToken_def bnd_def wrap_err_def attempt_def http_NewRequest_def http_Do_def ret_def throw_def
        modify_def liftres_def decoded_def Let_def sample_http_def)
  have a: "he_Do ?E (as_sent s1) = Inr \<lparr>resp_Status = 200, resp_Body = ''{}'', resp_ReadError = None\<rparr>"
    "he_DecodeLogin ?E (resp_Body \<lparr>resp_Status = 200, resp_Body = ''{}'', resp_ReadError = None\<rparr>) = Inr (''tok'', 3600)"
    "he_NewRequest ?E (''u'' @ ''/api/login'') = None"
    by (simp_all add: sample_http_def)
  have "he_Now ?E (as_sent s1) < he_Now ?E (as_sent s1) + (3600 - 30) * second" by (simp add: second_def)
  then show ?thesis
    using cached_token_reused_until_buffer [OF s1 a(1,2) _ _ refl refl a(3)] s1 by simp
qed

section \<open>Artifacts\<close>

text \<open>
  C24: a download that succeeds has written the complete body of a 2xx answer, of at most 128 MiB; a
  larger body is an error, and no download writes more than one byte beyond the limit.
\<close>

theorem download_bounded:
  assumes "DownloadArtifact E c url w s = (Ok (written, r), s')"
  shows "length written \<le> maxArtifactBytes + 1 \<and>
    (r = Ok () \<longrightarrow> (\<exists>resp. he_Do E (as_sent s') = Inr resp \<and> is_2xx resp \<and> resp_ReadError resp = None \<and>
       written = resp_Body resp \<and> length written \<le> maxArtifactBytes))"
proof -
  have copy: "length (fst (copyArtifact url w resp)) \<le> maxArtifactBytes + 1 \<and>
      (snd (copyArtifact url w resp) = Ok () \<longrightarrow> resp_ReadError resp = None \<and>
        fst (copyArtifact url w resp) = resp_Body resp \<and> length (resp_Body resp) \<le> maxArtifactBytes)" for resp
    by (auto simp: copyArtifact_def ReadLimited_def Let_def split: option.splits if_splits)
  let ?req = "bnd (wrap_err (''download artifact '' @ url @ '': failed to create request: '') (http_NewRequest E ''GET'' url [])) (\<lambda>req.
            bnd (setHeaders E c req) (\<lambda>req.
            wrap_err (''download artifact '' @ url @ '': request failed: '')
              (http_Do E (Header_Del ''Content-Type'' (Header_Set ''Accept'' ''application/octet-stream'' req)))))"
  obtain x s1 where x: "?req s = (x, s1)" by fastforce
  have sent: "he_Do E (as_sent s1) = Inr resp" if "x = Ok resp" for resp
    using x that
    by (auto simp: bnd_def wrap_err_def attempt_def http_NewRequest_def http_Do_def ret_def throw_def Let_def
        split: option.splits sum.splits res.splits prod.splits)
  show ?thesis
  proof (cases x)
    case (Ok resp)
    show ?thesis
    proof (cases "is_2xx resp")
      case True
      then have "copyArtifact url w resp = (written, r)" "s' = s1"
        using assms x Ok by (auto simp: DownloadArtifact_def Let_def)
      then show ?thesis using copy [of resp] sent [OF Ok] True by auto
    next
      case False
      then have "written = [] \<and> (\<exists>e. r = Err e)"
        using assms x Ok by (auto simp: DownloadArtifact_def Let_def split: prod.splits)
      then show ?thesis by auto
    qed
  next
    case (Err e)
    then show ?thesis using assms x by (auto simp: DownloadArtifact_def Let_def)
  next
    case (Panic p)
    then show ?thesis using assms x by (auto simp: DownloadArtifact_def Let_def)
  qed
qed

theorem download_bounded_witness:
  "fst (DownloadArtifact (sample_http 200 ''plan'') (ra_client sample_api) ''a'' (\<lambda>d. None) sample_api_state) =
     Ok (''plan'', Ok ()) \<and> length ''plan'' \<le> maxArtifactBytes + 1"
proof -
  obtain s' where d: "DownloadArtifact (sample_http 200 ''plan'') (ra_client sample_api) ''a'' (\<lambda>d. None) sample_api_state =
      (Ok (''plan'', Ok ()), s')"
    by (simp add: DownloadArtifact_def copyArtifact_def ReadLimited_def sample_defs NewRunApi_def NewAuthProvider_def
        bnd_def http_NewRequest_def http_Do_def ret_def throw_def gets_def setHeaders_def wrap_err_def attempt_def
        Let_def is_2xx_def maxArtifactBytes_def)
  then show ?thesis using download_bounded [OF d] by simp
qed

section \<open>Retries\<close>


text \<open>A retrier that tries at most \<open>n\<close> times more keeps the contract.\<close>

fun retry_fuel :: "nat \<Rightarrow> ('s, unit) prog \<Rightarrow> ('s, unit) prog" where
  "retry_fuel n op s =
     (case op s of
        (Ok u, s1) \<Rightarrow> (Ok (), s1)
      | (Panic m, s1) \<Rightarrow> (Panic m, s1)
      | (Err e, s1) \<Rightarrow>
          (case permanent_cause e of
             Some c \<Rightarrow> (Err c, s1)
           | None \<Rightarrow> (case n of 0 \<Rightarrow> (Err e, s1) | Suc m \<Rightarrow> retry_fuel m op s1)))"

declare retry_fuel.simps [simp del]

lemma retry_fuel_run: "retry_run op s (fst (retry_fuel n op s)) (snd (retry_fuel n op s))"
proof (induction n arbitrary: s)
  case 0
  show ?case
    by (subst (1 2) retry_fuel.simps)
      (auto split: prod.splits res.splits option.splits intro: retry_run.intros)
next
  case (Suc n)
  obtain x s1 where x: "op s = (x, s1)" by fastforce
  show ?case
    using Suc.IH [of s1] x
    by (subst (1 2) retry_fuel.simps)
      (auto split: prod.splits res.splits option.splits intro: retry_run.intros)
qed

definition sample_retrier :: "'s retrier" where
  "sample_retrier schedule = retry_fuel 2"

lemma sample_retrier_contract: "retry_contract sample_retrier"
  by (simp add: retry_contract_def sample_retrier_def retry_fuel_run)


end
