(* ===== verification/Worker.thy ===== *)
theory Worker
  imports TfCommands StatusUpdate
begin

text \<open>
  The polling worker of the terraform runner: \<^verbatim>\<open>worker.go\<close> and \<^verbatim>\<open>initRunContextInfo\<close> of
  \<^verbatim>\<open>runcontextinfo.go\<close>.

  A run is executed by two goroutines: one runs the command, which publishes statuses; the other
  observes the published status, sends it at every tick of a timer, and sends the final one when
  the first is done. \<open>watch\<close> is the state the two share and \<open>watch_step\<close> what they can do next, in any
  interleaving. The command's publications come from the model of the command: its environment
  answers arbitrarily, so they include those of a command whose context was cancelled.
\<close>

section \<open>Setting up a run\<close>

record worker_os =
  wos_MkdirAll :: "string \<Rightarrow> unit res"
  wos_MkdirTemp :: "string \<Rightarrow> string \<Rightarrow> string res"
  wos_Mkdir :: "string \<Rightarrow> unit res"
  wos_OpenFile :: "string \<Rightarrow> unit res"

definition initial_status :: "string \<Rightarrow> run_status" where
  "initial_status runId = \<lparr>run_Id = runId, run_Status = IN_PROGRESS, run_Steps = [], run_CurrentStepIndex = -1,
     run_Summary = None, run_ChangesDetected = None\<rparr>"

text \<open>Whether there is a logger: it is \<^verbatim>\<open>nil\<close> when its file cannot be opened.\<close>

definition NewLogWrap :: "worker_os \<Rightarrow> string \<Rightarrow> bool" where
  "NewLogWrap os logsFileName = (case wos_OpenFile os logsFileName of Ok _ \<Rightarrow> True | _ \<Rightarrow> False)"

text \<open>A run without a workspace is a nil pointer.\<close>

definition initRunContextInfo :: "worker_os \<Rightarrow> int \<Rightarrow> run \<Rightarrow> string \<Rightarrow> (run_info \<times> tf_state) res" where
  "initRunContextInfo os timeoutMins r cmdDir =
     (case r_WorkspaceIdentifier r of
        None \<Rightarrow> Panic ''nil pointer dereference''
      | Some ws \<Rightarrow>
          Ok (\<lparr>ri_runId = r_Id r, ri_runJsonBase64 = r_RunJsonBase64 r, ri_bbId = r_BuildingBlockId r,
               ri_workspaceIdentifier = ws, ri_asyncRun = r_IsAsync r,
               ri_useMeshBackendFallback = r_UseMeshBackendFallback r, ri_workingDirectory = cmdDir,
               ri_artifactFilePath = path_Join [cmdDir, ''plan.tfplan''], ri_runToken = r_RunToken r,
               ri_meshstackBaseUrl = r_MeshstackBaseUrl r, ri_tfStateLockUrl = r_TfStateLockUrl r,
               ri_timeoutMins = timeoutMins,
               ri_logOpened = NewLogWrap os (path_Join [cmdDir, ''logs'', ''logs-'' @ r_Id r @ ''.txt''])\<rparr>,
              \<lparr>ts_runStatus = initial_status (r_Id r), ts_reportStatus = initial_status (r_Id r),
               ts_logFile = [], ts_logSize = 0, ts_onWrite = False, ts_useWorkspaces = True,
               ts_filename_state = [], ts_trace = [], ts_crashed = None\<rparr>))"

definition prepareRun :: "worker_os \<Rightarrow> string \<Rightarrow> int \<Rightarrow> run \<Rightarrow> (run_info \<times> tf_state) res" where
  "prepareRun os workerDir timeoutMins r =
     (case wos_MkdirTemp os workerDir (''block-'' @ r_BuildingBlockId r @ ''-*'') of
        Err e \<Rightarrow> Err (Wrapped ''failed to create temp directory: '' e '''')
      | Panic m \<Rightarrow> Panic m
      | Ok cmdDir \<Rightarrow>
          (case wos_Mkdir os (path_Join [cmdDir, ''logs'']) of
             Err e \<Rightarrow> Err (Wrapped ''failed to create logs directory: '' e '''')
           | Panic m \<Rightarrow> Panic m
           | Ok _ \<Rightarrow> initRunContextInfo os timeoutMins r cmdDir))"

definition init_fail_status :: "run \<Rightarrow> run_status" where
  "init_fail_status r = \<lparr>run_Id = r_Id r, run_Status = FAILED, run_Steps = [], run_CurrentStepIndex = 0,
     run_Summary = Some ''Something went wrong while starting the run.'', run_ChangesDetected = None\<rparr>"

text \<open>Its error is only logged.\<close>

definition sendInitFail :: "'s retrier \<Rightarrow> 's update_op \<Rightarrow> run \<Rightarrow> ('s, unit) prog" where
  "sendInitFail R upd r =
     attempt (updateStateWithRetry R upd finalStatusRetry (init_fail_status r)) (\<lambda>_. ret ())"

text \<open>
  \<^verbatim>\<open>tfExecution\<close> up to the start of the goroutines: a run that cannot be set up is reported as failed.
  (The code returns nothing; the model keeps the error of the directory that could not be created.) Its
  first log line asks for the name of the behavior, which panics for an unknown one.
\<close>

definition tfExecution ::
  "'s retrier \<Rightarrow> 's update_op \<Rightarrow> worker_os \<Rightarrow> string \<Rightarrow> int \<Rightarrow> run \<Rightarrow> ('s, run_info \<times> tf_state) prog" where
  "tfExecution R upd os workerDir timeoutMins r =
     bnd (liftres (behavior_str (r_Behavior r))) (\<lambda>_.
     attempt (liftres (prepareRun os workerDir timeoutMins r)) (\<lambda>x. case x of
       Ok i \<Rightarrow> ret i
     | Err e \<Rightarrow> bnd (sendInitFail R upd r) (\<lambda>_. throw e)
     | Panic m \<Rightarrow> panic m))"

section \<open>The work routine\<close>

definition work_params :: "run \<Rightarrow> tf_cmd_params" where
  "work_params r =
     \<lparr>p_buildingBlockId = r_BuildingBlockId r, p_tfVersion = r_TerraformVersion r,
      p_suggestedWorkspace = toWorkspaceStr r, p_vars = r_Vars r, p_source = Some (r_Source r),
      p_preRunScript = r_PreRunScript r,
      p_runMode = (case behavior_str (r_Behavior r) of Ok t \<Rightarrow> t | _ \<Rightarrow> []),
      p_artifactUrl = r_ArtifactUrl r, p_artifactUploadUrl = r_ArtifactUploadUrl r\<rparr>"

text \<open>The \<^verbatim>\<open>switch\<close> over the behavior; \<^verbatim>\<open>run.Behavior.str()\<close> ends the process for any other one.\<close>

fun command_steps :: "behavior \<Rightarrow> run_info \<Rightarrow> step_status list" where
  "command_steps APPLY = apply_steps"
| "command_steps DETECT = plan_steps"
| "command_steps DESTROY = destroy_steps"
| "command_steps UNKNOWN_BEHAVIOR = (\<lambda>ri. [])"

fun command_execute :: "behavior \<Rightarrow> generic_tf_cmd \<Rightarrow> tf_state \<Rightarrow> tf_state" where
  "command_execute APPLY = apply_execute"
| "command_execute DETECT = plan_execute"
| "command_execute DESTROY = destroy_execute"
| "command_execute UNKNOWN_BEHAVIOR = (\<lambda>c. crash ''Behavior.str() not implemented for 3'')"

definition workRoutine ::
  "http_env \<Rightarrow> run_api \<Rightarrow> behavior \<Rightarrow> generic_tf_cmd \<Rightarrow> tf_state \<Rightarrow> api_state \<Rightarrow> tf_state \<times> api_state" where
  "workRoutine E api b c s a =
     (let s1 = set_steps (command_steps b (cmd_info c)) s
      in case Register E api (ts_runStatus s1) a of
           (Panic m, a1) \<Rightarrow> (crash m s1, a1)
         | (r, a1) \<Rightarrow>
             if \<not> ri_logOpened (cmd_info c) then (crash ''nil pointer dereference'' s1, a1)
             else (case r of Ok _ \<Rightarrow> command_execute b c s1 | _ \<Rightarrow> reportFailed s1, a1))"

text \<open>
  The values the published status takes: \<^verbatim>\<open>reportFailed\<close> changes it without a publication. (A routine
  that crashed before anything was published has not changed it.)
\<close>

definition work_reports :: "tf_state \<Rightarrow> run_status list" where
  "work_reports t =
     (if published (ts_trace t) = [] \<and> ts_crashed t = None then [ts_reportStatus t] else published (ts_trace t))"

section \<open>The observer\<close>

datatype sent_update = LiveUpdate run_status | FinalUpdate run_status

record watch =
  w_started :: bool
  w_report :: run_status
  w_todo :: "run_status list"
  w_willCrash :: bool
  w_abortRequested :: bool
  w_finished :: bool
  w_crashed :: bool
  w_api :: api_state
  w_updates :: "sent_update list"

definition watch_init :: "tf_state \<Rightarrow> api_state \<Rightarrow> watch" where
  "watch_init s a = \<lparr>w_started = False, w_report = ts_reportStatus s, w_todo = [], w_willCrash = False,
     w_abortRequested = False, w_finished = False, w_crashed = False, w_api = a, w_updates = []\<rparr>"

definition final_status :: "bool \<Rightarrow> bool \<Rightarrow> run_status \<Rightarrow> run_status" where
  "final_status async abortRequested st =
     (if abortRequested then st\<lparr>run_Status := ABORTED\<rparr>
      else if async \<and> run_Status st = SUCCEEDED then st\<lparr>run_Status := IN_PROGRESS\<rparr>
      else st)"

text \<open>All outcomes of the update are only logged.\<close>

definition sendFinalStatus ::
  "'s retrier \<Rightarrow> 's update_op \<Rightarrow> retry_schedule \<Rightarrow> bool \<Rightarrow> bool \<Rightarrow> run_status \<Rightarrow> ('s, unit) prog" where
  "sendFinalStatus R upd sched async abortRequested st =
     attempt (updateStateWithRetry R upd sched (final_status async abortRequested st)) (\<lambda>_. ret ())"

definition observerTick :: "api_state update_op \<Rightarrow> watch \<Rightarrow> watch" where
  "observerTick upd w =
     (if isTerminalState (run_Status (w_report w)) then w
      else case upd (w_report w) (w_api w) of
             (r, a) \<Rightarrow> w\<lparr>w_api := a, w_updates := w_updates w @ [LiveUpdate (w_report w)],
               w_abortRequested := w_abortRequested w \<or> r = Ok True,
               w_crashed := (case r of Panic _ \<Rightarrow> True | _ \<Rightarrow> False)\<rparr>)"

definition observerDone ::
  "api_state retrier \<Rightarrow> api_state update_op \<Rightarrow> retry_schedule \<Rightarrow> bool \<Rightarrow> watch \<Rightarrow> watch" where
  "observerDone R upd sched async w =
     w\<lparr>w_api := snd (sendFinalStatus R upd sched async (w_abortRequested w) (w_report w) (w_api w)),
       w_updates := w_updates w @ [FinalUpdate (final_status async (w_abortRequested w) (w_report w))],
       w_finished := True\<rparr>"

text \<open>The parts of the job that stay fixed while it runs.\<close>

record job =
  j_http :: http_env
  j_api :: run_api
  j_retrier :: "api_state retrier"
  j_behavior :: behavior
  j_cmd :: generic_tf_cmd
  j_start :: tf_state

text \<open>The job of a run that was set up.\<close>

definition run_job ::
  "http_env \<Rightarrow> run_api \<Rightarrow> api_state retrier \<Rightarrow> tf_env \<Rightarrow> app \<Rightarrow> run \<Rightarrow> run_info \<times> tf_state \<Rightarrow> job" where
  "run_job E api R env app r i =
     \<lparr>j_http = E, j_api = api, j_retrier = R, j_behavior = r_Behavior r,
      j_cmd = \<lparr>cmd_env = env, cmd_app = app, cmd_info = fst i, cmd_params = work_params r\<rparr>,
      j_start = snd i\<rparr>"

definition startWork :: "job \<Rightarrow> watch \<Rightarrow> watch" where
  "startWork j w =
     (case workRoutine (j_http j) (j_api j) (j_behavior j) (j_cmd j) (j_start j) (w_api w) of
        (t, a) \<Rightarrow> w\<lparr>w_started := True, w_todo := work_reports t, w_willCrash := ts_crashed t \<noteq> None, w_api := a\<rparr>)"

text \<open>
  A panic of the work routine runs its deferred functions first, and the first of them signals that
  the work is done: so the observer may send the final update before the process ends, or not.
\<close>

inductive watch_step :: "job \<Rightarrow> watch \<Rightarrow> watch \<Rightarrow> bool" for j where
  start: "\<not> w_crashed w \<Longrightarrow> \<not> w_started w \<Longrightarrow> watch_step j w (startWork j w)"
| publish: "\<not> w_crashed w \<Longrightarrow> w_todo w = r # rs \<Longrightarrow> watch_step j w (w\<lparr>w_report := r, w_todo := rs\<rparr>)"
| tick: "\<not> w_crashed w \<Longrightarrow> \<not> w_finished w \<Longrightarrow> watch_step j w (observerTick (UpdateState (j_http j) (j_api j)) w)"
| work_done: "\<not> w_crashed w \<Longrightarrow> \<not> w_finished w \<Longrightarrow> w_started w \<Longrightarrow> w_todo w = [] \<Longrightarrow>
    watch_step j w (observerDone (j_retrier j) (UpdateState (j_http j) (j_api j)) finalStatusRetry
      (ri_asyncRun (cmd_info (j_cmd j))) w)"
| process_crash: "\<not> w_crashed w \<Longrightarrow> w_todo w = [] \<Longrightarrow> w_willCrash w \<Longrightarrow> watch_step j w (w\<lparr>w_crashed := True\<rparr>)"

inductive_cases watch_stepE: "watch_step j w w'"

definition watch_reachable :: "job \<Rightarrow> api_state \<Rightarrow> watch \<Rightarrow> bool" where
  "watch_reachable j a w \<longleftrightarrow> (watch_step j)\<^sup>*\<^sup>* (watch_init (j_start j) a) w"

section \<open>Tokens\<close>

datatype worker_token = TokWork | TokDone | TokNoRun | TokFailed | TokStop | TokStopped

definition too_many_encodings :: string where
  "too_many_encodings = ''transport connection broken: too many transfer encodings: ['' @ [CHR 0x22]
     @ ''chunked'' @ [CHR 0x22] @ '' '' @ [CHR 0x22] @ ''chunked'' @ [CHR 0x22] @ '']''"

text \<open>A type assertion, not \<^verbatim>\<open>errors.As\<close>: only an unwrapped \<^verbatim>\<open>StatusError\<close> counts.\<close>

definition handleFetchRunError :: "go_error \<Rightarrow> worker_token" where
  "handleFetchRunError err =
     (case err of
        StatusError n \<Rightarrow> if n = 404 then TokNoRun else if n = 409 then TokNoRun else TokFailed
      | _ \<Rightarrow> if Contains (error_text err) too_many_encodings then TokNoRun else TokFailed)"

text \<open>
  One turn of the loop in \<^verbatim>\<open>work\<close>, with the execution of the run as a parameter: the token sent back
  and whether the loop goes on. A worker never receives one of its own tokens.
\<close>

definition worker_turn :: "worker_token \<Rightarrow> run api \<Rightarrow> (run \<Rightarrow> unit api) \<Rightarrow> (worker_token \<times> bool) api" where
  "worker_turn token fetch execute =
     (case token of
        TokStop \<Rightarrow> ret (TokStopped, False)
      | TokWork \<Rightarrow>
          attempt fetch (\<lambda>x. case x of
            Err e \<Rightarrow> ret (handleFetchRunError e, True)
          | Ok r \<Rightarrow> bnd (execute r) (\<lambda>_. bnd ClearRunToken (\<lambda>_. ret (TokDone, True)))
          | Panic m \<Rightarrow> panic m)
      | _ \<Rightarrow> panic ''Encountered unknown token, fix your code!'')"

section \<open>Invariants\<close>

text \<open>A behavior's command keeps the contract of the commands.\<close>

lemma command_done:
  assumes "fresh s" "b \<noteq> UNKNOWN_BEHAVIOR"
  shows "done_ok (length (command_steps b (cmd_info c))) (command_execute b c (set_steps (command_steps b (cmd_info c)) s))"
  using assms by (cases b) (simp_all add: plan.run_done apply_cmd.run_done destroy.run_done)

definition live_only :: "sent_update list \<Rightarrow> bool" where
  "live_only us \<longleftrightarrow> list_all (\<lambda>u. \<exists>st. u = LiveUpdate st \<and> \<not> isTerminalState (run_Status st)) us"

lemma live_only_simps [simp]:
  "live_only []" "live_only (us @ [LiveUpdate st]) \<longleftrightarrow> live_only us \<and> \<not> isTerminalState (run_Status st)"
  by (auto simp: live_only_def)

text \<open>
  What holds in every reachable state: the observer has sent live updates of a run in progress
  only, then, when it is finished, exactly one final update, made from the last published status.
\<close>

definition watch_ok :: "bool \<Rightarrow> watch \<Rightarrow> bool" where
  "watch_ok async w \<longleftrightarrow>
     (w_finished w \<longrightarrow> w_started w \<and> w_todo w = [] \<and>
        (\<exists>us. live_only us \<and>
           w_updates w = us @ [FinalUpdate (final_status async (w_abortRequested w) (w_report w))])) \<and>
     (\<not> w_finished w \<longrightarrow> live_only (w_updates w)) \<and> (\<not> w_started w \<longrightarrow> w_todo w = [] \<and> \<not> w_willCrash w)"

lemma startWork_simps [simp]:
  "w_started (startWork j w)" "w_report (startWork j w) = w_report w" "w_finished (startWork j w) = w_finished w"
  "w_updates (startWork j w) = w_updates w" "w_crashed (startWork j w) = w_crashed w"
  "w_abortRequested (startWork j w) = w_abortRequested w"
  by (simp_all add: startWork_def split: prod.splits)

lemma observerTick_frame [simp]:
  "w_started (observerTick upd w) = w_started w" "w_report (observerTick upd w) = w_report w"
  "w_todo (observerTick upd w) = w_todo w" "w_finished (observerTick upd w) = w_finished w"
  "w_willCrash (observerTick upd w) = w_willCrash w"
  by (simp_all add: observerTick_def split: prod.splits)

lemma observerTick_updates:
  "w_updates (observerTick upd w) =
     (if isTerminalState (run_Status (w_report w)) then w_updates w else w_updates w @ [LiveUpdate (w_report w)])"
  by (simp add: observerTick_def split: prod.splits)

lemma watch_ok_step:
  assumes "watch_step j w w'" "watch_ok (ri_asyncRun (cmd_info (j_cmd j))) w"
  shows "watch_ok (ri_asyncRun (cmd_info (j_cmd j))) w'"
  using assms by cases (auto simp: watch_ok_def observerTick_updates observerDone_def)

interpretation watch: step_invariant "watch_step j" "watch_ok (ri_asyncRun (cmd_info (j_cmd j)))" for j
  by unfold_locales (rule watch_ok_step)

lemma watch_ok_reachable: "watch_reachable j a w \<Longrightarrow> watch_ok (ri_asyncRun (cmd_info (j_cmd j))) w"
  unfolding watch_reachable_def by (erule watch.reachable) (simp add: watch_ok_def watch_init_def)

text \<open>What is still to be published, after what is, ends with the last report of the work routine.\<close>

definition outcomes :: "job \<Rightarrow> tf_state set" where
  "outcomes j = {fst (workRoutine (j_http j) (j_api j) (j_behavior j) (j_cmd j) (j_start j) a) | a. True}"

definition outcome_is :: "job \<Rightarrow> run_status \<Rightarrow> bool \<Rightarrow> bool" where
  "outcome_is j r crashes \<longleftrightarrow> (\<exists>t \<in> outcomes j.
     r = last (ts_reportStatus (j_start j) # work_reports t) \<and> crashes = (ts_crashed t \<noteq> None))"

definition traced :: "job \<Rightarrow> watch \<Rightarrow> bool" where
  "traced j w \<longleftrightarrow> (if w_started w then outcome_is j (last (w_report w # w_todo w)) (w_willCrash w)
     else w_report w = ts_reportStatus (j_start j) \<and> w_todo w = [])"

lemma traced_step:
  assumes "watch_step j w w'" "traced j w"
  shows "traced j w'"
  using assms
proof cases
  case start
  let ?x = "workRoutine (j_http j) (j_api j) (j_behavior j) (j_cmd j) (j_start j) (w_api w)"
  have "fst ?x \<in> outcomes j" by (auto simp: outcomes_def)
  then have "outcome_is j (last (w_report w # work_reports (fst ?x))) (ts_crashed (fst ?x) \<noteq> None)"
    using assms(2) start by (auto simp: traced_def outcome_is_def)
  then show ?thesis
    using start by (cases ?x) (simp add: traced_def startWork_def)
qed (auto simp: traced_def observerDone_def split: if_splits)

interpretation trace: step_invariant "watch_step j" "traced j" for j
  by unfold_locales (rule traced_step)

lemma traced_reachable: "watch_reachable j a w \<Longrightarrow> traced j w"
  unfolding watch_reachable_def by (erule trace.reachable) (simp add: traced_def watch_init_def)

text \<open>
  The last report of a work routine: a consistent terminal status, or, when it crashes, that the run
  is in progress.
\<close>

lemma last_work_report:
  assumes "t \<in> outcomes j" "fresh (j_start j)" "j_behavior j \<noteq> UNKNOWN_BEHAVIOR"
    and "run_Status (ts_reportStatus (j_start j)) = IN_PROGRESS" "r = last (ts_reportStatus (j_start j) # work_reports t)"
  shows "if ts_crashed t \<noteq> None then run_Status r = IN_PROGRESS
    else run_Status r = SUCCEEDED \<and> consistent r \<or> run_Status r = FAILED"
proof -
  let ?b = "j_behavior j" and ?c = "j_cmd j"
  let ?s1 = "set_steps (command_steps ?b (cmd_info ?c)) (j_start j)"
  obtain a where a: "t = fst (workRoutine (j_http j) (j_api j) ?b ?c (j_start j) a)"
    using assms(1) by (auto simp: outcomes_def)
  obtain r a1 where "Register (j_http j) (j_api j) (ts_runStatus ?s1) a = (r, a1)" by fastforce
  with a consider "t = command_execute ?b ?c ?s1" | "t = reportFailed ?s1" | m where "t = crash m ?s1"
    by (cases r) (auto simp: workRoutine_def Let_def split: if_splits)
  then show ?thesis
  proof cases
    case 1
    have "done_ok (length (command_steps ?b (cmd_info ?c))) t"
      unfolding 1 by (rule command_done [OF assms(2,3)])
    then consider "ts_crashed t \<noteq> None" "list_all (\<lambda>r. run_Status r = IN_PROGRESS) (published (ts_trace t))"
      | e where "e \<in> {SUCCEEDED, FAILED}" "ended e (length (command_steps ?b (cmd_info ?c))) t"
      by (auto simp: done_ok_def)
    then show ?thesis
    proof cases
      case 1
      then show ?thesis using assms(4,5) by (auto simp: work_reports_def list_all_iff)
    next
      case (2 e)
      then have "published (ts_trace t) \<noteq> [] \<and> last (published (ts_trace t)) = ts_runStatus t \<and>
          run_Status (ts_runStatus t) = e \<and> consistent (ts_runStatus t) \<and> ts_crashed t = None"
        by (auto simp: ended_def sound_def)
      then show ?thesis using 2(1) assms(5) by (auto simp: work_reports_def)
    qed
  next
    case 2
    then show ?thesis
      using assms(2,5) by (simp add: work_reports_def reportFailed_def fresh_def set_steps_def upd_run_def)
  next
    case 3
    then show ?thesis
      using assms(2,4,5) by (simp add: crash_def work_reports_def fresh_def set_steps_def upd_run_def)
  qed
qed

text \<open>
  The reports of a work routine make progress, starting from the report before the steps are set up. So
  what the observer sends, in any interleaving, makes progress: it samples them in order.
\<close>

fun update_status :: "sent_update \<Rightarrow> run_status" where
  "update_status (LiveUpdate r) = r"
| "update_status (FinalUpdate r) = r"

lemma initial_first:
  "consistent r \<Longrightarrow> steps_le (initial_status i) r"
  by (simp add: steps_le_def initial_status_def consistent_def index_ok_def)

lemma work_reports_progress:
  assumes "t \<in> outcomes j" "fresh (j_start j)" "ts_reportStatus (j_start j) = initial_status i"
  shows "sorted_wrt steps_le (initial_status i # work_reports t)"
proof -
  let ?b = "j_behavior j" and ?c = "j_cmd j"
  let ?s1 = "set_steps (command_steps ?b (cmd_info ?c)) (j_start j)"
  have s1: "published (ts_trace ?s1) = []" "ts_reportStatus ?s1 = initial_status i"
    using assms(2,3) by (simp_all add: fresh_def set_steps_def upd_run_def)
  have silent: ?thesis if "published (ts_trace t) = []" "ts_crashed t = None \<Longrightarrow> steps_le (initial_status i) (ts_reportStatus t)"
    using that by (simp add: work_reports_def)
  obtain a where a: "t = fst (workRoutine (j_http j) (j_api j) ?b ?c (j_start j) a)"
    using assms(1) by (auto simp: outcomes_def)
  obtain r a1 where "Register (j_http j) (j_api j) (ts_runStatus ?s1) a = (r, a1)" by fastforce
  with a consider "t = command_execute ?b ?c ?s1" | "t = reportFailed ?s1" | m where "t = crash m ?s1"
    by (cases r) (auto simp: workRoutine_def Let_def split: if_splits)
  then show ?thesis
  proof cases
    case 1
    show ?thesis
    proof (cases "?b = UNKNOWN_BEHAVIOR")
      case True
      then show ?thesis using s1 by (intro silent) (simp_all add: 1 crash_def)
    next
      case False
      have "done_ok (length (command_steps ?b (cmd_info ?c))) t"
        unfolding 1 by (rule command_done [OF assms(2) False])
      then have r: "list_all consistent (published (ts_trace t))" "sorted_wrt run_le (published (ts_trace t))"
          "work_reports t = published (ts_trace t)"
        by (auto simp: done_ok_def reports_ok_def work_reports_def ended_def)
      have "sorted_wrt steps_le (published (ts_trace t))"
        by (rule sorted_wrt_mono_rel [OF _ r(2)]) (simp add: run_le_def)
      then show ?thesis using r(1,3) initial_first by (simp add: list_all_iff)
    qed
  next
    case 2
    then show ?thesis using s1
      by (intro silent) (simp_all add: reportFailed_def upd_run_def steps_le_def initial_status_def)
  next
    case 3
    then show ?thesis using s1 by (intro silent) (simp_all add: crash_def)
  qed
qed

definition watch_progress :: "job \<Rightarrow> watch \<Rightarrow> bool" where
  "watch_progress j w \<longleftrightarrow>
     sorted_wrt steps_le (map update_status (w_updates w) @ w_report w # w_todo w) \<and>
     (\<not> w_started w \<longrightarrow> w_report w = ts_reportStatus (j_start j) \<and> w_todo w = [])"

text \<open>A job as \<open>prepareRun\<close> sets it up.\<close>

definition job_ready :: "job \<Rightarrow> bool" where
  "job_ready j \<longleftrightarrow> fresh (j_start j) \<and> (\<exists>i. ts_reportStatus (j_start j) = initial_status i)"

lemma final_status_steps: "steps_le r t \<Longrightarrow> steps_le r (final_status async b t)"
  "steps_le (final_status async b t) t"
  by (auto simp: final_status_def steps_le_def intro: list_all2_refl step_le_refl)

lemma watch_progress_step:
  assumes "watch_step j w w'" "job_ready j \<and> watch_progress j w"
  shows "job_ready j \<and> watch_progress j w'"
  using assms
proof cases
  case start
  let ?x = "workRoutine (j_http j) (j_api j) (j_behavior j) (j_cmd j) (j_start j) (w_api w)"
  have "fst ?x \<in> outcomes j" by (auto simp: outcomes_def)
  then have "sorted_wrt steps_le (w_report w # work_reports (fst ?x))"
    using assms(2) start work_reports_progress [of "fst ?x" j]
    by (auto simp: job_ready_def watch_progress_def initial_status_def)
  moreover have "w_todo (startWork j w) = work_reports (fst ?x)"
    by (simp add: startWork_def split: prod.splits)
  ultimately show ?thesis
    using assms(2) start by (auto simp: watch_progress_def sorted_wrt_append intro: steps_le_trans)
next
  case tick
  then show ?thesis using assms(2) by (auto simp: watch_progress_def observerTick_updates sorted_wrt_append)
next
  case work_done
  then show ?thesis
    using assms(2) by (auto simp: watch_progress_def observerDone_def sorted_wrt_append final_status_steps)
qed (auto simp: watch_progress_def sorted_wrt_append)

interpretation progress: step_invariant "watch_step j" "\<lambda>w. job_ready j \<and> watch_progress j w" for j
  by unfold_locales (rule watch_progress_step)

lemma watch_progress_reachable:
  "watch_reachable j a w \<Longrightarrow> job_ready j \<Longrightarrow> watch_progress j w"
  unfolding watch_reachable_def using progress.reachable [of j "watch_init (j_start j) a" w]
  by (simp add: watch_progress_def watch_init_def)

text \<open>A run that comes from the server and was set up is one the commands are made for.\<close>

lemma dto_to_run_behavior: "dto_to_run vars C d = Ok r \<Longrightarrow> r_Behavior r \<noteq> UNKNOWN_BEHAVIOR"
  by (auto simp: dto_to_run_def DetermineBehavior_ok_iff split: res.splits)

lemma prepareRun_start:
  "prepareRun os dir mins r = Ok (ri, s) \<Longrightarrow>
    fresh s \<and> ri_asyncRun ri = r_IsAsync r \<and> ts_reportStatus s = initial_status (r_Id r)"
  by (auto simp: prepareRun_def initRunContextInfo_def fresh_def split: res.splits option.splits)

lemma run_job_simps [simp]:
  "j_http (run_job E api R env app r i) = E" "j_api (run_job E api R env app r i) = api"
  "j_retrier (run_job E api R env app r i) = R" "j_behavior (run_job E api R env app r i) = r_Behavior r"
  "cmd_info (j_cmd (run_job E api R env app r i)) = fst i" "j_start (run_job E api R env app r i) = snd i"
  by (simp_all add: run_job_def)

end
