(* ===== verification/Manager.thy ===== *)
theory Manager
  imports Worker
begin

text \<open>
  The run manager, \<^verbatim>\<open>tf-block-runner/tfrun/manager.go\<close>: it hands a token to its one worker, and after
  the worker's answer a goroutine hands it the next one, after a delay or at once when the manager
  is shut down.

  \<open>manager\<close> is the state of the two channels (of capacity one), the worker, the manager's loop and the
  goroutines of \<^verbatim>\<open>handoutWorkerToken\<close>; \<open>manager_step\<close> is what any of them can do next. The abstract view
  is a single token that travels: \<open>position\<close> says where it is, and \<open>place\<close> is the state that has it there.
\<close>

section \<open>The processes\<close>

definition NORUN_WORKER_DELAY :: int where "NORUN_WORKER_DELAY = 10 * second"
definition FAILED_WORKER_DELAY :: int where "FAILED_WORKER_DELAY = 60 * second"

datatype worker_state = Waiting | Working | Sending worker_token | Terminated

text \<open>
  A goroutine of \<^verbatim>\<open>handoutWorkerToken\<close>: in its first \<^verbatim>\<open>select\<close>, before its second one, or sending.
\<close>

datatype handout = Delayed int | Woken | Handing worker_token

record manager =
  m_workerIn :: "worker_token option"
  m_managerIn :: "worker_token option"
  m_shutdown :: bool
  m_worker :: worker_state
  m_handouts :: "handout list"
  m_running :: bool
  m_startedLate :: nat

text \<open>The worker that \<^verbatim>\<open>run\<close> starts; its channels are those of the manager.\<close>

record worker =
  wk_workerNumber :: int
  wk_workerDir :: string
  wk_timeout :: int
  wk_runApi :: run_api
  wk_statusUpdateInterval :: int
  wk_statusRequestTimeout :: int
  wk_finalStatusRetry :: retry_schedule

record run_manager =
  rm_defaultTimeout :: int
  rm_state :: manager

text \<open>Two empty channels; nothing runs yet. The last field of \<open>manager\<close> counts the runs begun after \<^verbatim>\<open>Stop\<close>.\<close>

definition NewManager :: "int \<Rightarrow> run_manager" where
  "NewManager tfCommandTimeoutMins =
     \<lparr>rm_defaultTimeout = duration (60 * second * tfCommandTimeoutMins),
      rm_state = \<lparr>m_workerIn = None, m_managerIn = None, m_shutdown = False, m_worker = Waiting,
        m_handouts = [], m_running = False, m_startedLate = 0\<rparr>\<rparr>"

text \<open>\<^verbatim>\<open>run\<close>: the first token, one worker, and the loop.\<close>

definition manager_run :: "run_manager \<Rightarrow> string \<Rightarrow> run_api \<Rightarrow> worker \<times> manager" where
  "manager_run rm workerDir api =
     (\<lparr>wk_workerNumber = 1, wk_workerDir = workerDir, wk_timeout = rm_defaultTimeout rm, wk_runApi = api,
       wk_statusUpdateInterval = 10 * second, wk_statusRequestTimeout = statusRequestTimeout,
       wk_finalStatusRetry = finalStatusRetry\<rparr>,
      (rm_state rm)\<lparr>m_workerIn := Some TokWork, m_running := True\<rparr>)"

text \<open>\<^verbatim>\<open>Start\<close> creates the directory of the worker and drops the error if it cannot.\<close>

definition manager_Start :: "worker_os \<Rightarrow> run_manager \<Rightarrow> string \<Rightarrow> run_api \<Rightarrow> unit res \<times> worker \<times> manager" where
  "manager_Start os rm workerDir api = (wos_MkdirAll os workerDir, manager_run rm workerDir api)"

text \<open>The state in which the processes start.\<close>

definition manager_init :: manager where
  "manager_init = \<lparr>m_workerIn = Some TokWork, m_managerIn = None, m_shutdown = False, m_worker = Waiting,
     m_handouts = [], m_running = True, m_startedLate = 0\<rparr>"

lemma manager_init_run: "manager_init = snd (manager_run (NewManager mins) dir api)"
  by (simp add: manager_init_def manager_run_def NewManager_def)

definition handout_delay :: "worker_token \<Rightarrow> int option" where
  "handout_delay t =
     (case t of TokDone \<Rightarrow> Some 0 | TokNoRun \<Rightarrow> Some NORUN_WORKER_DELAY
      | TokFailed \<Rightarrow> Some FAILED_WORKER_DELAY | _ \<Rightarrow> None)"

text \<open>The body of the loop in \<^verbatim>\<open>handleWorkers\<close>, for the token received.\<close>

definition handleWorkers :: "worker_token \<Rightarrow> manager \<Rightarrow> manager" where
  "handleWorkers t m =
     (case handout_delay t of
        Some d \<Rightarrow> m\<lparr>m_handouts := m_handouts m @ [Delayed d]\<rparr>
      | None \<Rightarrow> if t = TokStopped then m\<lparr>m_running := False\<rparr> else m)"

text \<open>The token that the second \<^verbatim>\<open>select\<close> of \<^verbatim>\<open>handoutWorkerToken\<close> picks.\<close>

definition handoutWorkerToken :: "bool \<Rightarrow> worker_token" where
  "handoutWorkerToken shutdown = (if shutdown then TokStop else TokWork)"

inductive manager_step :: "manager \<Rightarrow> manager \<Rightarrow> bool" where
  receive_work: "m_worker m = Waiting \<Longrightarrow> m_workerIn m = Some TokWork \<Longrightarrow>
    manager_step m (m\<lparr>m_workerIn := None, m_worker := Working,
      m_startedLate := m_startedLate m + (if m_shutdown m then 1 else 0)\<rparr>)"
| receive_stop: "m_worker m = Waiting \<Longrightarrow> m_workerIn m = Some TokStop \<Longrightarrow>
    manager_step m (m\<lparr>m_workerIn := None, m_worker := Sending TokStopped\<rparr>)"
| work_ends: "m_worker m = Working \<Longrightarrow> t \<in> {TokDone, TokNoRun, TokFailed} \<Longrightarrow>
    manager_step m (m\<lparr>m_worker := Sending t\<rparr>)"
| answer: "m_worker m = Sending t \<Longrightarrow> m_managerIn m = None \<Longrightarrow>
    manager_step m (m\<lparr>m_managerIn := Some t, m_worker := (if t = TokStopped then Terminated else Waiting)\<rparr>)"
| handle: "m_running m \<Longrightarrow> m_managerIn m = Some t \<Longrightarrow> manager_step m (handleWorkers t (m\<lparr>m_managerIn := None\<rparr>))"
| wake: "m_handouts m = hs @ Delayed d # hs' \<Longrightarrow> manager_step m (m\<lparr>m_handouts := hs @ Woken # hs'\<rparr>)"
| decide: "m_handouts m = hs @ Woken # hs' \<Longrightarrow>
    manager_step m (m\<lparr>m_handouts := hs @ Handing (handoutWorkerToken (m_shutdown m)) # hs'\<rparr>)"
| hand_out: "m_handouts m = hs @ Handing t # hs' \<Longrightarrow> m_workerIn m = None \<Longrightarrow>
    manager_step m (m\<lparr>m_workerIn := Some t, m_handouts := hs @ hs'\<rparr>)"

text \<open>\<^verbatim>\<open>Stop\<close>, called once by the signal handler, closes the channel that ends the delays.\<close>

definition manager_Stop :: "manager \<Rightarrow> manager" where
  "manager_Stop m = m\<lparr>m_shutdown := True\<rparr>"

definition any_step :: "manager \<Rightarrow> manager \<Rightarrow> bool" where
  "any_step m m' \<longleftrightarrow> manager_step m m' \<or> \<not> m_shutdown m \<and> m' = manager_Stop m"

section \<open>One token\<close>

datatype position =
    InWorkerChannel worker_token
  | AtWork
  | AtAnswer worker_token
  | InManagerChannel worker_token
  | InHandout handout
  | Returned

text \<open>The state in which the token is at a position: nothing else is under way.\<close>

definition place :: "bool \<Rightarrow> nat \<Rightarrow> position \<Rightarrow> manager" where
  "place sd late p =
     \<lparr>m_workerIn = (case p of InWorkerChannel t \<Rightarrow> Some t | _ \<Rightarrow> None),
      m_managerIn = (case p of InManagerChannel t \<Rightarrow> Some t | _ \<Rightarrow> None),
      m_shutdown = sd,
      m_worker = (case p of AtWork \<Rightarrow> Working | AtAnswer t \<Rightarrow> Sending t
                  | InManagerChannel t \<Rightarrow> if t = TokStopped then Terminated else Waiting
                  | Returned \<Rightarrow> Terminated | _ \<Rightarrow> Waiting),
      m_handouts = (case p of InHandout h \<Rightarrow> [h] | _ \<Rightarrow> []),
      m_running = (p \<noteq> Returned),
      m_startedLate = late\<rparr>"

definition answers_of_worker :: "worker_token set" where
  "answers_of_worker = {TokDone, TokNoRun, TokFailed, TokStopped}"

text \<open>
  The positions a token can take, with the runs begun after a shutdown: a stop is handed out only
  after it, and a token that is to start work after it has not done so before.
\<close>

definition position_ok :: "bool \<Rightarrow> nat \<Rightarrow> position \<Rightarrow> bool" where
  "position_ok sd late p \<longleftrightarrow>
     (case p of
        InWorkerChannel t \<Rightarrow> t \<in> {TokWork, TokStop}
      | AtAnswer t \<Rightarrow> t \<in> answers_of_worker
      | InManagerChannel t \<Rightarrow> t \<in> answers_of_worker
      | InHandout (Handing t) \<Rightarrow> t \<in> {TokWork, TokStop}
      | _ \<Rightarrow> True) \<and>
     (p \<in> {InWorkerChannel TokStop, AtAnswer TokStopped, InManagerChannel TokStopped, InHandout (Handing TokStop), Returned} \<longrightarrow> sd) \<and>
     late \<le> (if sd \<and> p \<notin> {InWorkerChannel TokWork, InHandout (Handing TokWork)} then 1 else 0)"

definition manager_ok :: "manager \<Rightarrow> bool" where
  "manager_ok m \<longleftrightarrow> (\<exists>sd late p. m = place sd late p \<and> position_ok sd late p)"

text \<open>Where the token can go: the abstract machine.\<close>

inductive token_step :: "bool \<Rightarrow> position \<Rightarrow> position \<Rightarrow> bool" for sd where
  "token_step sd (InWorkerChannel TokWork) AtWork"
| "token_step sd (InWorkerChannel TokStop) (AtAnswer TokStopped)"
| "t \<in> {TokDone, TokNoRun, TokFailed} \<Longrightarrow> token_step sd AtWork (AtAnswer t)"
| "token_step sd (AtAnswer t) (InManagerChannel t)"
| "handout_delay t = Some d \<Longrightarrow> token_step sd (InManagerChannel t) (InHandout (Delayed d))"
| "token_step sd (InManagerChannel TokStopped) Returned"
| "token_step sd (InHandout (Delayed d)) (InHandout Woken)"
| "token_step sd (InHandout Woken) (InHandout (Handing (handoutWorkerToken sd)))"
| "token_step sd (InHandout (Handing t)) (InWorkerChannel t)"

inductive_cases token_stepE: "token_step sd p p'"

lemma place_simps [simp]:
  "m_shutdown (place sd late p) = sd" "m_startedLate (place sd late p) = late"
  "m_running (place sd late p) \<longleftrightarrow> p \<noteq> Returned"
  "m_workerIn (place sd late p) = Some t \<longleftrightarrow> p = InWorkerChannel t"
  "m_managerIn (place sd late p) = Some t \<longleftrightarrow> p = InManagerChannel t"
  "m_worker (place sd late p) = Working \<longleftrightarrow> p = AtWork"
  "m_worker (place sd late p) = Sending t \<longleftrightarrow> p = AtAnswer t"
  "m_handouts (place sd late p) = hs @ h # hs' \<longleftrightarrow> p = InHandout h \<and> hs = [] \<and> hs' = []"
  by (auto simp: place_def Cons_eq_append_conv split: position.splits)

lemma place_moves:
  "(place sd late (InWorkerChannel t))\<lparr>m_workerIn := None, m_worker := Working, m_startedLate := n\<rparr> = place sd n AtWork"
  "(place sd late (InWorkerChannel t))\<lparr>m_workerIn := None, m_worker := Sending u\<rparr> = place sd late (AtAnswer u)"
  "(place sd late AtWork)\<lparr>m_worker := Sending u\<rparr> = place sd late (AtAnswer u)"
  "(place sd late (AtAnswer t))\<lparr>m_managerIn := Some t, m_worker := (if t = TokStopped then Terminated else Waiting)\<rparr>
     = place sd late (InManagerChannel t)"
  "(place sd late (InHandout h))\<lparr>m_handouts := [h']\<rparr> = place sd late (InHandout h')"
  "(place sd late (InHandout h))\<lparr>m_workerIn := Some t, m_handouts := []\<rparr> = place sd late (InWorkerChannel t)"
  by (simp_all add: place_def)

lemma handleWorkers_place:
  "handout_delay t = Some d \<Longrightarrow>
     handleWorkers t ((place sd late (InManagerChannel t))\<lparr>m_managerIn := None\<rparr>) = place sd late (InHandout (Delayed d))"
  "handleWorkers TokStopped ((place sd late (InManagerChannel TokStopped))\<lparr>m_managerIn := None\<rparr>) = place sd late Returned"
  by (auto simp: handleWorkers_def place_def handout_delay_def split: worker_token.splits)

text \<open>
  The simulation: a step of the processes moves the token, and the run it may begin is counted when
  the manager is shut down.
\<close>

definition late_after :: "bool \<Rightarrow> nat \<Rightarrow> position \<Rightarrow> nat" where
  "late_after sd late p = (if p = InWorkerChannel TokWork \<and> sd then Suc late else late)"

lemma token_simulation:
  assumes "manager_step (place sd late p) m'" "position_ok sd late p"
  shows "\<exists>p'. m' = place sd (late_after sd late p) p' \<and> token_step sd p p'"
  using assms
proof cases
  case (handle t)
  then have p: "p = InManagerChannel t" by simp
  then have "t \<in> answers_of_worker" using assms(2) by (simp add: position_ok_def)
  then consider d where "handout_delay t = Some d" | "t = TokStopped"
    by (auto simp: answers_of_worker_def handout_delay_def)
  then show ?thesis
    using handle p
    by cases (auto simp: handleWorkers_place late_after_def intro: token_step.intros)
qed (auto simp: place_moves late_after_def intro!: token_step.intros)

text \<open>And the other way round: wherever the abstract token can go, the processes can take it.\<close>

lemma handouts_place: "m_handouts (place sd late (InHandout h)) = [h]"
  by (simp add: place_def)

lemma token_implemented:
  assumes "token_step sd p p'" "position_ok sd late p"
  shows "manager_step (place sd late p) (place sd (late_after sd late p) p')"
  using assms(1)
proof cases
  case 1
  have "m_worker (place sd late p) = Waiting" "m_workerIn (place sd late p) = Some TokWork" by (simp_all add: 1 place_def)
  from receive_work [OF this] show ?thesis by (cases sd) (simp_all add: 1 place_moves late_after_def)
next
  case 2
  have "m_worker (place sd late p) = Waiting" "m_workerIn (place sd late p) = Some TokStop" by (simp_all add: 2 place_def)
  from receive_stop [OF this] show ?thesis by (simp add: 2 place_moves late_after_def)
next
  case (3 t)
  then show ?thesis using work_ends [of "place sd late p" t] by (simp add: place_moves late_after_def)
next
  case (4 t)
  have "m_managerIn (place sd late p) = None" by (simp add: 4 place_def)
  from answer [OF _ this, of t] show ?thesis by (simp add: 4 place_moves late_after_def)
next
  case (5 t d)
  then show ?thesis using handle [of "place sd late p" t] by (simp add: handleWorkers_place late_after_def)
next
  case 6
  then show ?thesis using handle [of "place sd late p" TokStopped] by (simp add: handleWorkers_place late_after_def)
next
  case (7 d)
  then show ?thesis using wake [of "place sd late p" "[]" d "[]"] by (simp add: handouts_place place_moves late_after_def)
next
  case 8
  then show ?thesis using decide [of "place sd late p" "[]" "[]"] by (simp add: handouts_place place_moves late_after_def)
next
  case (9 t)
  have "m_workerIn (place sd late p) = None" by (simp add: 9 place_def)
  from hand_out [OF _ this, of "[]" t "[]"] show ?thesis by (simp add: 9 handouts_place place_moves late_after_def)
qed

lemma position_ok_step:
  assumes "token_step sd p p'" "position_ok sd late p"
  shows "position_ok sd (late_after sd late p) p'"
  using assms
  by cases (auto simp: position_ok_def late_after_def answers_of_worker_def handoutWorkerToken_def
      handout_delay_def split: if_splits worker_token.splits)

lemma position_ok_Stop: "position_ok False late p \<Longrightarrow> position_ok True late p"
  by (auto simp: position_ok_def split: if_splits)

lemma manager_ok_step:
  assumes "any_step m m'" "manager_ok m"
  shows "manager_ok m'"
proof -
  obtain sd late p where m: "m = place sd late p" "position_ok sd late p"
    using assms(2) by (auto simp: manager_ok_def)
  consider "manager_step m m'" | "\<not> sd" "m' = manager_Stop m"
    using assms(1) m(1) by (auto simp: any_step_def)
  then show ?thesis
  proof cases
    case 1
    then obtain p' where p': "m' = place sd (late_after sd late p) p'" "token_step sd p p'"
      using token_simulation m by blast
    then show ?thesis using position_ok_step [OF p'(2) m(2)] by (auto simp: manager_ok_def)
  next
    case 2
    then have "m' = place True late p" by (simp add: m(1) manager_Stop_def place_def)
    then show ?thesis using position_ok_Stop [of late p] m(2) 2(1) unfolding manager_ok_def by auto
  qed
qed

interpretation token: step_invariant any_step manager_ok
  by unfold_locales (rule manager_ok_step)

lemma manager_ok_init: "manager_ok manager_init"
  by (auto simp: manager_ok_def manager_init_def place_def position_ok_def
      intro!: exI [of _ False] exI [of _ 0] exI [of _ "InWorkerChannel TokWork"])

lemma manager_reachable: "any_step\<^sup>*\<^sup>* manager_init m \<Longrightarrow> manager_ok m"
  using manager_ok_init by (rule token.reachable [rotated])

section \<open>Shutdown\<close>

text \<open>How many steps a token still makes once the manager is shut down.\<close>

fun token_rank :: "position \<Rightarrow> nat" where
  "token_rank (InHandout (Handing t)) = (if t = TokStop then 5 else 12)"
| "token_rank (InWorkerChannel t) = (if t = TokStop then 4 else 11)"
| "token_rank AtWork = 10"
| "token_rank (AtAnswer t) = (if t = TokStopped then 3 else 9)"
| "token_rank (InManagerChannel t) = (if t = TokStopped then 2 else 8)"
| "token_rank (InHandout (Delayed d)) = 7"
| "token_rank (InHandout Woken) = 6"
| "token_rank Returned = 0"

lemma token_rank_step: "token_step True p p' \<Longrightarrow> token_rank p' < token_rank p"
  by (erule token_stepE) (auto simp: handoutWorkerToken_def handout_delay_def)

interpretation shutdown: step_measure "token_step True" token_rank
  by unfold_locales (rule token_rank_step)

text \<open>A token that has not returned can always move.\<close>

lemma token_moves:
  assumes "position_ok sd late p" "p \<noteq> Returned"
  shows "\<exists>m'. manager_step (place sd late p) m'"
proof (cases p)
  case (InWorkerChannel t)
  then have "m_worker (place sd late p) = Waiting" "m_workerIn (place sd late p) = Some t"
    by (simp_all add: place_def)
  moreover have "t = TokWork \<or> t = TokStop" using assms InWorkerChannel by (simp add: position_ok_def)
  ultimately show ?thesis using receive_work receive_stop by blast
next
  case AtWork
  then show ?thesis using work_ends [of "place sd late p" TokDone] by auto
next
  case (AtAnswer t)
  then have "m_managerIn (place sd late p) = None" by (simp add: place_def)
  then show ?thesis using answer [of "place sd late p" t] AtAnswer by auto
next
  case (InManagerChannel t)
  then show ?thesis using handle [of "place sd late p" t] by auto
next
  case (InHandout h)
  then have "m_workerIn (place sd late p) = None" "m_handouts (place sd late p) = [] @ h # []"
    by (simp_all add: place_def)
  then show ?thesis by (cases h) (blast intro: wake decide hand_out)+
qed (use assms in simp)

lemma shutdown_steps:
  "(manager_step ^^ n) (place True late p) m \<Longrightarrow> position_ok True late p \<Longrightarrow>
   \<exists>late' p'. m = place True late' p' \<and> position_ok True late' p' \<and> (token_step True ^^ n) p p'"
proof (induction n arbitrary: m)
  case (Suc n)
  then obtain m0 where m0: "(manager_step ^^ n) (place True late p) m0" "manager_step m0 m" by auto
  with Suc obtain late' p' where p': "m0 = place True late' p'" "position_ok True late' p'" "(token_step True ^^ n) p p'"
    by blast
  from token_simulation [of True late' p' m] m0(2) p' obtain q where
    "m = place True (late_after True late' p') q" "token_step True p' q" by blast
  then show ?case using position_ok_step [OF _ p'(2)] p'(3) by (auto intro!: relpowp_Suc_I)
qed (auto intro!: exI)

end
