(* ===== verification/SingleRunWorker.thy ===== *)
theory SingleRunWorker
  imports Worker
begin

text \<open>
  The worker that executes one run it is given, \<^verbatim>\<open>tf-block-runner/tfrun/singlerunworker.go\<close>. Its methods
  repeat those of the polling worker, and are translated on their own here; the lemmas at the end show
  that they behave in the same way, so that what is shown of one worker holds of the other.
\<close>

section \<open>The worker\<close>

text \<open>\<^verbatim>\<open>time.Duration\<close> counts nanoseconds in 64 bits.\<close>

record single_run_worker =
  sw_workerDir :: string
  sw_timeoutMins :: int
  sw_timeout :: int
  sw_runApi :: run_api
  sw_statusUpdateInterval :: int
  sw_statusRequestTimeout :: int
  sw_finalStatusRetry :: retry_schedule

definition NewSingleRunWorkerWithApi :: "string \<Rightarrow> int \<Rightarrow> run_api \<Rightarrow> single_run_worker" where
  "NewSingleRunWorkerWithApi workerDir timeoutMins api =
     \<lparr>sw_workerDir = workerDir, sw_timeoutMins = timeoutMins, sw_timeout = duration (60 * second * timeoutMins),
      sw_runApi = api, sw_statusUpdateInterval = 10 * second, sw_statusRequestTimeout = statusRequestTimeout,
      sw_finalStatusRetry = finalStatusRetry\<rparr>"

definition NewSingleRunWorker ::
  "run_api_config \<Rightarrow> string \<Rightarrow> client_metadata \<Rightarrow> string \<Rightarrow> int \<Rightarrow> single_run_worker" where
  "NewSingleRunWorker cfg runnerUuid m workerDir timeoutMins =
     \<lparr>sw_workerDir = workerDir, sw_timeoutMins = timeoutMins, sw_timeout = duration (60 * second * timeoutMins),
      sw_runApi = NewRunApi cfg runnerUuid m, sw_statusUpdateInterval = 10 * second,
      sw_statusRequestTimeout = statusRequestTimeout, sw_finalStatusRetry = finalStatusRetry\<rparr>"

definition sw_sendInitFail :: "api_state retrier \<Rightarrow> http_env \<Rightarrow> single_run_worker \<Rightarrow> run \<Rightarrow> unit api" where
  "sw_sendInitFail R E w r =
     attempt (updateStateWithRetry R (UpdateState E (sw_runApi w)) (sw_finalStatusRetry w)
       \<lparr>run_Id = r_Id r, run_Status = FAILED, run_Steps = [], run_CurrentStepIndex = 0,
        run_Summary = Some ''Something went wrong while starting the run.'', run_ChangesDetected = None\<rparr>)
       (\<lambda>_. ret ())"

text \<open>
  \<^verbatim>\<open>ExecuteRun\<close> up to the start of the goroutines. Unlike the polling worker it creates the parent
  directory, and it returns without a report to the server when it cannot.
\<close>

definition ExecuteRun ::
  "api_state retrier \<Rightarrow> http_env \<Rightarrow> worker_os \<Rightarrow> single_run_worker \<Rightarrow> run \<Rightarrow> (run_info \<times> tf_state) api" where
  "ExecuteRun R E os w r =
     bnd (liftres (behavior_str (r_Behavior r))) (\<lambda>_.
     bnd (wrap_err ''failed to create working directory: '' (liftres (wos_MkdirAll os (sw_workerDir w)))) (\<lambda>_.
     attempt (liftres (wos_MkdirTemp os (sw_workerDir w) (''block-'' @ r_BuildingBlockId r @ ''-*''))) (\<lambda>x. case x of
       Panic m \<Rightarrow> panic m
     | Err e \<Rightarrow> bnd (sw_sendInitFail R E w r) (\<lambda>_. throw (Wrapped ''failed to create temp directory: '' e ''''))
     | Ok cmdDir \<Rightarrow>
     attempt (liftres (wos_Mkdir os (path_Join [cmdDir, ''logs'']))) (\<lambda>y. case y of
       Panic m \<Rightarrow> panic m
     | Err e \<Rightarrow> bnd (sw_sendInitFail R E w r) (\<lambda>_. throw (Wrapped ''failed to create logs directory: '' e ''''))
     | Ok _ \<Rightarrow> liftres (initRunContextInfo os (sw_timeoutMins w) r cmdDir)))))"

definition ExecuteDecryptedRun ::
  "api_state retrier \<Rightarrow> http_env \<Rightarrow> dto_codec \<Rightarrow> run_api \<Rightarrow> worker_os \<Rightarrow> string \<Rightarrow> int \<Rightarrow> string
     \<Rightarrow> (run_info \<times> tf_state) api" where
  "ExecuteDecryptedRun R E C api os workerDir timeoutMins runJson =
     bnd (wrap_err ''parse run JSON: '' (liftres (dc_UnmarshalRun C runJson))) (\<lambda>details.
     bnd (wrap_err ''convert run details: '' (liftres (ToInternalWithoutDecryption C details))) (\<lambda>r.
     bnd (SetRunToken (rd_RunToken details)) (\<lambda>_.
     ExecuteRun R E os (NewSingleRunWorkerWithApi workerDir timeoutMins api) r)))"

section \<open>The routines\<close>

definition sw_params :: "run \<Rightarrow> tf_cmd_params res" where
  "sw_params r =
     rbind (behavior_str (r_Behavior r)) (\<lambda>runMode.
     Ok \<lparr>p_buildingBlockId = r_BuildingBlockId r, p_tfVersion = r_TerraformVersion r,
         p_suggestedWorkspace = toWorkspaceStr r, p_vars = r_Vars r, p_source = Some (r_Source r),
         p_preRunScript = r_PreRunScript r, p_runMode = runMode,
         p_artifactUrl = r_ArtifactUrl r, p_artifactUploadUrl = r_ArtifactUploadUrl r\<rparr>)"

definition sw_command ::
  "behavior \<Rightarrow> tf_env \<Rightarrow> app \<Rightarrow> run_info \<Rightarrow> tf_cmd_params \<Rightarrow> ((tf_state \<Rightarrow> tf_state) \<times> (tf_state \<Rightarrow> tf_state)) option" where
  "sw_command b env app ri params =
     (case b of
        APPLY \<Rightarrow> (let c = ApplyCmd env app ri params in Some (apply_initRunSteps c, apply_execute c))
      | DETECT \<Rightarrow> (let c = PlanCmd env app ri params in Some (plan_initRunSteps c, plan_execute c))
      | DESTROY \<Rightarrow> (let c = DestroyCmd env app ri params in Some (destroy_initRunSteps c, destroy_execute c))
      | UNKNOWN_BEHAVIOR \<Rightarrow> None)"

text \<open>\<open>i\<close> is what \<^verbatim>\<open>initRunContextInfo\<close> made; a command that was not set is a nil interface.\<close>

definition sw_workRoutine ::
  "http_env \<Rightarrow> single_run_worker \<Rightarrow> tf_env \<Rightarrow> app \<Rightarrow> run \<Rightarrow> run_info \<times> tf_state \<Rightarrow> api_state \<Rightarrow> tf_state \<times> api_state" where
  "sw_workRoutine E w env app r i a =
     (case sw_params r of
        Ok params \<Rightarrow>
          (case sw_command (r_Behavior r) env app (fst i) params of
             None \<Rightarrow> (crash ''nil pointer dereference'' (snd i), a)
           | Some (initRunSteps, execute) \<Rightarrow>
               (let s1 = initRunSteps (snd i)
                in case Register E (sw_runApi w) (ts_runStatus s1) a of
                     (Ok _, a1) \<Rightarrow>
                       if ri_logOpened (fst i) then (execute s1, a1) else (crash ''nil pointer dereference'' s1, a1)
                   | (Err _, a1) \<Rightarrow>
                       if ri_logOpened (fst i) then (reportFailed s1, a1) else (crash ''nil pointer dereference'' s1, a1)
                   | (Panic m, a1) \<Rightarrow> (crash m s1, a1)))
      | Err e \<Rightarrow> (crash (error_text e) (snd i), a)
      | Panic m \<Rightarrow> (crash m (snd i), a))"

text \<open>\<^verbatim>\<open>cancel\<close> ends the context of the command, whose calls may then fail in any way.\<close>

definition sw_observerTick :: "http_env \<Rightarrow> single_run_worker \<Rightarrow> watch \<Rightarrow> watch" where
  "sw_observerTick E w x =
     (if \<not> isTerminalState (run_Status (w_report x))
      then (case UpdateState E (sw_runApi w) (w_report x) (w_api x) of
              (Ok abort, a) \<Rightarrow> x\<lparr>w_api := a, w_updates := w_updates x @ [LiveUpdate (w_report x)],
                 w_abortRequested := (if abort \<and> \<not> w_abortRequested x then True else w_abortRequested x)\<rparr>
            | (Err _, a) \<Rightarrow> x\<lparr>w_api := a, w_updates := w_updates x @ [LiveUpdate (w_report x)]\<rparr>
            | (Panic _, a) \<Rightarrow> x\<lparr>w_api := a, w_updates := w_updates x @ [LiveUpdate (w_report x)], w_crashed := True\<rparr>)
      else x)"

definition sw_observerDone :: "api_state retrier \<Rightarrow> http_env \<Rightarrow> single_run_worker \<Rightarrow> run \<Rightarrow> watch \<Rightarrow> watch" where
  "sw_observerDone R E w r x =
     x\<lparr>w_api := snd (sendFinalStatus R (UpdateState E (sw_runApi w)) (sw_finalStatusRetry w) (r_IsAsync r)
         (w_abortRequested x) (w_report x) (w_api x)),
       w_updates := w_updates x @ [FinalUpdate (final_status (r_IsAsync r) (w_abortRequested x) (w_report x))],
       w_finished := True\<rparr>"

text \<open>The goroutines of \<^verbatim>\<open>ExecuteRun\<close>.\<close>

record single_run =
  sr_http :: http_env
  sr_worker :: single_run_worker
  sr_retrier :: "api_state retrier"
  sr_env :: tf_env
  sr_app :: app
  sr_run :: run
  sr_start :: "run_info \<times> tf_state"

definition sw_startWork :: "single_run \<Rightarrow> watch \<Rightarrow> watch" where
  "sw_startWork j x =
     (case sw_workRoutine (sr_http j) (sr_worker j) (sr_env j) (sr_app j) (sr_run j) (sr_start j) (w_api x) of
        (t, a) \<Rightarrow> x\<lparr>w_started := True, w_todo := work_reports t, w_willCrash := ts_crashed t \<noteq> None, w_api := a\<rparr>)"

inductive sw_step :: "single_run \<Rightarrow> watch \<Rightarrow> watch \<Rightarrow> bool" for j where
  sw_start: "\<not> w_crashed x \<Longrightarrow> \<not> w_started x \<Longrightarrow> sw_step j x (sw_startWork j x)"
| sw_publish: "\<not> w_crashed x \<Longrightarrow> w_todo x = r # rs \<Longrightarrow> sw_step j x (x\<lparr>w_report := r, w_todo := rs\<rparr>)"
| sw_tick: "\<not> w_crashed x \<Longrightarrow> \<not> w_finished x \<Longrightarrow> sw_step j x (sw_observerTick (sr_http j) (sr_worker j) x)"
| sw_done: "\<not> w_crashed x \<Longrightarrow> \<not> w_finished x \<Longrightarrow> w_started x \<Longrightarrow> w_todo x = [] \<Longrightarrow>
    sw_step j x (sw_observerDone (sr_retrier j) (sr_http j) (sr_worker j) (sr_run j) x)"
| sw_crash: "\<not> w_crashed x \<Longrightarrow> w_todo x = [] \<Longrightarrow> w_willCrash x \<Longrightarrow> sw_step j x (x\<lparr>w_crashed := True\<rparr>)"

section \<open>The same as the polling worker\<close>

definition polled_job :: "single_run \<Rightarrow> job" where
  "polled_job j = run_job (sr_http j) (sw_runApi (sr_worker j)) (sr_retrier j) (sr_env j) (sr_app j) (sr_run j) (sr_start j)"

text \<open>A single run as \<^verbatim>\<open>ExecuteRun\<close> sets it up.\<close>

definition single_run_ok :: "single_run \<Rightarrow> bool" where
  "single_run_ok j \<longleftrightarrow> r_Behavior (sr_run j) \<noteq> UNKNOWN_BEHAVIOR \<and>
     sw_finalStatusRetry (sr_worker j) = finalStatusRetry \<and>
     ri_asyncRun (fst (sr_start j)) = r_IsAsync (sr_run j)"

lemma sw_sendInitFail_eq:
  "sw_finalStatusRetry w = finalStatusRetry \<Longrightarrow>
   sw_sendInitFail R E w r = sendInitFail R (UpdateState E (sw_runApi w)) r"
  by (simp add: sw_sendInitFail_def sendInitFail_def init_fail_status_def)

lemma ExecuteRun_eq:
  "ExecuteRun R E os (NewSingleRunWorkerWithApi dir mins api) r s =
     (case behavior_str (r_Behavior r) of
        Panic m \<Rightarrow> (Panic m, s) | Err e \<Rightarrow> (Err e, s)
      | Ok _ \<Rightarrow> bnd (wrap_err ''failed to create working directory: '' (liftres (wos_MkdirAll os dir))) (\<lambda>_.
                tfExecution R (UpdateState E api) os dir mins r) s)"
proof -
  let ?w = "NewSingleRunWorkerWithApi dir mins api"
  have init: "sw_sendInitFail R E ?w r = sendInitFail R (UpdateState E api) r"
    by (simp add: sw_sendInitFail_eq NewSingleRunWorkerWithApi_def)
  have dir: "sw_workerDir ?w = dir" "sw_timeoutMins ?w = mins" by (simp_all add: NewSingleRunWorkerWithApi_def)
  have rest: "attempt (liftres (wos_MkdirTemp os dir (''block-'' @ r_BuildingBlockId r @ ''-*''))) (\<lambda>x. case x of
       Panic m \<Rightarrow> panic m
     | Err e \<Rightarrow> bnd (sendInitFail R (UpdateState E api) r) (\<lambda>_. throw (Wrapped ''failed to create temp directory: '' e ''''))
     | Ok cmdDir \<Rightarrow>
     attempt (liftres (wos_Mkdir os (path_Join [cmdDir, ''logs'']))) (\<lambda>y. case y of
       Panic m \<Rightarrow> panic m
     | Err e \<Rightarrow> bnd (sendInitFail R (UpdateState E api) r) (\<lambda>_. throw (Wrapped ''failed to create logs directory: '' e ''''))
     | Ok _ \<Rightarrow> liftres (initRunContextInfo os mins r cmdDir))) =
     attempt (liftres (prepareRun os dir mins r)) (\<lambda>x. case x of
       Ok i \<Rightarrow> ret i
     | Err e \<Rightarrow> bnd (sendInitFail R (UpdateState E api) r) (\<lambda>_. throw e)
     | Panic m \<Rightarrow> panic m)"
  proof (cases "wos_MkdirTemp os dir (''block-'' @ r_BuildingBlockId r @ ''-*'')")
    case (Ok cmdDir)
    then show ?thesis
    proof (cases "wos_Mkdir os (path_Join [cmdDir, ''logs''])")
      case (Ok u)
      with \<open>wos_MkdirTemp os dir _ = Ok cmdDir\<close> show ?thesis
        by (cases "r_WorkspaceIdentifier r")
          (simp_all add: fun_eq_iff prepareRun_def initRunContextInfo_def attempt_def liftres_def ret_def)
    qed (simp_all add: fun_eq_iff prepareRun_def attempt_def liftres_def)
  qed (simp_all add: fun_eq_iff prepareRun_def attempt_def liftres_def)
  have ok: "bnd (liftres (Ok t)) f = f t" for t and f :: "string \<Rightarrow> (run_info \<times> tf_state) api"
    by (simp add: fun_eq_iff bnd_def liftres_def)
  show ?thesis
  proof (cases "behavior_str (r_Behavior r)")
    case (Ok t)
    then show ?thesis
      unfolding ExecuteRun_def tfExecution_def init dir rest Ok ok by simp
  qed (simp_all add: ExecuteRun_def bnd_def liftres_def)
qed

lemma sw_workRoutine_eq:
  assumes "r_Behavior r \<noteq> UNKNOWN_BEHAVIOR"
  shows "sw_workRoutine E w env app r i a =
    workRoutine E (sw_runApi w) (r_Behavior r)
      \<lparr>cmd_env = env, cmd_app = app, cmd_info = fst i, cmd_params = work_params r\<rparr> (snd i) a"
  using assms
  by (cases "r_Behavior r")
    (simp_all add: sw_workRoutine_def sw_params_def sw_command_def ApplyCmd_def PlanCmd_def DestroyCmd_def workRoutine_def work_params_def
      plan_initRunSteps_def apply_initRunSteps_def destroy_initRunSteps_def Let_def
      split: prod.splits res.splits)

lemma sw_observerTick_eq:
  "\<not> w_crashed x \<Longrightarrow> sw_observerTick E w x = observerTick (UpdateState E (sw_runApi w)) x"
  by (auto simp: sw_observerTick_def observerTick_def split: prod.splits res.splits)

lemma sw_step_eq:
  assumes "single_run_ok j"
  shows "sw_step j = watch_step (polled_job j)"
proof -
  have start: "sw_startWork j x = startWork (polled_job j) x" for x
    using assms by (simp add: sw_startWork_def startWork_def polled_job_def run_job_def sw_workRoutine_eq single_run_ok_def)
  have fin: "sw_observerDone (sr_retrier j) (sr_http j) (sr_worker j) (sr_run j) x =
      observerDone (j_retrier (polled_job j)) (UpdateState (j_http (polled_job j)) (j_api (polled_job j)))
        finalStatusRetry (ri_asyncRun (cmd_info (j_cmd (polled_job j)))) x" for x
    using assms by (simp add: sw_observerDone_def observerDone_def polled_job_def single_run_ok_def)
  have tick: "\<not> w_crashed x \<Longrightarrow> sw_observerTick (sr_http j) (sr_worker j) x =
      observerTick (UpdateState (j_http (polled_job j)) (j_api (polled_job j))) x" for x
    by (simp add: sw_observerTick_eq polled_job_def)
  have "sw_step j x y \<longleftrightarrow> watch_step (polled_job j) x y" for x y
    by (auto simp: sw_step.simps watch_step.simps start fin tick)
  then show ?thesis by blast
qed

end
