(* ===== verification/WorkerProperties.thy ===== *)
theory WorkerProperties
  imports Manager SingleRunWorker Samples ApiProperties
begin

text \<open>
  Properties of the workers and of the run manager: what a run's observer sends, what happens when a
  run cannot be fetched or set up, and how the token moves and the manager shuts down.
\<close>

section \<open>The observer\<close>

lemma final_update:
  assumes "r_Behavior r \<noteq> UNKNOWN_BEHAVIOR" "prepareRun os dir mins r = Ok i"
    and "watch_reachable (run_job E api R env app r i) a w" "w_finished w"
  shows "\<exists>us st. w_updates w = us @ [FinalUpdate st] \<and>
    (\<forall>u \<in> set us. \<exists>r. u = LiveUpdate r \<and> \<not> isTerminalState (run_Status r)) \<and>
    (if w_abortRequested w then run_Status st = ABORTED
     else if w_willCrash w then run_Status st = IN_PROGRESS
     else if r_IsAsync r then run_Status st \<in> {IN_PROGRESS, FAILED}
     else run_Status st = FAILED \<or>
       run_Status st = SUCCEEDED \<and> list_all (\<lambda>s. step_Status s = SUCCEEDED) (run_Steps st))"
proof -
  let ?j = "run_job E api R env app r i"
  have start: "fresh (j_start ?j)" "j_behavior ?j \<noteq> UNKNOWN_BEHAVIOR" "ri_asyncRun (cmd_info (j_cmd ?j)) = r_IsAsync r"
      "run_Status (ts_reportStatus (j_start ?j)) = IN_PROGRESS"
    using prepareRun_start [of os dir mins r "fst i" "snd i"] assms(1) assms(2)
    by (simp_all add: initial_status_def)
  from watch_ok_reachable [OF assms(3)] assms(4) obtain us where
    w: "w_started w" "w_todo w = []" "live_only us"
      "w_updates w = us @ [FinalUpdate (final_status (r_IsAsync r) (w_abortRequested w) (w_report w))]"
    unfolding watch_ok_def start(3) by blast
  with traced_reachable [OF assms(3)] obtain t where
    t: "t \<in> outcomes ?j" "w_report w = last (ts_reportStatus (j_start ?j) # work_reports t)"
      "w_willCrash w = (ts_crashed t \<noteq> None)"
    by (auto simp: traced_def outcome_is_def)
  from last_work_report [OF t(1) start(1,2,4) t(2)]
  have "if w_willCrash w then run_Status (w_report w) = IN_PROGRESS
    else run_Status (w_report w) = SUCCEEDED \<and> list_all (\<lambda>s. step_Status s = SUCCEEDED) (run_Steps (w_report w)) \<or>
      run_Status (w_report w) = FAILED"
    by (auto simp: t(3) consistent_def)
  then show ?thesis
    using w(3,4) by (fastforce simp: final_status_def live_only_def list_all_iff split: if_splits)
qed

text \<open>
  C13: when the observer of a run that was fetched and set up is finished, it has sent exactly one
  final update, after the last report of the command. Every update before it is a live one of a run
  that has not ended. The final update says ABORTED if meshStack asked for an abort; otherwise
  SUCCEEDED, with every step succeeded, or FAILED; a successful asynchronous run is reported as
  IN_PROGRESS, since its pipeline goes on. A command that panicked signals that it is done before
  the process ends: the final update then says IN_PROGRESS.
\<close>

theorem one_final_status:
  assumes "dto_to_run vars C d = Ok r" "prepareRun os dir mins r = Ok i"
    and "watch_reachable (run_job E api R env app r i) a w" "w_finished w"
  shows "\<exists>us st. w_updates w = us @ [FinalUpdate st] \<and>
    (\<forall>u \<in> set us. \<exists>r. u = LiveUpdate r \<and> \<not> isTerminalState (run_Status r)) \<and>
    (if w_abortRequested w then run_Status st = ABORTED
     else if w_willCrash w then run_Status st = IN_PROGRESS
     else if r_IsAsync r then run_Status st \<in> {IN_PROGRESS, FAILED}
     else run_Status st = FAILED \<or>
       run_Status st = SUCCEEDED \<and> list_all (\<lambda>s. step_Status s = SUCCEEDED) (run_Steps st))"
  by (rule final_update [OF dto_to_run_behavior [OF assms(1)] assms(2-4)])

text \<open>The sample's server refuses the registration, so its only report is the failure.\<close>

definition sample_os :: "go_error option \<Rightarrow> go_error option \<Rightarrow> worker_os" where
  "sample_os e e' = \<lparr>wos_MkdirAll = (\<lambda>p. case e of None \<Rightarrow> Ok () | Some x \<Rightarrow> Err x),
     wos_MkdirTemp = (\<lambda>p t. case e' of None \<Rightarrow> Ok ''/w/b'' | Some x \<Rightarrow> Err x), wos_Mkdir = (\<lambda>p. Ok ()),
     wos_OpenFile = (\<lambda>p. Ok ())\<rparr>"

definition sample_run :: run where
  "sample_run = (case runDTOToInternal (sample_codec ''DETECT'') (sample_details ''DETECT'') of Ok r \<Rightarrow> r)"

lemma sample_run: "dto_to_run toInternalVariableMap (sample_codec ''DETECT'') (sample_details ''DETECT'') = Ok sample_run"
  by (simp add: sample_run_def runDTOToInternal_def dto_to_run_def DetermineBehavior_def behaviors_def sample_codec_def
      sample_details_def)

lemma sample_prepared: "\<exists>i. prepareRun (sample_os None None) ''w'' 60 sample_run = Ok i \<and> ri_logOpened (fst i)"
proof -
  have "r_WorkspaceIdentifier sample_run = Some ''w''"
    by (simp add: sample_run_def runDTOToInternal_def dto_to_run_def DetermineBehavior_def behaviors_def
        sample_codec_def sample_details_def)
  then show ?thesis by (simp add: prepareRun_def sample_os_def initRunContextInfo_def NewLogWrap_def)
qed

abbreviation sample_job :: "run_info \<times> tf_state \<Rightarrow> job" where
  "sample_job \<equiv> run_job (sample_http 500 []) sample_api sample_retrier sample_env sample_app sample_run"

lemma refused_work:
  assumes "fresh s" "ri_logOpened (cmd_info c)"
  shows "\<exists>t a'. workRoutine (sample_http 500 []) sample_api b c s a = (t, a') \<and> work_reports t = [ts_reportStatus t] \<and>
    ts_crashed t = None"
proof -
  have "\<exists>e a'. Register (sample_http 500 []) sample_api st a = (Err e, a')" for st
    by (auto simp: Register_def RegisterSource_def RegisterSourceAt_def sample_http_def sample_api_def
        NewRunApi_def NewAuthProvider_def bnd_def http_NewRequest_def http_Do_def ret_def throw_def gets_def
        setHeaders_def wrap_err_def attempt_def Let_def is_2xx_def)
  then obtain e a' where "Register (sample_http 500 []) sample_api
      (ts_runStatus (set_steps (command_steps b (cmd_info c)) s)) a = (Err e, a')" by blast
  then show ?thesis
    using assms by (simp add: workRoutine_def Let_def work_reports_def reportFailed_def set_steps_def upd_run_def fresh_def)
qed

lemma sample_reachable:
  assumes "fresh (snd i)" "ri_logOpened (fst i)"
  shows "\<exists>w. watch_reachable (sample_job i) sample_api_state w \<and> w_finished w"
proof -
  let ?w0 = "watch_init (snd i) sample_api_state"
  define w1 where "w1 = startWork (sample_job i) ?w0"
  obtain u a' where "workRoutine (sample_http 500 []) sample_api (r_Behavior sample_run) (j_cmd (sample_job i)) (snd i)
      sample_api_state = (u, a')" "work_reports u = [ts_reportStatus u]" "ts_crashed u = None"
    using refused_work [OF assms(1), of "j_cmd (sample_job i)"] assms(2) by (simp add: run_job_def) metis
  then obtain r where t: "w_todo w1 = [r]" "\<not> w_willCrash w1"
    by (simp add: w1_def startWork_def watch_init_def)
  have s1: "watch_step (sample_job i) ?w0 w1" unfolding w1_def by (rule watch_step.start) (simp_all add: watch_init_def)
  have c: "w_started w1" "\<not> w_crashed w1" "\<not> w_finished w1" by (simp_all add: w1_def watch_init_def)
  let ?w2 = "w1\<lparr>w_report := r, w_todo := []\<rparr>"
  have s2: "watch_step (sample_job i) w1 ?w2" using c(2) t(1) by (rule watch_step.publish)
  obtain w3 where s3: "watch_step (sample_job i) ?w2 w3" "w_finished w3"
    using watch_step.work_done [of ?w2 "sample_job i"] c t by (auto simp: observerDone_def)
  from s1 s2 s3 show ?thesis
    unfolding watch_reachable_def run_job_simps by (meson rtranclp.rtrancl_into_rtrancl rtranclp.rtrancl_refl)
qed

theorem one_final_status_witness:
  "\<exists>i w us st. watch_reachable (sample_job i) sample_api_state w \<and> w_updates w = us @ [FinalUpdate st]"
proof -
  obtain i where i: "prepareRun (sample_os None None) ''w'' 60 sample_run = Ok i" and log: "ri_logOpened (fst i)"
    using sample_prepared by blast
  then have "fresh (snd i)" using prepareRun_start [of _ _ _ _ "fst i" "snd i"] by simp
  from sample_reachable [OF this log] obtain w where "watch_reachable (sample_job i) sample_api_state w" "w_finished w" by blast
  with one_final_status [OF sample_run i this] show ?thesis by blast
qed

text \<open>
  C17: the observer never gets stuck: from every state that a run can be in, unless the process has
  crashed, the run can still end with its final update, or the process crashes.
\<close>

theorem run_can_end:
  assumes "watch_reachable j a w" "\<not> w_crashed w"
  shows "\<exists>w'. (watch_step j)\<^sup>*\<^sup>* w w' \<and> (w_finished w' \<or> w_crashed w')"
proof -
  have ends: "\<exists>w'. (watch_step j)\<^sup>*\<^sup>* w w' \<and> (w_finished w' \<or> w_crashed w')"
    if "w_todo w = rs" "w_started w" "\<not> w_crashed w" for rs w
    using that
  proof (induction rs arbitrary: w)
    case Nil
    show ?case
    proof (cases "w_finished w")
      case False
      from watch_step.work_done [OF Nil(3) False Nil(2,1)] show ?thesis
        by (auto simp: observerDone_def intro!: exI r_into_rtranclp)
    qed auto
  next
    case (Cons r rs)
    from Cons.IH [of "w\<lparr>w_report := r, w_todo := rs\<rparr>"] Cons.prems obtain w' where
      "(watch_step j)\<^sup>*\<^sup>* (w\<lparr>w_report := r, w_todo := rs\<rparr>) w'" "w_finished w' \<or> w_crashed w'" by auto
    then show ?case using watch_step.publish [OF Cons.prems(3,1)] by (meson converse_rtranclp_into_rtranclp)
  qed
  show ?thesis
  proof (cases "w_started w")
    case True
    then show ?thesis using ends [OF refl True assms(2)] by blast
  next
    case False
    from ends [OF refl, of "startWork j w"] assms(2) obtain w' where
      "(watch_step j)\<^sup>*\<^sup>* (startWork j w) w'" "w_finished w' \<or> w_crashed w'" by auto
    then show ?thesis using watch_step.start [OF assms(2) False] by (meson converse_rtranclp_into_rtranclp)
  qed
qed

theorem run_can_end_witness:
  "\<exists>w'. (watch_step (sample_job (sample_info, sample_state)))\<^sup>*\<^sup>* (watch_init sample_state sample_api_state) w' \<and>
    (w_finished w' \<or> w_crashed w')"
  by (rule run_can_end [of _ sample_api_state]) (simp_all add: watch_reachable_def watch_init_def)

lemma updates_sorted:
  assumes "prepareRun os dir mins r = Ok i" "watch_reachable (run_job E api R env app r i) a w"
  shows "sorted_wrt steps_le (map update_status (w_updates w))"
proof -
  have "job_ready (run_job E api R env app r i)"
    using prepareRun_start [of os dir mins r "fst i" "snd i"] assms(1) by (auto simp: job_ready_def)
  from watch_progress_reachable [OF assms(2) this] show ?thesis
    by (simp add: watch_progress_def sorted_wrt_append)
qed

text \<open>
  C14: however the observer's ticks fall, what it sends makes progress: from one update to a later one
  the current step does not move back, a started step does not become pending again, a step that
  ended stays as it ended, and the steps keep their names and order. The updates sent before the
  steps are set up name no steps.
\<close>

theorem updates_progress:
  assumes "prepareRun os dir mins r = Ok i" "watch_reachable (run_job E api R env app r i) a w"
  shows "sorted_wrt steps_le (map update_status (w_updates w))"
  by (rule updates_sorted [OF assms])

theorem updates_progress_witness:
  "\<exists>i w. watch_reachable (sample_job i) sample_api_state w \<and> w_finished w \<and>
    sorted_wrt steps_le (map update_status (w_updates w))"
proof -
  obtain i where i: "prepareRun (sample_os None None) ''w'' 60 sample_run = Ok i" and log: "ri_logOpened (fst i)"
    using sample_prepared by blast
  then have "fresh (snd i)" using prepareRun_start [of _ _ _ _ "fst i" "snd i"] by simp
  from sample_reachable [OF this log] obtain w where "watch_reachable (sample_job i) sample_api_state w" "w_finished w" by blast
  with updates_progress [OF i this(1)] show ?thesis by blast
qed

section \<open>The single run\<close>

lemma ExecuteRun_prepared:
  assumes "ExecuteRun R E os (NewSingleRunWorkerWithApi dir mins api) r s = (Ok i, s')"
  shows "prepareRun os dir mins r = Ok i" "r_Behavior r \<noteq> UNKNOWN_BEHAVIOR"
proof -
  show r: "r_Behavior r \<noteq> UNKNOWN_BEHAVIOR" using assms by (auto simp: ExecuteRun_eq)
  then obtain t where t: "behavior_str (r_Behavior r) = Ok t" by (cases "r_Behavior r") simp_all
  with assms obtain s1 where "tfExecution R (UpdateState E api) os dir mins r s1 = (Ok i, s')"
    by (auto simp: ExecuteRun_eq bnd_def split: prod.splits res.splits)
  then show "prepareRun os dir mins r = Ok i"
    using t by (auto simp: tfExecution_def bnd_def liftres_def attempt_def ret_def throw_def panic_def
        split: res.splits prod.splits)
qed

lemma ExecuteDecryptedRun_prepared:
  assumes "ExecuteDecryptedRun R E C api os dir mins json s = (Ok i, s')"
  obtains d r where "dc_UnmarshalRun C json = Ok d" "ToInternalWithoutDecryption C d = Ok r"
    "prepareRun os dir mins r = Ok i" "r_Behavior r \<noteq> UNKNOWN_BEHAVIOR"
proof -
  from assms obtain d r s1 where d: "dc_UnmarshalRun C json = Ok d" "ToInternalWithoutDecryption C d = Ok r"
      "ExecuteRun R E os (NewSingleRunWorkerWithApi dir mins api) r s1 = (Ok i, s')"
    by (auto simp: ExecuteDecryptedRun_def bnd_def wrap_err_def attempt_def liftres_def ret_def throw_def panic_def
        split: res.splits prod.splits)
  with ExecuteRun_prepared [OF d(3)] show ?thesis by (blast intro: that)
qed

text \<open>
  C15: the same holds of a run that the controller hands over as decrypted JSON: once
  \<^verbatim>\<open>ExecuteDecryptedRun\<close> has set it up, its observer sends progressing live updates and exactly one
  final update.
\<close>

theorem single_run_reported:
  assumes "ExecuteDecryptedRun R E C api os dir mins json s = (Ok i, s')"
    and "dc_UnmarshalRun C json = Ok d" "ToInternalWithoutDecryption C d = Ok r"
    and "(sw_step \<lparr>sr_http = E, sr_worker = NewSingleRunWorkerWithApi dir mins api, sr_retrier = R, sr_env = env,
       sr_app = app, sr_run = r, sr_start = i\<rparr>)\<^sup>*\<^sup>* (watch_init (snd i) a) w" "w_finished w"
  shows "sorted_wrt steps_le (map update_status (w_updates w)) \<and>
    (\<exists>us st. w_updates w = us @ [FinalUpdate st] \<and>
      (\<forall>u \<in> set us. \<exists>r. u = LiveUpdate r \<and> \<not> isTerminalState (run_Status r)) \<and>
      (if w_abortRequested w then run_Status st = ABORTED
       else if w_willCrash w then run_Status st = IN_PROGRESS
       else if r_IsAsync r then run_Status st \<in> {IN_PROGRESS, FAILED}
       else run_Status st = FAILED \<or>
         run_Status st = SUCCEEDED \<and> list_all (\<lambda>s. step_Status s = SUCCEEDED) (run_Steps st)))"
proof -
  have p: "prepareRun os dir mins r = Ok i" "r_Behavior r \<noteq> UNKNOWN_BEHAVIOR"
    using ExecuteDecryptedRun_prepared [OF assms(1)] assms(2,3) by (metis res.inject(1))+
  let ?j = "\<lparr>sr_http = E, sr_worker = NewSingleRunWorkerWithApi dir mins api, sr_retrier = R, sr_env = env,
       sr_app = app, sr_run = r, sr_start = i\<rparr>"
  have "single_run_ok ?j"
    using prepareRun_start [of os dir mins r "fst i" "snd i"] p
    by (simp add: single_run_ok_def NewSingleRunWorkerWithApi_def)
  then have "watch_reachable (run_job E api R env app r i) a w"
    using assms(4) by (simp add: watch_reachable_def sw_step_eq polled_job_def NewSingleRunWorkerWithApi_def)
  with updates_sorted [OF p(1) this] final_update [OF p(2,1) this assms(5)] show ?thesis by blast
qed

text \<open>The sample run, handed over as JSON, and a runner whose server refuses the registration.\<close>

lemma sample_decrypted:
  "ToInternalWithoutDecryption (sample_codec ''DETECT'') (sample_details ''DETECT'') = Ok sample_run"
  by (simp add: sample_run_def runDTOToInternal_def ToInternalWithoutDecryption_def dto_to_run_def DetermineBehavior_def
      behaviors_def sample_codec_def sample_details_def toInternalVariableMap_def decryptedVariableMap_def)

lemma sample_executed:
  assumes "prepareRun (sample_os None None) ''w'' 60 sample_run = Ok i"
  shows "\<exists>s'. ExecuteDecryptedRun sample_retrier (sample_http 500 []) (sample_codec ''DETECT'') sample_api (sample_os None None)
     ''w'' 60 ''{}'' sample_api_state = (Ok i, s')"
proof -
  obtain t where "behavior_str (r_Behavior sample_run) = Ok t"
    using dto_to_run_behavior [OF sample_run] by (cases "r_Behavior sample_run") simp_all
  then show ?thesis
    using assms sample_decrypted
    by (simp add: ExecuteDecryptedRun_def ExecuteRun_eq tfExecution_def bnd_def wrap_err_def attempt_def liftres_def
        ret_def SetRunToken_def modify_def sample_os_def sample_codec_def)
qed

theorem single_run_reported_witness:
  "\<exists>j w us st. (sw_step j)\<^sup>*\<^sup>* (watch_init (snd (sr_start j)) sample_api_state) w \<and>
    w_updates w = us @ [FinalUpdate st] \<and> sorted_wrt steps_le (map update_status (w_updates w))"
proof -
  obtain i where i: "prepareRun (sample_os None None) ''w'' 60 sample_run = Ok i" and log: "ri_logOpened (fst i)"
    using sample_prepared by blast
  from sample_executed [OF i] obtain s' where e: "ExecuteDecryptedRun sample_retrier (sample_http 500 [])
     (sample_codec ''DETECT'') sample_api (sample_os None None) ''w'' 60 ''{}'' sample_api_state = (Ok i, s')" ..
  have u: "dc_UnmarshalRun (sample_codec ''DETECT'') ''{}'' = Ok (sample_details ''DETECT'')" by (simp add: sample_codec_def)
  have fr: "fresh (snd i)" "ri_asyncRun (fst i) = r_IsAsync sample_run"
    using prepareRun_start [of _ _ _ _ "fst i" "snd i"] i by simp_all
  let ?j = "\<lparr>sr_http = sample_http 500 [], sr_worker = NewSingleRunWorkerWithApi ''w'' 60 sample_api,
    sr_retrier = sample_retrier, sr_env = sample_env, sr_app = sample_app, sr_run = sample_run, sr_start = i\<rparr>"
  have "single_run_ok ?j"
    using fr dto_to_run_behavior [OF sample_run] by (simp add: single_run_ok_def NewSingleRunWorkerWithApi_def)
  then have st: "sw_step ?j = watch_step (sample_job i)"
    by (simp add: sw_step_eq polled_job_def NewSingleRunWorkerWithApi_def)
  from sample_reachable [OF fr(1) log] obtain w where
    w: "(sw_step ?j)\<^sup>*\<^sup>* (watch_init (snd i) sample_api_state) w" "w_finished w"
    by (auto simp: watch_reachable_def st)
  from single_run_reported [OF e u sample_decrypted w] obtain us st where
    "w_updates w = us @ [FinalUpdate st]" "sorted_wrt steps_le (map update_status (w_updates w))" by blast
  with w(1) show ?thesis by (intro exI [of _ ?j] exI [of _ w]) auto
qed

section \<open>Fetching and setting up\<close>

text \<open>
  After a turn in which the worker executed a run, the run's token is gone, so the next fetch
  presents the configured credentials.
\<close>

lemma executed_run_clears_token:
  assumes "worker_turn TokWork fetch execute s = (Ok (TokDone, True), s')"
  shows "as_runToken s' = None"
  using assms
  by (auto simp: worker_turn_def attempt_def bnd_def ret_def panic_def ClearRunToken_def modify_def
      handleFetchRunError_def split: prod.splits res.splits go_error.splits if_splits)

lemma fetch_token_errors:
  "handleFetchRunError e \<in> {TokNoRun, TokFailed}"
  by (auto simp: handleFetchRunError_def split: go_error.splits)

text \<open>
  When the coordinator answers the request for a run with 404 or 409, the worker reports that
  there is no run; with any other status but 200 and 201, that it failed. It executes nothing and goes on.
\<close>

lemma fetch_status_decides_token:
  assumes "FetchRunDetails E C api pf s = (x, s1)"
    and "he_NewRequest E (EPGetRun (cl_baseURL (ra_client api)) @ ''/create?forRunnerUuid='' @ ra_rid api) = None"
    and "he_Do E (as_sent s1) = Inr resp" "resp_Status resp \<notin> {200, 201}"
  shows "worker_turn TokWork (FetchRunDetails E C api pf) execute s =
    (Ok (if resp_Status resp \<in> {404, 409} then TokNoRun else TokFailed, True), s1)"
proof -
  let ?c = "(ra_client api)\<lparr>cl_nodeID := ra_rid api @ ''-'' @ pf\<rparr>"
  obtain req sh where h: "setHeaders E ?c \<lparr>req_Method = ''POST'', req_Url = EPGetRun (cl_baseURL ?c) @ ''/create?forRunnerUuid='' @ ra_rid api,
      req_Headers = [], req_Body = []\<rparr> s = (Ok req, sh)"
    using setHeaders_returns by blast
  have s1: "as_sent s1 = as_sent sh @ [req]" "x = Err (StatusError (resp_Status resp))"
    using assms h
    by (auto simp: FetchRunDetails_def FetchRun_def bnd_def http_NewRequest_def ret_def http_Do_def Let_def throw_def
        liftres_def wrap_err_def attempt_def SetRunToken_def modify_def ReadAll_def
        split: sum.splits if_splits option.splits res.splits prod.splits)
  then show ?thesis
    using assms(1) by (simp add: worker_turn_def attempt_def handleFetchRunError_def ret_def)
qed



text \<open>
  A single run whose working directory cannot be created ends with an error, but no request is
  sent: the server is not told that the run failed.
\<close>

lemma workdir_failure_unreported:
  assumes "dc_UnmarshalRun C json = Ok d" "ToInternalWithoutDecryption C d = Ok r" "wos_MkdirAll os dir = Err e"
  shows "\<exists>s'. ExecuteDecryptedRun R E C api os dir mins json s =
    (Err (Wrapped ''failed to create working directory: '' e ''''), s') \<and> as_sent s' = as_sent s"
proof -
  have "r_Behavior r \<noteq> UNKNOWN_BEHAVIOR"
    using assms(2) by (auto simp: ToInternalWithoutDecryption_def dest: dto_to_run_behavior)
  then have "\<exists>t. behavior_str (r_Behavior r) = Ok t" by (cases "r_Behavior r") simp_all
  then show ?thesis
    using assms
    by (auto simp: ExecuteDecryptedRun_def ExecuteRun_def bnd_def wrap_err_def attempt_def liftres_def ret_def
        throw_def SetRunToken_def modify_def NewSingleRunWorkerWithApi_def)
qed

section \<open>The manager\<close>

text \<open>
  C19: as long as the manager runs there is exactly one token, in one of the channels, at the worker
  or with one goroutine: so at most one run is executed, and no send ever blocks.
\<close>

theorem exactly_one_token:
  assumes "any_step\<^sup>*\<^sup>* manager_init m"
  shows "(if m_workerIn m = None then 0 else 1) + (if m_managerIn m = None then 0 else 1) +
    (if m_worker m \<in> {Waiting, Terminated} then 0 else 1) + length (m_handouts m) =
    (if m_running m then 1 else (0::nat))"
proof -
  from manager_reachable [OF assms] obtain sd late p where m: "m = place sd late p" by (auto simp: manager_ok_def)
  show ?thesis by (cases p) (simp_all add: m place_def)
qed

theorem exactly_one_token_witness:
  "(if m_workerIn manager_init = None then 0 else 1) + (if m_managerIn manager_init = None then 0 else 1) +
    (if m_worker manager_init \<in> {Waiting, Terminated} then 0 else 1) + length (m_handouts manager_init) = (1::nat)"
  using exactly_one_token [OF rtranclp.rtrancl_refl] by (simp add: manager_init_def)

text \<open>
  C20: once the manager was told to stop, at most one more run begins (one whose token had already
  been handed out), and after at most twelve steps of the processes the manager's loop has ended.
\<close>

theorem shutdown_ends:
  assumes "any_step\<^sup>*\<^sup>* manager_init m" "m_shutdown m" "(manager_step ^^ n) m m'"
  shows "n \<le> 12 \<and> m_startedLate m' \<le> 1 \<and> ((\<nexists>m''. manager_step m' m'') \<longleftrightarrow> \<not> m_running m')"
proof -
  from manager_reachable [OF assms(1)] assms(2) obtain late p where
    m: "m = place True late p" "position_ok True late p" by (auto simp: manager_ok_def)
  from shutdown_steps [OF _ m(2), of n m'] assms(3) m(1) obtain late' p' where
    m': "m' = place True late' p'" "position_ok True late' p'" "(token_step True ^^ n) p p'" by auto
  have "token_rank p \<le> 12" by (cases p rule: token_rank.cases) simp_all
  with shutdown.steps_bounded [OF m'(3)] have "n \<le> 12" by simp
  moreover have "late' \<le> 1" using m'(2) by (auto simp: position_ok_def split: if_splits)
  moreover have "(\<nexists>m''. manager_step m' m'') \<longleftrightarrow> p' = Returned"
  proof
    assume "p' = Returned"
    then show "\<nexists>m''. manager_step m' m''"
      using token_simulation [of True late' p'] m'(1,2) by (auto elim: token_stepE)
  qed (use token_moves [OF m'(2)] m'(1) in blast)
  ultimately show ?thesis using m'(1) by simp
qed

theorem shutdown_ends_witness:
  "m_startedLate (manager_Stop manager_init) \<le> 1 \<and> (\<exists>m. manager_step (manager_Stop manager_init) m)"
proof -
  have "any_step manager_init (manager_Stop manager_init)" by (simp add: any_step_def manager_init_def)
  then have r: "any_step\<^sup>*\<^sup>* manager_init (manager_Stop manager_init)" by (rule r_into_rtranclp)
  have z: "(manager_step ^^ 0) (manager_Stop manager_init) (manager_Stop manager_init)" by simp
  show ?thesis using shutdown_ends [OF r _ z] by (simp add: manager_Stop_def manager_init_def)
qed

text \<open>
  C21: the manager never deadlocks: while its loop runs, some process can make a step.
\<close>

theorem manager_not_stuck:
  assumes "any_step\<^sup>*\<^sup>* manager_init m" "m_running m"
  shows "\<exists>m'. manager_step m m'"
  using manager_reachable [OF assms(1)] assms(2) token_moves by (auto simp: manager_ok_def)

theorem manager_not_stuck_witness: "\<exists>m'. manager_step manager_init m'"
  by (rule manager_not_stuck) (simp_all add: manager_init_def)

text \<open>
  C38: the processes of the manager, with their two channels and goroutines, are a single token that
  travels: every state they reach is a position of that token, and their steps from it are exactly the
  moves of the token, each counting a run that begins after the shutdown.
\<close>

theorem manager_refines_token_machine:
  assumes "any_step\<^sup>*\<^sup>* manager_init m"
  shows "\<exists>sd late p. m = place sd late p \<and> (\<forall>m'. manager_step m m' \<longleftrightarrow>
    (\<exists>p'. token_step sd p p' \<and> m' = place sd (late_after sd late p) p'))"
proof -
  from manager_reachable [OF assms] obtain sd late p where m: "m = place sd late p" "position_ok sd late p"
    by (auto simp: manager_ok_def)
  have "manager_step m m' \<longleftrightarrow> (\<exists>p'. token_step sd p p' \<and> m' = place sd (late_after sd late p) p')" for m'
    using token_simulation [of sd late p m'] token_implemented m by blast
  then show ?thesis using m(1) by blast
qed

theorem manager_refines_token_machine_witness:
  "\<exists>sd late p. manager_init = place sd late p \<and> (\<forall>m'. manager_step manager_init m' \<longleftrightarrow>
    (\<exists>p'. token_step sd p p' \<and> m' = place sd (late_after sd late p) p'))"
  by (rule manager_refines_token_machine) simp

end
