(* ===== verification/ControllerConfig.thy ===== *)
theory ControllerConfig
  imports MeshapiClient
begin

text \<open>
  The configuration of the run controller, \<^verbatim>\<open>run-controller/controller/config.go\<close>.

  Reading and decoding the YAML file, the environment and \<^verbatim>\<open>url.Parse\<close> are parameters (\<open>config_env\<close>).
  \<^verbatim>\<open>log.Fatalf\<close> ends the process and is a panic here. \<^verbatim>\<open>validateConfig\<close> ranges over a Go map, in an
  order that is not fixed; the model takes the order of the association list, which decides only which
  of several invalid implementations is named, and in which order the start-up log has them.
\<close>

section \<open>Names\<close>

definition ctl_defaultConfigFile :: string where [simp]: "ctl_defaultConfigFile = ''runner-config.yml''"
definition ctl_envConfigFile :: string where [simp]: "ctl_envConfigFile = ''RUNCONTROLLER_CONFIG_FILE''"
definition ctl_envApiUrl :: string where [simp]: "ctl_envApiUrl = ''RUNNER_API_URL''"
definition ctl_envApiClientId :: string where [simp]: "ctl_envApiClientId = ''RUNNER_API_CLIENT_ID''"
definition ctl_envApiClientSecret :: string where [simp]: "ctl_envApiClientSecret = ''RUNNER_API_CLIENT_SECRET''"

section \<open>Configuration\<close>

record keycloak_wif_config =
  kw_Url :: string
  kw_Realm :: string
  kw_ClientId :: string
  kw_ClientSecret :: string
  kw_TokenLifetimeMinutes :: int

definition WifIssuerKubernetes :: string where "WifIssuerKubernetes = ''kubernetes''"
definition WifIssuerKeycloak :: string where "WifIssuerKeycloak = ''keycloak''"
definition WifIssuerOff :: string where "WifIssuerOff = ''off''"

record wif_config =
  wif_Issuer :: string
  wif_Keycloak :: "keycloak_wif_config option"

definition wif_issuer :: "wif_config \<Rightarrow> string" where
  "wif_issuer c = cmp_or (wif_Issuer c) WifIssuerKubernetes"

definition keycloak_issuer :: "keycloak_wif_config \<Rightarrow> string" where
  "keycloak_issuer c = kw_Url c @ ''/realms/'' @ kw_Realm c"

record api_config =
  ac_Url :: string
  ac_Username :: string
  ac_Password :: string
  ac_ClientId :: string
  ac_ClientSecret :: string

definition api_NewAuthProvider :: "api_config \<Rightarrow> string \<Rightarrow> auth_provider" where
  "api_NewAuthProvider c fallbackURL =
     (let url = (if ac_Url c = [] then fallbackURL else ac_Url c)
      in if ac_ClientId c \<noteq> [] \<and> ac_ClientSecret c \<noteq> []
         then NewApiKeyAuth url (ac_ClientId c) (ac_ClientSecret c)
         else BasicAuth (ac_Username c) (ac_Password c))"

record resource_spec =
  rsp_Cpu :: string
  rsp_Memory :: string

record resources_config =
  res_Requests :: resource_spec
  res_Limits :: resource_spec

record toleration =
  tol_Key :: string
  tol_Operator :: string
  tol_Value :: string
  tol_Effect :: string
  tol_Seconds :: "int option"

text \<open>The sources of an extra volume: the pointers of \<^verbatim>\<open>ExtraVolume\<close>, of which any may be set.\<close>

record extra_volume =
  ev_Name :: string
  ev_ConfigMap :: "string option"
  ev_Secret :: "string option"
  ev_EmptyDir :: "string option"

record volume_mount =
  vm_Name :: string
  vm_MountPath :: string
  vm_ReadOnly :: bool

record job_spec_template =
  js_Image :: string
  js_Command :: "string list"
  js_Args :: "string list"
  js_Env :: "(string \<times> string) list"
  js_Resources :: resources_config
  js_ExtraVolumes :: "extra_volume list"
  js_ExtraVolumeMounts :: "volume_mount list"

record controller_config =
  cc_Namespace :: string
  cc_ImagePullSecrets :: "string list"
  cc_PollingIntervalSeconds :: int
  cc_MaxConcurrentJobs :: int
  cc_Api :: api_config
  cc_Uuid :: string
  cc_OwnedByWorkspace :: string
  cc_DisplayName :: string
  cc_PublicKey :: string
  cc_PrivateKey :: string
  cc_Tolerations :: "toleration list"
  cc_NodeSelector :: "(string \<times> string) list"
  cc_Implementations :: "(string \<times> job_spec_template) list"
  cc_Wif :: wif_config

record config_env =
  ce_Getenv :: "string \<Rightarrow> string"
  ce_ReadFile :: "string \<Rightarrow> string res"
  ce_Yaml :: "string \<Rightarrow> controller_config res"
  ce_ParseUrl :: "string \<Rightarrow> (string \<times> string) option"

section \<open>Validation\<close>

definition DefaultMaxConcurrentJobs :: int where "DefaultMaxConcurrentJobs = 20"
definition DefaultWifTokenLifetimeMinutes :: int where "DefaultWifTokenLifetimeMinutes = 90"

definition applyApiKeyEnvOverrides :: "config_env \<Rightarrow> controller_config \<Rightarrow> controller_config" where
  "applyApiKeyEnvOverrides E c =
     (let clientId = ce_Getenv E ctl_envApiClientId;
          clientSecret = ce_Getenv E ctl_envApiClientSecret;
          c1 = (if clientId \<noteq> [] then c\<lparr>cc_Api := (cc_Api c)\<lparr>ac_ClientId := clientId\<rparr>\<rparr> else c)
      in if clientSecret \<noteq> [] then c1\<lparr>cc_Api := (cc_Api c1)\<lparr>ac_ClientSecret := clientSecret\<rparr>\<rparr> else c1)"

definition applyKeycloakWifDefaults :: "keycloak_wif_config option \<Rightarrow> keycloak_wif_config option" where
  "applyKeycloakWifDefaults config =
     map_option (\<lambda>c. c\<lparr>kw_Url := TrimSuffix (kw_Url c) ''/'',
       kw_TokenLifetimeMinutes := (if kw_TokenLifetimeMinutes c \<noteq> 0 then kw_TokenLifetimeMinutes c
                                   else DefaultWifTokenLifetimeMinutes)\<rparr>) config"

text \<open>A chain of checks: the first that fails gives the error.\<close>

definition check :: "bool \<Rightarrow> string \<Rightarrow> unit res" where
  "check ok m = (if ok then Ok () else Err (ErrorString m))"

fun all_ok :: "unit res list \<Rightarrow> unit res" where
  "all_ok [] = Ok ()"
| "all_ok (r # rs) = (case r of Ok _ \<Rightarrow> all_ok rs | e \<Rightarrow> e)"

definition validateKeycloakWif :: "config_env \<Rightarrow> keycloak_wif_config \<Rightarrow> unit res" where
  "validateKeycloakWif E c =
     all_ok
       [check (case ce_ParseUrl E (kw_Url c) of None \<Rightarrow> False | Some (scheme, host) \<Rightarrow> scheme = ''https'' \<and> host \<noteq> [])
          ''workloadIdentityFederation.keycloak.url must be an https URL'',
        check (kw_Realm c \<noteq> []) ''workloadIdentityFederation.keycloak.realm is required'',
        check (\<not> (kw_ClientId c = [] \<or> kw_ClientSecret c = []))
          ''workloadIdentityFederation.keycloak.clientId and clientSecret are required'',
        check (\<not> kw_TokenLifetimeMinutes c < 0)
          ''workloadIdentityFederation.keycloak.tokenLifetimeMinutes must be positive'']"

definition validateApiAuth :: "api_config \<Rightarrow> string \<Rightarrow> unit res" where
  "validateApiAuth c ctx =
     (if (ac_ClientId c \<noteq> [] \<and> ac_ClientSecret c \<noteq> []) \<or> (ac_Username c \<noteq> [] \<and> ac_Password c \<noteq> []) then Ok ()
      else if ac_ClientId c \<noteq> [] \<or> ac_ClientSecret c \<noteq> []
      then (if ac_ClientId c = [] then Err (ErrorString (ctx @ ''.clientId is required when using API key auth''))
            else Err (ErrorString (ctx @ ''.clientSecret is required when using API key auth'')))
      else if ac_Username c \<noteq> [] \<or> ac_Password c \<noteq> []
      then (if ac_Username c = [] then Err (ErrorString (ctx @ ''.username is required when using Basic auth''))
            else Err (ErrorString (ctx @ ''.password is required when using Basic auth'')))
      else Err (ErrorString (ctx @ '': no authentication configured; set either username/password (Basic auth) or clientId/clientSecret (API key auth)'')))"

definition isValidHandlerImplementationType :: "string \<Rightarrow> bool" where
  "isValidHandlerImplementationType t =
     (t \<in> {''TERRAFORM'', ''GITHUB_WORKFLOW'', ''GITLAB_PIPELINE'', ''AZURE_DEVOPS_PIPELINE'', ''MANUAL''})"

definition validateWorkloadIdentityFederation :: "config_env \<Rightarrow> wif_config \<Rightarrow> unit res" where
  "validateWorkloadIdentityFederation E c =
     (if wif_issuer c = WifIssuerKeycloak
      then (case wif_Keycloak c of
              None \<Rightarrow> Err (ErrorString ''workloadIdentityFederation.keycloak is required with issuer keycloak'')
            | Some k \<Rightarrow> validateKeycloakWif E k)
      else if wif_issuer c = WifIssuerKubernetes \<or> wif_issuer c = WifIssuerOff
      then check (wif_Keycloak c = None)
             (''workloadIdentityFederation.keycloak is only valid with issuer keycloak, not '' @ wif_issuer c)
      else Err (ErrorString ''workloadIdentityFederation.issuer must be kubernetes, keycloak or off''))"

definition validateImplementation :: "string \<times> job_spec_template \<Rightarrow> unit res" where
  "validateImplementation kv =
     all_ok
       [check (isValidHandlerImplementationType (fst kv))
          (''implementations key '' @ quoted (fst kv) @ '' is invalid; valid values are: TERRAFORM, GITHUB_WORKFLOW, GITLAB_PIPELINE, AZURE_DEVOPS_PIPELINE, MANUAL''),
        check (js_Image (snd kv) \<noteq> []) (''implementations.'' @ fst kv @ ''.image is required'')]"

definition validateConfig :: "config_env \<Rightarrow> controller_config \<Rightarrow> unit res" where
  "validateConfig E c =
     all_ok
       ([check (ac_Url (cc_Api c) \<noteq> []) ''api.url is required'',
         validateApiAuth (cc_Api c) ''api'',
         check (cc_Uuid c \<noteq> []) ''uuid is required'',
         check (cc_OwnedByWorkspace c \<noteq> []) ''ownedByWorkspace is required'',
         check (cc_DisplayName c \<noteq> []) ''displayName is required'',
         check (cc_PublicKey c \<noteq> []) ''crypto.publicKey is required'',
         check (cc_PrivateKey c \<noteq> []) ''crypto.privateKey is required'',
         check (cc_Namespace c \<noteq> []) ''namespace is required'',
         check (cc_Implementations c \<noteq> [])
           (''at least one implementation handler must be configured under '' @ quoted ''implementations'')]
        @ map validateImplementation (cc_Implementations c)
        @ [validateWorkloadIdentityFederation E (cc_Wif c)])"

section \<open>Reading\<close>

definition ReadInYmlConfig :: "config_env \<Rightarrow> string \<Rightarrow> controller_config res" where
  "ReadInYmlConfig E file =
     (case ce_ReadFile E file of Ok data \<Rightarrow> ce_Yaml E data | Err e \<Rightarrow> Err e | Panic m \<Rightarrow> Panic m)"

definition read_overrides :: "config_env \<Rightarrow> controller_config \<Rightarrow> controller_config" where
  "read_overrides E c =
     (let c1 = (if cc_MaxConcurrentJobs c = 0 then c\<lparr>cc_MaxConcurrentJobs := DefaultMaxConcurrentJobs\<rparr> else c);
          c2 = c1\<lparr>cc_Api := (cc_Api c1)\<lparr>ac_Url := cmp_or (ce_Getenv E ctl_envApiUrl) (ac_Url (cc_Api c1))\<rparr>\<rparr>;
          c3 = applyApiKeyEnvOverrides E c2
      in c3\<lparr>cc_Wif := (cc_Wif c3)\<lparr>wif_Keycloak := applyKeycloakWifDefaults (wif_Keycloak (cc_Wif c3))\<rparr>\<rparr>)"

definition ReadConfig :: "config_env \<Rightarrow> controller_config res" where
  "ReadConfig E =
     (let configPath = cmp_or (ce_Getenv E ctl_envConfigFile) ctl_defaultConfigFile
      in case ReadInYmlConfig E configPath of
           Err e \<Rightarrow> Panic (''Failed to read config file '' @ configPath @ '': '' @ error_text e)
         | Panic m \<Rightarrow> Panic m
         | Ok c \<Rightarrow>
             (case validateConfig E (read_overrides E c) of
                Ok _ \<Rightarrow> Ok (read_overrides E c)
              | Err e \<Rightarrow> Panic (''Invalid configuration: '' @ error_text e)
              | Panic m \<Rightarrow> Panic m))"

section \<open>The start-up log\<close>

text \<open>
  What \<^verbatim>\<open>ReadConfig\<close> writes to the log, one element for each message (without the prefix of the logger
  and the end of the line), and the last words of \<^verbatim>\<open>log.Fatalf\<close>.
\<close>

definition override_log :: "config_env \<Rightarrow> string list" where
  "override_log E =
     (let clientId = ce_Getenv E ctl_envApiClientId;
          clientSecret = ce_Getenv E ctl_envApiClientSecret
      in (if (clientId \<noteq> []) \<noteq> (clientSecret \<noteq> [])
          then [''Warning: only one of '' @ ctl_envApiClientId @ '' / '' @ ctl_envApiClientSecret @
                '' is set in the environment; API key auth requires both. This is most likely a mistake.'']
          else []) @
         (if clientId \<noteq> [] then [''Using '' @ ctl_envApiClientId @ '' from environment''] else []) @
         (if clientSecret \<noteq> [] then [''Using '' @ ctl_envApiClientSecret @ '' from environment''] else []))"

definition log_rule :: string where
  "log_rule = replicate 68 (CHR ''-'')"

definition log_implementation :: "string \<times> job_spec_template \<Rightarrow> string list" where
  "log_implementation kv =
     [''  '' @ fst kv @ '': image='' @ js_Image (snd kv)] @
     (if js_Env (snd kv) \<noteq> [] then ['' ('' @ itoa (int (length (js_Env (snd kv)))) @ '' custom env vars)''] else []) @
     [[]]"

definition logConfig :: "controller_config \<Rightarrow> string list" where
  "logConfig c =
     [log_rule, ''Kubernetes namespace: '' @ cc_Namespace c] @
     (if cc_ImagePullSecrets c \<noteq> [] then [''Image pull secrets: ['' @ Join (cc_ImagePullSecrets c) '' '' @ '']''] else []) @
     [''API URL: '' @ ac_Url (cc_Api c),
      ''API Username: '' @ ac_Username (cc_Api c),
      ''Controller UUID: '' @ cc_Uuid c,
      (if cc_MaxConcurrentJobs c < 0 then ''Max concurrent jobs: unlimited''
       else ''Max concurrent jobs: '' @ itoa (cc_MaxConcurrentJobs c)),
      ''Configured implementations: '' @ itoa (int (length (cc_Implementations c)))] @
     concat (map log_implementation (cc_Implementations c)) @
     [''Workload identity issuer: '' @ wif_issuer (cc_Wif c)] @
     (case wif_Keycloak (cc_Wif c) of
        None \<Rightarrow> []
      | Some wif \<Rightarrow> [''  keycloak: issuer='' @ keycloak_issuer wif @ '' lifetime='' @ itoa (kw_TokenLifetimeMinutes wif) @ ''m'']) @
     [log_rule]"

definition startup_log :: "config_env \<Rightarrow> string list" where
  "startup_log E =
     (let configPath = cmp_or (ce_Getenv E ctl_envConfigFile) ctl_defaultConfigFile
      in case ReadInYmlConfig E configPath of
           Err e \<Rightarrow> [''Failed to read config file '' @ configPath @ '': '' @ error_text e]
         | Panic m \<Rightarrow> []
         | Ok c \<Rightarrow>
             override_log E @
             (case validateConfig E (read_overrides E c) of
                Ok _ \<Rightarrow> logConfig (read_overrides E c)
              | Err e \<Rightarrow> [''Invalid configuration: '' @ error_text e]
              | Panic m \<Rightarrow> []))"

section \<open>Lemmas\<close>

lemma check_Ok [simp]: "check b m = Ok u \<longleftrightarrow> b"
  by (simp add: check_def)

lemma all_ok_Ok: "all_ok rs = Ok () \<longleftrightarrow> (\<forall>r \<in> set rs. r = Ok ())"
  by (induction rs) (auto split: res.splits)

lemma validateApiAuth_Ok:
  "validateApiAuth c ctx = Ok () \<longleftrightarrow>
    (ac_ClientId c \<noteq> [] \<and> ac_ClientSecret c \<noteq> []) \<or> (ac_Username c \<noteq> [] \<and> ac_Password c \<noteq> [])"
  by (auto simp: validateApiAuth_def)

text \<open>The names a handler can be configured for are those of the implementation types.\<close>

lemma valid_handler_types:
  "isValidHandlerImplementationType t \<longleftrightarrow> (\<exists>i. t = ToRunnerType i \<and> (\<forall>s. i \<noteq> ImplOther s))"
proof
  assume "isValidHandlerImplementationType t"
  then have "t \<in> ToRunnerType ` {ImplTerraform, ImplGitHubWorkflow, ImplGitLabCICD, ImplAzureDevOps, ImplManual}"
    by (auto simp: isValidHandlerImplementationType_def ToRunnerType_def image_def)
  then show "\<exists>i. t = ToRunnerType i \<and> (\<forall>s. i \<noteq> ImplOther s)" by blast
next
  assume "\<exists>i. t = ToRunnerType i \<and> (\<forall>s. i \<noteq> ImplOther s)"
  then obtain i where "t = ToRunnerType i" "\<forall>s. i \<noteq> ImplOther s" by blast
  then show "isValidHandlerImplementationType t"
    by (cases i) (simp_all add: isValidHandlerImplementationType_def ToRunnerType_def)
qed

text \<open>
  A configuration without its secrets: the passwords and client secrets, the private key, and the values
  of the environment variables for the jobs. What is kept is whether a secret is there.
\<close>

definition masked :: "string \<Rightarrow> string" where
  "masked s = (if s = [] then [] else ''*'')"

definition mask_spec :: "job_spec_template \<Rightarrow> job_spec_template" where
  "mask_spec s = s\<lparr>js_Env := map (\<lambda>(k, v). (k, masked v)) (js_Env s)\<rparr>"

definition mask_secrets :: "controller_config \<Rightarrow> controller_config" where
  "mask_secrets c = c
     \<lparr>cc_Api := (cc_Api c)\<lparr>ac_Password := masked (ac_Password (cc_Api c)), ac_ClientSecret := masked (ac_ClientSecret (cc_Api c))\<rparr>,
      cc_PrivateKey := masked (cc_PrivateKey c),
      cc_Implementations := map (\<lambda>(k, s). (k, mask_spec s)) (cc_Implementations c),
      cc_Wif := (cc_Wif c)\<lparr>wif_Keycloak := map_option (\<lambda>k. k\<lparr>kw_ClientSecret := masked (kw_ClientSecret k)\<rparr>) (wif_Keycloak (cc_Wif c))\<rparr>\<rparr>"

lemma masked_simps [simp]: "masked s = [] \<longleftrightarrow> s = []" "masked (masked s) = masked s"
  by (simp_all add: masked_def)

lemma mask_spec_idem [simp]: "mask_spec (mask_spec s) = mask_spec s"
proof -
  have "map ((\<lambda>(k, v). (k, masked v)) \<circ> (\<lambda>(k, v). (k, masked v))) es = map (\<lambda>(k, v). (k, masked v)) es"
    for es :: "(string \<times> string) list"
    by (induction es) auto
  then show ?thesis by (simp add: mask_spec_def)
qed

lemma logConfig_masked: "logConfig (mask_secrets c) = logConfig c"
proof -
  have e: "log_implementation \<circ> (\<lambda>(k, s). (k, mask_spec s)) = log_implementation"
    by (simp add: fun_eq_iff log_implementation_def mask_spec_def)
  show ?thesis
    by (simp add: e logConfig_def mask_secrets_def wif_issuer_def keycloak_issuer_def split: option.splits)
qed

lemma validateConfig_masked: "validateConfig E (mask_secrets c) = validateConfig E c"
proof -
  have e: "validateImplementation \<circ> (\<lambda>(k, s). (k, mask_spec s)) = validateImplementation"
    by (simp add: fun_eq_iff validateImplementation_def mask_spec_def del: all_ok.simps)
  have impls: "map validateImplementation (cc_Implementations (mask_secrets c)) = map validateImplementation (cc_Implementations c)"
    by (simp add: mask_secrets_def e)
  have wif: "validateWorkloadIdentityFederation E (cc_Wif (mask_secrets c)) = validateWorkloadIdentityFederation E (cc_Wif c)"
    by (simp add: validateWorkloadIdentityFederation_def mask_secrets_def wif_issuer_def validateKeycloakWif_def split: option.splits)
  have auth: "validateApiAuth (cc_Api (mask_secrets c)) x = validateApiAuth (cc_Api c) x" for x
    by (simp add: validateApiAuth_def mask_secrets_def)
  have kept: "ac_Url (cc_Api (mask_secrets c)) = ac_Url (cc_Api c)" "cc_Uuid (mask_secrets c) = cc_Uuid c"
    "cc_OwnedByWorkspace (mask_secrets c) = cc_OwnedByWorkspace c" "cc_DisplayName (mask_secrets c) = cc_DisplayName c"
    "cc_PublicKey (mask_secrets c) = cc_PublicKey c" "cc_PrivateKey (mask_secrets c) = [] \<longleftrightarrow> cc_PrivateKey c = []"
    "cc_Namespace (mask_secrets c) = cc_Namespace c" "cc_Implementations (mask_secrets c) = [] \<longleftrightarrow> cc_Implementations c = []"
    by (simp_all add: mask_secrets_def)
  show ?thesis unfolding validateConfig_def impls wif auth kept by (rule refl)
qed

text \<open>Two environments in which only the client secret differs, if both have one.\<close>

definition same_but_secret :: "config_env \<Rightarrow> config_env \<Rightarrow> bool" where
  "same_but_secret E E' \<longleftrightarrow> ce_ParseUrl E = ce_ParseUrl E' \<and>
     (\<forall>n. n \<noteq> ctl_envApiClientSecret \<longrightarrow> ce_Getenv E n = ce_Getenv E' n) \<and>
     masked (ce_Getenv E ctl_envApiClientSecret) = masked (ce_Getenv E' ctl_envApiClientSecret)"

lemma validateConfig_same:
  assumes "same_but_secret E E'"
  shows "validateConfig E c = validateConfig E' c"
proof -
  have k: "validateKeycloakWif E k = validateKeycloakWif E' k" for k
    using assms by (simp add: same_but_secret_def validateKeycloakWif_def del: all_ok.simps)
  have w: "validateWorkloadIdentityFederation E w = validateWorkloadIdentityFederation E' w" for w
    by (simp add: validateWorkloadIdentityFederation_def k split: option.splits)
  show ?thesis unfolding validateConfig_def w by (rule refl)
qed

lemma override_log_same:
  assumes "same_but_secret E E'"
  shows "override_log E = override_log E'"
proof -
  have "ce_Getenv E ctl_envApiClientId = ce_Getenv E' ctl_envApiClientId"
    "ce_Getenv E ctl_envApiClientSecret = [] \<longleftrightarrow> ce_Getenv E' ctl_envApiClientSecret = []"
    using assms by (auto simp: same_but_secret_def masked_def split: if_splits)
  then show ?thesis by (simp add: override_log_def Let_def)
qed

lemma read_overrides_masked:
  assumes "same_but_secret E E'" "mask_secrets c = mask_secrets c'"
  shows "mask_secrets (read_overrides E c) = mask_secrets (read_overrides E' c')"
proof -
  have specs: "map ((\<lambda>(k, s). (k, mask_spec s)) \<circ> (\<lambda>(k, s). (k, mask_spec s))) is = map (\<lambda>(k, s). (k, mask_spec s)) is"
    for "is" :: "(string \<times> job_spec_template) list"
    by (induction "is") auto
  have secret: "mask_secrets (read_overrides E c) = mask_secrets (read_overrides E' c)" for c
  proof -
    have env: "ce_Getenv E ctl_envApiUrl = ce_Getenv E' ctl_envApiUrl" "ce_Getenv E ctl_envApiClientId = ce_Getenv E' ctl_envApiClientId"
      "ce_Getenv E ctl_envApiClientSecret = [] \<longleftrightarrow> ce_Getenv E' ctl_envApiClientSecret = []"
      using assms(1) by (auto simp: same_but_secret_def masked_def split: if_splits)
    show ?thesis
      using env
      by (cases "ce_Getenv E' ctl_envApiClientSecret = []"; cases "ce_Getenv E' ctl_envApiClientId = []"; cases "cc_MaxConcurrentJobs c = 0")
        (simp_all add: mask_secrets_def read_overrides_def applyApiKeyEnvOverrides_def Let_def masked_def)
  qed
  have kept: "mask_secrets (read_overrides E' (mask_secrets c)) = mask_secrets (read_overrides E' c)" for c
    by (cases "cc_MaxConcurrentJobs c = 0"; cases "wif_Keycloak (cc_Wif c)")
      (simp_all add: mask_secrets_def read_overrides_def applyApiKeyEnvOverrides_def applyKeycloakWifDefaults_def Let_def specs)
  show ?thesis using secret [of c] kept [of c] kept [of c'] assms(2) by simp
qed

lemma default_lifetime: "applyKeycloakWifDefaults x = Some k \<Longrightarrow> kw_TokenLifetimeMinutes k \<noteq> 0"
  by (cases x) (simp_all add: applyKeycloakWifDefaults_def DefaultWifTokenLifetimeMinutes_def split: if_splits, auto)

lemma validateKeycloakWif_Ok:
  "validateKeycloakWif E k = Ok () \<Longrightarrow> kw_Realm k \<noteq> [] \<and> \<not> kw_TokenLifetimeMinutes k < 0"
  unfolding validateKeycloakWif_def all_ok_Ok by simp

end
