(* ===== verification/KeycloakWif.thy ===== *)
theory KeycloakWif
  imports MeshapiClient
begin

text \<open>
  Workload identity tokens from Keycloak, \<^verbatim>\<open>run-controller/keycloakwif/issuer.go\<close> and
  \<^verbatim>\<open>claims.go\<close>: one Keycloak client per token, which is deleted again, and the check of the token's
  claims.

  Keycloak, the clock, the random source and the JSON decoders answer through \<open>kc_env\<close>. A float64
  claim is the text of its number; \<open>ke_Seconds\<close> is the difference of two of them, truncated to an
  integer as the conversion to \<^verbatim>\<open>time.Duration\<close> does. The texts that \<^verbatim>\<open>%q\<close> and \<^verbatim>\<open>%s\<close> make of a string and
  of a duration are parameters.
\<close>

section \<open>The issuer\<close>

definition Audience :: string where "Audience = ''external-platform''"
definition clientIdPrefix :: string where "clientIdPrefix = ''bb-run-''"
definition adminTokenExpiryMargin :: int where "adminTokenExpiryMargin = 30 * second"

record kc_config =
  kc_Url :: string
  kc_Realm :: string
  kc_Issuer :: string
  kc_ClientId :: string
  kc_ClientSecret :: string
  kc_TokenLifetime :: int

record kc_response =
  kr_Status :: int
  kr_Location :: string
  kr_Body :: string

record kc_env =
  ke_NewRequest :: "string \<Rightarrow> string option"
  ke_Do :: "http_request list \<Rightarrow> string + kc_response"
  ke_Now :: "http_request list \<Rightarrow> int"
  ke_Random :: "http_request list \<Rightarrow> nat \<Rightarrow> string + string"
  ke_DecodeToken :: "string \<Rightarrow> string + string \<times> int"
  ke_DecodeScopes :: "string \<Rightarrow> string + string list"
  ke_DecodeError :: "string \<Rightarrow> string \<times> string \<times> string"
  ke_DecodeClaims :: "string \<Rightarrow> (string \<times> any) list option"
  ke_Seconds :: "string \<Rightarrow> string \<Rightarrow> int"
  ke_Quote :: "string \<Rightarrow> string"
  ke_DurationText :: "int \<Rightarrow> string"

record kc_state =
  ks_adminToken :: string
  ks_adminTokenExpiry :: int
  ks_sent :: "http_request list"

type_synonym 'a kc = "(kc_state, 'a) prog"

definition kc_NewRequest :: "kc_env \<Rightarrow> string \<Rightarrow> string \<Rightarrow> string \<Rightarrow> http_request kc" where
  "kc_NewRequest E method target body =
     (case ke_NewRequest E target of
        Some m \<Rightarrow> throw (UrlError m)
      | None \<Rightarrow> ret \<lparr>req_Method = method, req_Url = target, req_Headers = [], req_Body = body\<rparr>)"

definition kc_Do :: "kc_env \<Rightarrow> http_request \<Rightarrow> kc_response kc" where
  "kc_Do E req s =
     (let s1 = s\<lparr>ks_sent := ks_sent s @ [req]\<rparr>
      in (case ke_Do E (ks_sent s1) of Inl m \<Rightarrow> Err (UrlError m) | Inr resp \<Rightarrow> Ok resp, s1))"

definition keycloakError :: "kc_env \<Rightarrow> kc_response \<Rightarrow> string \<Rightarrow> go_error" where
  "keycloakError E resp action =
     (let (e, d, m) = ke_DecodeError E (take 65536 (kr_Body resp));
          detail = TrimSpace (Join [e, d, m] '' '');
          head = action @ '': Keycloak returned HTTP '' @ itoa (kr_Status resp)
      in ErrorString (if detail = [] then head else head @ '': '' @ detail))"

definition randomString :: "kc_env \<Rightarrow> nat \<Rightarrow> string kc" where
  "randomString E n s =
     (case ke_Random E (ks_sent s) n of
        Inl m \<Rightarrow> (Err (ErrorString m), s)
      | Inr bytes \<Rightarrow> (Ok (raw_url_encode bytes), s))"

definition token_form :: "string \<Rightarrow> string \<Rightarrow> string" where
  "token_form clientId clientSecret =
     ''client_id='' @ QueryEscape clientId @ ''&client_secret='' @ QueryEscape clientSecret
     @ ''&grant_type=client_credentials''"

definition token_url :: "kc_config \<Rightarrow> string" where
  "token_url c = kc_Url c @ ''/realms/'' @ PathEscape (kc_Realm c) @ ''/protocol/openid-connect/token''"

definition requestToken :: "kc_env \<Rightarrow> kc_config \<Rightarrow> string \<Rightarrow> string \<Rightarrow> (string \<times> int) kc" where
  "requestToken E c clientId clientSecret =
     bnd (kc_NewRequest E ''POST'' (token_url c) (token_form clientId clientSecret)) (\<lambda>req.
     bnd (kc_Do E (Header_Set ''Content-Type'' ''application/x-www-form-urlencoded'' req)) (\<lambda>resp.
     if kr_Status resp \<noteq> 200 then throw (keycloakError E resp ''token request'')
     else bnd (wrap_err ''token response: '' (liftres (decoded (ke_DecodeToken E (kr_Body resp))))) (\<lambda>(token, expiresIn).
          if token = [] then throw (ErrorString ''token response has no access_token'')
          else ret (token, expiresIn))))"

definition adminAccessToken :: "kc_env \<Rightarrow> kc_config \<Rightarrow> string kc" where
  "adminAccessToken E c s =
     (if ks_adminToken s \<noteq> [] \<and> ke_Now E (ks_sent s) < ks_adminTokenExpiry s then (Ok (ks_adminToken s), s)
      else bnd (wrap_err ''admin login: '' (requestToken E c (kc_ClientId c) (kc_ClientSecret c))) (\<lambda>(token, expiresIn).
           bnd (modify (\<lambda>s. s\<lparr>ks_adminToken := token,
                  ks_adminTokenExpiry := ke_Now E (ks_sent s)
                    + duration (duration (expiresIn * second) - adminTokenExpiryMargin)\<rparr>)) (\<lambda>_.
           ret token)) s)"

definition clientCredentialsToken :: "kc_env \<Rightarrow> kc_config \<Rightarrow> string \<Rightarrow> string \<Rightarrow> string kc" where
  "clientCredentialsToken E c clientId clientSecret =
     bnd (wrap_err (''token for client '' @ clientId @ '': '') (requestToken E c clientId clientSecret))
       (\<lambda>(token, _). ret token)"

section \<open>The admin API\<close>

definition adminUrl :: "kc_config \<Rightarrow> string \<Rightarrow> string" where
  "adminUrl c path = kc_Url c @ ''/admin/realms/'' @ PathEscape (kc_Realm c) @ path"

definition send_headers :: "string \<Rightarrow> bool \<Rightarrow> http_request \<Rightarrow> http_request" where
  "send_headers adminToken has_body req =
     (let req1 = Header_Set ''Authorization'' (''Bearer '' @ adminToken) req
      in if has_body then Header_Set ''Content-Type'' ''application/json'' req1 else req1)"

definition send :: "kc_env \<Rightarrow> string \<Rightarrow> string \<Rightarrow> string \<Rightarrow> any option \<Rightarrow> kc_response kc" where
  "send E adminToken method target body =
     bnd (kc_NewRequest E method target (case body of None \<Rightarrow> [] | Some b \<Rightarrow> json_Marshal b)) (\<lambda>req.
     kc_Do E (send_headers adminToken (body \<noteq> None) req))"

text \<open>The response, once its status is checked; a caller that passes a result decodes the body.\<close>

definition adminRequest :: "kc_env \<Rightarrow> kc_config \<Rightarrow> string \<Rightarrow> string \<Rightarrow> string \<Rightarrow> kc_response kc" where
  "adminRequest E c adminToken method path =
     bnd (send E adminToken method (adminUrl c path) None) (\<lambda>resp.
     if kr_Status resp < 200 \<or> kr_Status resp \<ge> 300
     then throw (keycloakError E resp (method @ '' '' @ hd (split_on CHR ''?'' path)))
     else ret resp)"

definition string_map :: "(string \<times> string) list \<Rightarrow> any" where
  "string_map kvs = JObj (SortedByKeys (map (\<lambda>(k, v). (k, JStr v)) kvs))"

definition hardcodedClaimMapper :: "string \<Rightarrow> string \<Rightarrow> any" where
  "hardcodedClaimMapper claim val =
     JObj (SortedByKeys
       [(''name'', JStr claim), (''protocol'', JStr ''openid-connect''),
        (''protocolMapper'', JStr ''oidc-hardcoded-claim-mapper''),
        (''config'', string_map
           [(''claim.name'', claim), (''claim.value'', val), (''jsonType.label'', ''String''),
            (''access.token.claim'', ''true''), (''id.token.claim'', ''false''),
            (''userinfo.token.claim'', ''false''), (''introspection.token.claim'', ''false'')])])"

text \<open>\<^verbatim>\<open>int(lifetime.Seconds())\<close>: the seconds, rounded towards zero.\<close>

definition lifetime_seconds :: "int \<Rightarrow> int" where
  "lifetime_seconds d = (if d < 0 then - (- d div second) else d div second)"

definition client_representation :: "kc_config \<Rightarrow> string \<Rightarrow> string \<Rightarrow> string \<Rightarrow> any" where
  "client_representation c clientId clientSecret subject =
     JObj (SortedByKeys
       [(''clientId'', JStr clientId), (''enabled'', JBool True), (''protocol'', JStr ''openid-connect''),
        (''publicClient'', JBool False), (''clientAuthenticatorType'', JStr ''client-secret''),
        (''secret'', JStr clientSecret), (''standardFlowEnabled'', JBool False),
        (''implicitFlowEnabled'', JBool False), (''directAccessGrantsEnabled'', JBool False),
        (''serviceAccountsEnabled'', JBool True), (''fullScopeAllowed'', JBool False),
        (''defaultClientScopes'', JArr []), (''optionalClientScopes'', JArr []),
        (''attributes'', string_map
           [(''access.token.lifespan'', itoa (lifetime_seconds (kc_TokenLifetime c))),
            (''client.use.lightweight.access.token.enabled'', ''false'')]),
        (''protocolMappers'', JArr
           [hardcodedClaimMapper ''sub'' subject, hardcodedClaimMapper ''azp'' Audience,
            JObj (SortedByKeys
              [(''name'', JStr ''aud''), (''protocol'', JStr ''openid-connect''),
               (''protocolMapper'', JStr ''oidc-audience-mapper''),
               (''config'', string_map
                  [(''included.custom.audience'', Audience), (''access.token.claim'', ''true''),
                   (''id.token.claim'', ''false''), (''introspection.token.claim'', ''false'')])])])])"

definition location_id :: "string \<Rightarrow> string" where
  "location_id location = last (split_on CHR ''/'' location)"

definition createClient ::
  "kc_env \<Rightarrow> kc_config \<Rightarrow> string \<Rightarrow> string \<Rightarrow> string \<Rightarrow> string \<Rightarrow> string kc" where
  "createClient E c adminToken clientId clientSecret subject =
     bnd (send E adminToken ''POST'' (adminUrl c ''/clients'')
            (Some (client_representation c clientId clientSecret subject))) (\<lambda>resp.
     if kr_Status resp \<noteq> 201 then throw (keycloakError E resp (''create client '' @ clientId))
     else let clid = location_id (kr_Location resp)
          in if clid = []
             then throw (ErrorString (''create client '' @ clientId @ '': Keycloak returned no Location header''))
             else ret clid)"

definition deleteScopes :: "kc_env \<Rightarrow> kc_config \<Rightarrow> string \<Rightarrow> string \<Rightarrow> string list \<Rightarrow> unit kc" where
  "deleteScopes E c adminToken path scopes =
     foldr (\<lambda>scope rest. bnd (adminRequest E c adminToken ''DELETE'' (path @ ''/'' @ PathEscape scope)) (\<lambda>_. rest))
       scopes (ret ())"

definition removeScopesOf :: "kc_env \<Rightarrow> kc_config \<Rightarrow> string \<Rightarrow> string \<Rightarrow> string \<Rightarrow> unit kc" where
  "removeScopesOf E c adminToken clid kind =
     (let path = ''/clients/'' @ PathEscape clid @ ''/'' @ kind
      in bnd (adminRequest E c adminToken ''GET'' path) (\<lambda>resp.
         bnd (liftres (decoded (ke_DecodeScopes E (kr_Body resp)))) (deleteScopes E c adminToken path)))"

definition removeClientScopes :: "kc_env \<Rightarrow> kc_config \<Rightarrow> string \<Rightarrow> string \<Rightarrow> unit kc" where
  "removeClientScopes E c adminToken clid =
     bnd (removeScopesOf E c adminToken clid ''default-client-scopes'') (\<lambda>_.
     removeScopesOf E c adminToken clid ''optional-client-scopes'')"

definition deleteClientIgnoringCancel :: "kc_env \<Rightarrow> kc_config \<Rightarrow> string \<Rightarrow> string \<Rightarrow> unit kc" where
  "deleteClientIgnoringCancel E c adminToken clid =
     attempt (adminRequest E c adminToken ''DELETE'' (''/clients/'' @ PathEscape clid)) (\<lambda>_. ret ())"

section \<open>The claims of a token\<close>

definition allowedClaims :: "string list" where
  "allowedClaims = [''iss'', ''sub'', ''aud'', ''azp'', ''exp'', ''iat'', ''nbf'', ''jti'', ''typ'', ''scope'']"

definition lifetimeTolerance :: int where "lifetimeTolerance = 2 * 60 * second"

definition isOnlyAudience :: "any option \<Rightarrow> bool" where
  "isOnlyAudience aud =
     (case aud of
        Some (JStr a) \<Rightarrow> a = Audience
      | Some (JArr as) \<Rightarrow> length as = 1 \<and> hd as = JStr Audience
      | _ \<Rightarrow> False)"

definition claim_text :: "any option \<Rightarrow> string" where
  "claim_text v = (case v of None \<Rightarrow> ''<nil>'' | Some a \<Rightarrow> sprint_v a)"

definition check_claim :: "(string \<times> any) list \<Rightarrow> string \<Rightarrow> string \<Rightarrow> unit res" where
  "check_claim claims k want =
     (if map_of claims k = Some (JStr want) then Ok ()
      else Err (ErrorString (''token '' @ k @ '' is '' @ claim_text (map_of claims k) @ '', want '' @ want)))"

definition check_lifetime :: "kc_env \<Rightarrow> (string \<times> any) list \<Rightarrow> int \<Rightarrow> unit res" where
  "check_lifetime E claims lifetime =
     (case map_of claims ''exp'' of
        Some (JNum _ exp) \<Rightarrow>
          (case map_of claims ''iat'' of
             Some (JNum _ iat) \<Rightarrow>
               (let issued = duration (ke_Seconds E exp iat * second)
                in if issued < duration (lifetime - lifetimeTolerance) \<or> issued > duration (lifetime + lifetimeTolerance)
                   then Err (ErrorString (''token lifetime is '' @ ke_DurationText E issued
                          @ '', want '' @ ke_DurationText E lifetime))
                   else Ok ())
           | _ \<Rightarrow> Err (ErrorString ''token has no iat claim''))
      | _ \<Rightarrow> Err (ErrorString ''token has no exp claim''))"

text \<open>The program ranges over the claims in any order; the order of the list decides which claim is named.\<close>

definition check_allowed :: "kc_env \<Rightarrow> (string \<times> any) list \<Rightarrow> unit res" where
  "check_allowed E claims =
     (case find (\<lambda>k. k \<notin> set allowedClaims) (map fst claims) of
        Some k \<Rightarrow> Err (ErrorString (''token has the unexpected claim '' @ ke_Quote E k))
      | None \<Rightarrow> Ok ())"

definition token_payload :: "kc_env \<Rightarrow> string \<Rightarrow> (string \<times> any) list res" where
  "token_payload E token =
     (let parts = split_on CHR ''.'' token
      in if length parts \<noteq> 3 then Err (ErrorString ''token is not a JWT'')
         else (case raw_url_decode (parts ! 1) of
                 None \<Rightarrow> Err (ErrorString ''token payload is not base64url'')
               | Some payload \<Rightarrow>
                   (case ke_DecodeClaims E payload of
                      None \<Rightarrow> Err (ErrorString ''token payload is not a JSON object'')
                    | Some claims \<Rightarrow> Ok claims)))"

definition checkClaims :: "kc_env \<Rightarrow> string \<Rightarrow> string \<Rightarrow> string \<Rightarrow> int \<Rightarrow> unit res" where
  "checkClaims E token issuer subject lifetime =
     rbind (token_payload E token) (\<lambda>claims.
     rbind (check_allowed E claims) (\<lambda>_.
     rbind (check_claim claims ''iss'' issuer) (\<lambda>_.
     rbind (check_claim claims ''sub'' subject) (\<lambda>_.
     rbind (check_claim claims ''azp'' Audience) (\<lambda>_.
     rbind (if isOnlyAudience (map_of claims ''aud'') then Ok ()
            else Err (ErrorString (''token aud is '' @ claim_text (map_of claims ''aud'') @ '', want '' @ Audience))) (\<lambda>_.
     check_lifetime E claims lifetime))))))"

section \<open>Issuing\<close>

text \<open>What happens with a client once it exists, before it is deleted.\<close>

definition use_client ::
  "kc_env \<Rightarrow> kc_config \<Rightarrow> string \<Rightarrow> string \<Rightarrow> string \<Rightarrow> string \<Rightarrow> string \<Rightarrow> string kc" where
  "use_client E c adminToken clid clientId clientSecret subject =
     bnd (removeClientScopes E c adminToken clid) (\<lambda>_.
     bnd (clientCredentialsToken E c clientId clientSecret) (\<lambda>token.
     bnd (liftres (checkClaims E token (kc_Issuer c) subject (kc_TokenLifetime c))) (\<lambda>_.
     ret token)))"

definition Issue :: "kc_env \<Rightarrow> kc_config \<Rightarrow> string \<Rightarrow> string \<Rightarrow> string kc" where
  "Issue E c runUuid subject =
     bnd (adminAccessToken E c) (\<lambda>adminToken.
     bnd (randomString E 4) (\<lambda>suffix.
     let clientId = clientIdPrefix @ runUuid @ ''-'' @ suffix
     in bnd (randomString E 32) (\<lambda>clientSecret.
        bnd (createClient E c adminToken clientId clientSecret subject) (\<lambda>clid.
        deferred (deleteClientIgnoringCancel E c adminToken clid)
          (use_client E c adminToken clid clientId clientSecret subject)))))"

section \<open>Lemmas\<close>

text \<open>What is sent, and that only one operation creates clients.\<close>

definition creates_client :: "kc_config \<Rightarrow> http_request \<Rightarrow> bool" where
  "creates_client c req = (req_Method req = ''POST'' \<and> req_Url req = adminUrl c ''/clients'')"

definition deletes_client :: "kc_config \<Rightarrow> string \<Rightarrow> http_request \<Rightarrow> bool" where
  "deletes_client c clid req = (req_Method req = ''DELETE'' \<and> req_Url req = adminUrl c (''/clients/'' @ PathEscape clid))"

lemma Header_Set_line [simp]:
  "req_Method (Header_Set k v r) = req_Method r" "req_Url (Header_Set k v r) = req_Url r"
  "req_Body (Header_Set k v r) = req_Body r"
  by (simp_all add: Header_Set_def)

lemma send_headers_line [simp]:
  "req_Method (send_headers t b r) = req_Method r" "req_Url (send_headers t b r) = req_Url r"
  by (simp_all add: send_headers_def Let_def)

lemma token_url_no_client: "token_url c \<noteq> adminUrl c p"
  by (simp add: token_url_def adminUrl_def)

lemma requested_emits [emits_intros]:
  assumes "\<And>req. req_Method req = method \<Longrightarrow> req_Url req = target \<Longrightarrow> req_Body req = body \<Longrightarrow>
    req_Method (f req) = method \<and> req_Url (f req) = target"
    and "\<And>req. req_Method req = method \<Longrightarrow> req_Url req = target \<Longrightarrow> P req"
    and "\<And>resp. emits ks_sent P (k resp)"
  shows "emits ks_sent P (bnd (kc_NewRequest E method target body) (\<lambda>req. bnd (kc_Do E (f req)) k))"
proof -
  have new: "emits ks_sent (\<lambda>_. False) (kc_NewRequest E method target body)"
    unfolding kc_NewRequest_def by (auto intro!: emits_intros)
  show ?thesis
  proof (rule emitsI)
    fix s r s' assume run: "bnd (kc_NewRequest E method target body) (\<lambda>req. bnd (kc_Do E (f req)) k) s = (r, s')"
    show "\<exists>es. ks_sent s' = ks_sent s @ es \<and> list_all P es"
    proof (cases "ke_NewRequest E target")
      case (Some m)
      then show ?thesis using run by (simp add: bnd_def kc_NewRequest_def throw_def)
    next
      case None
      let ?req = "\<lparr>req_Method = method, req_Url = target, req_Headers = [], req_Body = body\<rparr>"
      let ?s1 = "s\<lparr>ks_sent := ks_sent s @ [f ?req]\<rparr>"
      have P: "P (f ?req)" using assms(1) [of ?req] assms(2) [of "f ?req"] by simp
      have "s' = ?s1 \<or> (\<exists>resp. k resp ?s1 = (r, s'))"
        using run None by (auto simp: bnd_def kc_NewRequest_def ret_def kc_Do_def Let_def split: sum.splits)
      then have "\<exists>es. ks_sent s' = ks_sent ?s1 @ es \<and> list_all P es"
        using emitsD [OF assms(3)] by fastforce
      with P show ?thesis by (auto intro: exI [of _ "f ?req # _"])
    qed
  qed
qed

lemma emits_requestToken [emits_intros]:
  "emits ks_sent (\<lambda>r. \<not> creates_client c r) (requestToken E c i sec)"
  unfolding requestToken_def
  by (rule requested_emits) (auto intro!: emits_intros simp: creates_client_def token_url_no_client)

lemma emits_randomString [emits_intros]: "emits ks_sent P (randomString E n)"
  by (auto simp: emits_def randomString_def split: sum.splits)

lemma emits_adminAccessToken [emits_intros]:
  "emits ks_sent (\<lambda>r. \<not> creates_client c r) (adminAccessToken E c)"
proof -
  have login: "emits ks_sent (\<lambda>r. \<not> creates_client c r) (\<lambda>s. bnd (wrap_err ''admin login: '' (requestToken E c (kc_ClientId c) (kc_ClientSecret c))) (\<lambda>(token, expiresIn).
           bnd (modify (\<lambda>s. s\<lparr>ks_adminToken := token,
                  ks_adminTokenExpiry := ke_Now E (ks_sent s)
                    + duration (duration (expiresIn * second) - adminTokenExpiryMargin)\<rparr>)) (\<lambda>_.
           ret token)) s)"
    by (auto intro!: emits_intros)
  show ?thesis
    using login unfolding emits_def adminAccessToken_def by (auto split: if_splits)
qed

lemma emits_adminRequest [emits_intros]:
  assumes "method \<noteq> ''POST''"
  shows "emits ks_sent (\<lambda>r. \<not> creates_client c r) (adminRequest E c t method path)"
proof -
  have "emits ks_sent (\<lambda>r. \<not> creates_client c r) (bnd (kc_NewRequest E method (adminUrl c path) [])
      (\<lambda>req. bnd (kc_Do E (send_headers t False req)) ret))"
    by (rule requested_emits) (use assms in \<open>auto intro!: emits_intros simp: creates_client_def\<close>)
  also have "bnd (kc_NewRequest E method (adminUrl c path) [])
      (\<lambda>req. bnd (kc_Do E (send_headers t False req)) ret) = send E t method (adminUrl c path) None"
    by (auto simp: send_def bnd_def ret_def fun_eq_iff split: res.splits prod.splits)
  finally show ?thesis
    unfolding adminRequest_def by (auto intro!: emits_intros)
qed

lemma emits_deleteScopes [emits_intros]:
  "emits ks_sent (\<lambda>r. \<not> creates_client c r) (deleteScopes E c t path scopes)"
  unfolding deleteScopes_def by (induction scopes) (auto intro!: emits_intros)

lemma emits_use_client [emits_intros]:
  "emits ks_sent (\<lambda>r. \<not> creates_client c r) (use_client E c t clid i sec subject)"
  unfolding use_client_def removeClientScopes_def removeScopesOf_def clientCredentialsToken_def Let_def
  by (auto intro!: emits_intros)

lemma send_sends:
  assumes "ke_NewRequest E target = None"
  obtains req where "req_Method req = method" "req_Url req = target"
    "send E t method target body s =
      (case ke_Do E (ks_sent s @ [req]) of Inl m \<Rightarrow> Err (UrlError m) | Inr resp \<Rightarrow> Ok resp,
       s\<lparr>ks_sent := ks_sent s @ [req]\<rparr>)"
proof
  let ?req = "send_headers t (body \<noteq> None) \<lparr>req_Method = method, req_Url = target, req_Headers = [],
     req_Body = (case body of None \<Rightarrow> [] | Some b \<Rightarrow> json_Marshal b)\<rparr>"
  show "req_Method ?req = method" "req_Url ?req = target" by simp_all
  show "send E t method target body s =
      (case ke_Do E (ks_sent s @ [?req]) of Inl m \<Rightarrow> Err (UrlError m) | Inr resp \<Rightarrow> Ok resp,
       s\<lparr>ks_sent := ks_sent s @ [?req]\<rparr>)"
    using assms by (simp add: send_def bnd_def kc_NewRequest_def ret_def kc_Do_def)
qed

text \<open>The client of a request that created one.\<close>

definition created_client :: "kc_env \<Rightarrow> kc_config \<Rightarrow> http_request list \<Rightarrow> nat \<Rightarrow> string option" where
  "created_client E c h k =
     (if creates_client c (h ! k)
      then (case ke_Do E (take (Suc k) h) of
              Inr resp \<Rightarrow> (if kr_Status resp = 201 \<and> location_id (kr_Location resp) \<noteq> []
                          then Some (location_id (kr_Location resp)) else None)
            | Inl m \<Rightarrow> None)
      else None)"

lemma not_created:
  "list_all (\<lambda>r. \<not> creates_client c r) es \<Longrightarrow> h = pre @ es \<Longrightarrow> length pre \<le> k \<Longrightarrow> k < length h \<Longrightarrow>
   created_client E c h k = None"
  by (auto simp: created_client_def list_all_length nth_append)

lemma created_client_prefix:
  "k < length h \<Longrightarrow> created_client E c (h @ rest) k = created_client E c h k"
  by (simp add: created_client_def nth_append)

lemma emits_deleteClient [emits_intros]:
  "emits ks_sent (\<lambda>r. \<not> creates_client c r) (deleteClientIgnoringCancel E c t clid)"
  unfolding deleteClientIgnoringCancel_def by (auto intro!: emits_intros)

lemma deleteClient_last:
  assumes "ke_NewRequest E (adminUrl c (''/clients/'' @ PathEscape clid)) = None"
  shows "\<exists>req. deletes_client c clid req \<and>
    ks_sent (snd (deleteClientIgnoringCancel E c t clid s)) = ks_sent s @ [req]"
proof -
  obtain req where "req_Method req = ''DELETE''" "req_Url req = adminUrl c (''/clients/'' @ PathEscape clid)"
    "send E t ''DELETE'' (adminUrl c (''/clients/'' @ PathEscape clid)) None s =
      (case ke_Do E (ks_sent s @ [req]) of Inl m \<Rightarrow> Err (UrlError m) | Inr resp \<Rightarrow> Ok resp,
       s\<lparr>ks_sent := ks_sent s @ [req]\<rparr>)"
    using send_sends [OF assms] by blast
  then show ?thesis
    by (intro exI [of _ req])
      (auto simp: deleteClientIgnoringCancel_def adminRequest_def attempt_def bnd_def ret_def throw_def
        deletes_client_def split: sum.splits)
qed

lemma createClient_answer:
  assumes "createClient E c t i sec subject s = (rc, s2)"
  shows "ks_sent s2 = ks_sent s \<and> (\<forall>clid. rc \<noteq> Ok clid) \<or>
    (\<exists>req. ks_sent s2 = ks_sent s @ [req] \<and>
      (\<forall>clid. created_client E c (ks_sent s2) (length (ks_sent s)) = Some clid \<longleftrightarrow> rc = Ok clid))"
proof (cases "ke_NewRequest E (adminUrl c ''/clients'')")
  case (Some m)
  then show ?thesis using assms by (auto simp: createClient_def send_def kc_NewRequest_def bnd_def throw_def)
next
  case None
  obtain req where req: "req_Method req = ''POST''" "req_Url req = adminUrl c ''/clients''"
    "send E t ''POST'' (adminUrl c ''/clients'') (Some (client_representation c i sec subject)) s =
      (case ke_Do E (ks_sent s @ [req]) of Inl m \<Rightarrow> Err (UrlError m) | Inr resp \<Rightarrow> Ok resp,
       s\<lparr>ks_sent := ks_sent s @ [req]\<rparr>)"
    using send_sends [OF None] by blast
  then have "ks_sent s2 = ks_sent s @ [req] \<and>
      (\<forall>clid. created_client E c (ks_sent s2) (length (ks_sent s)) = Some clid \<longleftrightarrow> rc = Ok clid)"
    using assms by (auto simp: createClient_def bnd_def throw_def ret_def created_client_def creates_client_def Let_def
        split: sum.splits if_splits)
  then show ?thesis by blast
qed

text \<open>The steps of \<^verbatim>\<open>Issue\<close>: it fails before it creates a client, or it uses and then deletes one.\<close>

lemma Issue_steps:
  assumes "Issue E c run subject s = (r, s')"
  shows "(\<exists>es. ks_sent s' = ks_sent s @ es \<and> list_all (\<lambda>r. \<not> creates_client c r) es \<and> (\<forall>t. r \<noteq> Ok t)) \<or>
    (\<exists>t i sec s1 rc s2. (\<exists>es. ks_sent s1 = ks_sent s @ es \<and> list_all (\<lambda>r. \<not> creates_client c r) es) \<and>
       createClient E c t i sec subject s1 = (rc, s2) \<and>
       (case rc of Ok clid \<Rightarrow> (\<exists>x s3 y. use_client E c t clid i sec subject s2 = (x, s3) \<and>
                                 deleteClientIgnoringCancel E c t clid s3 = (y, s') \<and> (\<forall>tok. r = Ok tok \<longrightarrow> x = Ok tok))
        | _ \<Rightarrow> s' = s2 \<and> (\<forall>t. r \<noteq> Ok t)))" (is "?early \<or> ?late")
proof -
  obtain ra s1 where a: "adminAccessToken E c s = (ra, s1)" by fastforce
  have es: "\<exists>es. ks_sent s1 = ks_sent s @ es \<and> list_all (\<lambda>r. \<not> creates_client c r) es"
    by (rule emitsD [OF emits_adminAccessToken a])
  have random: "\<exists>x. randomString E n u = (x, u)" for n u by (auto simp: randomString_def split: sum.splits)
  obtain x4 x32 where r: "randomString E 4 s1 = (x4, s1)" "randomString E 32 s1 = (x32, s1)" using random by metis
  show ?thesis
  proof (cases "\<exists>t suffix sec. ra = Ok t \<and> x4 = Ok suffix \<and> x32 = Ok sec")
    case False
    then have "?early"
      using assms a r es by (auto simp: Issue_def bnd_def Let_def split: res.splits)
    then show ?thesis ..
  next
    case True
    then obtain t suffix sec where ok: "ra = Ok t" "x4 = Ok suffix" "x32 = Ok sec" by blast
    let ?i = "clientIdPrefix @ run @ ''-'' @ suffix"
    obtain rc s2 where cr: "createClient E c t ?i sec subject s1 = (rc, s2)" by fastforce
    have "case rc of Ok clid \<Rightarrow> (\<exists>x s3 y. use_client E c t clid ?i sec subject s2 = (x, s3) \<and>
             deleteClientIgnoringCancel E c t clid s3 = (y, s') \<and> (\<forall>tok. r = Ok tok \<longrightarrow> x = Ok tok))
        | _ \<Rightarrow> s' = s2 \<and> (\<forall>t. r \<noteq> Ok t)"
    proof (cases rc)
      case (Ok clid)
      obtain x s3 y s4 where u: "use_client E c t clid ?i sec subject s2 = (x, s3)"
        "deleteClientIgnoringCancel E c t clid s3 = (y, s4)" by fastforce
      show ?thesis
        using assms a r ok cr Ok u by (auto simp: Issue_def bnd_def deferred_def Let_def split: res.splits)
    qed (use assms a r ok cr in \<open>auto simp: Issue_def bnd_def Let_def\<close>)
    with es cr have ?late by blast
    then show ?thesis ..
  qed
qed

lemma Issue_uses:
  assumes "Issue E c run subject s = (Ok token, s')"
  shows "\<exists>t clid i sec s2 s3. use_client E c t clid i sec subject s2 = (Ok token, s3)"
proof -
  obtain t i sec s2 rc where "case rc of Ok clid \<Rightarrow> (\<exists>x s3 y. use_client E c t clid i sec subject s2 = (x, s3) \<and>
        deleteClientIgnoringCancel E c t clid s3 = (y, s') \<and> (\<forall>tok. Ok token = Ok tok \<longrightarrow> x = Ok tok))
      | _ \<Rightarrow> s' = s2 \<and> (\<forall>t. Ok token \<noteq> Ok t)"
    using Issue_steps [OF assms] by blast
  then have "\<exists>clid s3. use_client E c t clid i sec subject s2 = (Ok token, s3)" by (cases rc) auto
  then show ?thesis by blast
qed

lemma use_client_checked:
  "use_client E c t clid i sec subject s = (Ok token, s') \<Longrightarrow>
   checkClaims E token (kc_Issuer c) subject (kc_TokenLifetime c) = Ok ()"
  by (auto simp: use_client_def bnd_def ret_def liftres_def split: res.splits prod.splits)

lemma check_claim_Ok [simp]: "check_claim claims k want = Ok u \<longleftrightarrow> map_of claims k = Some (JStr want)"
  by (simp add: check_claim_def)

lemma check_allowed_Ok [simp]: "check_allowed E claims = Ok u \<longleftrightarrow> fst ` set claims \<subseteq> set allowedClaims"
  by (auto simp: check_allowed_def find_None_iff simp del: set_simps split: option.splits)
    (metis (lifting) find_None_iff imageE in_set_conv_nth list.set_map option.distinct(1) subsetD)

lemma check_lifetime_Ok:
  "check_lifetime E claims lifetime = Ok u \<longleftrightarrow>
   (\<exists>et exp it iat. map_of claims ''exp'' = Some (JNum et exp) \<and> map_of claims ''iat'' = Some (JNum it iat) \<and>
      duration (lifetime - lifetimeTolerance) \<le> duration (ke_Seconds E exp iat * second) \<and>
      duration (ke_Seconds E exp iat * second) \<le> duration (lifetime + lifetimeTolerance))"
  by (auto simp: check_lifetime_def Let_def split: option.splits any.splits)

lemma isOnlyAudience_iff:
  "isOnlyAudience a \<longleftrightarrow> a = Some (JStr Audience) \<or> a = Some (JArr [JStr Audience])"
  by (auto simp: isOnlyAudience_def length_Suc_conv split: option.splits any.splits)

end
