(* ===== verification/ControllerApi.thy ===== *)
theory ControllerApi
  imports RunApi ControllerConfig KeycloakWif
begin

text \<open>
  What the run controller says to the meshStack API: \<^verbatim>\<open>run-controller/controller/runapi.go\<close>,
  \<^verbatim>\<open>registration.go\<close> and the transfer types of \<^verbatim>\<open>dtos.go\<close>.

  The configuration, a package variable of the program, is an argument. Every operation builds a client
  of its own, and with it an \<^verbatim>\<open>ApiKeyAuth\<close> whose token cache is empty (\<open>fresh_auth\<close>). What it measures
  is in the state (\<open>as_measured\<close>); logs are left out.
\<close>

section \<open>Clients\<close>

definition requesterPrefix :: string where "requesterPrefix = ''run-controller''"

definition fresh_auth :: "'a api \<Rightarrow> 'a api" where
  "fresh_auth m s = m (s\<lparr>as_token := [], as_expiresAt := 0\<rparr>)"

definition newMeshClient :: "controller_config \<Rightarrow> client_metadata \<Rightarrow> string \<Rightarrow> mesh_client" where
  "newMeshClient cfg m nodeID =
     NewClient (ac_Url (cc_Api cfg)) nodeID (api_NewAuthProvider (cc_Api cfg) (ac_Url (cc_Api cfg))) m"

definition controller_client :: "controller_config \<Rightarrow> client_metadata \<Rightarrow> mesh_client" where
  "controller_client cfg m = newMeshClient cfg m (requesterPrefix @ ''-'' @ cc_Uuid cfg)"

text \<open>A report to a collector, whose first label is the controller.\<close>

definition measure_api :: "measured \<Rightarrow> unit api" where
  "measure_api = zoom as_measured (\<lambda>ms s. s\<lparr>as_measured := ms\<rparr>)"

section \<open>Runs\<close>

text \<open>The type assertion looks at the error itself: an error that wraps a 404 is counted.\<close>

definition count_fetch_error :: "controller_config \<Rightarrow> go_error \<Rightarrow> unit api" where
  "count_fetch_error cfg e =
     (case e of
        StatusError status \<Rightarrow>
          if status \<noteq> 404 then measure_api (inc (runsFetchErrors run_metrics) [cc_Uuid cfg, ErrorTypeFetchAPI]) else ret ()
      | _ \<Rightarrow> measure_api (inc (runsFetchErrors run_metrics) [cc_Uuid cfg, ErrorTypeFetchAPI]))"

definition ctl_FetchRunDetails ::
  "http_env \<Rightarrow> dto_codec \<Rightarrow> controller_config \<Rightarrow> client_metadata \<Rightarrow> string \<Rightarrow> (string \<times> run_details) api" where
  "ctl_FetchRunDetails E C cfg m nodePostfix =
     deferred (measure_api (observe (runsFetchDuration run_metrics) [cc_Uuid cfg]))
       (fresh_auth (attempt (FetchRun E C (newMeshClient cfg m (requesterPrefix @ ''-'' @ nodePostfix)) (cc_Uuid cfg)) (\<lambda>r.
        case r of
          Ok (dto, rawBytes) \<Rightarrow> ret (b64_encode rawBytes, dto)
        | Err e \<Rightarrow> bnd (count_fetch_error cfg e) (\<lambda>_. throw e)
        | Panic p \<Rightarrow> panic p)))"

definition validation_registration :: "controller_config \<Rightarrow> registration_dto" where
  "validation_registration cfg =
     \<lparr>reg_Source = \<lparr>src_Id = cc_Uuid cfg, src_ExternalId = None, src_ExternalUrl = None\<rparr>,
      reg_Steps = [\<lparr>sr_Id = ''validation'', sr_DisplayName = ''Validation'', sr_Status = None\<rparr>]\<rparr>"

definition ctl_RegisterSource :: "http_env \<Rightarrow> controller_config \<Rightarrow> client_metadata \<Rightarrow> string \<Rightarrow> unit api" where
  "ctl_RegisterSource E cfg m runId =
     fresh_auth (wrap_err ''register source failed: ''
       (RegisterSource E (controller_client cfg m) runId (validation_registration cfg)))"

text \<open>The JSON of \<^verbatim>\<open>StatusUpdateDTO\<close>.\<close>

definition status_update_json :: "string option \<Rightarrow> string option \<Rightarrow> step_update_dto list \<Rightarrow> any" where
  "status_update_json status summary steps =
     JObj [(''status'', json_option status), (''summary'', json_option summary),
           (''steps'', JArr (map step_update_json steps))]"

definition validation_update :: "string \<Rightarrow> string \<Rightarrow> string \<Rightarrow> any" where
  "validation_update status summary stepMessage =
     status_update_json (Some status) (Some summary)
       [\<lparr>su_Id = ''validation'', su_DisplayName = ''Validation'', su_Status = Some status,
         su_UserMessage = Some stepMessage, su_SystemMessage = Some stepMessage, su_Outputs = []\<rparr>]"

definition UpdateRunStatus ::
  "http_env \<Rightarrow> controller_config \<Rightarrow> client_metadata \<Rightarrow> string \<Rightarrow> string \<Rightarrow> string \<Rightarrow> string \<Rightarrow> unit api" where
  "UpdateRunStatus E cfg m runId status summary stepMessage =
     fresh_auth (bnd (wrap_err ''update status failed: ''
       (PatchStatus E (controller_client cfg m) runId (cc_Uuid cfg) (validation_update status summary stepMessage)))
       (\<lambda>_. ret ()))"

section \<open>The warning about a missing token\<close>

definition wifTokenStepId :: string where "wifTokenStepId = ''meshstack-wif-token''"
definition wifTokenMountPath :: string where "wifTokenMountPath = ''/var/run/secrets/workload-identity/meshstack''"
definition wifTokenSecretKey :: string where "wifTokenSecretKey = ''token''"
definition wifTokenPath :: string where "wifTokenPath = wifTokenMountPath @ ''/'' @ wifTokenSecretKey"

definition wif_missing_message :: string where
  "wif_missing_message =
     ''meshStack could not issue the workload identity token for this run.'' @ [LF, LF]
     @ ''The run continues without '' @ wifTokenPath
     @ ''. Steps that use this file to sign in to a cloud will fail.''"

definition wif_missing_update :: any where
  "wif_missing_update =
     status_update_json None None
       [\<lparr>su_Id = wifTokenStepId, su_DisplayName = ''meshStack workload identity token'', su_Status = Some ''FAILED'',
         su_UserMessage = None, su_SystemMessage = Some wif_missing_message, su_Outputs = []\<rparr>]"

definition ReportWifTokenMissing :: "http_env \<Rightarrow> controller_config \<Rightarrow> client_metadata \<Rightarrow> string \<Rightarrow> unit api" where
  "ReportWifTokenMissing E cfg m runId =
     (let sourceId = cc_Uuid cfg @ ''-wif-token'';
          client = controller_client cfg m;
          registration =
            \<lparr>reg_Source = \<lparr>src_Id = sourceId, src_ExternalId = None, src_ExternalUrl = None\<rparr>,
             reg_Steps = [\<lparr>sr_Id = wifTokenStepId, sr_DisplayName = ''meshStack workload identity token'',
                           sr_Status = None\<rparr>]\<rparr>
      in fresh_auth
           (bnd (wrap_err ''register source: ''
              (RegisterSourceAt E client (EPRunSourceRegistration (ac_Url (cc_Api cfg)) runId) registration)) (\<lambda>_.
            bnd (wrap_err ''update status: '' (PatchStatus E client runId sourceId wif_missing_update)) (\<lambda>_.
            ret ()))))"

section \<open>Workload identity as registered\<close>

record cloud_wif =
  cw_Audience :: string
  cw_TokenPath :: string

record wif_dto =
  wd_Issuer :: string
  wd_SubjectTemplate :: string
  wd_Gcp :: cloud_wif
  wd_Aws :: cloud_wif
  wd_Azure :: cloud_wif

definition serviceAccountNameTemplate :: string where
  "serviceAccountNameTemplate =
     ''workspace.{{ workspaceIdentifier }}.buildingblockdefinition.{{ buildingBlockDefinitionUuid }}''"

definition keycloakSubjectTemplate :: string where
  "keycloakSubjectTemplate = ''bbd:{{ workspaceIdentifier }}:{{ buildingBlockDefinitionUuid }}''"

text \<open>\<^verbatim>\<open>strings.NewReplacer\<close>: one pass, the first pattern that matches at a position; no pattern is empty.\<close>

fun replacer_from :: "(string \<times> string) list \<Rightarrow> nat \<Rightarrow> string \<Rightarrow> string" where
  "replacer_from ps n [] = []"
| "replacer_from ps (Suc n) (c # s) = replacer_from ps n s"
| "replacer_from ps 0 (c # s) =
     (case find (\<lambda>p. HasPrefix (c # s) (fst p)) ps of
        Some p \<Rightarrow> snd p @ replacer_from ps (length (fst p) - 1) s
      | None \<Rightarrow> c # replacer_from ps 0 s)"

definition renderSubjectTemplate :: "string \<Rightarrow> run_info_dto \<Rightarrow> string" where
  "renderSubjectTemplate template info =
     replacer_from [(''{{ workspaceIdentifier }}'', rid_DefinitionWorkspace info),
                    (''{{ buildingBlockDefinitionUuid }}'', rid_DefinitionUuid info)] 0 template"

definition kubernetesWif :: "string \<Rightarrow> string \<Rightarrow> wif_dto option" where
  "kubernetesWif namespace oidcIssuer =
     (if oidcIssuer = [] then None
      else Some
        \<lparr>wd_Issuer = oidcIssuer,
         wd_SubjectTemplate = ''system:serviceaccount:'' @ namespace @ '':'' @ serviceAccountNameTemplate,
         wd_Gcp = \<lparr>cw_Audience = ''gcp-workload-identity-provider:'' @ namespace,
                   cw_TokenPath = ''/var/run/secrets/workload-identity/gcp/token''\<rparr>,
         wd_Aws = \<lparr>cw_Audience = ''aws-workload-identity-provider:'' @ namespace,
                   cw_TokenPath = ''/var/run/secrets/workload-identity/aws/token''\<rparr>,
         wd_Azure = \<lparr>cw_Audience = ''api://AzureADTokenExchange'',
                   cw_TokenPath = ''/var/run/secrets/workload-identity/azure/token''\<rparr>\<rparr>)"

definition keycloakWif :: "string \<Rightarrow> wif_dto" where
  "keycloakWif issuer =
     (let cloud = \<lparr>cw_Audience = Audience, cw_TokenPath = wifTokenPath\<rparr>
      in \<lparr>wd_Issuer = issuer, wd_SubjectTemplate = keycloakSubjectTemplate,
          wd_Gcp = cloud, wd_Aws = cloud, wd_Azure = cloud\<rparr>)"

text \<open>With the issuer keycloak and no keycloak section the program dereferences \<^verbatim>\<open>nil\<close>.\<close>

definition registeredWif :: "wif_config \<Rightarrow> string \<Rightarrow> string \<Rightarrow> wif_dto option res" where
  "registeredWif c namespace discoveredIssuer =
     (if wif_issuer c = WifIssuerKubernetes then Ok (kubernetesWif namespace discoveredIssuer)
      else if wif_issuer c = WifIssuerKeycloak
      then (case wif_Keycloak c of
              Some k \<Rightarrow> Ok (Some (keycloakWif (keycloak_issuer k)))
            | None \<Rightarrow> Panic ''nil pointer dereference'')
      else Ok None)"

section \<open>Registration of the controller\<close>

record runner_dto =
  rn_ApiVersion :: string
  rn_Kind :: string
  rn_Uuid :: string
  rn_OwnedByWorkspace :: string
  rn_DisplayName :: string
  rn_PublicKey :: string
  rn_ImplementationType :: string
  rn_Wif :: "wif_dto option"

definition BuildRunnerRegistrationDTO :: "controller_config \<Rightarrow> wif_dto option \<Rightarrow> runner_dto" where
  "BuildRunnerRegistrationDTO cfg wif =
     \<lparr>rn_ApiVersion = ''v1-preview'', rn_Kind = ''meshBuildingBlockRunner'', rn_Uuid = cc_Uuid cfg,
      rn_OwnedByWorkspace = cc_OwnedByWorkspace cfg, rn_DisplayName = cc_DisplayName cfg,
      rn_PublicKey = cc_PublicKey cfg, rn_ImplementationType = ''ALL'', rn_Wif = wif\<rparr>"

definition cloud_json :: "cloud_wif \<Rightarrow> any" where
  "cloud_json c = JObj [(''audience'', JStr (cw_Audience c)), (''tokenPath'', JStr (cw_TokenPath c))]"

definition runner_json :: "runner_dto \<Rightarrow> any" where
  "runner_json d =
     JObj [(''apiVersion'', JStr (rn_ApiVersion d)), (''kind'', JStr (rn_Kind d)),
           (''metadata'', JObj [(''uuid'', JStr (rn_Uuid d)), (''ownedByWorkspace'', JStr (rn_OwnedByWorkspace d))]),
           (''spec'', JObj ([(''displayName'', JStr (rn_DisplayName d)), (''publicKey'', JStr (rn_PublicKey d)),
              (''implementationType'', JStr (rn_ImplementationType d))]
              @ (case rn_Wif d of None \<Rightarrow> []
                 | Some w \<Rightarrow> [(''workloadIdentityFederation'',
                     JObj [(''issuer'', JStr (wd_Issuer w)), (''subjectTemplate'', JStr (wd_SubjectTemplate w)),
                           (''gcp'', cloud_json (wd_Gcp w)), (''aws'', cloud_json (wd_Aws w)),
                           (''azure'', cloud_json (wd_Azure w))])])))]"

definition MeshBuildingBlockRunner_MediaType_V1Preview :: string where
  "MeshBuildingBlockRunner_MediaType_V1Preview =
     ''application/vnd.meshcloud.api.meshbuildingblockrunner.v1-preview.hal+json''"

definition EP_RunnerWithUuid :: "string \<Rightarrow> string \<Rightarrow> string" where
  "EP_RunnerWithUuid base uuid = base @ ''/api/meshobjects/meshbuildingblockrunners/'' @ uuid"

definition registration_headers :: "string \<Rightarrow> http_request \<Rightarrow> http_request" where
  "registration_headers authorization req =
     Header_Set ''Accept'' MeshBuildingBlockRunner_MediaType_V1Preview
     (Header_Set ''Content-Type'' MeshBuildingBlockRunner_MediaType_V1Preview
     (Header_Set ''Authorization'' authorization req))"

record registration_api =
  rga_url :: string
  rga_auth :: auth_provider
  rga_wif :: "wif_dto option"

definition NewRegistrationApi :: "controller_config \<Rightarrow> string \<Rightarrow> registration_api res" where
  "NewRegistrationApi cfg discoveredIssuer =
     rbind (registeredWif (cc_Wif cfg) (cc_Namespace cfg) discoveredIssuer) (\<lambda>wif.
     Ok \<lparr>rga_url = ac_Url (cc_Api cfg), rga_auth = api_NewAuthProvider (cc_Api cfg) (ac_Url (cc_Api cfg)), rga_wif = wif\<rparr>)"

definition putController :: "http_env \<Rightarrow> controller_config \<Rightarrow> registration_api \<Rightarrow> string \<Rightarrow> int api" where
  "putController E cfg api jsonBody =
     bnd (wrap_err ''failed to create PUT request: ''
            (http_NewRequest E ''PUT'' (EP_RunnerWithUuid (rga_url api) (cc_Uuid cfg)) jsonBody)) (\<lambda>req.
     bnd (AuthHeader E (rga_auth api)) (\<lambda>h.
     bnd (wrap_err ''failed to execute PUT request: '' (http_Do E (registration_headers h req))) (\<lambda>resp.
     if resp_Status resp = 404 then ret 404
     else if resp_Status resp \<noteq> 200
     then throw (ErrorString (''PUT failed with status '' @ itoa (resp_Status resp) @ '': '' @ resp_Body resp))
     else ret (resp_Status resp))))"

text \<open>Marshalling the registration, a value without functions or cycles, does not fail.\<close>

definition api_RegisterController :: "http_env \<Rightarrow> controller_config \<Rightarrow> registration_api \<Rightarrow> unit api" where
  "api_RegisterController E cfg api =
     attempt (putController E cfg api (json_Marshal (runner_json (BuildRunnerRegistrationDTO cfg (rga_wif api))))) (\<lambda>r.
     case r of
       Panic p \<Rightarrow> panic p
     | Err e \<Rightarrow> bnd (measure_api (inc (runnerRegistrationErrors run_metrics) [cc_Uuid cfg, ErrorTypeRegistrationPut]))
                  (\<lambda>_. throw e)
     | Ok statusCode \<Rightarrow>
     if statusCode = 404
     then throw (ErrorString (''controller '' @ cc_Uuid cfg @ '' not found in meshfed '' @ [CHR 0xE2, CHR 0x80, CHR 0x94]
            @ '' create it via the meshStack UI or API before starting the run-controller''))
     else measure_api (inc (runnerRegistrationSuccess run_metrics) [cc_Uuid cfg]))"

definition RegisterController :: "http_env \<Rightarrow> controller_config \<Rightarrow> string \<Rightarrow> unit api" where
  "RegisterController E cfg discoveredIssuer =
     fresh_auth (bnd (liftres (NewRegistrationApi cfg discoveredIssuer)) (\<lambda>api.
       wrap_err ''controller registration failed: '' (api_RegisterController E cfg api)))"

text \<open>
  \<^verbatim>\<open>registerController\<close> of \<^verbatim>\<open>main.go\<close>. After each failure the program waits for the retry interval or the
  end of its ten minutes, whichever comes first; the list says for each wait whether the ten minutes
  were over. The result is \<open>None\<close> while the list does not reach that far.
\<close>

fun registerController ::
  "http_env \<Rightarrow> controller_config \<Rightarrow> string \<Rightarrow> bool list \<Rightarrow> api_state \<Rightarrow> unit res option \<times> api_state" where
  "registerController E cfg iss waits s =
     (case RegisterController E cfg iss s of
        (Ok _, s1) \<Rightarrow> (Some (Ok ()), s1)
      | (Panic m, s1) \<Rightarrow> (Some (Panic m), s1)
      | (Err e, s1) \<Rightarrow>
          (case waits of
             [] \<Rightarrow> (None, s1)
           | over # ws \<Rightarrow>
               if over then (Some (Panic (''Failed to register controller: '' @ error_text e)), s1)
               else registerController E cfg iss ws s1))"

declare registerController.simps [simp del]

section \<open>Lemmas\<close>

lemma measure_api_run:
  "measure_api m a = (r, a') \<longleftrightarrow> (\<exists>ms. m (as_measured a) = (r, ms) \<and> a' = a\<lparr>as_measured := ms\<rparr>)"
  by (auto simp: measure_api_def zoom_def split: prod.splits)

lemma measure_api_report [simp]:
  "length vs = length (co_Labels c) \<Longrightarrow>
    measure_api (report w c vs) a = (Ok (), a\<lparr>as_measured := as_measured a @ [w (co_Name c) (zip (co_Labels c) vs)]\<rparr>)"
  by (simp add: measure_api_run report_run)

lemma count_fetch_error_run:
  "count_fetch_error cfg e a = (Ok (), a\<lparr>as_measured := as_measured a @
     (if e = StatusError 404 then [] else [Inc ''run_controller_runs_fetch_errors_total''
        [(''controller_uuid'', cc_Uuid cfg), (''error_type'', ErrorTypeFetchAPI)]])\<rparr>)"
  by (cases e) (simp_all add: count_fetch_error_def inc_def ret_def)

lemma measures_fresh: "emits as_measured P m \<Longrightarrow> emits as_measured P (fresh_auth m)"
  unfolding fresh_auth_def by (rule emitsI) (auto dest: emitsD [of as_measured P m])

lemma api_measures_nothing:
  "emits as_measured P (ctl_RegisterSource E cfg m runId)"
  "emits as_measured P (UpdateRunStatus E cfg m runId st su t)"
  "emits as_measured P (ReportWifTokenMissing E cfg m runId)"
  unfolding ctl_RegisterSource_def UpdateRunStatus_def ReportWifTokenMissing_def RegisterSource_def PatchStatus_def Let_def
  by (auto intro!: measures_fresh emits_intros)

end
