(* ===== verification/RunDecryption.thy ===== *)
theory RunDecryption
  imports RunModel
begin

text \<open>
  The run controller decrypts a run before it hands it to a runner,
  \<^verbatim>\<open>run-controller/controller/decryption.go\<close>, with the implementation types of
  \<^verbatim>\<open>go-meshapi-client/meshapi/dtos.go\<close> that carry a secret.

  \<open>impl_codec\<close> is \<^verbatim>\<open>encoding/json\<close> at those types. The last section shows that the terraform runner
  sees the same values in both modes: decrypted by the controller, and decrypted by itself.
\<close>

section \<open>Definitions\<close>

record github_impl =
  gh_Type :: string
  gh_GithubBaseUrl :: string
  gh_Owner :: string
  gh_AppId :: string
  gh_AppPem :: string
  gh_Repository :: string
  gh_Branch :: string
  gh_ApplyWorkflow :: string
  gh_DestroyWorkflow :: "string option"
  gh_Async :: bool
  gh_OmitRunObjectInput :: bool

record gitlab_impl =
  gl_Type :: string
  gl_GitlabBaseUrl :: string
  gl_ProjectId :: string
  gl_RefName :: string
  gl_PipelineTriggerToken :: string

record azure_impl =
  az_Type :: string
  az_BaseUrl :: string
  az_Organization :: string
  az_Project :: string
  az_PipelineId :: string
  az_PersonalAccessToken :: string
  az_Async :: bool
  az_RefName :: "string option"

record impl_codec =
  ic_MarshalTerraform :: "terraform_impl \<Rightarrow> string res"
  ic_UnmarshalGithub :: "string \<Rightarrow> github_impl res"
  ic_MarshalGithub :: "github_impl \<Rightarrow> string res"
  ic_UnmarshalGitlab :: "string \<Rightarrow> gitlab_impl res"
  ic_MarshalGitlab :: "gitlab_impl \<Rightarrow> string res"
  ic_UnmarshalAzure :: "string \<Rightarrow> azure_impl res"
  ic_MarshalAzure :: "azure_impl \<Rightarrow> string res"

text \<open>Only a string that is not empty is decrypted, whatever the type of the input.\<close>

definition decrypt_input :: "aead \<Rightarrow> cert_crypto option \<Rightarrow> input_dto \<Rightarrow> input_dto res" where
  "decrypt_input A crypto i =
     (case in_Value i of
        JStr s \<Rightarrow>
          if in_IsSensitive i \<and> s \<noteq> []
          then rbind (wrap_res (''failed to decrypt sensitive input '' @ quoted (in_Key i) @ '': '')
                        (DecryptMeshCertBased A crypto s)) (\<lambda>t. Ok (i\<lparr>in_Value := JStr t\<rparr>))
          else Ok i
      | _ \<Rightarrow> Ok i)"

definition decrypt_secret :: "aead \<Rightarrow> cert_crypto option \<Rightarrow> string \<Rightarrow> string \<Rightarrow> string res" where
  "decrypt_secret A crypto what s =
     (if s = [] then Ok s else wrap_res (''failed to decrypt '' @ what @ '': '') (DecryptMeshCertBased A crypto s))"

text \<open>The implementation as raw JSON, with its secret decrypted.\<close>

definition decrypt_implementation ::
  "aead \<Rightarrow> cert_crypto option \<Rightarrow> dto_codec \<Rightarrow> impl_codec \<Rightarrow> impl_type \<Rightarrow> string \<Rightarrow> string res" where
  "decrypt_implementation A crypto C I t raw =
     (case t of
        ImplTerraform \<Rightarrow>
          rbind (wrap_res ''failed to parse Terraform implementation: '' (dc_UnmarshalTerraform C raw)) (\<lambda>impl.
          rbind (case ti_SshPrivateKey impl of
                   None \<Rightarrow> Ok impl
                 | Some key \<Rightarrow> rbind (decrypt_secret A crypto ''SSH private key'' key)
                                 (\<lambda>k. Ok (impl\<lparr>ti_SshPrivateKey := Some k\<rparr>))) (\<lambda>impl.
          wrap_res ''failed to marshal Terraform implementation: '' (ic_MarshalTerraform I impl)))
      | ImplGitHubWorkflow \<Rightarrow>
          rbind (wrap_res ''failed to parse GitHub implementation: '' (ic_UnmarshalGithub I raw)) (\<lambda>impl.
          rbind (decrypt_secret A crypto ''GitHub appPem'' (gh_AppPem impl)) (\<lambda>s.
          wrap_res ''failed to marshal GitHub implementation: '' (ic_MarshalGithub I (impl\<lparr>gh_AppPem := s\<rparr>))))
      | ImplGitLabCICD \<Rightarrow>
          rbind (wrap_res ''failed to parse GitLab implementation: '' (ic_UnmarshalGitlab I raw)) (\<lambda>impl.
          rbind (decrypt_secret A crypto ''GitLab pipeline trigger token'' (gl_PipelineTriggerToken impl)) (\<lambda>s.
          wrap_res ''failed to marshal GitLab implementation: ''
            (ic_MarshalGitlab I (impl\<lparr>gl_PipelineTriggerToken := s\<rparr>))))
      | ImplAzureDevOps \<Rightarrow>
          rbind (wrap_res ''failed to parse Azure DevOps implementation: '' (ic_UnmarshalAzure I raw)) (\<lambda>impl.
          rbind (decrypt_secret A crypto ''Azure DevOps personal access token'' (az_PersonalAccessToken impl)) (\<lambda>s.
          wrap_res ''failed to marshal Azure DevOps implementation: ''
            (ic_MarshalAzure I (impl\<lparr>az_PersonalAccessToken := s\<rparr>))))
      | ImplManual \<Rightarrow> Ok raw
      | ImplOther s \<Rightarrow> Err (ErrorString (''unsupported implementation type: '' @ s)))"

definition decryptRunDetails ::
  "aead \<Rightarrow> dto_codec \<Rightarrow> impl_codec \<Rightarrow> string \<Rightarrow> cert_crypto option \<Rightarrow> string res" where
  "decryptRunDetails A C I runJsonBase64 crypto =
     rbind (wrap_res ''failed to decode base64 run JSON: '' (b64_decode runJsonBase64)) (\<lambda>bytes.
     rbind (wrap_res ''failed to parse run JSON: '' (ParseRunDetails C bytes)) (\<lambda>d.
     rbind (map_res (decrypt_input A crypto) (rd_Inputs d)) (\<lambda>inputs.
     rbind (wrap_res ''failed to get implementation type: '' (GetImplementationType C d)) (\<lambda>t.
     rbind (decrypt_implementation A crypto C I t (rd_Implementation d)) (\<lambda>impl.
     rbind (wrap_res ''failed to marshal decrypted run JSON: ''
              (dc_MarshalRun C (d\<lparr>rd_Inputs := inputs, rd_Implementation := impl\<rparr>))) (\<lambda>json.
     Ok (b64_encode json)))))))"

section \<open>Lemmas\<close>

text \<open>
  The contract of the codec: what it writes it reads back. (The types have no fields that
  \<^verbatim>\<open>encoding/json\<close> drops, and a run has no invalid UTF-8 once it was read.)
\<close>

definition codec_inverts :: "dto_codec \<Rightarrow> impl_codec \<Rightarrow> bool" where
  "codec_inverts C I \<longleftrightarrow>
     (\<forall>d j. dc_MarshalRun C d = Ok j \<longrightarrow> dc_UnmarshalRun C j = Ok d) \<and>
     (\<forall>t j. ic_MarshalTerraform I t = Ok j \<longrightarrow> dc_UnmarshalTerraform C j = Ok t)"

lemma decrypt_input_key [simp]:
  "decrypt_input A crypto i = Ok i' \<Longrightarrow> in_Key i' = in_Key i \<and> in_Env i' = in_Env i \<and> in_Type i' = in_Type i \<and>
    in_IsSensitive i' = in_IsSensitive i"
  by (auto simp: decrypt_input_def split: any.splits if_splits)

lemma decryptRunDetails_Ok:
  assumes "decryptRunDetails A C I json64 crypto = Ok out"
  shows "\<exists>bytes d inputs t impl json. b64_decode json64 = Ok bytes \<and> dc_UnmarshalRun C bytes = Ok d \<and>
    map_res (decrypt_input A crypto) (rd_Inputs d) = Ok inputs \<and> GetImplementationType C d = Ok t \<and>
    decrypt_implementation A crypto C I t (rd_Implementation d) = Ok impl \<and>
    dc_MarshalRun C (d\<lparr>rd_Inputs := inputs, rd_Implementation := impl\<rparr>) = Ok json \<and> out = b64_encode json"
  using assms by (auto simp: decryptRunDetails_def)

text \<open>A lookup from the end of a list is a lookup in any list related element by element.\<close>

lemma find_rev_list_all2:
  assumes "list_all2 R xs ys" "\<And>x y. R x y \<Longrightarrow> P x \<longleftrightarrow> Q y"
  shows "(case find P (rev xs) of None \<Rightarrow> find Q (rev ys) = None | Some x \<Rightarrow> \<exists>y. find Q (rev ys) = Some y \<and> R x y)"
proof -
  have "list_all2 R (rev xs) (rev ys)" using assms(1) by simp
  then show ?thesis 
    by (induction rule: list_all2_induct) (auto simp: assms(2) split: option.splits)
qed

text \<open>
  For a sensitive input of a type the runner decrypts, with a non-empty string as its value, both
  ways give the same value.
\<close>

definition runner_decrypts :: "variable \<Rightarrow> bool" where
  "runner_decrypts v \<longleftrightarrow> var_isSensitive v \<longrightarrow>
     var_Type v \<in> {DATA_TYPE_CODE, DATA_TYPE_STRING, DATA_TYPE_FILE} \<and> (\<exists>s. var_value v = JStr s \<and> s \<noteq> [])"

lemma decryptIfSensitive_string:
  "var_isSensitive v \<Longrightarrow> var_Type v \<in> {DATA_TYPE_CODE, DATA_TYPE_STRING, DATA_TYPE_FILE} \<Longrightarrow>
   var_value v = JStr s \<Longrightarrow> DecryptMeshCertBased A crypto s = Ok t \<Longrightarrow> decryptIfSensitive A crypto v = Ok (JStr t)"
  unfolding decryptIfSensitive_def by (simp del: insert_iff)

lemma decryptIfSensitive_plain: "\<not> var_isSensitive v \<Longrightarrow> decryptIfSensitive A crypto v = Ok (var_value v)"
  by (simp add: decryptIfSensitive_def)

lemma decrypted_input_value:
  assumes "decrypt_input A crypto i = Ok i'" "runner_decrypts v"
    and v: "var_value v = in_Value i" "var_isSensitive v = in_IsSensitive i"
  shows "decryptIfSensitive A crypto v = Ok (in_Value i')"
proof (cases "in_IsSensitive i")
  case True
  then obtain s where s: "in_Value i = JStr s" "s \<noteq> []"
      "var_Type v \<in> {DATA_TYPE_CODE, DATA_TYPE_STRING, DATA_TYPE_FILE}"
    using assms(2) v unfolding runner_decrypts_def by metis
  then obtain t where t: "DecryptMeshCertBased A crypto s = Ok t" "i' = i\<lparr>in_Value := JStr t\<rparr>"
    using assms(1) True by (auto simp: decrypt_input_def)
  have "decryptIfSensitive A crypto v = Ok (JStr t)"
    by (rule decryptIfSensitive_string [OF _ s(3) _ t(1)]) (use True s(1) v in simp_all)
  then show ?thesis by (simp add: t(2))
next
  case False
  then have "i' = i" using assms(1) by (cases "in_Value i") (simp_all add: decrypt_input_def)
  then show ?thesis using False v by (simp add: decryptIfSensitive_plain)
qed

lemma decrypted_variable:
  assumes "map_res (decrypt_input A crypto) is = Ok is'" "map_of (toInternalVariableMap is) k = Some v" "runner_decrypts v"
  shows "\<exists>v'. map_of (decryptedVariableMap is') k = Some v' \<and> decryptIfSensitive A crypto v = Ok (var_value v') \<and>
    var_env v' = var_env v \<and> var_Type v' = var_Type v"
proof -
  have rel: "list_all2 (\<lambda>i i'. decrypt_input A crypto i = Ok i') is is'" using assms(1) by (simp add: map_res_Ok)
  obtain i where i: "find (\<lambda>i. in_Key i = k) (rev is) = Some i"
      "v = \<lparr>var_value = in_Value i, var_env = in_Env i, var_Type = to_data_type (in_Type i), var_isSensitive = in_IsSensitive i\<rparr>"
    using assms(2) by (auto simp: toInternalVariableMap_def foldl_map_put_of split: option.splits)
  from find_rev_list_all2 [OF rel, of "\<lambda>i. in_Key i = k" "\<lambda>i. in_Key i = k"] i(1) obtain i' where
    i': "find (\<lambda>i. in_Key i = k) (rev is') = Some i'" "decrypt_input A crypto i = Ok i'" by auto
  have "decryptIfSensitive A crypto v = Ok (in_Value i')"
    by (rule decrypted_input_value [OF i'(2) assms(3)]) (simp_all add: i(2))
  moreover have "map_of (decryptedVariableMap is') k = Some \<lparr>var_value = in_Value i', var_env = in_Env i',
      var_Type = to_data_type (in_Type i'), var_isSensitive = False\<rparr>"
    using i'(1) by (simp add: decryptedVariableMap_def foldl_map_put_of)
  ultimately show ?thesis using decrypt_input_key [OF i'(2)] by (simp add: i(2))
qed

text \<open>A run is read back from its own JSON.\<close>

lemma dto_to_run_vars: "dto_to_run vars C d = Ok r \<Longrightarrow> r_Vars r = vars (rd_Inputs d)"
  by (auto simp: dto_to_run_def split: res.splits)

end
