(* ===== verification/Controller.thy ===== *)
theory Controller
  imports ControllerApi RunDecryption
begin

text \<open>
  The loop of the run controller, \<^verbatim>\<open>run-controller/controller/controller.go\<close>, over the interface
  \<^verbatim>\<open>build.Dispatcher\<close> of \<^verbatim>\<open>run-controller/build/dispatcher.go\<close>.

  The state pairs the state of the API client with that of the dispatcher, whose type \<open>'d\<close> is open: the
  theories Kubernetes and InProcess provide the two dispatchers of the program. What the loop measures
  is in the state of the API client; logs are left out; the end of the context is seen through \<open>stopped\<close>, which says for each round of a cycle
  whether the context was done before it.
\<close>

section \<open>The interface\<close>

record 'd dispatcher =
  dp_Dispatch :: "run_details \<Rightarrow> string \<Rightarrow> string \<Rightarrow> ('d, unit) prog"
  dp_CountActive :: "('d, int) prog"

text \<open>
  What the controller relies on, for a count of the runs a dispatcher has placed: counting places
  nothing, a dispatch places at most one run, and none when it fails.
\<close>

locale run_placement =
  fixes D :: "'d dispatcher" and placed :: "'d \<Rightarrow> nat"
  assumes dispatch_places: "dp_Dispatch D run json ty d = (r, d') \<Longrightarrow> placed d' \<le> Suc (placed d)"
    and failed_dispatch: "dp_Dispatch D run json ty d = (Err e, d') \<Longrightarrow> placed d' = placed d"
    and count_places: "dp_CountActive D d = (r', d') \<Longrightarrow> placed d' = placed d"

section \<open>The controller\<close>

record ctl_env =
  ctl_http :: http_env
  ctl_aead :: aead
  ctl_codec :: dto_codec
  ctl_impls :: impl_codec

record controller =
  ct_config :: controller_config
  ct_meta :: client_metadata
  ct_crypto :: "cert_crypto option"

type_synonym ('d, 'a) ctl = "(api_state \<times> 'd, 'a) prog"

definition via_api :: "'a api \<Rightarrow> ('d, 'a) ctl" where
  "via_api = zoom fst (\<lambda>t s. (t, snd s))"

definition via_dispatcher :: "('d, 'a) prog \<Rightarrow> ('d, 'a) ctl" where
  "via_dispatcher = zoom snd (\<lambda>t s. (fst s, t))"

datatype processResult = RunProcessed | NoRunAvailable | ProcessFailed

definition maxDrainPerCycleUnlimited :: int where "maxDrainPerCycleUnlimited = 10"

definition NewController :: "key_parser \<Rightarrow> controller_config \<Rightarrow> client_metadata \<Rightarrow> controller api" where
  "NewController K cfg m =
     (case NewCertBasedDecryptorWithValidation K (cc_PrivateKey cfg) (cc_PublicKey cfg) of
        Ok c \<Rightarrow> bnd (measure_api (set_gauge (activeRunners run_metrics) 1))
                  (\<lambda>_. ret \<lparr>ct_config = cfg, ct_meta = m, ct_crypto = Some c\<rparr>)
      | Err e \<Rightarrow> panic (''Failed to initialize crypto for controller '' @ cc_Uuid cfg @ '': '' @ error_text e)
      | Panic p \<Rightarrow> panic p)"

definition isNoRunError :: "go_error \<Rightarrow> bool" where
  "isNoRunError e = (as_status_error e = Some 404)"

fun is_no_handler :: "go_error \<Rightarrow> bool" where
  "is_no_handler (NoHandlerError _) = True"
| "is_no_handler (Permanent e) = is_no_handler e"
| "is_no_handler (Wrapped _ e _) = is_no_handler e"
| "is_no_handler _ = False"

fun is_too_large :: "go_error \<Rightarrow> bool" where
  "is_too_large (RunTooLargeError _ _ _) = True"
| "is_too_large (Permanent e) = is_too_large e"
| "is_too_large (Wrapped _ e _) = is_too_large e"
| "is_too_large _ = False"

definition dispatchFailureMessage :: "go_error \<Rightarrow> string" where
  "dispatchFailureMessage e =
     (if is_no_handler e then error_text e
      else if is_too_large e
      then ''Run data is too large to be passed to the runner. The run data exceeds the Kubernetes secret size limit of 1MiB. Please reduce the size of the building block inputs.''
      else ''Failed to dispatch run: '' @ error_text e)"

definition reportRunFailure :: "http_env \<Rightarrow> controller \<Rightarrow> string \<Rightarrow> string \<Rightarrow> unit api" where
  "reportRunFailure E c runId errorMessage =
     attempt (ctl_RegisterSource E (ct_config c) (ct_meta c) runId) (\<lambda>r.
     case r of
       Ok _ \<Rightarrow> attempt (UpdateRunStatus E (ct_config c) (ct_meta c) runId ''FAILED'' errorMessage errorMessage) (\<lambda>_. ret ())
     | _ \<Rightarrow> ret ())"

text \<open>What follows the fetch of a run.\<close>

definition process_run :: "ctl_env \<Rightarrow> 'd dispatcher \<Rightarrow> controller \<Rightarrow> string \<Rightarrow> run_details \<Rightarrow> ('d, processResult) ctl" where
  "process_run E D c runJsonBase64 run =
     attempt (liftres (decryptRunDetails (ctl_aead E) (ctl_codec E) (ctl_impls E) runJsonBase64 (ct_crypto c))) (\<lambda>r.
     case r of
       Panic p \<Rightarrow> panic p
     | Err _ \<Rightarrow> bnd (via_api (measure_api (inc (decryptionErrors run_metrics) [cc_Uuid (ct_config c)])))
                  (\<lambda>_. ret ProcessFailed)
     | Ok decrypted \<Rightarrow>
     attempt (liftres (GetImplementationType (ctl_codec E) run)) (\<lambda>r.
     case r of
       Panic p \<Rightarrow> panic p
     | Err e \<Rightarrow> bnd (via_api (reportRunFailure (ctl_http E) c (rd_Uuid run)
                  (''Failed to determine implementation type: '' @ error_text e))) (\<lambda>_. ret ProcessFailed)
     | Ok implType \<Rightarrow>
     attempt (via_dispatcher (dp_Dispatch D run decrypted (ToRunnerType implType))) (\<lambda>r.
     case r of
       Panic p \<Rightarrow> panic p
     | Err e \<Rightarrow> bnd (via_api (reportRunFailure (ctl_http E) c (rd_Uuid run) (dispatchFailureMessage e)))
                  (\<lambda>_. ret ProcessFailed)
     | Ok _ \<Rightarrow> ret RunProcessed)))"

definition processNextRun :: "ctl_env \<Rightarrow> 'd dispatcher \<Rightarrow> controller \<Rightarrow> ('d, processResult) ctl" where
  "processNextRun E D c =
     attempt (via_api (ctl_FetchRunDetails (ctl_http E) (ctl_codec E) (ct_config c) (ct_meta c) (cc_Uuid (ct_config c)))) (\<lambda>r.
     case r of
       Panic p \<Rightarrow> panic p
     | Err _ \<Rightarrow> ret NoRunAvailable
     | Ok (runJsonBase64, run) \<Rightarrow> process_run E D c runJsonBase64 run)"

definition availableCapacity :: "'d dispatcher \<Rightarrow> controller \<Rightarrow> ('d, int) ctl" where
  "availableCapacity D c =
     (let maxJobs = cc_MaxConcurrentJobs (ct_config c)
      in if maxJobs < 0 then ret maxDrainPerCycleUnlimited
         else attempt (via_dispatcher (dp_CountActive D)) (\<lambda>r.
              case r of Ok active \<Rightarrow> ret (max (maxJobs - active) 0) | _ \<Rightarrow> ret 0))"

text \<open>At most \<open>n\<close> more rounds; \<open>i\<close> counts them.\<close>

fun drain_rounds :: "ctl_env \<Rightarrow> 'd dispatcher \<Rightarrow> controller \<Rightarrow> (nat \<Rightarrow> bool) \<Rightarrow> nat \<Rightarrow> nat \<Rightarrow> ('d, unit) ctl" where
  "drain_rounds E D c stopped 0 i = ret ()"
| "drain_rounds E D c stopped (Suc n) i =
     (if stopped i then ret ()
      else bnd (processNextRun E D c) (\<lambda>r.
           if r \<noteq> RunProcessed then ret () else drain_rounds E D c stopped n (Suc i)))"

definition drainRuns :: "ctl_env \<Rightarrow> 'd dispatcher \<Rightarrow> controller \<Rightarrow> (nat \<Rightarrow> bool) \<Rightarrow> ('d, unit) ctl" where
  "drainRuns E D c stopped =
     bnd (availableCapacity D c) (\<lambda>capacity.
     if capacity \<le> 0 then via_api (measure_api (inc (jobsAtCapacitySkips run_metrics) [cc_Uuid (ct_config c)]))
     else drain_rounds E D c stopped (nat capacity) 0)"

text \<open>The loop, over what the \<^verbatim>\<open>select\<close> sees: ticks of the timer, and the end of the context.\<close>

definition pollingInterval :: "controller_config \<Rightarrow> int" where
  "pollingInterval cfg = (if cc_PollingIntervalSeconds cfg > 0 then cc_PollingIntervalSeconds cfg else 10)"

datatype ctl_event = Tick "nat \<Rightarrow> bool" | ContextDone

fun Run :: "ctl_env \<Rightarrow> 'd dispatcher \<Rightarrow> controller \<Rightarrow> ctl_event list \<Rightarrow> ('d, unit) ctl" where
  "Run E D c [] = ret ()"
| "Run E D c (ContextDone # es) = ret ()"
| "Run E D c (Tick stopped # es) =
     bnd (via_api (measure_api (inc (controllerLoopIterations run_metrics) []))) (\<lambda>_.
     bnd (drainRuns E D c stopped) (\<lambda>_. Run E D c es))"

section \<open>Lemmas\<close>

lemma via_api_run: "via_api m (a, d) = (r, s') \<longleftrightarrow> (\<exists>a'. m a = (r, a') \<and> s' = (a', d))"
  by (auto simp: via_api_def zoom_def split: prod.splits)

lemma via_dispatcher_run: "via_dispatcher m (a, d) = (r, s') \<longleftrightarrow> (\<exists>d'. m d = (r, d') \<and> s' = (a, d'))"
  by (auto simp: via_dispatcher_def zoom_def split: prod.splits)

text \<open>Reporting a failure never fails itself.\<close>

lemma reportRunFailure_returns: "fst (reportRunFailure E c uuid m a) \<noteq> Err e"
  by (auto simp: reportRunFailure_def attempt_def ret_def split: res.splits prod.splits)

text \<open>The ways a run can go once it is fetched.\<close>

lemma via_report:
  assumes "via_api (reportRunFailure H c u m) (a, d) = (x, s')"
  shows "s' = (snd (reportRunFailure H c u m a), d)" "x = Ok () \<or> (\<exists>p. x = Panic p)"
proof -
  obtain a1 where y: "reportRunFailure H c u m a = (x, a1)" "s' = (a1, d)" using assms by (auto simp: via_api_run)
  then show "s' = (snd (reportRunFailure H c u m a), d)" by simp
  show "x = Ok () \<or> (\<exists>p. x = Panic p)" using y(1) reportRunFailure_returns [of H c u m a] by (cases x) auto
qed

lemma process_run_cases:
  assumes "process_run E D c json run (a, d) = (r, (a', d'))"
  obtains
    (undecrypted) e where "decryptRunDetails (ctl_aead E) (ctl_codec E) (ctl_impls E) json (ct_crypto c) = Err e"
      "r = Ok ProcessFailed" "measure_api (inc (decryptionErrors run_metrics) [cc_Uuid (ct_config c)]) a = (Ok (), a')" "d' = d"
  | (untyped) e where "GetImplementationType (ctl_codec E) run = Err e" "d' = d"
      "snd (reportRunFailure (ctl_http E) c (rd_Uuid run) (''Failed to determine implementation type: '' @ error_text e) a) = a'"
      "r = Ok ProcessFailed \<or> (\<exists>p. r = Panic p)"
  | (refused) dec t e where "dp_Dispatch D run dec (ToRunnerType t) d = (Err e, d')"
      "snd (reportRunFailure (ctl_http E) c (rd_Uuid run) (dispatchFailureMessage e) a) = a'"
      "r = Ok ProcessFailed \<or> (\<exists>p. r = Panic p)"
  | (placed) dec t where "dp_Dispatch D run dec (ToRunnerType t) d = (Ok (), d')" "r = Ok RunProcessed" "a' = a"
      "decryptRunDetails (ctl_aead E) (ctl_codec E) (ctl_impls E) json (ct_crypto c) = Ok dec"
      "GetImplementationType (ctl_codec E) run = Ok t"
  | (crashed) p where "r = Panic p" "a' = a" "d' = d \<or> (\<exists>dec t. dp_Dispatch D run dec t d = (Panic p, d'))"
proof -
  let ?dec = "decryptRunDetails (ctl_aead E) (ctl_codec E) (ctl_impls E) json (ct_crypto c)"
  let ?t = "GetImplementationType (ctl_codec E) run"
  note run = assms [unfolded process_run_def attempt_def liftres_def]
  show thesis
  proof (cases ?dec)
    case (Err e)
    have "via_api (measure_api (inc (decryptionErrors run_metrics) [cc_Uuid (ct_config c)])) (a, d) =
        (Ok (), (snd (measure_api (inc (decryptionErrors run_metrics) [cc_Uuid (ct_config c)]) a), d))"
      by (simp add: inc_def via_api_def zoom_def)
    then show thesis using run Err undecrypted by (auto simp: bnd_def ret_def inc_def)
  next
    case (Panic p)
    then show thesis using run crashed by (auto simp: panic_def)
  next
    case dec: (Ok dec)
    show thesis
    proof (cases ?t)
      case (Err e)
      obtain x s1 where x: "via_api (reportRunFailure (ctl_http E) c (rd_Uuid run)
          (''Failed to determine implementation type: '' @ error_text e)) (a, d) = (x, s1)" by (rule prod.exhaust)
      show thesis using run dec Err x via_report [OF x] untyped [OF Err] by (auto simp: bnd_def ret_def)
    next
      case (Panic p)
      then show thesis using run dec crashed by (auto simp: panic_def)
    next
      case t: (Ok t)
      obtain y d1 where dp: "dp_Dispatch D run dec (ToRunnerType t) d = (y, d1)" by fastforce
      then have "via_dispatcher (dp_Dispatch D run dec (ToRunnerType t)) (a, d) = (y, (a, d1))"
        by (simp add: via_dispatcher_run)
      note disp = run [simplified dec t res.case this prod.case]
      show thesis
      proof (cases y)
        case (Err e)
        obtain x s1 where x: "via_api (reportRunFailure (ctl_http E) c (rd_Uuid run) (dispatchFailureMessage e)) (a, d1) = (x, s1)"
          by (rule prod.exhaust)
        show thesis using disp Err dp x via_report [OF x] refused by (auto simp: bnd_def ret_def)
      next
        case (Panic p)
        then have "r = Panic p" "a' = a" "dp_Dispatch D run dec (ToRunnerType t) d = (Panic p, d')"
          using disp dp by (auto simp: panic_def)
        then show thesis using crashed by blast
      qed (use disp dp dec t placed in \<open>auto simp: ret_def\<close>)
    qed
  qed
qed

context run_placement
begin

lemma process_run_places:
  assumes "process_run E D c json run (a, d) = (r, (a', d'))"
  shows "placed d' \<le> Suc (placed d) \<and> (r = Ok ProcessFailed \<longrightarrow> placed d' = placed d)"
  by (rule process_run_cases [OF assms]) (auto dest: dispatch_places failed_dispatch)

lemma processNextRun_places:
  assumes "processNextRun E D c (a, d) = (r, (a', d'))"
  shows "placed d' \<le> Suc (placed d) \<and> (r = Ok ProcessFailed \<or> r = Ok NoRunAvailable \<longrightarrow> placed d' = placed d)"
proof -
  let ?fetch = "ctl_FetchRunDetails (ctl_http E) (ctl_codec E) (ct_config c) (ct_meta c) (cc_Uuid (ct_config c))"
  obtain x a1 where f: "?fetch a = (x, a1)" by fastforce
  then have via: "via_api ?fetch (a, d) = (x, (a1, d))" by (simp add: via_api_run)
  show ?thesis
  proof (cases x)
    case (Ok jr)
    obtain j run where jr: "jr = (j, run)" by fastforce
    have p: "process_run E D c j run (a1, d) = (r, (a', d'))"
      using assms via Ok jr by (simp add: processNextRun_def attempt_def)
    have "r \<noteq> Ok NoRunAvailable" by (rule process_run_cases [OF p]) (auto simp: process_run_def)
    then show ?thesis using process_run_places [OF p] by auto
  qed (use assms via in \<open>auto simp: processNextRun_def attempt_def ret_def panic_def\<close>)
qed

lemma drain_rounds_place:
  "drain_rounds E D c stopped n i (a, d) = (r, (a', d')) \<Longrightarrow> placed d' \<le> placed d + n"
proof (induction n arbitrary: i a d)
  case (Suc n)
  obtain x a1 d1 where x: "processNextRun E D c (a, d) = (x, (a1, d1))" by (metis prod.collapse)
  from processNextRun_places [OF x] have p: "placed d1 \<le> Suc (placed d)" by simp
  show ?case
    using Suc.prems Suc.IH [of "Suc i" a1 d1] x p
    by (auto simp: bnd_def ret_def split: if_splits res.splits)
qed (simp add: ret_def)

lemma drainRuns_place:
  assumes "drainRuns E D c stopped (a, d) = (r, (a', d'))"
    and "availableCapacity D c (a, d) = (Ok capacity, s1)"
  shows "placed d' \<le> placed d + nat capacity"
proof -
  obtain a1 d1 where s1: "s1 = (a1, d1)" by fastforce
  have same: "placed d1 = placed d"
    using assms(2) unfolding s1 availableCapacity_def
    by (auto simp: Let_def ret_def attempt_def via_dispatcher_run split: if_splits res.splits prod.splits
        dest: count_places)
  show ?thesis
    using assms drain_rounds_place [of E c stopped "nat capacity" 0 a1 d1 r a' d'] same s1
    by (auto simp: drainRuns_def bnd_def ret_def via_api_run split: if_splits)
qed

end

text \<open>What every call of a dispatcher respects, a whole run of the loop respects.\<close>

locale dispatcher_steps =
  fixes D :: "'d dispatcher" and R :: "'d \<Rightarrow> 'd \<Rightarrow> bool"
  assumes refl: "R d d"
    and trans: "R d d' \<Longrightarrow> R d' d'' \<Longrightarrow> R d d''"
    and dispatch_step: "dp_Dispatch D run json ty d = (r, d') \<Longrightarrow> R d d'"
    and count_step: "dp_CountActive D d = (r', d') \<Longrightarrow> R d d'"
begin

lemma process_run_steps:
  assumes "process_run E D c json run (a, d) = (r, (a', d'))"
  shows "R d d'"
  by (rule process_run_cases [OF assms]) (auto dest: dispatch_step intro: refl)

lemma processNextRun_steps:
  assumes "processNextRun E D c (a, d) = (r, (a', d'))"
  shows "R d d'"
proof -
  let ?fetch = "ctl_FetchRunDetails (ctl_http E) (ctl_codec E) (ct_config c) (ct_meta c) (cc_Uuid (ct_config c))"
  obtain x a1 where "?fetch a = (x, a1)" by fastforce
  then have via: "via_api ?fetch (a, d) = (x, (a1, d))" by (simp add: via_api_run)
  show ?thesis
  proof (cases x)
    case (Ok jr)
    obtain j run where "jr = (j, run)" by fastforce
    then have "process_run E D c j run (a1, d) = (r, (a', d'))"
      using assms via Ok by (simp add: processNextRun_def attempt_def)
    then show ?thesis by (rule process_run_steps)
  qed (use assms via refl in \<open>auto simp: processNextRun_def attempt_def ret_def panic_def\<close>)
qed

lemma drain_rounds_steps:
  "drain_rounds E D c stopped n i (a, d) = (r, (a', d')) \<Longrightarrow> R d d'"
proof (induction n arbitrary: i a d)
  case (Suc n)
  obtain x a1 d1 where x: "processNextRun E D c (a, d) = (x, (a1, d1))" by (metis prod.collapse)
  show ?case
    using Suc.prems Suc.IH [of "Suc i" a1 d1] x processNextRun_steps [OF x] refl trans
    by (auto simp: bnd_def ret_def split: if_splits res.splits)
qed (simp add: ret_def refl)

lemma drainRuns_steps:
  assumes "drainRuns E D c stopped (a, d) = (r, (a', d'))"
  shows "R d d'"
proof -
  obtain x a1 d1 where x: "availableCapacity D c (a, d) = (x, (a1, d1))" by (metis prod.collapse)
  have "R d d1"
    using x count_step refl unfolding availableCapacity_def
    by (auto simp: Let_def ret_def attempt_def via_dispatcher_run split: if_splits res.splits prod.splits)
  moreover have "R d1 d'"
    using assms x drain_rounds_steps refl
    by (auto simp: drainRuns_def bnd_def via_api_run split: if_splits res.splits)
  ultimately show ?thesis by (rule trans)
qed

lemma Run_steps: "Run E D c es (a, d) = (r, (a', d')) \<Longrightarrow> R d d'"
proof (induction es arbitrary: a d)
  case (Cons e es)
  show ?case
  proof (cases e)
    case (Tick stopped)
    obtain x a1 d1 where x: "drainRuns E D c stopped
        (a\<lparr>as_measured := as_measured a @ [Inc ''run_controller_loop_iterations_total'' []]\<rparr>, d) = (x, (a1, d1))"
      by (metis prod.collapse)
    have "R d1 d'"
      using Cons.prems Cons.IH [of a1 d1] x refl
      by (auto simp: Tick inc_def bnd_def via_api_def zoom_def split: res.splits)
    with drainRuns_steps [OF x] show ?thesis by (rule trans)
  qed (use Cons.prems refl in \<open>simp add: ret_def\<close>)
qed (simp add: ret_def refl)

end

end
