(* ===== verification/Kubernetes.thy ===== *)
theory Kubernetes
  imports Controller
begin

text \<open>
  The jobs of the run controller: \<^verbatim>\<open>run-controller/controller/kubernetes.go\<close> and \<^verbatim>\<open>wiftoken.go\<close>, and the
  dispatcher of \<^verbatim>\<open>dispatcher.go\<close> around them.

  The API server of the cluster answers through \<open>kube_env\<close>, each answer a function of the calls made so
  far (\<open>kube_call\<close>); the parser of quantities is that of the Kubernetes library. The state also has the
  state of the Keycloak issuer and of the client for warnings. The configuration is an argument, and
  what is measured is in the state of the client. Logs and the time limits of the calls are left out: a
  call that runs into its limit is one that fails.
\<close>

section \<open>Objects\<close>

record owner_reference =
  or_APIVersion :: string
  or_Kind :: string
  or_Name :: string
  or_UID :: string
  or_BlockOwnerDeletion :: bool
  or_Controller :: bool

record kube_secret =
  sec_Name :: string
  sec_GenerateName :: string
  sec_Namespace :: string
  sec_Labels :: "(string \<times> string) list"
  sec_Data :: "(string \<times> string) list"
  sec_OwnerReferences :: "owner_reference list"

record service_account =
  sa_Name :: string
  sa_Namespace :: string
  sa_Labels :: "(string \<times> string) list"

datatype volume_source =
    SecretVolume string
  | ConfigMapVolume string
  | EmptyDirVolume "string option"
  | ProjectedToken string int string
  | NoSource

record volume =
  vol_Name :: string
  vol_Source :: volume_source

record resource_requirements =
  rq_Requests :: "(string \<times> string) list"
  rq_Limits :: "(string \<times> string) list"

text \<open>\<^verbatim>\<open>LocalObjectReference\<close> and \<^verbatim>\<open>Toleration\<close> of the Kubernetes library.\<close>

record object_reference =
  lor_Name :: string

record kube_toleration =
  kt_Key :: string
  kt_Operator :: string
  kt_Value :: string
  kt_Effect :: string
  kt_TolerationSeconds :: "int option"

record container =
  ctr_Name :: string
  ctr_Image :: string
  ctr_Command :: "string list"
  ctr_Args :: "string list"
  ctr_ImagePullPolicy :: string
  ctr_Env :: "(string \<times> string) list"
  ctr_VolumeMounts :: "volume_mount list"
  ctr_Resources :: resource_requirements
  ctr_AllowPrivilegeEscalation :: bool
  ctr_RunAsNonRoot :: bool
  ctr_SeccompProfile :: string
  ctr_DropCapabilities :: "string list"

record kube_job =
  job_Name :: string
  job_Namespace :: string
  job_Labels :: "(string \<times> string) list"
  job_BackoffLimit :: int
  job_TTLSecondsAfterFinished :: int
  pod_Labels :: "(string \<times> string) list"
  pod_RestartPolicy :: string
  pod_ServiceAccountName :: string
  pod_ImagePullSecrets :: "object_reference list"
  pod_Tolerations :: "kube_toleration list"
  pod_NodeSelector :: "(string \<times> string) list"
  pod_Volumes :: "volume list"
  pod_EnableServiceLinks :: bool
  pod_AutomountServiceAccountToken :: bool
  pod_Container :: container

text \<open>A job in a list: the types and the states of its conditions.\<close>

type_synonym job_conditions = "(string \<times> string) list"

section \<open>The API server\<close>

datatype kube_call =
    GetJob string string
  | CreateJob kube_job
  | ListJobs string string
  | GetServiceAccount string string
  | CreateServiceAccount service_account
  | GetSecret string string
  | CreateSecret kube_secret
  | UpdateSecret kube_secret
  | DeleteSecret string string
  | GetOpenidConfiguration

record kube_error =
  kerr_NotFound :: bool
  kerr_Text :: string

text \<open>\<open>kube_GetJob\<close> and the like: \<open>None\<close> or a right value is success.\<close>

record kube_env =
  kube_GetJob :: "kube_call list \<Rightarrow> kube_error option"
  kube_CreateJob :: "kube_call list \<Rightarrow> kube_error + string \<times> string"
  kube_ListJobs :: "kube_call list \<Rightarrow> kube_error + job_conditions list"
  kube_GetServiceAccount :: "kube_call list \<Rightarrow> kube_error option"
  kube_CreateServiceAccount :: "kube_call list \<Rightarrow> kube_error option"
  kube_GetSecret :: "kube_call list \<Rightarrow> kube_error + kube_secret"
  kube_CreateSecret :: "kube_call list \<Rightarrow> kube_error + string"
  kube_UpdateSecret :: "kube_call list \<Rightarrow> kube_error option"
  kube_DeleteSecret :: "kube_call list \<Rightarrow> kube_error option"
  kube_DoRaw :: "kube_call list \<Rightarrow> string + string"
  kube_DecodeIssuer :: "string \<Rightarrow> string + string"
  kube_ParseQuantity :: "string \<Rightarrow> string option"
  kube_wif :: kc_env
  kube_http :: http_env

record kube_state =
  ku_calls :: "kube_call list"
  ku_issuer :: kc_state
  ku_api :: api_state

type_synonym 'a kube = "(kube_state, 'a) prog"

text \<open>\<^verbatim>\<open>apierrors.IsNotFound\<close> looks at the error of the server; here that is the constructor \<open>NotExist\<close>.\<close>

definition server_error :: "kube_error \<Rightarrow> go_error" where
  "server_error e = (if kerr_NotFound e then NotExist (kerr_Text e) else ErrorString (kerr_Text e))"

definition answer :: "kube_error + 'a \<Rightarrow> 'a res" where
  "answer r = (case r of Inl e \<Rightarrow> Err (server_error e) | Inr a \<Rightarrow> Ok a)"

definition done_unless :: "kube_error option \<Rightarrow> unit res" where
  "done_unless r = (case r of Some e \<Rightarrow> Err (server_error e) | None \<Rightarrow> Ok ())"

definition kube_do :: "kube_call \<Rightarrow> (kube_call list \<Rightarrow> 'a res) \<Rightarrow> 'a kube" where
  "kube_do c ans s = (let h = ku_calls s @ [c] in (ans h, s\<lparr>ku_calls := h\<rparr>))"

definition on_issuer :: "'a kc \<Rightarrow> 'a kube" where
  "on_issuer = zoom ku_issuer (\<lambda>t s. s\<lparr>ku_issuer := t\<rparr>)"

definition on_api :: "'a api \<Rightarrow> 'a kube" where
  "on_api = zoom ku_api (\<lambda>t s. s\<lparr>ku_api := t\<rparr>)"

definition measure_kube :: "measured \<Rightarrow> unit kube" where
  "measure_kube m = on_api (measure_api m)"

section \<open>Parts of a job\<close>

definition MaxKubernetesSecretSize :: nat where "MaxKubernetesSecretSize = 1048576"
definition SecretMetadataOverhead :: nat where "SecretMetadataOverhead = 10 * 1024"
definition EffectiveMaxRunJsonSize :: nat where
  "EffectiveMaxRunJsonSize = MaxKubernetesSecretSize - SecretMetadataOverhead"

definition estimateRunJsonSize :: "string \<Rightarrow> nat" where
  "estimateRunJsonSize runJsonBase64 = DecodedLen (length runJsonBase64)"

definition DefaultCpuRequest :: string where "DefaultCpuRequest = ''100m''"
definition DefaultCpuLimit :: string where "DefaultCpuLimit = []"
definition DefaultMemoryRequest :: string where "DefaultMemoryRequest = ''256Mi''"
definition DefaultMemoryLimit :: string where "DefaultMemoryLimit = ''1Gi''"

text \<open>\<^verbatim>\<open>resource.MustParse\<close> panics on a text that is no quantity.\<close>

definition MustParse :: "kube_env \<Rightarrow> string \<Rightarrow> string res" where
  "MustParse K s =
     (case kube_ParseQuantity K s of
        Some q \<Rightarrow> Ok q
      | None \<Rightarrow> Panic (''cannot parse '' @ quoted s))"

definition buildResourceRequirements :: "kube_env \<Rightarrow> resources_config \<Rightarrow> resource_requirements res" where
  "buildResourceRequirements K c =
     (let cpuRequest = cmp_or (rsp_Cpu (res_Requests c)) DefaultCpuRequest;
          cpuLimit = cmp_or (rsp_Cpu (res_Limits c)) DefaultCpuLimit;
          memoryRequest = cmp_or (rsp_Memory (res_Requests c)) DefaultMemoryRequest;
          memoryLimit = cmp_or (rsp_Memory (res_Limits c)) DefaultMemoryLimit
      in rbind (MustParse K cpuRequest) (\<lambda>cpu.
         rbind (MustParse K memoryRequest) (\<lambda>mem.
         rbind (MustParse K memoryLimit) (\<lambda>lim.
         if cpuLimit \<noteq> []
         then rbind (MustParse K cpuLimit) (\<lambda>cl.
              Ok \<lparr>rq_Requests = [(''cpu'', cpu), (''memory'', mem)], rq_Limits = [(''memory'', lim), (''cpu'', cl)]\<rparr>)
         else Ok \<lparr>rq_Requests = [(''cpu'', cpu), (''memory'', mem)], rq_Limits = [(''memory'', lim)]\<rparr>))))"

definition extra_volume_source :: "kube_env \<Rightarrow> extra_volume \<Rightarrow> volume_source" where
  "extra_volume_source K ev =
     (case ev_ConfigMap ev of
        Some name \<Rightarrow> ConfigMapVolume name
      | None \<Rightarrow>
          (case ev_Secret ev of
             Some name \<Rightarrow> SecretVolume name
           | None \<Rightarrow>
               (case ev_EmptyDir ev of
                  Some sizeLimit \<Rightarrow>
                    EmptyDirVolume (if sizeLimit \<noteq> [] then kube_ParseQuantity K sizeLimit else None)
                | None \<Rightarrow> NoSource)))"

definition createVolumes :: "kube_env \<Rightarrow> job_spec_template \<Rightarrow> string \<Rightarrow> volume list \<Rightarrow> volume list" where
  "createVolumes K spec runJsonSecretName wifVolumes =
     [\<lparr>vol_Name = ''run-json'', vol_Source = SecretVolume runJsonSecretName\<rparr>] @ wifVolumes
     @ map (\<lambda>ev. \<lparr>vol_Name = ev_Name ev, vol_Source = extra_volume_source K ev\<rparr>) (js_ExtraVolumes spec)"

definition wifTokenVolumeName :: string where "wifTokenVolumeName = ''meshstack-wif-token''"

definition cloud_audiences :: "string \<Rightarrow> (string \<times> string) list" where
  "cloud_audiences namespace =
     [(''azure'', ''api://AzureADTokenExchange''),
      (''gcp'', ''gcp-workload-identity-provider:'' @ namespace),
      (''aws'', ''aws-workload-identity-provider:'' @ namespace)]"

definition wifTokenVolumes :: "wif_config \<Rightarrow> string \<Rightarrow> string \<Rightarrow> volume list \<times> volume_mount list" where
  "wifTokenVolumes wif namespace tokenSecretName =
     (if wif_issuer wif = WifIssuerKeycloak
      then (if tokenSecretName = [] then ([], [])
            else ([\<lparr>vol_Name = wifTokenVolumeName, vol_Source = SecretVolume tokenSecretName\<rparr>],
                  [\<lparr>vm_Name = wifTokenVolumeName, vm_MountPath = wifTokenMountPath, vm_ReadOnly = True\<rparr>]))
      else if wif_issuer wif = WifIssuerKubernetes
      then (map (\<lambda>(cloud, audience). \<lparr>vol_Name = ''service-account-token-'' @ cloud,
                    vol_Source = ProjectedToken audience 7200 ''token''\<rparr>) (cloud_audiences namespace),
            map (\<lambda>(cloud, audience). \<lparr>vm_Name = ''service-account-token-'' @ cloud,
                    vm_MountPath = ''/var/run/secrets/workload-identity/'' @ cloud, vm_ReadOnly = True\<rparr>)
                (cloud_audiences namespace))
      else ([], []))"

definition createVolumeMounts :: "job_spec_template \<Rightarrow> volume_mount list \<Rightarrow> volume_mount list" where
  "createVolumeMounts spec wifVolumeMounts =
     [\<lparr>vm_Name = ''run-json'', vm_MountPath = ''/var/run/secrets/meshstack'', vm_ReadOnly = True\<rparr>]
     @ wifVolumeMounts @ js_ExtraVolumeMounts spec"

definition runJsonFilePath :: string where "runJsonFilePath = ''/var/run/secrets/meshstack/run.json''"

definition buildEnvVars :: "controller_config \<Rightarrow> job_spec_template \<Rightarrow> (string \<times> string) list" where
  "buildEnvVars cfg spec =
     [(''RUN_JSON_FILE_PATH'', runJsonFilePath), (''RUNNER_UUID'', cc_Uuid cfg),
      (''RUNNER_API_URL'', ac_Url (cc_Api cfg))] @ js_Env spec"

text \<open>A nil slice and an empty one are the same list here.\<close>

definition buildTolerations :: "toleration list \<Rightarrow> kube_toleration list" where
  "buildTolerations configs =
     (if length configs = 0 then []
      else map (\<lambda>c. \<lparr>kt_Key = tol_Key c, kt_Operator = tol_Operator c, kt_Value = tol_Value c,
                     kt_Effect = tol_Effect c, kt_TolerationSeconds = tol_Seconds c\<rparr>) configs)"

definition buildImagePullSecrets :: "controller_config \<Rightarrow> object_reference list" where
  "buildImagePullSecrets cfg =
     (if length (cc_ImagePullSecrets cfg) = 0 then []
      else map (\<lambda>secret. \<lparr>lor_Name = secret\<rparr>) (cc_ImagePullSecrets cfg))"

definition buildCommand :: "job_spec_template \<Rightarrow> string list" where
  "buildCommand spec = (if length (js_Command spec) > 0 then js_Command spec else [])"

definition buildArgs :: "job_spec_template \<Rightarrow> string list" where
  "buildArgs spec = (if length (js_Args spec) > 0 then js_Args spec else [])"

section \<open>Secrets\<close>

definition run_labels :: "controller_config \<Rightarrow> string \<Rightarrow> (string \<times> string) list" where
  "run_labels cfg runID =
     [(''app.kubernetes.io/name'', ''runner''), (''meshcloud.io/run-id'', runID),
      (''meshcloud.io/runner-id'', cc_Uuid cfg)]"

definition createServiceAccount :: "kube_env \<Rightarrow> controller_config \<Rightarrow> string \<Rightarrow> string \<Rightarrow> string \<Rightarrow> unit kube" where
  "createServiceAccount K cfg namespace name runID =
     attempt (kube_do (GetServiceAccount namespace name) (\<lambda>h. done_unless (kube_GetServiceAccount K h))) (\<lambda>r.
     case r of
       Ok _ \<Rightarrow> ret ()
     | _ \<Rightarrow> attempt
              (kube_do (CreateServiceAccount \<lparr>sa_Name = name, sa_Namespace = namespace, sa_Labels = run_labels cfg runID\<rparr>)
                 (\<lambda>h. done_unless (kube_CreateServiceAccount K h))) (\<lambda>r.
            case r of
              Ok _ \<Rightarrow> measure_kube (inc (serviceAccountsCreatedTotal run_metrics) [cc_Uuid cfg])
            | Err e \<Rightarrow>
                bnd (measure_kube (inc (serviceAccountCreationErrors run_metrics) [cc_Uuid cfg, ErrorTypeServiceAccountCreation]))
                  (\<lambda>_. throw (Wrapped ''failed to create service account: '' e ''''))
            | Panic p \<Rightarrow> panic p))"

definition run_json_secret :: "controller_config \<Rightarrow> string \<Rightarrow> string \<Rightarrow> string \<Rightarrow> string \<Rightarrow> kube_secret" where
  "run_json_secret cfg namespace secretName runID runJsonBytes =
     \<lparr>sec_Name = secretName, sec_GenerateName = [], sec_Namespace = namespace,
      sec_Labels = run_labels cfg runID, sec_Data = [(''run.json'', runJsonBytes)], sec_OwnerReferences = []\<rparr>"

definition createRunJsonSecret ::
  "kube_env \<Rightarrow> controller_config \<Rightarrow> string \<Rightarrow> string \<Rightarrow> string \<Rightarrow> string \<Rightarrow> unit kube" where
  "createRunJsonSecret K cfg namespace secretName runJsonBase64 runID =
     bnd (liftres (wrap_res ''failed to decode run json base64: '' (b64_decode runJsonBase64))) (\<lambda>runJsonBytes.
     attempt (kube_do (GetSecret namespace secretName) (\<lambda>h. answer (kube_GetSecret K h))) (\<lambda>r.
     case r of
       Ok _ \<Rightarrow> ret ()
     | Panic p \<Rightarrow> panic p
     | Err e \<Rightarrow>
         if \<not> is_not_exist e
         then throw (Wrapped (''failed to check if secret '' @ secretName @ '' exists: '') e '''')
         else bnd (wrap_err ''failed to create secret: ''
                (kube_do (CreateSecret (run_json_secret cfg namespace secretName runID runJsonBytes))
                   (\<lambda>h. answer (kube_CreateSecret K h)))) (\<lambda>_. ret ())))"

definition token_secret :: "controller_config \<Rightarrow> string \<Rightarrow> string \<Rightarrow> string \<Rightarrow> kube_secret" where
  "token_secret cfg namespace runID token =
     \<lparr>sec_Name = [], sec_GenerateName = ''wif-token-'' @ runID @ ''-'', sec_Namespace = namespace,
      sec_Labels = run_labels cfg runID, sec_Data = [(wifTokenSecretKey, token)], sec_OwnerReferences = []\<rparr>"

definition createTokenSecret :: "kube_env \<Rightarrow> controller_config \<Rightarrow> string \<Rightarrow> string \<Rightarrow> string \<Rightarrow> string kube" where
  "createTokenSecret K cfg namespace runID token =
     wrap_err ''failed to create secret: ''
       (kube_do (CreateSecret (token_secret cfg namespace runID token)) (\<lambda>h. answer (kube_CreateSecret K h)))"

definition newWifTokenIssuer :: "keycloak_wif_config \<Rightarrow> kc_config" where
  "newWifTokenIssuer c =
     \<lparr>kc_Url = kw_Url c, kc_Realm = kw_Realm c, kc_Issuer = keycloak_issuer c, kc_ClientId = kw_ClientId c,
      kc_ClientSecret = kw_ClientSecret c, kc_TokenLifetime = duration (kw_TokenLifetimeMinutes c * (60 * second))\<rparr>"

text \<open>The client; without an issuer of tokens \<open>kb_wifTokens\<close> is \<open>None\<close>.\<close>

record kube_client =
  kb_namespace :: string
  kb_wifTokens :: "kc_config option"
  kb_meta :: client_metadata

definition createWifTokenSecret ::
  "kube_env \<Rightarrow> controller_config \<Rightarrow> kube_client \<Rightarrow> string \<Rightarrow> run_info_dto \<Rightarrow> string \<Rightarrow> string kube" where
  "createWifTokenSecret K cfg k namespace info implType =
     (case kb_wifTokens k of
        None \<Rightarrow> ret []
      | Some kc \<Rightarrow>
          if implType \<noteq> ''TERRAFORM'' then ret []
          else attempt
            (bnd (on_issuer (Issue (kube_wif K) kc (rid_Uuid info) (renderSubjectTemplate keycloakSubjectTemplate info)))
               (createTokenSecret K cfg namespace (rid_Uuid info))) (\<lambda>r.
            case r of
              Ok secretName \<Rightarrow>
                bnd (measure_kube (inc (wifTokensIssuedTotal run_metrics) [cc_Uuid cfg])) (\<lambda>_. ret secretName)
            | _ \<Rightarrow>
                bnd (measure_kube (inc (wifTokenErrors run_metrics) [cc_Uuid cfg])) (\<lambda>_.
                attempt (on_api (ReportWifTokenMissing (kube_http K) cfg (kb_meta k) (rid_Uuid info))) (\<lambda>_. ret []))))"

definition setSecretOwnerReference :: "kube_env \<Rightarrow> string \<Rightarrow> string \<Rightarrow> string \<times> string \<Rightarrow> unit kube" where
  "setSecretOwnerReference K namespace secretName job =
     bnd (wrap_err ''failed to get secret for owner reference update: ''
            (kube_do (GetSecret namespace secretName) (\<lambda>h. answer (kube_GetSecret K h)))) (\<lambda>secret.
     wrap_err ''failed to update secret with owner reference: ''
       (kube_do (UpdateSecret (secret\<lparr>sec_OwnerReferences :=
          [\<lparr>or_APIVersion = ''batch/v1'', or_Kind = ''Job'', or_Name = fst job, or_UID = snd job,
            or_BlockOwnerDeletion = True, or_Controller = True\<rparr>]\<rparr>))
          (\<lambda>h. done_unless (kube_UpdateSecret K h))))"

section \<open>Jobs\<close>

definition job_labels :: "controller_config \<Rightarrow> string \<Rightarrow> string \<Rightarrow> (string \<times> string) list" where
  "job_labels cfg runID implType = run_labels cfg runID @ [(''meshcloud.io/runner-type'', implType)]"

definition runner_job ::
  "controller_config \<Rightarrow> kube_env \<Rightarrow> job_spec_template \<Rightarrow> run_info_dto \<Rightarrow> string \<Rightarrow> string \<Rightarrow> string \<Rightarrow>
   volume list \<times> volume_mount list \<Rightarrow> resource_requirements \<Rightarrow> kube_job" where
  "runner_job cfg K spec info implType serviceAccountName runJsonSecretName wif resources =
     \<lparr>job_Name = ''runner-'' @ rid_Uuid info,
      job_Namespace = cc_Namespace cfg,
      job_Labels = job_labels cfg (rid_Uuid info) implType,
      job_BackoffLimit = 1,
      job_TTLSecondsAfterFinished = 120,
      pod_Labels = job_labels cfg (rid_Uuid info) implType,
      pod_RestartPolicy = ''Never'',
      pod_ServiceAccountName = serviceAccountName,
      pod_ImagePullSecrets = buildImagePullSecrets cfg,
      pod_Tolerations = buildTolerations (cc_Tolerations cfg),
      pod_NodeSelector = cc_NodeSelector cfg,
      pod_Volumes = createVolumes K spec runJsonSecretName (fst wif),
      pod_EnableServiceLinks = False,
      pod_AutomountServiceAccountToken = False,
      pod_Container =
        \<lparr>ctr_Name = ''runner'',
         ctr_Image = js_Image spec,
         ctr_Command = buildCommand spec,
         ctr_Args = buildArgs spec,
         ctr_ImagePullPolicy = ''IfNotPresent'',
         ctr_Env = buildEnvVars cfg spec,
         ctr_VolumeMounts = createVolumeMounts spec (snd wif),
         ctr_Resources = resources,
         ctr_AllowPrivilegeEscalation = False,
         ctr_RunAsNonRoot = True,
         ctr_SeccompProfile = ''RuntimeDefault'',
         ctr_DropCapabilities = [''ALL'']\<rparr>\<rparr>"

text \<open>The secrets of a run; an empty name means that there is no token.\<close>

definition run_secrets :: "string \<Rightarrow> string \<Rightarrow> string list" where
  "run_secrets runJsonSecretName wifTokenSecretName =
     runJsonSecretName # (if wifTokenSecretName \<noteq> [] then [wifTokenSecretName] else [])"

text \<open>A call for each name, whose failures are ignored.\<close>

definition for_each :: "('a \<Rightarrow> ('s, unit) prog) \<Rightarrow> 'a list \<Rightarrow> ('s, unit) prog" where
  "for_each f xs = foldr (\<lambda>x rest. attempt (f x) (\<lambda>_. rest)) xs (ret ())"

definition delete_secret :: "kube_env \<Rightarrow> string \<Rightarrow> string \<Rightarrow> unit kube" where
  "delete_secret K namespace name = kube_do (DeleteSecret namespace name) (\<lambda>h. done_unless (kube_DeleteSecret K h))"

definition count_error :: "controller_config \<Rightarrow> string \<Rightarrow> unit kube" where
  "count_error cfg errorType = measure_kube (inc (jobCreationErrors run_metrics) [cc_Uuid cfg, errorType])"

text \<open>A step whose failure is counted and wrapped.\<close>

definition job_step :: "controller_config \<Rightarrow> string \<Rightarrow> 'a kube \<Rightarrow> 'a kube" where
  "job_step cfg message m =
     attempt m (\<lambda>r. case r of
       Ok a \<Rightarrow> ret a
     | Err e \<Rightarrow> bnd (count_error cfg ErrorTypeJobCreation) (\<lambda>_. throw (Wrapped message e ''''))
     | Panic p \<Rightarrow> panic p)"

text \<open>The job itself, once the secrets of the run exist.\<close>

definition place_job ::
  "kube_env \<Rightarrow> controller_config \<Rightarrow> job_spec_template \<Rightarrow> run_info_dto \<Rightarrow> string \<Rightarrow> string \<Rightarrow> string \<Rightarrow> string \<Rightarrow>
   unit kube" where
  "place_job K cfg spec info implType serviceAccountName runJsonSecretName wifTokenSecretName =
     (let namespace = cc_Namespace cfg;
          wif = wifTokenVolumes (cc_Wif cfg) namespace wifTokenSecretName;
          secrets = run_secrets runJsonSecretName wifTokenSecretName
      in bnd (liftres (buildResourceRequirements K (js_Resources spec))) (\<lambda>resources.
         attempt (kube_do (CreateJob (runner_job cfg K spec info implType serviceAccountName runJsonSecretName wif resources))
                    (\<lambda>h. answer (kube_CreateJob K h))) (\<lambda>r.
         case r of
           Ok job \<Rightarrow> bnd (for_each (\<lambda>name. setSecretOwnerReference K namespace name job) secrets)
                       (\<lambda>_. measure_kube (inc (jobsCreatedTotal run_metrics) [cc_Uuid cfg]))
         | Panic p \<Rightarrow> panic p
         | Err e \<Rightarrow> bnd (count_error cfg ErrorTypeJobCreation) (\<lambda>_.
                     bnd (for_each (delete_secret K namespace) secrets)
                       (\<lambda>_. throw (Wrapped ''failed to create job: '' e ''''))))))"

text \<open>\<^verbatim>\<open>CreateRunnerJob\<close> without the deferred measurement of its duration, and with it.\<close>

definition create_runner_job ::
  "kube_env \<Rightarrow> controller_config \<Rightarrow> kube_client \<Rightarrow> run_info_dto \<Rightarrow> string \<Rightarrow> string \<Rightarrow> job_spec_template \<Rightarrow> unit kube" where
  "create_runner_job K cfg k info runJsonBase64 implType spec =
     (let namespace = cc_Namespace cfg;
          serviceAccountName = renderSubjectTemplate serviceAccountNameTemplate info;
          runJsonSecretName = ''run-json-'' @ rid_Uuid info;
          size = estimateRunJsonSize runJsonBase64
      in attempt (kube_do (GetJob namespace (''runner-'' @ rid_Uuid info)) (\<lambda>h. done_unless (kube_GetJob K h))) (\<lambda>r.
         case r of
           Ok _ \<Rightarrow> ret ()
         | _ \<Rightarrow>
             if size > EffectiveMaxRunJsonSize
             then bnd (count_error cfg ErrorTypeRunTooLarge)
                    (\<lambda>_. throw (RunTooLargeError (rid_Uuid info) size EffectiveMaxRunJsonSize))
             else
               bnd (job_step cfg ''failed to create service account: ''
                      (createServiceAccount K cfg namespace serviceAccountName (rid_Uuid info))) (\<lambda>_.
               bnd (job_step cfg ''failed to create run json secret: ''
                      (createRunJsonSecret K cfg namespace runJsonSecretName runJsonBase64 (rid_Uuid info))) (\<lambda>_.
               bnd (createWifTokenSecret K cfg k namespace info implType) (\<lambda>wifTokenSecretName.
               place_job K cfg spec info implType serviceAccountName runJsonSecretName wifTokenSecretName)))))"

definition CreateRunnerJob ::
  "kube_env \<Rightarrow> controller_config \<Rightarrow> kube_client \<Rightarrow> run_info_dto \<Rightarrow> string \<Rightarrow> string \<Rightarrow> job_spec_template \<Rightarrow> unit kube" where
  "CreateRunnerJob K cfg k info runJsonBase64 implType spec =
     deferred (measure_kube (observe (jobCreationDuration run_metrics) [cc_Uuid cfg]))
       (create_runner_job K cfg k info runJsonBase64 implType spec)"

definition isJobFinished :: "job_conditions \<Rightarrow> bool" where
  "isJobFinished conds = list_ex (\<lambda>(ty, status). (ty = ''Complete'' \<or> ty = ''Failed'') \<and> status = ''True'') conds"

definition CountActiveJobs :: "kube_env \<Rightarrow> controller_config \<Rightarrow> int kube" where
  "CountActiveJobs K cfg =
     bnd (wrap_err ''failed to list jobs for capacity check: ''
            (kube_do (ListJobs (cc_Namespace cfg) (''meshcloud.io/runner-id='' @ cc_Uuid cfg))
               (\<lambda>h. answer (kube_ListJobs K h)))) (\<lambda>jobs.
     ret (int (length (filter (\<lambda>j. \<not> isJobFinished j) jobs))))"

section \<open>The dispatcher\<close>

definition kube_Dispatch ::
  "kube_env \<Rightarrow> controller_config \<Rightarrow> kube_client \<Rightarrow> run_details \<Rightarrow> string \<Rightarrow> string \<Rightarrow> unit kube" where
  "kube_Dispatch K cfg k run decryptedRunJsonBase64 runnerType =
     (case map_of (cc_Implementations cfg) runnerType of
        None \<Rightarrow> throw (NoHandlerError runnerType)
      | Some spec \<Rightarrow> CreateRunnerJob K cfg k (GetRunInfo run) decryptedRunJsonBase64 runnerType spec)"

definition fetchOIDCIssuer :: "kube_env \<Rightarrow> string kube" where
  "fetchOIDCIssuer K =
     bnd (wrap_err ''failed to fetch OIDC configuration: ''
            (kube_do GetOpenidConfiguration (\<lambda>h. decoded (kube_DoRaw K h)))) (\<lambda>body.
     bnd (wrap_err ''failed to parse OIDC configuration: '' (liftres (decoded (kube_DecodeIssuer K body)))) (\<lambda>issuer.
     if issuer = [] then throw (ErrorString ''OIDC configuration does not contain an issuer'') else ret issuer))"

definition discoverOIDCIssuer :: "kube_env \<Rightarrow> string kube" where
  "discoverOIDCIssuer K =
     attempt (fetchOIDCIssuer K) (\<lambda>r. case r of Ok issuer \<Rightarrow> ret issuer | _ \<Rightarrow> ret [])"

definition kube_CountActive :: "kube_env \<Rightarrow> controller_config \<Rightarrow> int kube" where
  [simp]: "kube_CountActive K cfg = CountActiveJobs K cfg"

definition kube_dispatcher :: "kube_env \<Rightarrow> controller_config \<Rightarrow> kube_client \<Rightarrow> kube_state dispatcher" where
  "kube_dispatcher K cfg k = \<lparr>dp_Dispatch = kube_Dispatch K cfg k, dp_CountActive = kube_CountActive K cfg\<rparr>"

text \<open>
  The client and the discovered issuer, a package variable. \<open>connected\<close> is the outcome of building the
  client of the Kubernetes library. With the issuer keycloak and no keycloak section the program
  dereferences \<^verbatim>\<open>nil\<close>.
\<close>

definition newKubernetesClient ::
  "kube_env \<Rightarrow> unit res \<Rightarrow> controller_config \<Rightarrow> client_metadata \<Rightarrow> (kube_client \<times> string) kube" where
  "newKubernetesClient K connected cfg m =
     bnd (liftres connected) (\<lambda>_.
     bnd (if wif_issuer (cc_Wif cfg) = WifIssuerKubernetes then discoverOIDCIssuer K else ret []) (\<lambda>issuer.
     ret (\<lparr>kb_namespace = cc_Namespace cfg, kb_wifTokens = None, kb_meta = m\<rparr>, issuer)))"

definition NewKubernetesDispatcher ::
  "kube_env \<Rightarrow> unit res \<Rightarrow> controller_config \<Rightarrow> client_metadata \<Rightarrow> (kube_client \<times> string) kube" where
  "NewKubernetesDispatcher K connected cfg m =
     attempt (newKubernetesClient K connected cfg m) (\<lambda>r.
     case r of
       Err e \<Rightarrow> panic (''Failed to create Kubernetes client: '' @ error_text e)
     | Panic p \<Rightarrow> panic p
     | Ok (k, issuer) \<Rightarrow>
         if wif_issuer (cc_Wif cfg) = WifIssuerKeycloak
         then (case wif_Keycloak (cc_Wif cfg) of
                 None \<Rightarrow> panic ''nil pointer dereference''
               | Some kw \<Rightarrow> ret (k\<lparr>kb_wifTokens := Some (newWifTokenIssuer kw)\<rparr>, issuer))
         else ret (k, issuer))"

section \<open>Lemmas\<close>

text \<open>The calls a computation adds, with the answer to each creation of a job.\<close>

definition created_jobs :: "kube_env \<Rightarrow> kube_call list \<Rightarrow> nat set" where
  "created_jobs K h = {i. i < length h \<and> (\<exists>j. h ! i = CreateJob j) \<and> (\<exists>a. kube_CreateJob K (take (Suc i) h) = Inr a)}"

text \<open>The names of the secrets created.\<close>

definition secret_name :: "kube_secret \<Rightarrow> string \<Rightarrow> string" where
  "secret_name s answered = (if sec_Name s = [] then answered else sec_Name s)"

definition created_secrets :: "kube_env \<Rightarrow> kube_call list \<Rightarrow> (nat \<times> string) set" where
  "created_secrets K h = {(i, n). i < length h \<and> (\<exists>s a. h ! i = CreateSecret s \<and>
     kube_CreateSecret K (take (Suc i) h) = Inr a \<and> n = secret_name s a)}"

lemma created_jobs_Nil [simp]: "created_jobs K [] = {}"
  by (simp add: created_jobs_def)

lemma created_jobs_snoc:
  "created_jobs K (h @ [c]) = created_jobs K h \<union>
     (if (\<exists>j. c = CreateJob j) \<and> (\<exists>a. kube_CreateJob K (h @ [c]) = Inr a) then {length h} else {})"
  by (auto simp: created_jobs_def nth_append less_Suc_eq)

lemma created_secrets_snoc:
  "created_secrets K (h @ [c]) = created_secrets K h \<union>
     {(length h, n) |n. \<exists>s a. c = CreateSecret s \<and> kube_CreateSecret K (h @ [c]) = Inr a \<and> n = secret_name s a}"
  by (auto simp: created_secrets_def nth_append less_Suc_eq)

lemma finite_created_jobs [simp]: "finite (created_jobs K h)"
  unfolding created_jobs_def by simp

definition places_no_job :: "kube_call \<Rightarrow> bool" where
  "places_no_job c \<longleftrightarrow> (\<forall>j. c \<noteq> CreateJob j)"

definition creates_no_secret :: "kube_call \<Rightarrow> bool" where
  "creates_no_secret c \<longleftrightarrow> (\<forall>s. c \<noteq> CreateSecret s)"

lemma created_jobs_kept: "list_all places_no_job cs \<Longrightarrow> created_jobs K (h @ cs) = created_jobs K h"
proof (induction cs rule: rev_induct)
  case (snoc c cs)
  then show ?case
    by (simp add: created_jobs_snoc [where h = "h @ cs", simplified append_assoc] places_no_job_def)
qed simp

lemma created_secrets_kept: "list_all creates_no_secret cs \<Longrightarrow> created_secrets K (h @ cs) = created_secrets K h"
proof (induction cs rule: rev_induct)
  case (snoc c cs)
  then show ?case
    by (simp add: created_secrets_snoc [where h = "h @ cs", simplified append_assoc] creates_no_secret_def)
qed simp

text \<open>A measurement is all that a report changes.\<close>

definition noted :: "measurement list \<Rightarrow> kube_state \<Rightarrow> kube_state" where
  "noted ms s = s\<lparr>ku_api := (ku_api s)\<lparr>as_measured := as_measured (ku_api s) @ ms\<rparr>\<rparr>"

lemma measure_kube_run [simp]:
  "length vs = length (co_Labels c) \<Longrightarrow> measure_kube (inc c vs) s = (Ok (), noted [Inc (co_Name c) (zip (co_Labels c) vs)] s)"
  "length vs = length (co_Labels c) \<Longrightarrow> measure_kube (observe c vs) s = (Ok (), noted [Observe (co_Name c) (zip (co_Labels c) vs)] s)"
  by (simp_all add: measure_kube_def on_api_def zoom_def inc_def observe_def noted_def)

lemma count_error_run [simp]:
  "count_error cfg ty s = (Ok (), noted [Inc ''run_controller_job_creation_errors_total''
     [(''controller_uuid'', cc_Uuid cfg), (''error_type'', ty)]] s)"
  by (simp add: count_error_def)

lemma noted_simps [simp]:
  "ku_calls (noted ms s) = ku_calls s" "ku_issuer (noted ms s) = ku_issuer s"
  "as_measured (ku_api (noted ms s)) = as_measured (ku_api s) @ ms" "as_sent (ku_api (noted ms s)) = as_sent (ku_api s)"
  by (simp_all add: noted_def)

lemma noted_noted [simp]: "noted ms' (noted ms s) = noted (ms @ ms') s"
  by (simp add: noted_def)

lemma job_step_run:
  "job_step cfg t m s = (r, s') \<longleftrightarrow> (\<exists>x s1. m s = (x, s1) \<and>
     (case x of Ok a \<Rightarrow> r = Ok a \<and> s' = s1
      | Err e \<Rightarrow> r = Err (Wrapped t e '''') \<and> (Ok (), s') = count_error cfg ErrorTypeJobCreation s1
      | Panic p \<Rightarrow> r = Panic p \<and> s' = s1))"
  by (auto simp: job_step_def attempt_def ret_def throw_def bnd_def split: prod.splits res.splits)

text \<open>What the operations call.\<close>

lemma emits_kube_do [emits_intros]: "P c \<Longrightarrow> emits ku_calls P (kube_do c ans)"
  by (auto simp: emits_def kube_do_def Let_def)

lemma emits_zoomed [emits_intros]:
  "emits ku_calls P (on_issuer m)" "emits ku_calls P (on_api m')"
  by (auto simp: emits_def on_issuer_def on_api_def zoom_def split: prod.splits)

lemma emits_measured [emits_intros]:
  "emits ku_calls P (measure_kube m)" "emits ku_calls P (count_error cfg ty)"
  unfolding measure_kube_def count_error_def by (rule emits_zoomed)+

lemma emits_job_step [emits_intros]: "emits ku_calls P m \<Longrightarrow> emits ku_calls P (job_step cfg t m)"
  unfolding job_step_def by (auto intro!: emits_intros)

lemma emits_for_each [emits_intros]: "(\<And>x. emits log P (f x)) \<Longrightarrow> emits log P (for_each f xs)"
  unfolding for_each_def by (induction xs) (auto intro!: emits_intros)

lemma silent_calls [simp]:
  "places_no_job (GetJob n x)" "places_no_job (ListJobs n x)" "places_no_job (GetServiceAccount n x)"
  "places_no_job (CreateServiceAccount sa)" "places_no_job (GetSecret n x)" "places_no_job (CreateSecret s)"
  "places_no_job (UpdateSecret s)" "places_no_job (DeleteSecret n x)" "places_no_job GetOpenidConfiguration"
  "creates_no_secret (GetJob n x)" "creates_no_secret (ListJobs n x)" "creates_no_secret (GetServiceAccount n x)"
  "creates_no_secret (CreateServiceAccount sa)" "creates_no_secret (GetSecret n x)" "creates_no_secret (CreateJob j)"
  "creates_no_secret (UpdateSecret s)" "creates_no_secret (DeleteSecret n x)" "creates_no_secret GetOpenidConfiguration"
  by (simp_all add: places_no_job_def creates_no_secret_def)

lemma prelude_places_no_job [emits_intros]:
  "emits ku_calls places_no_job (createServiceAccount K cfg ns n r)"
  "emits ku_calls places_no_job (createRunJsonSecret K cfg ns n j r)"
  "emits ku_calls places_no_job (createWifTokenSecret K cfg k ns info t)"
  "emits ku_calls places_no_job (setSecretOwnerReference K ns n job)"
  "emits ku_calls places_no_job (delete_secret K ns n)"
  unfolding createServiceAccount_def createRunJsonSecret_def createWifTokenSecret_def createTokenSecret_def
    setSecretOwnerReference_def delete_secret_def
  by (auto intro!: emits_intros)

lemma prelude_creates_no_secret [emits_intros]:
  "emits ku_calls creates_no_secret (createServiceAccount K cfg ns n r)"
  "emits ku_calls creates_no_secret (setSecretOwnerReference K ns n' job)"
  "emits ku_calls creates_no_secret (delete_secret K ns n')"
  "emits ku_calls creates_no_secret (place_job K cfg spec info t sa rs ws)"
  unfolding createServiceAccount_def setSecretOwnerReference_def delete_secret_def place_job_def Let_def
  by (auto intro!: emits_intros)

text \<open>The jobs that were placed.\<close>

definition jobs_placed :: "kube_env \<Rightarrow> kube_state \<Rightarrow> nat" where
  "jobs_placed K s = card (created_jobs K (ku_calls s))"

lemma jobs_placed_noted [simp]: "jobs_placed K (noted ms s) = jobs_placed K s"
  by (simp add: jobs_placed_def)

lemma places_none: "emits ku_calls places_no_job m \<Longrightarrow> m s = (r, s') \<Longrightarrow> jobs_placed K s' = jobs_placed K s"
  using emitsD [of ku_calls places_no_job m s r s'] by (auto simp: jobs_placed_def created_jobs_kept)

lemma placed_by_CreateJob:
  assumes "kube_do (CreateJob j) (\<lambda>h. answer (kube_CreateJob K h)) s = (x, s1)"
  shows "jobs_placed K s1 = (if \<exists>a. x = Ok a then Suc (jobs_placed K s) else jobs_placed K s)"
proof -
  have h: "ku_calls s1 = ku_calls s @ [CreateJob j]" and x: "x = answer (kube_CreateJob K (ku_calls s1))"
    using assms by (auto simp: kube_do_def Let_def)
  have "length (ku_calls s) \<notin> created_jobs K (ku_calls s)" by (simp add: created_jobs_def)
  then show ?thesis
    unfolding jobs_placed_def x h by (auto simp: created_jobs_snoc answer_def split: sum.splits)
qed

lemma for_each_returns: "(\<And>x s. \<exists>s'. f x s = (Ok (), s') \<or> (\<exists>e. f x s = (Err e, s'))) \<Longrightarrow> \<exists>s'. for_each f xs s = (Ok (), s')"
proof (induction xs arbitrary: s)
  case (Cons x xs)
  from Cons.prems [of x s] obtain s1 y where f: "f x s = (y, s1)" "\<forall>p. y \<noteq> Panic p" by auto
  moreover obtain s' where "for_each f xs s1 = (Ok (), s')" using Cons.IH [of s1] Cons.prems by blast
  ultimately show ?case by (cases y) (auto simp: for_each_def attempt_def)
qed (simp add: for_each_def ret_def)

lemma secret_calls_return:
  "\<exists>s'. setSecretOwnerReference K ns n job s = (Ok (), s') \<or> (\<exists>e. setSecretOwnerReference K ns n job s = (Err e, s'))"
  "\<exists>s'. delete_secret K ns n s = (Ok (), s') \<or> (\<exists>e. delete_secret K ns n s = (Err e, s'))"
  by (auto simp: setSecretOwnerReference_def delete_secret_def bnd_def wrap_err_def attempt_def ret_def throw_def
      kube_do_def Let_def answer_def done_unless_def split: sum.splits option.splits)

lemma for_each_deletes:
  "for_each (delete_secret K ns) names s = (Ok (), s\<lparr>ku_calls := ku_calls s @ map (DeleteSecret ns) names\<rparr>)"
  by (induction names arbitrary: s)
    (auto simp: for_each_def ret_def attempt_def delete_secret_def kube_do_def Let_def done_unless_def split: option.splits)

text \<open>
  A job is placed by an answered call, after which its secrets get their owner; a refused one leaves
  only deletions behind it; malformed quantities come before both.
\<close>

lemma place_job_cases:
  assumes "place_job K cfg spec info t sa rs ws s = (r, s')"
  obtains (malformed) p where "r = Panic p" "s' = s"
  | (refused) j e s1 where "kube_do (CreateJob j) (\<lambda>h. answer (kube_CreateJob K h)) s = (Err e, s1)"
      "r = Err (Wrapped ''failed to create job: '' e [])"
      "s' = noted [Inc ''run_controller_job_creation_errors_total''
          [(''controller_uuid'', cc_Uuid cfg), (''error_type'', ErrorTypeJobCreation)]] s1
        \<lparr>ku_calls := ku_calls s1 @ map (DeleteSecret (cc_Namespace cfg)) (run_secrets rs ws)\<rparr>"
  | (placed) j job s1 s2 where "kube_do (CreateJob j) (\<lambda>h. answer (kube_CreateJob K h)) s = (Ok job, s1)" "r = Ok ()"
      "for_each (\<lambda>name. setSecretOwnerReference K (cc_Namespace cfg) name job) (run_secrets rs ws) s1 = (Ok (), s2)"
      "s' = noted [Inc ''run_controller_jobs_created_total'' [(''controller_uuid'', cc_Uuid cfg)]] s2"
proof (cases "buildResourceRequirements K (js_Resources spec)")
  case (Ok rq)
  let ?wif = "wifTokenVolumes (cc_Wif cfg) (cc_Namespace cfg) ws"
  let ?j = "runner_job cfg K spec info t sa rs ?wif rq"
  obtain x s1 where x: "kube_do (CreateJob ?j) (\<lambda>h. answer (kube_CreateJob K h)) s = (x, s1)" by fastforce
  note run = assms [unfolded place_job_def Let_def Ok]
  show thesis
  proof (cases x)
    case (Ok job)
    obtain s2 where s2: "for_each (\<lambda>name. setSecretOwnerReference K (cc_Namespace cfg) name job) (run_secrets rs ws) s1 = (Ok (), s2)"
      using for_each_returns secret_calls_return(1) by meson
    have "r = Ok () \<and> s' = noted [Inc ''run_controller_jobs_created_total'' [(''controller_uuid'', cc_Uuid cfg)]] s2"
      using run x Ok s2 by (simp add: bnd_def liftres_def attempt_def)
    then show thesis using placed x Ok s2 by blast
  next
    case (Err e)
    then show thesis
      using run x refused by (simp add: bnd_def liftres_def attempt_def for_each_deletes throw_def)
  next
    case (Panic p)
    then show thesis using x by (auto simp: kube_do_def Let_def answer_def split: sum.splits)
  qed
next
  case (Err e)
  then show thesis
    by (auto simp: buildResourceRequirements_def MustParse_def Let_def split: option.splits if_splits)
next
  case (Panic p)
  then have "r = Panic p" "s' = s" using assms by (simp_all add: place_job_def Let_def bnd_def liftres_def)
  then show thesis by (rule malformed)
qed

lemma place_job_placed:
  assumes "place_job K cfg spec info t sa rs ws s = (r, s')"
  shows "jobs_placed K s' = (if r = Ok () then Suc (jobs_placed K s) else jobs_placed K s)"
  using assms
proof (cases rule: place_job_cases)
  case (refused j e s1)
  have "jobs_placed K s' = jobs_placed K s1"
    using created_jobs_kept [of "map (DeleteSecret (cc_Namespace cfg)) (run_secrets rs ws)" K "ku_calls s1"] refused(3)
    by (simp add: jobs_placed_def list_all_iff)
  then show ?thesis using placed_by_CreateJob [OF refused(1)] refused(2) by simp
next
  case (placed j job s1 s2)
  have "jobs_placed K s2 = jobs_placed K s1"
    by (rule places_none [where m = "for_each (\<lambda>name. setSecretOwnerReference K (cc_Namespace cfg) name job) (run_secrets rs ws)"])
      (use placed(3) in \<open>auto intro!: emits_intros\<close>)
  then show ?thesis using placed_by_CreateJob [OF placed(1)] placed(2,4) by simp
qed simp

text \<open>The secrets that were created.\<close>

definition secrets_of :: "kube_env \<Rightarrow> kube_state \<Rightarrow> (nat \<times> string) set" where
  "secrets_of K s = created_secrets K (ku_calls s)"

lemma secrets_of_noted [simp]: "secrets_of K (noted ms s) = secrets_of K s"
  by (simp add: secrets_of_def)

lemma secrets_none: "emits ku_calls creates_no_secret m \<Longrightarrow> m s = (r, s') \<Longrightarrow> secrets_of K s' = secrets_of K s"
  using emitsD [of ku_calls creates_no_secret m s r s'] by (auto simp: secrets_of_def created_secrets_kept)

lemma secret_by_CreateSecret:
  assumes "kube_do (CreateSecret sec) (\<lambda>h. answer (kube_CreateSecret K h)) s = (x, s1)"
  shows "secrets_of K s1 = (case x of Ok a \<Rightarrow> insert (length (ku_calls s), secret_name sec a) (secrets_of K s) | _ \<Rightarrow> secrets_of K s)"
proof -
  have h: "ku_calls s1 = ku_calls s @ [CreateSecret sec]" and x: "x = answer (kube_CreateSecret K (ku_calls s1))"
    using assms by (auto simp: kube_do_def Let_def)
  show ?thesis
    unfolding secrets_of_def x h by (auto simp: created_secrets_snoc answer_def split: sum.splits)
qed

lemma kube_do_run: "kube_do c ans s = (r, s') \<longleftrightarrow> r = ans (ku_calls s @ [c]) \<and> s' = s\<lparr>ku_calls := ku_calls s @ [c]\<rparr>"
  by (auto simp: kube_do_def Let_def)

lemma createRunJsonSecret_secrets:
  assumes "createRunJsonSecret K cfg ns n j r s = (x, s1)" "n \<noteq> []"
  shows "snd ` (secrets_of K s1 - secrets_of K s) \<subseteq> {n} \<and> ((\<forall>u. x \<noteq> Ok u) \<longrightarrow> secrets_of K s1 = secrets_of K s)"
proof (cases "b64_decode j")
  case (Ok bytes)
  let ?get = "kube_do (GetSecret ns n) (\<lambda>h. answer (kube_GetSecret K h))"
  obtain y s2 where y: "?get s = (y, s2)" by fastforce
  have same: "secrets_of K s2 = secrets_of K s"
    by (rule secrets_none [where m = ?get]) (use y in \<open>auto intro!: emits_intros\<close>)
  obtain z s3 where z: "kube_do (CreateSecret (run_json_secret cfg ns n r bytes)) (\<lambda>h. answer (kube_CreateSecret K h)) s2 = (z, s3)"
    by fastforce
  have "secret_name (run_json_secret cfg ns n r bytes) a = n" for a
    using assms(2) by (simp add: secret_name_def run_json_secret_def)
  then have new: "secrets_of K s3 = (case z of Ok a \<Rightarrow> insert (length (ku_calls s2), n) (secrets_of K s) | _ \<Rightarrow> secrets_of K s)"
    using secret_by_CreateSecret [OF z] same by (auto split: res.splits)
  have "secrets_of K s1 = secrets_of K s \<or> (\<exists>a. z = Ok a \<and> s1 = s3 \<and> x = Ok ())"
    using assms(1) y z same new Ok
    by (auto simp: createRunJsonSecret_def bnd_run attempt_run liftres_def ret_def panic_def throw_def wrap_err_run
        split: res.splits if_splits)
  then show ?thesis using new by auto
qed (use assms in \<open>auto simp: createRunJsonSecret_def bnd_run liftres_def\<close>)

lemma createTokenSecret_secrets:
  assumes "createTokenSecret K cfg ns r tok s = (x, s1)"
  shows "(\<forall>n. x = Ok n \<longrightarrow> snd ` (secrets_of K s1 - secrets_of K s) \<subseteq> {n}) \<and>
    ((\<forall>u. x \<noteq> Ok u) \<longrightarrow> secrets_of K s1 = secrets_of K s)"
proof -
  obtain z where z: "kube_do (CreateSecret (token_secret cfg ns r tok)) (\<lambda>h. answer (kube_CreateSecret K h)) s = (z, s1)"
    and x: "x = (case z of Err e \<Rightarrow> Err (Wrapped ''failed to create secret: '' e '''') | y \<Rightarrow> y)"
    using assms unfolding createTokenSecret_def wrap_err_run by blast
  show ?thesis
    using secret_by_CreateSecret [OF z] x by (auto simp: secret_name_def token_secret_def split: res.splits)
qed

lemma zoomed_secrets:
  "on_issuer m s = (r, s') \<Longrightarrow> secrets_of K s' = secrets_of K s"
  "on_api m' s = (r', s') \<Longrightarrow> secrets_of K s' = secrets_of K s"
  by (auto simp: on_issuer_def on_api_def zoom_def secrets_of_def split: prod.splits)

lemma createWifTokenSecret_secrets:
  assumes "createWifTokenSecret K cfg k ns info ty s = (Ok n, s1)"
  shows "snd ` (secrets_of K s1 - secrets_of K s) \<subseteq> {n}"
proof -
  have none: ?thesis if "secrets_of K s1 = secrets_of K s" using that by simp
  show ?thesis
  proof (cases "kb_wifTokens k = None \<or> ty \<noteq> ''TERRAFORM''")
    case True
    then show ?thesis using assms by (auto simp: createWifTokenSecret_def ret_def split: option.splits)
  next
    case False
    then obtain kc where kc: "kb_wifTokens k = Some kc" "ty = ''TERRAFORM''" by auto
    let ?issue = "on_issuer (Issue (kube_wif K) kc (rid_Uuid info) (renderSubjectTemplate keycloakSubjectTemplate info))"
    obtain y s2 where y: "?issue s = (y, s2)" by fastforce
    note same = zoomed_secrets(1) [OF y, of K]
    have warned: ?thesis if "on_api (ReportWifTokenMissing (kube_http K) cfg (kb_meta k) (rid_Uuid info)) s3 = (w, s1)"
      "secrets_of K s3 = secrets_of K s" for s3 w
      using zoomed_secrets(2) [OF that(1), of K] that(2) by simp
    show ?thesis
    proof (cases y)
      case (Ok tok)
      obtain z s3 where z: "createTokenSecret K cfg ns (rid_Uuid info) tok s2 = (z, s3)" by fastforce
      show ?thesis
      proof (cases z)
        case (Ok a)
        then have "n = a" "secrets_of K s1 = secrets_of K s3"
          using assms kc y z \<open>y = Ok tok\<close> by (auto simp: createWifTokenSecret_def attempt_run bnd_run ret_def)
        then show ?thesis using createTokenSecret_secrets [OF z] Ok same by auto
      next
        case (Err e)
        moreover obtain w s4 where w: "on_api (ReportWifTokenMissing (kube_http K) cfg (kb_meta k) (rid_Uuid info)) (noted
            [Inc ''run_controller_wif_token_errors_total'' [(''controller_uuid'', cc_Uuid cfg)]] s3) = (w, s4)"
          by fastforce
        ultimately have "s4 = s1"
          using assms kc y z \<open>y = Ok tok\<close> by (cases w) (auto simp: createWifTokenSecret_def attempt_run bnd_run ret_def)
        then show ?thesis using warned w createTokenSecret_secrets [OF z] same Err by auto
      qed (use assms kc y z Ok in \<open>auto simp: createWifTokenSecret_def attempt_run bnd_run\<close>)
    next
      case (Err e)
      moreover obtain w s4 where w: "on_api (ReportWifTokenMissing (kube_http K) cfg (kb_meta k) (rid_Uuid info)) (noted
          [Inc ''run_controller_wif_token_errors_total'' [(''controller_uuid'', cc_Uuid cfg)]] s2) = (w, s4)"
        by fastforce
      ultimately have "s4 = s1"
        using assms kc y by (cases w) (auto simp: createWifTokenSecret_def attempt_run bnd_run ret_def)
      then show ?thesis using warned w same by auto
    qed (use assms kc y in \<open>auto simp: createWifTokenSecret_def attempt_run bnd_run\<close>)
  qed
qed

lemma image_diff_trans: "f ` (B - A) \<subseteq> X \<Longrightarrow> f ` (C - B) \<subseteq> Y \<Longrightarrow> f ` (C - A) \<subseteq> X \<union> Y"
  by blast

lemma createWifTokenSecret_returns: "fst (createWifTokenSecret K cfg k ns info ty s) \<noteq> Err e"
  by (auto simp: createWifTokenSecret_def ret_def bnd_def dest!: attempt_Err split: option.splits if_splits res.splits)

text \<open>What is counted about jobs: those created, and the failures.\<close>

definition created_count :: "kube_state \<Rightarrow> nat" where
  "created_count s = counted (jobsCreatedTotal run_metrics) (as_measured (ku_api s))"

definition error_count :: "kube_state \<Rightarrow> nat" where
  "error_count s = counted (jobCreationErrors run_metrics) (as_measured (ku_api s))"

definition about_no_job :: "measurement \<Rightarrow> bool" where
  "about_no_job m \<longleftrightarrow> counted (jobsCreatedTotal run_metrics) [m] = 0 \<and> counted (jobCreationErrors run_metrics) [m] = 0"

text \<open>Nothing about jobs has happened between two states.\<close>

definition settled :: "kube_env \<Rightarrow> kube_state \<Rightarrow> kube_state \<Rightarrow> bool" where
  "settled K s s1 \<longleftrightarrow> jobs_placed K s1 = jobs_placed K s \<and> prefix (ku_calls s) (ku_calls s1) \<and>
     created_count s1 = created_count s \<and> error_count s1 = error_count s"

lemma settled_trans: "settled K s s1 \<Longrightarrow> settled K s1 s2 \<Longrightarrow> settled K s s2"
  unfolding settled_def by (metis prefix_order.order_trans)

lemma counted_none: "list_all about_no_job ms \<Longrightarrow>
    counted (jobsCreatedTotal run_metrics) ms = 0 \<and> counted (jobCreationErrors run_metrics) ms = 0"
proof (induction ms)
  case (Cons m ms)
  then show ?case
    using counted_simps(2) [of "jobsCreatedTotal run_metrics" "[m]" ms] counted_simps(2) [of "jobCreationErrors run_metrics" "[m]" ms]
    by (simp add: about_no_job_def del: collector_names)
qed simp

lemma settledI:
  assumes "emits ku_calls places_no_job m" "emits (\<lambda>s. as_measured (ku_api s)) about_no_job m" "m s = (r, s1)"
  shows "settled K s s1"
  using places_none [OF assms(1,3)] emits_prefix [OF assms(1,3)] emitsD [OF assms(2,3)] counted_none
  by (auto simp: settled_def created_count_def error_count_def)

lemma measured_kube [emits_intros]:
  "emits (\<lambda>s. as_measured (ku_api s)) P (kube_do c ans)"
  "emits (\<lambda>s. as_measured (ku_api s)) P (on_issuer m)"
  "emits as_measured P m' \<Longrightarrow> emits (\<lambda>s. as_measured (ku_api s)) P (on_api m')"
  by (auto simp: emits_def kube_do_def on_issuer_def on_api_def zoom_def Let_def split: prod.splits) (metis snd_conv)

lemma measured_inc [emits_intros]:
  "length vs = length (co_Labels c) \<Longrightarrow> P (Inc (co_Name c) (zip (co_Labels c) vs)) \<Longrightarrow>
    emits (\<lambda>s. as_measured (ku_api s)) P (measure_kube (inc c vs))"
  by (simp add: emits_def)

lemma prelude_about_no_job:
  "emits (\<lambda>s. as_measured (ku_api s)) about_no_job (createServiceAccount K cfg ns n r)"
  "emits (\<lambda>s. as_measured (ku_api s)) about_no_job (createRunJsonSecret K cfg ns n j r)"
  "emits (\<lambda>s. as_measured (ku_api s)) about_no_job (createWifTokenSecret K cfg k ns info t)"
  unfolding createServiceAccount_def createRunJsonSecret_def createWifTokenSecret_def createTokenSecret_def
  by (auto intro!: emits_intros api_measures_nothing simp: about_no_job_def)

text \<open>The shape of the creation of a job.\<close>

lemma job_step_cases:
  assumes "bnd (job_step cfg m op) f s = (r, s')" "op s = (x, s1)"
  obtains (goes_on) u where "x = Ok u" "f u s1 = (r, s')"
  | (failed) e e' where "x = Err e" "r = Err e'" "count_error cfg ErrorTypeJobCreation s1 = (Ok (), s')"
  | (crashed) p where "x = Panic p" "r = Panic p" "s' = s1"
proof (cases x)
  case (Ok u)
  then show thesis using assms goes_on by (simp add: job_step_def attempt_def bnd_def ret_def)
next
  case (Err e)
  then have "\<exists>e'. r = Err e'" "count_error cfg ErrorTypeJobCreation s1 = (Ok (), s')"
    using assms by (auto simp: job_step_def attempt_def bnd_def throw_def)
  then show thesis using Err failed by blast
next
  case (Panic p)
  then show thesis using assms crashed by (simp add: job_step_def attempt_def bnd_def panic_def)
qed

text \<open>The beginning: the job exists, the run is too large, or the objects of the job are created.\<close>

lemma create_runner_job_start:
  assumes "create_runner_job K cfg k info json ty spec s = (r, s')"
  obtains (exists) "r = Ok ()" "s' = s\<lparr>ku_calls := ku_calls s @ [GetJob (cc_Namespace cfg) (''runner-'' @ rid_Uuid info)]\<rparr>"
      "kube_GetJob K (ku_calls s') = None"
  | (crashed) p where "r = Panic p" "settled K s s'"
  | (too_large) e s0 where "r = Err e" "count_error cfg ErrorTypeRunTooLarge s0 = (Ok (), s')" "settled K s s0"
      "secrets_of K s0 = secrets_of K s"
  | (creating) s0 where "settled K s s0" "secrets_of K s0 = secrets_of K s"
      "bnd (job_step cfg ''failed to create service account: ''
          (createServiceAccount K cfg (cc_Namespace cfg) (renderSubjectTemplate serviceAccountNameTemplate info) (rid_Uuid info))) (\<lambda>_.
        bnd (job_step cfg ''failed to create run json secret: ''
          (createRunJsonSecret K cfg (cc_Namespace cfg) (''run-json-'' @ rid_Uuid info) json (rid_Uuid info))) (\<lambda>_.
        bnd (createWifTokenSecret K cfg k (cc_Namespace cfg) info ty) (\<lambda>ws.
        place_job K cfg spec info ty (renderSubjectTemplate serviceAccountNameTemplate info)
          (''run-json-'' @ rid_Uuid info) ws))) s0 = (r, s')"
proof -
  let ?get = "kube_do (GetJob (cc_Namespace cfg) (''runner-'' @ rid_Uuid info)) (\<lambda>h. done_unless (kube_GetJob K h))"
  obtain x0 s0 where g: "?get s = (x0, s0)" by fastforce
  have q0: "settled K s s0" by (rule settledI [where m = ?get]) (use g in \<open>auto intro!: emits_intros\<close>)
  have same: "secrets_of K s0 = secrets_of K s"
    by (rule secrets_none [where m = ?get]) (use g in \<open>auto intro!: emits_intros\<close>)
  note run = create_runner_job_def Let_def attempt_def
  show thesis
  proof (cases x0)
    case (Ok u)
    then have "r = Ok ()" "s' = s0" using assms g by (simp_all add: run ret_def)
    moreover have "s0 = s\<lparr>ku_calls := ku_calls s @ [GetJob (cc_Namespace cfg) (''runner-'' @ rid_Uuid info)]\<rparr>"
        "kube_GetJob K (ku_calls s0) = None"
      using g Ok by (auto simp: kube_do_run done_unless_def split: option.splits)
    ultimately show thesis by - (rule exists; simp)
  next
    case (Panic p)
    then have "r = Panic p" "s' = s0" using assms g by (simp_all add: run panic_def)
    then show thesis using crashed q0 by blast
  next
    case (Err e)
    show thesis
    proof (cases "estimateRunJsonSize json > EffectiveMaxRunJsonSize")
      case True
      then have "r = Err (RunTooLargeError (rid_Uuid info) (estimateRunJsonSize json) EffectiveMaxRunJsonSize)"
        "count_error cfg ErrorTypeRunTooLarge s0 = (Ok (), s')"
        using assms g Err by (simp_all add: run bnd_def throw_def)
      then show thesis using too_large q0 same by blast
    next
      case False
      show thesis by (rule creating [OF q0 same]) (use assms g Err False in \<open>simp add: run\<close>)
    qed
  qed
qed

lemma create_runner_job_cases:
  assumes "create_runner_job K cfg k info json ty spec s = (r, s')"
  obtains (exists) "r = Ok ()" "s' = s\<lparr>ku_calls := ku_calls s @ [GetJob (cc_Namespace cfg) (''runner-'' @ rid_Uuid info)]\<rparr>"
      "kube_GetJob K (ku_calls s') = None"
  | (failed) e errorType s1 where "r = Err e" "count_error cfg errorType s1 = (Ok (), s')" "settled K s s1"
      "secrets_of K s1 = secrets_of K s"
  | (crashed) p where "r = Panic p" "settled K s s'"
  | (placing) s1 ws where "settled K s s1"
      "snd ` (secrets_of K s1 - secrets_of K s) \<subseteq> {''run-json-'' @ rid_Uuid info, ws}"
      "place_job K cfg spec info ty (renderSubjectTemplate serviceAccountNameTemplate info)
         (''run-json-'' @ rid_Uuid info) ws s1 = (r, s')"
  using assms
proof (cases rule: create_runner_job_start)
  case (creating s0)
  let ?ns = "cc_Namespace cfg" and ?sa = "renderSubjectTemplate serviceAccountNameTemplate info"
    and ?rs = "''run-json-'' @ rid_Uuid info"
  let ?mk_sa = "createServiceAccount K cfg ?ns ?sa (rid_Uuid info)"
  let ?mk_rs = "createRunJsonSecret K cfg ?ns ?rs json (rid_Uuid info)"
  obtain x1 s1 where a: "?mk_sa s0 = (x1, s1)" by fastforce
  obtain x2 s2 where b: "?mk_rs s1 = (x2, s2)" by fastforce
  obtain x3 s3 where c: "createWifTokenSecret K cfg k ?ns info ty s2 = (x3, s3)" by fastforce
  have q1: "settled K s s1"
    by (rule settled_trans [OF creating(1) settledI [where m = ?mk_sa]]) (use a in \<open>auto intro!: emits_intros prelude_about_no_job\<close>)
  have q2: "settled K s s2"
    by (rule settled_trans [OF q1 settledI [where m = ?mk_rs]]) (use b in \<open>auto intro!: emits_intros prelude_about_no_job\<close>)
  have q3: "settled K s s3"
    by (rule settled_trans [OF q2 settledI [where m = "createWifTokenSecret K cfg k ?ns info ty"]])
      (use c in \<open>auto intro!: emits_intros prelude_about_no_job\<close>)
  have "secrets_of K s1 = secrets_of K s0"
    by (rule secrets_none [where m = ?mk_sa]; use a in \<open>auto intro!: emits_intros\<close>)
  with creating(2) have same: "secrets_of K s1 = secrets_of K s" by simp
  note rs = createRunJsonSecret_secrets [OF b]
  from creating(3) a show thesis
  proof (cases rule: job_step_cases)
    case account: (goes_on u)
    from account(2) b show thesis
    proof (cases rule: job_step_cases)
      case secret: (goes_on u')
      show thesis
      proof (cases x3)
        case (Ok ws)
        have "snd ` (secrets_of K s3 - secrets_of K s) \<subseteq> {?rs, ws}"
          using image_diff_trans [of snd "secrets_of K s2" "secrets_of K s" "{?rs}" "secrets_of K s3" "{ws}"]
            conjunct1 [OF rs] createWifTokenSecret_secrets [OF c [unfolded Ok]] same by (simp add: insert_commute)
        then show thesis using placing q3 secret(2) c Ok by (simp add: bnd_def)
      next
        case (Err e)
        then show thesis using c createWifTokenSecret_returns by (metis fst_conv)
      qed (use c secret(2) crashed q3 in \<open>auto simp: bnd_def\<close>)
    qed (use failed crashed q2 rs same in \<open>auto\<close>)
  qed (use failed crashed q1 same in \<open>auto\<close>)
qed (use exists failed crashed in \<open>blast+\<close>)

text \<open>The deferred measurement changes nothing else.\<close>

lemma CreateRunnerJob_run:
  "CreateRunnerJob K cfg k info json ty spec s = (r, s') \<longleftrightarrow>
    (\<exists>s1. create_runner_job K cfg k info json ty spec s = (r, s1) \<and>
      s' = noted [Observe ''run_controller_job_creation_duration_seconds'' [(''controller_uuid'', cc_Uuid cfg)]] s1)"
  by (auto simp: CreateRunnerJob_def deferred_def split: prod.splits)

lemma CreateRunnerJob_cases:
  assumes "CreateRunnerJob K cfg k info json ty spec s = (r, s')"
  obtains (early) "jobs_placed K s' = jobs_placed K s" "(\<forall>p. r \<noteq> Panic p) \<longrightarrow> secrets_of K s' = secrets_of K s"
  | (placing) s1 ws s2 where "jobs_placed K s1 = jobs_placed K s" "prefix (ku_calls s) (ku_calls s1)"
      "snd ` (secrets_of K s1 - secrets_of K s) \<subseteq> {''run-json-'' @ rid_Uuid info, ws}"
      "place_job K cfg spec info ty (renderSubjectTemplate serviceAccountNameTemplate info)
         (''run-json-'' @ rid_Uuid info) ws s1 = (r, s2)" "ku_calls s' = ku_calls s2"
proof -
  obtain s2 where s2: "create_runner_job K cfg k info json ty spec s = (r, s2)"
    "s' = noted [Observe ''run_controller_job_creation_duration_seconds'' [(''controller_uuid'', cc_Uuid cfg)]] s2"
    using assms unfolding CreateRunnerJob_run by blast
  from s2(1) show thesis
  proof (cases rule: create_runner_job_cases)
    case exists
    then have "jobs_placed K s' = jobs_placed K s" "secrets_of K s' = secrets_of K s"
      using created_jobs_kept [of "[GetJob (cc_Namespace cfg) (''runner-'' @ rid_Uuid info)]" K "ku_calls s"]
        created_secrets_kept [of "[GetJob (cc_Namespace cfg) (''runner-'' @ rid_Uuid info)]" K "ku_calls s"] s2(2)
      by (simp_all add: jobs_placed_def secrets_of_def)
    then show thesis using early by simp
  next
    case (placing s1 ws)
    then show thesis using that(2) s2(2) by (auto simp: settled_def)
  qed (use early s2(2) in \<open>auto simp: settled_def\<close>)
qed

text \<open>What the controller relies on.\<close>

lemma kube_Dispatch_placed:
  assumes "kube_Dispatch K cfg k run json ty s = (r, s')"
  shows "jobs_placed K s' \<le> Suc (jobs_placed K s)" and "r = Err e \<Longrightarrow> jobs_placed K s' = jobs_placed K s"
proof -
  have "jobs_placed K s' \<le> Suc (jobs_placed K s) \<and> (r = Err e \<longrightarrow> jobs_placed K s' = jobs_placed K s)"
  proof (cases "map_of (cc_Implementations cfg) ty")
    case (Some spec)
    then have "CreateRunnerJob K cfg k (GetRunInfo run) json ty spec s = (r, s')"
      using assms by (simp add: kube_Dispatch_def)
    then show ?thesis
    proof (cases rule: CreateRunnerJob_cases)
      case (placing s1 ws s2)
      have "jobs_placed K s' = jobs_placed K s2" by (simp add: jobs_placed_def placing(5))
      with place_job_placed [OF placing(4)] placing(1) show ?thesis by auto
    qed simp
  qed (use assms in \<open>simp add: kube_Dispatch_def throw_def\<close>)
  then show "jobs_placed K s' \<le> Suc (jobs_placed K s)" and "r = Err e \<Longrightarrow> jobs_placed K s' = jobs_placed K s" by auto
qed

lemma CountActiveJobs_places: "CountActiveJobs K cfg s = (r, s') \<Longrightarrow> jobs_placed K s' = jobs_placed K s"
  by (rule places_none [where m = "CountActiveJobs K cfg"]) (auto simp: CountActiveJobs_def intro!: emits_intros)

interpretation kube: run_placement "kube_dispatcher K cfg k" "jobs_placed K" for K cfg k
  by unfold_locales (auto simp: kube_dispatcher_def intro: kube_Dispatch_placed CountActiveJobs_places)

lemma settled_counts: "settled K s s1 \<Longrightarrow> created_count s1 = created_count s \<and> error_count s1 = error_count s \<and> jobs_placed K s1 = jobs_placed K s"
  by (simp add: settled_def)

lemma place_job_counts:
  assumes "place_job K cfg spec info t sa rs ws s = (r, s')"
  shows "created_count s' + jobs_placed K s = created_count s + jobs_placed K s'"
    "error_count s' = error_count s + (if \<exists>e. r = Err e then 1 else 0)"
proof -
  have "created_count s' = (if r = Ok () then Suc (created_count s) else created_count s) \<and>
    error_count s' = error_count s + (if \<exists>e. r = Err e then 1 else 0)"
    using assms
  proof (cases rule: place_job_cases)
    case (refused j e s1)
    have "ku_api s1 = ku_api s" using refused(1) by (simp add: kube_do_run)
    then show ?thesis using refused(2,3) by (simp add: created_count_def error_count_def)
  next
    case (placed j job s1 s2)
    let ?own = "for_each (\<lambda>name. setSecretOwnerReference K (cc_Namespace cfg) name job) (run_secrets rs ws)"
    have "settled K s1 s2"
      by (rule settledI [where m = ?own])
        (use placed(3) in \<open>auto intro!: emits_intros simp: setSecretOwnerReference_def\<close>)
    moreover have "ku_api s1 = ku_api s" using placed(1) by (simp add: kube_do_run)
    ultimately show ?thesis using placed(2,4) by (simp add: settled_def created_count_def error_count_def)
  qed simp
  with place_job_placed [OF assms]
  show "created_count s' + jobs_placed K s = created_count s + jobs_placed K s'"
    "error_count s' = error_count s + (if \<exists>e. r = Err e then 1 else 0)" by simp_all
qed

text \<open>A job is counted as created exactly when it is placed, and a failure exactly when one is returned.\<close>

lemma CreateRunnerJob_counts:
  assumes "CreateRunnerJob K cfg k info json ty spec s = (r, s')"
  shows "created_count s' + jobs_placed K s = created_count s + jobs_placed K s'"
    "error_count s' = error_count s + (if \<exists>e. r = Err e then 1 else 0)"
proof -
  obtain s2 where s2: "create_runner_job K cfg k info json ty spec s = (r, s2)"
    "s' = noted [Observe ''run_controller_job_creation_duration_seconds'' [(''controller_uuid'', cc_Uuid cfg)]] s2"
    using assms unfolding CreateRunnerJob_run by blast
  have "created_count s2 + jobs_placed K s = created_count s + jobs_placed K s2 \<and>
    error_count s2 = error_count s + (if \<exists>e. r = Err e then 1 else 0)"
    using s2(1)
  proof (cases rule: create_runner_job_cases)
    case exists
    have "jobs_placed K s2 = jobs_placed K s"
      using created_jobs_kept [of "[GetJob (cc_Namespace cfg) (''runner-'' @ rid_Uuid info)]" K "ku_calls s"] exists(2)
      by (simp add: jobs_placed_def)
    then show ?thesis using exists by (simp add: created_count_def error_count_def)
  next
    case (failed e errorType s1)
    have "s2 = noted [Inc ''run_controller_job_creation_errors_total''
        [(''controller_uuid'', cc_Uuid cfg), (''error_type'', errorType)]] s1" using failed(2) by simp
    then show ?thesis using settled_counts [OF failed(3)] failed(1) by (simp add: created_count_def error_count_def)
  next
    case (placing s1 ws)
    then show ?thesis using place_job_counts [OF placing(3)] settled_counts [OF placing(1)] by simp
  qed (simp add: settled_def)
  then show "created_count s' + jobs_placed K s = created_count s + jobs_placed K s'"
    "error_count s' = error_count s + (if \<exists>e. r = Err e then 1 else 0)"
    using s2(2) by (simp_all add: created_count_def error_count_def)
qed

lemma kube_Dispatch_counts:
  assumes "kube_Dispatch K cfg k run json ty s = (r, s')"
  shows "created_count s' + jobs_placed K s = created_count s + jobs_placed K s'"
    "map_of (cc_Implementations cfg) ty \<noteq> None \<Longrightarrow> error_count s' = error_count s + (if \<exists>e. r = Err e then 1 else 0)"
  using assms CreateRunnerJob_counts
  by (auto simp: kube_Dispatch_def throw_def split: option.splits)

lemma CountActiveJobs_settled: "CountActiveJobs K cfg s = (r, s') \<Longrightarrow> settled K s s'"
  by (rule settledI [where m = "CountActiveJobs K cfg"]) (auto simp: CountActiveJobs_def intro!: emits_intros)

text \<open>So along the loop of the controller the counter grows as the jobs do.\<close>

interpretation kube_counts: dispatcher_steps "kube_dispatcher K cfg k"
  "\<lambda>s s'. created_count s' + jobs_placed K s = created_count s + jobs_placed K s'" for K cfg k
  by unfold_locales (auto simp: kube_dispatcher_def dest: kube_Dispatch_counts(1) settled_counts [OF CountActiveJobs_settled])

text \<open>When the job could not be created, its secrets are deleted.\<close>

lemma place_job_failed:
  assumes "place_job K cfg spec info t sa rs ws s = (Err e, s')" "n \<in> set (run_secrets rs ws)"
  shows "DeleteSecret (cc_Namespace cfg) n \<in> set (drop (length (ku_calls s)) (ku_calls s'))"
  using assms(1)
proof (cases rule: place_job_cases)
  case (refused j e' s1)
  have "ku_calls s1 = ku_calls s @ [CreateJob j]" using refused(1) by (simp add: kube_do_run)
  then show ?thesis using refused(3) assms(2) by simp
qed simp_all

text \<open>The name of every secret that is created, if the server names them.\<close>

lemma created_name_nonempty:
  "(\<And>h a. kube_CreateSecret K h = Inr a \<Longrightarrow> a \<noteq> []) \<Longrightarrow> (i, n) \<in> secrets_of K s \<Longrightarrow> n \<noteq> []"
  by (auto simp: secrets_of_def created_secrets_def secret_name_def split: if_splits)

text \<open>The size of the run in a secret.\<close>

definition run_json_fits :: "kube_call \<Rightarrow> bool" where
  "run_json_fits c \<longleftrightarrow> (\<forall>sec data. c = CreateSecret sec \<longrightarrow> (''run.json'', data) \<in> set (sec_Data sec) \<longrightarrow>
     length data \<le> EffectiveMaxRunJsonSize)"

lemma emits_weaken_silent: "emits ku_calls creates_no_secret m \<Longrightarrow> emits ku_calls run_json_fits m"
  by (erule emits_weaken) (simp add: creates_no_secret_def run_json_fits_def)

lemma emits_liftres_bnd: "(\<And>a. r = Ok a \<Longrightarrow> emits log P (f a)) \<Longrightarrow> emits log P (bnd (liftres r) f)"
  by (cases r) (auto simp: emits_def bnd_def liftres_def)

lemma CreateRunnerJob_fits: "emits ku_calls run_json_fits (CreateRunnerJob K cfg k info json ty spec)"
proof -
  have secret: "emits ku_calls run_json_fits (createRunJsonSecret K cfg ns n json r)"
    if "\<not> estimateRunJsonSize json > EffectiveMaxRunJsonSize" for ns n r
    unfolding createRunJsonSecret_def
  proof (rule emits_liftres_bnd)
    fix bytes assume "wrap_res ''failed to decode run json base64: '' (b64_decode json) = Ok bytes"
    then have "length bytes \<le> EffectiveMaxRunJsonSize"
      using b64_decode_length [of json bytes] that by (simp add: estimateRunJsonSize_def)
    then have fits: "run_json_fits (CreateSecret (run_json_secret cfg ns n r bytes))"
      by (simp add: run_json_fits_def run_json_secret_def)
    have get: "run_json_fits (GetSecret ns n)" by (simp add: run_json_fits_def)
    show "emits ku_calls run_json_fits
       (attempt (kube_do (GetSecret ns n) (\<lambda>h. answer (kube_GetSecret K h)))
         (\<lambda>r'. case r' of Ok _ \<Rightarrow> ret () | Err e \<Rightarrow> if \<not> is_not_exist e
            then throw (Wrapped (''failed to check if secret '' @ n @ '' exists: '') e [])
            else bnd (wrap_err ''failed to create secret: '' (kube_do (CreateSecret (run_json_secret cfg ns n r bytes))
                   (\<lambda>h. answer (kube_CreateSecret K h)))) (\<lambda>_. ret ()) | Panic p \<Rightarrow> panic p))"
      using fits get by (auto intro!: emits_intros)
  qed
  have wif: "emits ku_calls run_json_fits (createWifTokenSecret K cfg k ns info ty)" for ns
    unfolding createWifTokenSecret_def createTokenSecret_def
    by (auto intro!: emits_intros simp: run_json_fits_def token_secret_def wifTokenSecretKey_def)
  have "run_json_fits (GetJob ns x)" for ns x by (simp add: run_json_fits_def)
  then show ?thesis
    unfolding CreateRunnerJob_def create_runner_job_def Let_def
    by (auto intro!: emits_intros secret wif emits_weaken_silent [OF prelude_creates_no_secret(1)]
        emits_weaken_silent [OF prelude_creates_no_secret(4)])
qed

end
