(* ===== verification/ControllerProperties.thy ===== *)
theory ControllerProperties
  imports Kubernetes ApiProperties
begin

text \<open>
  Properties of the run controller: its Keycloak clients, its jobs and secrets, its capacity, and what
  becomes of a run it has claimed. Each section ends with the witnesses and their samples.
\<close>

section \<open>Keycloak\<close>

text \<open>
  C27: whenever a Keycloak client was created for a token, the last request of the issuer deletes that
  client, whatever failed in between. (A URL that \<^verbatim>\<open>url.Parse\<close> refuses is never requested at all.)
\<close>

theorem client_always_deleted:
  assumes "Issue E c run subject s = (r, s')"
    and "length (ks_sent s) \<le> k" "k < length (ks_sent s')" "created_client E c (ks_sent s') k = Some clid"
    and "ke_NewRequest E (adminUrl c (''/clients/'' @ PathEscape clid)) = None"
  shows "deletes_client c clid (last (ks_sent s'))"
  using Issue_steps [OF assms(1)]
proof (elim disjE exE conjE)
  fix es assume "ks_sent s' = ks_sent s @ es" "list_all (\<lambda>r. \<not> creates_client c r) es"
  then show ?thesis using not_created [of c es "ks_sent s'" "ks_sent s" k E] assms(2-4) by simp
next
  fix t i sec s1 rc s2 es
  assume es: "ks_sent s1 = ks_sent s @ es" "list_all (\<lambda>r. \<not> creates_client c r) es"
    and create: "createClient E c t i sec subject s1 = (rc, s2)"
    and cont: "case rc of Ok clid \<Rightarrow> (\<exists>x s3 y. use_client E c t clid i sec subject s2 = (x, s3) \<and>
        deleteClientIgnoringCancel E c t clid s3 = (y, s') \<and> (\<forall>tok. r = Ok tok \<longrightarrow> x = Ok tok))
        | _ \<Rightarrow> s' = s2 \<and> (\<forall>t. r \<noteq> Ok t)"
  have early: "length (ks_sent s1) \<le> k" if "ks_sent s' = ks_sent s1 @ rest" for rest
  proof (rule ccontr)
    assume "\<not> length (ks_sent s1) \<le> k"
    then have "created_client E c (ks_sent s1) k = None"
      using not_created [OF es(2,1) assms(2)] by simp
    then show False
      using assms(4) created_client_prefix [of k "ks_sent s1" E c rest] \<open>\<not> length (ks_sent s1) \<le> k\<close> by (simp add: that)
  qed
  show ?thesis
  proof (cases "\<exists>x. rc = Ok x")
    case False
    then have "s' = s2" using cont by (cases rc) auto
    then show ?thesis
      using createClient_answer [OF create] False early assms(3,4) by (auto simp: le_less_Suc_eq)
  next
    case True
    then obtain x req y s3 w where x: "rc = Ok x" and s2: "ks_sent s2 = ks_sent s1 @ [req]"
      and made: "created_client E c (ks_sent s2) (length (ks_sent s1)) = Some x"
      and use: "use_client E c t x i sec subject s2 = (y, s3)" "deleteClientIgnoringCancel E c t x s3 = (w, s')"
      using createClient_answer [OF create] cont by auto
    obtain m1 m2 where m: "ks_sent s3 = ks_sent s2 @ m1" "list_all (\<lambda>r. \<not> creates_client c r) m1"
      "ks_sent s' = ks_sent s3 @ m2" "list_all (\<lambda>r. \<not> creates_client c r) m2"
      using emitsD [OF emits_use_client use(1)] emitsD [OF emits_deleteClient use(2)] by metis
    have k: "length (ks_sent s1) \<le> k" by (rule early [of "[req] @ m1 @ m2"]) (simp add: m s2)
    have "\<not> length (ks_sent s2) \<le> k"
      using not_created [of c "m1 @ m2" "ks_sent s'" "ks_sent s2" k E] m assms(3,4) by auto
    then have kk: "k = length (ks_sent s1)" using k s2 by simp
    have "clid = x"
      using s2 made assms(4) created_client_prefix [of k "ks_sent s2" E c "m1 @ m2"] m unfolding kk by simp
    then show ?thesis using deleteClient_last [OF assms(5), of t s3] use(2) by auto
  qed
qed

text \<open>
  C28: a token that the issuer returns carries the expected issuer, subject and audience, no claim
  beyond the allowed ones, and a lifetime within two minutes of the configured one.
\<close>

theorem issued_token_checked:
  assumes "Issue E c run subject s = (Ok token, s')"
  shows "\<exists>claims et exp it iat. token_payload E token = Ok claims \<and> fst ` set claims \<subseteq> set allowedClaims \<and>
    map_of claims ''iss'' = Some (JStr (kc_Issuer c)) \<and> map_of claims ''sub'' = Some (JStr subject) \<and>
    map_of claims ''azp'' = Some (JStr Audience) \<and>
    map_of claims ''aud'' \<in> {Some (JStr Audience), Some (JArr [JStr Audience])} \<and>
    map_of claims ''exp'' = Some (JNum et exp) \<and> map_of claims ''iat'' = Some (JNum it iat) \<and>
    duration (kc_TokenLifetime c - lifetimeTolerance) \<le> duration (ke_Seconds E exp iat * second) \<and>
    duration (ke_Seconds E exp iat * second) \<le> duration (kc_TokenLifetime c + lifetimeTolerance)"
proof -
  from Issue_uses [OF assms] obtain t clid i sec s2 s3 where
    "use_client E c t clid i sec subject s2 = (Ok token, s3)" by blast
  from use_client_checked [OF this] obtain claims where c:
    "token_payload E token = Ok claims" "fst ` set claims \<subseteq> set allowedClaims"
    "map_of claims ''iss'' = Some (JStr (kc_Issuer c))" "map_of claims ''sub'' = Some (JStr subject)"
    "map_of claims ''azp'' = Some (JStr Audience)" "isOnlyAudience (map_of claims ''aud'')"
    "check_lifetime E claims (kc_TokenLifetime c) = Ok ()"
    by (auto simp: checkClaims_def split: if_splits)
  from c(7) obtain et exp it iat where l: "map_of claims ''exp'' = Some (JNum et exp)" "map_of claims ''iat'' = Some (JNum it iat)"
    "duration (kc_TokenLifetime c - lifetimeTolerance) \<le> duration (ke_Seconds E exp iat * second)"
    "duration (ke_Seconds E exp iat * second) \<le> duration (kc_TokenLifetime c + lifetimeTolerance)"
    unfolding check_lifetime_Ok by blast
  have "map_of claims ''aud'' \<in> {Some (JStr Audience), Some (JArr [JStr Audience])}"
    using c(6) by (simp add: isOnlyAudience_iff)
  with c(1-5) l show ?thesis by blast
qed

text \<open>
  A Keycloak that answers the first request with a token, the second with a new client, and every
  other one with success.
\<close>

definition sample_kc_config :: kc_config where
  "sample_kc_config = \<lparr>kc_Url = ''https://k'', kc_Realm = ''r'', kc_Issuer = ''https://k/realms/r'', kc_ClientId = ''i'',
     kc_ClientSecret = ''s'', kc_TokenLifetime = 5400 * second\<rparr>"

definition sample_claims :: "(string \<times> any) list" where
  "sample_claims = [(''iss'', JStr ''https://k/realms/r''), (''sub'', JStr ''bbd:w:d''), (''azp'', JStr ''external-platform''),
     (''aud'', JStr ''external-platform''), (''exp'', JNum ''e'' ''e''), (''iat'', JNum ''i'' ''i'')]"

definition sample_kc :: kc_env where
  "sample_kc = \<lparr>ke_NewRequest = (\<lambda>u. None),
     ke_Do = (\<lambda>rs. Inr \<lparr>kr_Status = (if length rs = 2 then 201 else 200), kr_Location = ''https://k/clients/c1'', kr_Body = ''b''\<rparr>),
     ke_Now = (\<lambda>rs. 0), ke_Random = (\<lambda>rs n. Inr ''x''), ke_DecodeToken = (\<lambda>b. Inr (''h.e30.s'', 300)),
     ke_DecodeScopes = (\<lambda>b. Inr []), ke_DecodeError = (\<lambda>b. ([], [], [])), ke_DecodeClaims = (\<lambda>p. Some sample_claims),
     ke_Seconds = (\<lambda>a b. 5400), ke_Quote = quoted, ke_DurationText = itoa\<rparr>"

definition sample_kc_state :: kc_state where
  "sample_kc_state = \<lparr>ks_adminToken = [], ks_adminTokenExpiry = 0, ks_sent = []\<rparr>"

lemma sample_claims_ok: "checkClaims sample_kc ''h.e30.s'' ''https://k/realms/r'' ''bbd:w:d'' (5400 * second) = Ok ()"
  by code_simp

lemma sample_location: "location_id ''https://k/clients/c1'' = ''c1''"
  by code_simp

lemmas kc_defs = Issue_def use_client_def adminAccessToken_def requestToken_def randomString_def createClient_def
  removeClientScopes_def removeScopesOf_def deleteScopes_def clientCredentialsToken_def deleteClientIgnoringCancel_def
  adminRequest_def send_def send_headers_def kc_NewRequest_def kc_Do_def deferred_def attempt_def bnd_def ret_def
  throw_def modify_def liftres_def wrap_err_def decoded_def

lemma sample_issue:
  "\<exists>s'. Issue sample_kc sample_kc_config ''run'' ''bbd:w:d'' sample_kc_state = (Ok ''h.e30.s'', s') \<and>
     length (ks_sent s') = 6 \<and> created_client sample_kc sample_kc_config (ks_sent s') 1 = Some ''c1''"
  using sample_claims_ok sample_location
  by (simp add: kc_defs sample_kc_def sample_kc_config_def sample_kc_state_def created_client_def creates_client_def
      Header_Set_def Let_def)

theorem client_always_deleted_witness:
  "deletes_client sample_kc_config ''c1''
     (last (ks_sent (snd (Issue sample_kc sample_kc_config ''run'' ''bbd:w:d'' sample_kc_state))))"
proof -
  obtain s' where s': "Issue sample_kc sample_kc_config ''run'' ''bbd:w:d'' sample_kc_state = (Ok ''h.e30.s'', s')"
    "length (ks_sent s') = 6" "created_client sample_kc sample_kc_config (ks_sent s') 1 = Some ''c1''"
    using sample_issue by blast
  then show ?thesis
    using client_always_deleted [OF s'(1), of 1 "''c1''"] by (simp add: sample_kc_state_def sample_kc_def)
qed

theorem issued_token_checked_witness:
  "\<exists>claims. token_payload sample_kc ''h.e30.s'' = Ok claims \<and> map_of claims ''sub'' = Some (JStr ''bbd:w:d'')"
proof -
  obtain s' where "Issue sample_kc sample_kc_config ''run'' ''bbd:w:d'' sample_kc_state = (Ok ''h.e30.s'', s')"
    using sample_issue by blast
  from issued_token_checked [OF this] show ?thesis by blast
qed

section \<open>Jobs\<close>

text \<open>
  C29: when a run cannot be dispatched, every secret that was created for it is deleted again after it
  was created (the server gives every object a name).
\<close>

theorem failed_dispatch_deletes_secrets:
  assumes "kube_Dispatch K cfg k run json ty s = (Err e, s')"
    and "\<And>h a. kube_CreateSecret K h = Inr a \<Longrightarrow> a \<noteq> []"
    and "(i, n) \<in> created_secrets K (ku_calls s')" "length (ku_calls s) \<le> i"
  shows "\<exists>j > i. j < length (ku_calls s') \<and> ku_calls s' ! j = DeleteSecret (cc_Namespace cfg) n"
proof -
  have fresh: "(i, n) \<notin> secrets_of K s" using assms(4) by (auto simp: secrets_of_def created_secrets_def)
  have in': "(i, n) \<in> secrets_of K s'" using assms(3) by (simp add: secrets_of_def)
  obtain spec where "CreateRunnerJob K cfg k (GetRunInfo run) json ty spec s = (Err e, s')"
    using assms(1) fresh in' by (auto simp: kube_Dispatch_def throw_def split: option.splits)
  then show ?thesis
  proof (cases rule: CreateRunnerJob_cases)
    case early
    then show ?thesis using fresh in' by simp
  next
    case (placing s1 ws s2)
    let ?rs = "''run-json-'' @ rid_Uuid (GetRunInfo run)"
    have "secrets_of K s2 = secrets_of K s1" by (rule secrets_none [OF prelude_creates_no_secret(4) placing(4)])
    then have same: "secrets_of K s' = secrets_of K s1" by (simp add: secrets_of_def placing(5))
    then have "(i, n) \<in> secrets_of K s1 - secrets_of K s" using in' fresh by simp
    then have "n \<in> {?rs, ws}" using placing(3) by force
    moreover have "n \<noteq> []" by (rule created_name_nonempty [OF assms(2) in'])
    ultimately have "n \<in> set (run_secrets ?rs ws)" by (auto simp: run_secrets_def)
    then have "DeleteSecret (cc_Namespace cfg) n \<in> set (drop (length (ku_calls s1)) (ku_calls s'))"
      using place_job_failed [OF placing(4)] placing(5) by simp
    then obtain j where j: "j < length (drop (length (ku_calls s1)) (ku_calls s'))"
      "drop (length (ku_calls s1)) (ku_calls s') ! j = DeleteSecret (cc_Namespace cfg) n"
      by (metis in_set_conv_nth)
    have "i < length (ku_calls s1)" using in' same by (auto simp: secrets_of_def created_secrets_def)
    then show ?thesis using j by (intro exI [of _ "length (ku_calls s1) + j"]) (auto simp: nth_drop)
  qed
qed

text \<open>
  C30: the run that a dispatch puts into a secret has at most 1 MiB less 10 KiB, although its size is
  only estimated from the length of its base64 form.
\<close>

theorem run_json_secret_bounded:
  assumes "kube_Dispatch K cfg k run json ty s = (r, s')"
    and "CreateSecret sec \<in> set (drop (length (ku_calls s)) (ku_calls s'))" "(''run.json'', data) \<in> set (sec_Data sec)"
  shows "length data \<le> 1038336"
proof -
  have "emits ku_calls run_json_fits (kube_Dispatch K cfg k run json ty)"
    unfolding kube_Dispatch_def by (auto intro!: emits_intros CreateRunnerJob_fits)
  from emitsD [OF this assms(1)] have "run_json_fits (CreateSecret sec)"
    using assms(2) by (auto simp: list_all_iff)
  then show ?thesis
    using assms(3) by (auto simp: run_json_fits_def EffectiveMaxRunJsonSize_def MaxKubernetesSecretSize_def
        SecretMetadataOverhead_def)
qed

section \<open>Capacity\<close>

text \<open>
  C31: a cycle places at most as many jobs as are missing to the configured maximum, counted against the
  unfinished jobs of this controller; none when they cannot be counted; and at most ten without a maximum.
\<close>

theorem cycle_within_capacity:
  assumes "drainRuns E (kube_dispatcher K (ct_config c) k) c stopped (a, d) = (r, (a', d'))"
  shows "jobs_placed K d' \<le> jobs_placed K d +
    (if cc_MaxConcurrentJobs (ct_config c) < 0 then 10
     else case fst (CountActiveJobs K (ct_config c) d) of
            Ok active \<Rightarrow> nat (cc_MaxConcurrentJobs (ct_config c) - active)
          | _ \<Rightarrow> 0)"
proof (cases "cc_MaxConcurrentJobs (ct_config c) < 0")
  case True
  then have "availableCapacity (kube_dispatcher K (ct_config c) k) c (a, d) = (Ok 10, (a, d))"
    by (simp add: availableCapacity_def ret_def maxDrainPerCycleUnlimited_def)
  from kube.drainRuns_place [OF assms this] show ?thesis using True by simp
next
  case False
  obtain x d1 where x: "CountActiveJobs K (ct_config c) d = (x, d1)" by fastforce
  then have via: "via_dispatcher (CountActiveJobs K (ct_config c)) (a, d) = (x, (a, d1))" by (simp add: via_dispatcher_run)
  show ?thesis
  proof (cases x)
    case (Ok active)
    then have "availableCapacity (kube_dispatcher K (ct_config c) k) c (a, d) =
        (Ok (max (cc_MaxConcurrentJobs (ct_config c) - active) 0), (a, d1))"
      using False via by (simp add: availableCapacity_def ret_def Let_def attempt_def kube_dispatcher_def)
    from kube.drainRuns_place [OF assms this] show ?thesis using False Ok x by simp
  next
    case (Err e)
    then have "availableCapacity (kube_dispatcher K (ct_config c) k) c (a, d) = (Ok 0, (a, d1))"
      using False via by (simp add: availableCapacity_def ret_def Let_def attempt_def kube_dispatcher_def)
    from kube.drainRuns_place [OF assms this] show ?thesis using False Err x by simp
  next
    case (Panic p)
    then have "d' = d1"
      using assms False via by (auto simp: drainRuns_def bnd_def availableCapacity_def Let_def attempt_def kube_dispatcher_def)
    then show ?thesis using False Panic x CountActiveJobs_places [OF x] by simp
  qed
qed

section \<open>Claimed runs\<close>

text \<open>The request that reports a run as failed.\<close>

definition reports_failed :: "controller \<Rightarrow> string \<Rightarrow> string \<Rightarrow> http_request \<Rightarrow> bool" where
  "reports_failed c runId m req \<longleftrightarrow> req_Method req = ''PATCH'' \<and>
     req_Url req = EPRunSourceUpdate (ac_Url (cc_Api (ct_config c))) runId (cc_Uuid (ct_config c)) \<and>
     req_Body req = json_Marshal (validation_update ''FAILED'' m m)"

lemma PatchStatus_last:
  assumes "he_NewRequest E url = None"
  shows "\<exists>rs req. as_sent (snd (PatchStatusAt E cl url p s)) = rs @ [req] \<and> req_Method req = ''PATCH'' \<and>
    req_Url req = url \<and> req_Body req = json_Marshal p"
proof -
  let ?req = "\<lparr>req_Method = ''PATCH'', req_Url = url, req_Headers = [], req_Body = json_Marshal p\<rparr>"
  obtain h s1 where h: "AuthHeader E (cl_auth cl) s = (Ok h, s1)" using AuthHeader_returns by blast
  have "as_sent (snd (PatchStatusAt E cl url p s)) = as_sent s1 @ [standard_headers cl h ?req]"
    using assms h
    by (auto simp: PatchStatusAt_def bnd_def wrap_err_def attempt_def http_NewRequest_def ret_def throw_def setHeaders_def
        http_Do_def liftres_def ReadAll_def Let_def split: sum.splits option.splits)
  then show ?thesis by (auto simp: standard_headers_def)
qed

lemma plain_ctl_RegisterSource: "plain (ctl_RegisterSource E cfg m runId)"
proof -
  have "plain (wrap_err ''register source failed: ''
      (RegisterSource E (controller_client cfg m) runId (validation_registration cfg)))"
    unfolding RegisterSource_def RegisterSourceAt_def setHeaders_def by (auto intro!: plain_intros plain_AuthHeader)
  then show ?thesis unfolding ctl_RegisterSource_def fresh_auth_def plain_def by auto
qed

text \<open>A failure is reported by the last request, or the registration before it failed.\<close>

lemma reportRunFailure_reports:
  assumes "he_NewRequest E (EPRunSourceUpdate (ac_Url (cc_Api (ct_config c))) uuid (cc_Uuid (ct_config c))) = None"
    and "snd (reportRunFailure E c uuid m a) = a'"
  shows "(\<exists>rs req m. as_sent a' = rs @ [req] \<and> reports_failed c uuid m req) \<or>
    (\<exists>e. ctl_RegisterSource E (ct_config c) (ct_meta c) uuid a = (Err e, a'))"
proof -
  let ?url = "EPRunSourceUpdate (ac_Url (cc_Api (ct_config c))) uuid (cc_Uuid (ct_config c))"
  obtain x a1 where x: "ctl_RegisterSource E (ct_config c) (ct_meta c) uuid a = (x, a1)" by fastforce
  show ?thesis
  proof (cases x)
    case (Ok u)
    then have "a' = snd (UpdateRunStatus E (ct_config c) (ct_meta c) uuid ''FAILED'' m m a1)"
      using assms(2) x by (auto simp: reportRunFailure_def attempt_def ret_def split: prod.splits res.splits)
    also have "\<dots> = snd (PatchStatusAt E (controller_client (ct_config c) (ct_meta c)) ?url
        (validation_update ''FAILED'' m m) (a1\<lparr>as_token := [], as_expiresAt := 0\<rparr>))"
      by (auto simp: UpdateRunStatus_def fresh_auth_def bnd_def wrap_err_def attempt_def ret_def throw_def panic_def
          PatchStatus_def controller_client_def newMeshClient_def split: prod.splits res.splits)
    finally show ?thesis
      using PatchStatus_last [OF assms(1)] unfolding reports_failed_def by metis
  next
    case (Err e)
    then show ?thesis using assms(2) x by (auto simp: reportRunFailure_def attempt_def ret_def)
  next
    case (Panic p)
    then show ?thesis using x plainD [OF plain_ctl_RegisterSource x] by simp
  qed
qed


text \<open>
  A claimed run that cannot be decrypted is dropped: the controller counts the error but sends nothing
  about the run, and the server keeps it in progress.
\<close>

lemma undecrypted_run_unreported:
  assumes "ctl_FetchRunDetails (ctl_http E) (ctl_codec E) (ct_config c) (ct_meta c) (cc_Uuid (ct_config c)) a = (Ok (json, run), a1)"
    and "decryptRunDetails (ctl_aead E) (ctl_codec E) (ctl_impls E) json (ct_crypto c) = Err e"
  shows "\<exists>a2. processNextRun E D c (a, d) = (Ok ProcessFailed, (a2, d)) \<and> as_sent a2 = as_sent a1"
proof -
  have "via_api (ctl_FetchRunDetails (ctl_http E) (ctl_codec E) (ct_config c) (ct_meta c) (cc_Uuid (ct_config c))) (a, d) =
      (Ok (json, run), (a1, d))"
    using assms(1) by (simp add: via_api_run)
  then show ?thesis
    using assms(2)
    by (simp add: processNextRun_def process_run_def attempt_def liftres_def ret_def bnd_def inc_def via_api_def zoom_def)
qed

section \<open>The configuration\<close>

text \<open>The credentials of an authentication method are complete.\<close>

fun complete_credentials :: "auth_provider \<Rightarrow> bool" where
  "complete_credentials (BasicAuth u p) = (u \<noteq> [] \<and> p \<noteq> [])"
| "complete_credentials (ApiKeyAuth url i sec) = (url \<noteq> [] \<and> i \<noteq> [] \<and> sec \<noteq> [])"
| "complete_credentials _ = False"

text \<open>
  C34: a configuration that the controller accepts can be used: the credentials of the method it will
  pick are complete, every handler is for a type that runs are dispatched to and has an image, there is
  a maximum of jobs (or none, if it is negative), and the workload identity section is what its issuer
  needs, with a lifetime for tokens, so that registering it cannot panic.
\<close>

theorem validated_config_usable:
  assumes "ReadConfig E = Ok c"
  shows "complete_credentials (api_NewAuthProvider (cc_Api c) url) \<and> cc_Implementations c \<noteq> [] \<and>
    (\<forall>(ty, spec) \<in> set (cc_Implementations c). js_Image spec \<noteq> [] \<and> (\<exists>i. ty = ToRunnerType i \<and> (\<forall>s. i \<noteq> ImplOther s))) \<and>
    cc_MaxConcurrentJobs c \<noteq> 0 \<and>
    (if wif_issuer (cc_Wif c) = WifIssuerKeycloak
     then (\<exists>k. wif_Keycloak (cc_Wif c) = Some k \<and> kw_TokenLifetimeMinutes k > 0 \<and> kw_Realm k \<noteq> [] \<and>
             registeredWif (cc_Wif c) ns iss = Ok (Some (keycloakWif (keycloak_issuer k))))
     else wif_Keycloak (cc_Wif c) = None \<and> (\<exists>w. registeredWif (cc_Wif c) ns iss = Ok w))"
proof -
  obtain c0 where c: "c = read_overrides E c0" and ok: "validateConfig E c = Ok ()"
    using assms by (auto simp: ReadConfig_def Let_def split: res.splits)
  have checks: "ac_Url (cc_Api c) \<noteq> []" "validateApiAuth (cc_Api c) ''api'' = Ok ()" "cc_Implementations c \<noteq> []"
    "\<forall>kv \<in> set (cc_Implementations c). validateImplementation kv = Ok ()"
    "validateWorkloadIdentityFederation E (cc_Wif c) = Ok ()"
    using ok unfolding validateConfig_def all_ok_Ok by simp_all
  have auth: "complete_credentials (api_NewAuthProvider (cc_Api c) url)"
    using checks(1,2) by (auto simp: api_NewAuthProvider_def validateApiAuth_Ok Let_def)
  have impls: "js_Image spec \<noteq> [] \<and> (\<exists>i. ty = ToRunnerType i \<and> (\<forall>s. i \<noteq> ImplOther s))"
    if "(ty, spec) \<in> set (cc_Implementations c)" for ty spec
    using checks(4) that valid_handler_types [of ty] unfolding validateImplementation_def all_ok_Ok by fastforce
  have jobs: "cc_MaxConcurrentJobs c \<noteq> 0"
    by (simp add: c read_overrides_def applyApiKeyEnvOverrides_def DefaultMaxConcurrentJobs_def Let_def)
  have lifetime: "kw_TokenLifetimeMinutes k \<noteq> 0" if "wif_Keycloak (cc_Wif c) = Some k" for k
    using that default_lifetime by (auto simp: c read_overrides_def Let_def)
  have "if wif_issuer (cc_Wif c) = WifIssuerKeycloak
     then (\<exists>k. wif_Keycloak (cc_Wif c) = Some k \<and> kw_TokenLifetimeMinutes k > 0 \<and> kw_Realm k \<noteq> [] \<and>
             registeredWif (cc_Wif c) ns iss = Ok (Some (keycloakWif (keycloak_issuer k))))
     else wif_Keycloak (cc_Wif c) = None \<and> (\<exists>w. registeredWif (cc_Wif c) ns iss = Ok w)"
    using checks(5) lifetime validateKeycloakWif_Ok [of E]
    by (auto simp: validateWorkloadIdentityFederation_def registeredWif_def check_def WifIssuerKeycloak_def WifIssuerKubernetes_def order_le_less not_less split: if_splits option.splits)
  with auth impls jobs checks(3) show ?thesis by auto
qed

text \<open>
  C35: the start-up log of the controller reveals no secret. Two starts that differ only in the values of
  secrets (the password, the client secrets, the private key, the environment of the jobs, and the client
  secret in the environment) write the same log, down to the message with which a refused configuration
  ends the process.
\<close>

theorem startup_log_hides_secrets:
  assumes "same_but_secret E E'" "mask_secrets c = mask_secrets c'"
    and "ReadInYmlConfig E (cmp_or (ce_Getenv E ctl_envConfigFile) ctl_defaultConfigFile) = Ok c"
    and "ReadInYmlConfig E' (cmp_or (ce_Getenv E' ctl_envConfigFile) ctl_defaultConfigFile) = Ok c'"
  shows "startup_log E = startup_log E'"
proof -
  let ?o = "read_overrides E c" and ?o' = "read_overrides E' c'"
  note m = read_overrides_masked [OF assms(1,2)]
  have "validateConfig E ?o = validateConfig E' ?o'"
    using validateConfig_masked [of E' ?o] validateConfig_masked [of E' ?o'] m validateConfig_same [OF assms(1)] by simp
  moreover have "logConfig ?o = logConfig ?o'"
    using logConfig_masked [of ?o] logConfig_masked [of ?o'] m by simp
  ultimately show ?thesis
    unfolding startup_log_def Let_def assms(3,4) override_log_same [OF assms(1)] by (simp split: res.splits)
qed

section \<open>Witnesses of the controller\<close>

text \<open>
  A cluster that finds service accounts but no job and no secret, has one unfinished and one finished
  job, and refuses new jobs if \<open>refuse\<close>.
\<close>

definition sample_kube :: "bool \<Rightarrow> kube_env" where
  "sample_kube refuse =
     (let missing = \<lparr>kerr_NotFound = True, kerr_Text = ''not found''\<rparr>
      in \<lparr>kube_GetJob = (\<lambda>h. Some missing),
          kube_CreateJob = (\<lambda>h. if refuse then Inl \<lparr>kerr_NotFound = False, kerr_Text = ''quota''\<rparr> else Inr (''job'', ''uid'')),
          kube_ListJobs = (\<lambda>h. Inr [[], [(''Complete'', ''True'')]]),
          kube_GetServiceAccount = (\<lambda>h. None), kube_CreateServiceAccount = (\<lambda>h. None),
          kube_GetSecret = (\<lambda>h. Inl missing), kube_CreateSecret = (\<lambda>h. Inr ''sec''),
          kube_UpdateSecret = (\<lambda>h. None), kube_DeleteSecret = (\<lambda>h. None),
          kube_DoRaw = (\<lambda>h. Inr ''{}''), kube_DecodeIssuer = (\<lambda>b. Inr ''iss''),
          kube_ParseQuantity = (\<lambda>q. Some q), kube_wif = sample_kc, kube_http = sample_http 200 ''{}''\<rparr>)"

definition sample_spec :: job_spec_template where
  "sample_spec = \<lparr>js_Image = ''img'', js_Command = [], js_Args = [], js_Env = [],
     js_Resources = \<lparr>res_Requests = \<lparr>rsp_Cpu = [], rsp_Memory = []\<rparr>, res_Limits = \<lparr>rsp_Cpu = [], rsp_Memory = []\<rparr>\<rparr>,
     js_ExtraVolumes = [], js_ExtraVolumeMounts = []\<rparr>"

definition sample_ctl_config :: controller_config where
  "sample_ctl_config = \<lparr>cc_Namespace = ''ns'', cc_ImagePullSecrets = [], cc_PollingIntervalSeconds = 10,
     cc_MaxConcurrentJobs = 2,
     cc_Api = \<lparr>ac_Url = ''http://m'', ac_Username = ''u'', ac_Password = ''p'', ac_ClientId = [], ac_ClientSecret = []\<rparr>,
     cc_Uuid = ''c'', cc_OwnedByWorkspace = ''o'', cc_DisplayName = ''d'', cc_PublicKey = ''pk'', cc_PrivateKey = ''sk'',
     cc_Tolerations = [], cc_NodeSelector = [], cc_Implementations = [(''TERRAFORM'', sample_spec)],
     cc_Wif = \<lparr>wif_Issuer = ''off'', wif_Keycloak = None\<rparr>\<rparr>"

definition sample_kube_client :: kube_client where
  "sample_kube_client = \<lparr>kb_namespace = ''ns'', kb_wifTokens = None, kb_meta = defaultMetadata\<rparr>"

definition sample_kube_state :: kube_state where
  "sample_kube_state = \<lparr>ku_calls = [], ku_issuer = sample_kc_state, ku_api = sample_api_state\<rparr>"

lemma sample_decode: "b64_decode ''e30='' = Ok ''{}''"
  by code_simp

lemmas kube_defs = kube_Dispatch_def CreateRunnerJob_def createServiceAccount_def createRunJsonSecret_def
  createWifTokenSecret_def place_job_def kube_do_def attempt_def bnd_def ret_def throw_def liftres_def wrap_err_def
  done_unless_def answer_def server_error_def GetRunInfo_def estimateRunJsonSize_def EffectiveMaxRunJsonSize_def
  MaxKubernetesSecretSize_def SecretMetadataOverhead_def DecodedLen_def buildResourceRequirements_def MustParse_def
  run_secrets_def for_each_def delete_secret_def create_runner_job_def deferred_def job_step_def Let_def

lemmas kube_samples = sample_kube_def sample_spec_def sample_ctl_config_def sample_kube_client_def
  sample_kube_state_def sample_details_def

lemma sample_refused:
  "\<exists>s' e. kube_Dispatch (sample_kube True) sample_ctl_config sample_kube_client (sample_details ''APPLY'') ''e30=''
      ''TERRAFORM'' sample_kube_state = (Err e, s') \<and>
    (3, ''run-json-id'') \<in> created_secrets (sample_kube True) (ku_calls s') \<and> ku_calls sample_kube_state = []"
  using sample_decode
  by (simp add: kube_defs kube_samples created_secrets_def secret_name_def run_json_secret_def)

theorem failed_dispatch_deletes_secrets_witness:
  "\<exists>j > 3. ku_calls (snd (kube_Dispatch (sample_kube True) sample_ctl_config sample_kube_client (sample_details ''APPLY'')
      ''e30='' ''TERRAFORM'' sample_kube_state)) ! j = DeleteSecret ''ns'' ''run-json-id''"
proof -
  obtain s' e where s': "kube_Dispatch (sample_kube True) sample_ctl_config sample_kube_client (sample_details ''APPLY'')
      ''e30='' ''TERRAFORM'' sample_kube_state = (Err e, s')"
    "(3, ''run-json-id'') \<in> created_secrets (sample_kube True) (ku_calls s')" "ku_calls sample_kube_state = []"
    using sample_refused by blast
  have "cc_Namespace sample_ctl_config = ''ns''" by (simp add: sample_ctl_config_def)
  then show ?thesis
    using failed_dispatch_deletes_secrets [OF s'(1) _ s'(2)] s' by (auto simp: sample_kube_def Let_def)
qed

lemma sample_placed:
  "\<exists>r s'. kube_Dispatch (sample_kube False) sample_ctl_config sample_kube_client (sample_details ''APPLY'') ''e30=''
      ''TERRAFORM'' sample_kube_state = (r, s') \<and>
    CreateSecret (run_json_secret sample_ctl_config ''ns'' ''run-json-id'' ''id'' ''{}'') \<in>
      set (drop (length (ku_calls sample_kube_state)) (ku_calls s'))"
  using sample_decode
  by (simp add: kube_defs kube_samples setSecretOwnerReference_def)

theorem run_json_secret_bounded_witness:
  "\<exists>data. (''run.json'', data) \<in> set (sec_Data (run_json_secret sample_ctl_config ''ns'' ''run-json-id'' ''id'' ''{}'')) \<and>
    length data \<le> 1038336"
proof -
  obtain r s' where s': "kube_Dispatch (sample_kube False) sample_ctl_config sample_kube_client (sample_details ''APPLY'')
      ''e30='' ''TERRAFORM'' sample_kube_state = (r, s')"
    "CreateSecret (run_json_secret sample_ctl_config ''ns'' ''run-json-id'' ''id'' ''{}'') \<in>
      set (drop (length (ku_calls sample_kube_state)) (ku_calls s'))"
    using sample_placed by blast
  have "(''run.json'', ''{}'') \<in> set (sec_Data (run_json_secret sample_ctl_config ''ns'' ''run-json-id'' ''id'' ''{}''))"
    by (simp add: run_json_secret_def)
  then show ?thesis using run_json_secret_bounded [OF s'] by blast
qed

definition sample_controller :: controller where
  "sample_controller = \<lparr>ct_config = sample_ctl_config, ct_meta = defaultMetadata, ct_crypto = None\<rparr>"

definition sample_impls :: impl_codec where
  "sample_impls = \<lparr>ic_MarshalTerraform = (\<lambda>i. Ok ''i''), ic_UnmarshalGithub = (\<lambda>t. Err (ErrorString t)),
     ic_MarshalGithub = (\<lambda>i. Ok ''i''), ic_UnmarshalGitlab = (\<lambda>t. Err (ErrorString t)), ic_MarshalGitlab = (\<lambda>i. Ok ''i''),
     ic_UnmarshalAzure = (\<lambda>t. Err (ErrorString t)), ic_MarshalAzure = (\<lambda>i. Ok ''i'')\<rparr>"

definition sample_ctl_env :: "string \<Rightarrow> ctl_env" where
  "sample_ctl_env ty = \<lparr>ctl_http = sample_http 200 ''{}'',
     ctl_aead = \<lparr>Seal = (\<lambda>k n t. t), Open = (\<lambda>k n t. Some t)\<rparr>,
     ctl_codec = (sample_codec ''APPLY'')\<lparr>dc_UnmarshalType := (\<lambda>t. Ok ty)\<rparr>, ctl_impls = sample_impls\<rparr>"

theorem cycle_within_capacity_witness:
  "jobs_placed (sample_kube False) (snd (snd (drainRuns (sample_ctl_env ''TERRAFORM'')
      (kube_dispatcher (sample_kube False) sample_ctl_config sample_kube_client) sample_controller (\<lambda>i. False)
      (sample_api_state, sample_kube_state)))) \<le> 1"
proof -
  have cfg: "ct_config sample_controller = sample_ctl_config" "cc_MaxConcurrentJobs sample_ctl_config = 2"
    by (simp_all add: sample_controller_def sample_ctl_config_def)
  have count: "fst (CountActiveJobs (sample_kube False) sample_ctl_config sample_kube_state) = Ok 1"
    by (simp add: CountActiveJobs_def bnd_def wrap_err_def attempt_def kube_do_def answer_def ret_def isJobFinished_def
        sample_kube_def Let_def)
  have none: "jobs_placed (sample_kube False) sample_kube_state = 0"
    by (simp add: jobs_placed_def sample_kube_state_def)
  obtain r a' d' where run: "drainRuns (sample_ctl_env ''TERRAFORM'') (kube_dispatcher (sample_kube False)
      (ct_config sample_controller) sample_kube_client) sample_controller (\<lambda>i. False) (sample_api_state, sample_kube_state) = (r, (a', d'))"
    by (metis prod.collapse)
  from cycle_within_capacity [OF this] show ?thesis using run cfg count none by simp
qed

lemmas controller_defs = process_run_def decryptRunDetails_def decrypt_implementation_def GetImplementationType_def
  to_impl_type_def via_dispatcher_def via_api_def zoom_def kube_dispatcher_def reportRunFailure_def
  ctl_RegisterSource_def UpdateRunStatus_def fresh_auth_def RegisterSource_def RegisterSourceAt_def PatchStatus_def
  PatchStatusAt_def setHeaders_def http_NewRequest_def http_Do_def ReadAll_def is_2xx_def controller_client_def
  newMeshClient_def api_NewAuthProvider_def

lemma sample_failed_run:
  "\<exists>a' d'. process_run (sample_ctl_env ''TERRAFORM'') (kube_dispatcher (sample_kube True) sample_ctl_config sample_kube_client)
      sample_controller ''e30='' (sample_details ''APPLY'') (sample_api_state, sample_kube_state) =
      (Ok ProcessFailed, (a', d')) \<and>
    (\<forall>e. ctl_RegisterSource (sample_http 200 ''{}'') sample_ctl_config defaultMetadata ''id'' sample_api_state \<noteq> (Err e, a')) \<and>
    decryptRunDetails (ctl_aead (sample_ctl_env ''TERRAFORM'')) (ctl_codec (sample_ctl_env ''TERRAFORM''))
      (ctl_impls (sample_ctl_env ''TERRAFORM'')) ''e30='' (ct_crypto sample_controller) = Ok (b64_encode ''j'')"
  using sample_decode b64_roundtrip [of "''j''"]
  by (simp add: controller_defs kube_defs kube_samples sample_controller_def sample_ctl_env_def sample_codec_def
      sample_impl_def sample_impls_def sample_http_def sample_api_state_def ToRunnerType_def del: b64_encode.simps)


definition sample_config_env :: config_env where
  "sample_config_env = \<lparr>ce_Getenv = (\<lambda>n. []), ce_ReadFile = (\<lambda>f. Ok f),
     ce_Yaml = (\<lambda>t. Ok (sample_ctl_config\<lparr>cc_MaxConcurrentJobs := 0,
       cc_Wif := \<lparr>wif_Issuer = ''keycloak'', wif_Keycloak = Some \<lparr>kw_Url = ''https://k/'', kw_Realm = ''r'', kw_ClientId = ''i'',
         kw_ClientSecret = ''s'', kw_TokenLifetimeMinutes = 0\<rparr>\<rparr>\<rparr>)),
     ce_ParseUrl = (\<lambda>u. Some (''https'', ''k''))\<rparr>"

theorem validated_config_usable_witness:
  "\<exists>c. ReadConfig sample_config_env = Ok c \<and> cc_MaxConcurrentJobs c = 20 \<and> complete_credentials (api_NewAuthProvider (cc_Api c) []) \<and>
    registeredWif (cc_Wif c) ''ns'' [] = Ok (Some (keycloakWif ''https://k/realms/r''))"
proof -
  obtain c where c: "ReadConfig sample_config_env = Ok c" "cc_MaxConcurrentJobs c = 20" "wif_issuer (cc_Wif c) = WifIssuerKeycloak"
    "\<And>k. wif_Keycloak (cc_Wif c) = Some k \<Longrightarrow> keycloak_issuer k = ''https://k/realms/r''"
    by (simp add: ReadConfig_def ReadInYmlConfig_def read_overrides_def sample_config_env_def sample_ctl_config_def Let_def
        validateConfig_def check_def validateApiAuth_def validateImplementation_def isValidHandlerImplementationType_def
        sample_spec_def validateWorkloadIdentityFederation_def wif_issuer_def WifIssuerKeycloak_def WifIssuerKubernetes_def
        validateKeycloakWif_def applyKeycloakWifDefaults_def applyApiKeyEnvOverrides_def DefaultMaxConcurrentJobs_def
        DefaultWifTokenLifetimeMinutes_def keycloak_issuer_def TrimSuffix_def HasSuffix_def HasPrefix_def
        cmp_or_def)
  then show ?thesis using validated_config_usable [OF c(1), of "[]" "''ns''" "[]"] by auto
qed

text \<open>The same start with another client secret of Keycloak and another password.\<close>

definition other_secrets_env :: config_env where
  "other_secrets_env = sample_config_env\<lparr>ce_Yaml := (\<lambda>t. case ce_Yaml sample_config_env t of
     Ok c \<Rightarrow> Ok (c\<lparr>cc_PrivateKey := ''other'', cc_Wif := (cc_Wif c)\<lparr>wif_Keycloak :=
       map_option (\<lambda>k. k\<lparr>kw_ClientSecret := ''other''\<rparr>) (wif_Keycloak (cc_Wif c))\<rparr>\<rparr>) | r \<Rightarrow> r)\<rparr>"

theorem startup_log_hides_secrets_witness:
  "startup_log sample_config_env = startup_log other_secrets_env \<and>
    ReadInYmlConfig sample_config_env ctl_defaultConfigFile \<noteq> ReadInYmlConfig other_secrets_env ctl_defaultConfigFile"
proof -
  obtain c c' where c: "ReadInYmlConfig sample_config_env ctl_defaultConfigFile = Ok c"
    "ReadInYmlConfig other_secrets_env ctl_defaultConfigFile = Ok c'"
    "mask_secrets c = mask_secrets c'" "cc_PrivateKey c = ''sk''" "cc_PrivateKey c' = ''other''"
    by (simp add: ReadInYmlConfig_def sample_config_env_def other_secrets_env_def mask_secrets_def masked_def
        sample_ctl_config_def)
  have same: "same_but_secret sample_config_env other_secrets_env"
    by (simp add: same_but_secret_def sample_config_env_def other_secrets_env_def)
  have f: "cmp_or (ce_Getenv sample_config_env ctl_envConfigFile) ctl_defaultConfigFile = ctl_defaultConfigFile"
    "cmp_or (ce_Getenv other_secrets_env ctl_envConfigFile) ctl_defaultConfigFile = ctl_defaultConfigFile"
    by (simp_all add: sample_config_env_def other_secrets_env_def cmp_or_def)
  have "startup_log sample_config_env = startup_log other_secrets_env"
    by (rule startup_log_hides_secrets [OF same c(3)]) (simp_all only: f c)
  moreover have "c \<noteq> c'" using c(4,5) by auto
  ultimately show ?thesis using c(1,2) by simp
qed

end
