(* ===== verification/ModeProperties.thy ===== *)
theory ModeProperties
  imports ControllerProperties WorkerProperties
begin

text \<open>
  The two ways a run reaches the terraform runner: fetched by the runner itself, which decrypts the
  inputs where it uses them, and fetched by the run controller, which decrypts them before it hands the
  run to a runner without a private key.
\<close>

section \<open>Both ways give the same run\<close>

text \<open>The two runs agree in everything but the variables, the JSON and the credentials of the source.\<close>

definition same_run :: "run \<Rightarrow> run \<Rightarrow> bool" where
  "same_run r r' \<longleftrightarrow>
     r'\<lparr>r_Vars := r_Vars r, r_RunJsonBase64 := r_RunJsonBase64 r,
        r_Source := (r_Source r')\<lparr>gs_auth := gs_auth (r_Source r)\<rparr>\<rparr> = r"

text \<open>What decrypting the implementation of a terraform run does.\<close>

lemma decrypt_terraform:
  assumes "decrypt_implementation A crypto C I ImplTerraform raw = Ok raw'" "codec_inverts C I"
    and "dc_UnmarshalTerraform C raw = Ok impl"
  shows "\<exists>impl'. dc_UnmarshalTerraform C raw' = Ok impl' \<and> impl' = impl\<lparr>ti_SshPrivateKey := ti_SshPrivateKey impl'\<rparr> \<and>
    (case ti_SshPrivateKey impl of
       None \<Rightarrow> ti_SshPrivateKey impl' = None
     | Some k \<Rightarrow> \<exists>k'. ti_SshPrivateKey impl' = Some k' \<and> (k \<noteq> [] \<longrightarrow> DecryptMeshCertBased A crypto k = Ok k'))"
proof (cases "ti_SshPrivateKey impl")
  case None
  then have "dc_UnmarshalTerraform C raw' = Ok impl"
    using assms by (auto simp: decrypt_implementation_def codec_inverts_def)
  then show ?thesis using None by (auto intro!: exI [of _ impl])
next
  case (Some k)
  then obtain k' where k': "decrypt_secret A crypto ''SSH private key'' k = Ok k'"
    "dc_UnmarshalTerraform C raw' = Ok (impl\<lparr>ti_SshPrivateKey := Some k'\<rparr>)"
    using assms by (auto simp: decrypt_implementation_def codec_inverts_def)
  then have "k \<noteq> [] \<Longrightarrow> DecryptMeshCertBased A crypto k = Ok k'" by (auto simp: decrypt_secret_def)
  then show ?thesis using Some k' by auto
qed


text \<open>A run with one encrypted input, and a codec that knows it and its decrypted form.\<close>

definition mode_input :: "string \<Rightarrow> input_dto" where
  "mode_input v = \<lparr>in_Key = ''k'', in_Value = JStr v, in_Type = ''STRING'', in_IsSensitive = True, in_Env = False\<rparr>"

definition mode_details :: "string \<Rightarrow> run_details" where
  "mode_details v = (sample_details ''APPLY'')\<lparr>rd_Inputs := [mode_input v]\<rparr>"

definition mode_codec :: "string \<Rightarrow> dto_codec" where
  "mode_codec v = \<lparr>dc_MarshalRun = (\<lambda>d. if d = mode_details v then Ok ''1'' else if d = mode_details ''secret'' then Ok ''2''
       else Err (ErrorString [])),
     dc_UnmarshalRun = (\<lambda>t. if t = ''1'' then Ok (mode_details v) else Ok (mode_details ''secret'')),
     dc_UnmarshalTerraform = (\<lambda>t. Ok sample_impl), dc_UnmarshalType = (\<lambda>t. Ok ''TERRAFORM'')\<rparr>"

definition mode_impls :: impl_codec where
  "mode_impls = sample_impls\<lparr>ic_MarshalTerraform := (\<lambda>i. if i = sample_impl then Ok ''i'' else Err (ErrorString []))\<rparr>"

definition mode_app :: "cert_crypto option \<Rightarrow> app" where
  "mode_app c = sample_app\<lparr>app_Crypto := c\<rparr>"

lemma toy_encrypted:
  "\<exists>v. v \<noteq> [] \<and> v \<noteq> ''secret'' \<and>
    DecryptMeshCertBased toy_aead (Some \<lparr>mc_publicKey = None, mc_privateKey = Some toy_private\<rparr>) v = Ok ''secret''"
proof -
  let ?iv = "''nonce-nonce-''" and ?ct = "''secretT''"
  define w where "w = ''0123456789abcdef'' @ ''pp'' @ PutUint32 IV_LENGTH @ ?iv @ ?ct"
  have "DecryptSymmetric toy_aead ''0123456789abcdef'' (PutUint32 IV_LENGTH @ ?iv @ ?ct) = Ok ''secret''"
    by (subst DecryptSymmetric_frame) (simp_all add: IV_LENGTH_def toy_aead_def)
  then have d: "DecryptMeshCertBased toy_aead (Some \<lparr>mc_publicKey = None, mc_privateKey = Some toy_private\<rparr>) (b64_encode w)
      = Ok ''secret''"
    by (simp add: DecryptMeshCertBased_def b64_roundtrip toy_private_def NewSymmetricCrypto_def w_def del: b64_encode.simps)
  have no: "\<not> (case b64_decode ''secret'' of Ok bs \<Rightarrow> True | _ \<Rightarrow> False)"
    by code_simp
  have "b64_encode w \<noteq> ''secret''"
  proof
    assume e: "b64_encode w = ''secret''"
    have "b64_decode ''secret'' = Ok w" using b64_roundtrip [of w] unfolding e .
    then show False using no by simp
  qed
  moreover have "b64_encode w \<noteq> []" by (simp add: w_def)
  ultimately show ?thesis using d by blast
qed


end
