(* ===== verification/RunnerConfig.thy ===== *)
theory RunnerConfig
  imports RunApi
begin

text \<open>
  The configuration and the start of the terraform runner, \<^verbatim>\<open>tf-block-runner/tfrun/config.go\<close> and
  \<^verbatim>\<open>tf-block-runner/main.go\<close>.

  The files, the YAML decoder (onto the empty configuration) and the environment are parameters
  (\<open>runner_env\<close>). \<^verbatim>\<open>log.Fatalf\<close> ends the process and is a panic here; logs are left out.
\<close>

section \<open>Configuration\<close>

record runner_config =
  tc_TfCommandTimeoutMins :: int
  tc_TfParentWorkingDir :: string
  tc_TfInstallDir :: string
  tc_RunApiBackend :: run_api_config
  tc_SkipHostKeyValidation :: bool
  tc_PrivateKey :: string
  tc_PrivateKeyFile :: string
  tc_WsTimeoutMins :: int
  tc_InitTimeoutMins :: int
  tc_RunnerUuid :: string

definition empty_runner_config :: runner_config where
  "empty_runner_config =
     \<lparr>tc_TfCommandTimeoutMins = 0, tc_TfParentWorkingDir = [], tc_TfInstallDir = [],
      tc_RunApiBackend = \<lparr>rac_Url = [], rac_User = [], rac_Password = [], rac_ClientId = [], rac_ClientSecret = []\<rparr>,
      tc_SkipHostKeyValidation = False, tc_PrivateKey = [], tc_PrivateKeyFile = [], tc_WsTimeoutMins = 0,
      tc_InitTimeoutMins = 0, tc_RunnerUuid = []\<rparr>"

record runner_env =
  re_Getenv :: "string \<Rightarrow> string"
  re_ReadFile :: "string \<Rightarrow> string res"
  re_Yaml :: "string \<Rightarrow> runner_config res"
  re_MkdirAll :: "string \<Rightarrow> unit res"
  re_Listen :: "string \<Rightarrow> unit res"

definition defaultConfigFile :: string where "defaultConfigFile = ''runner-config.yml''"
definition defaultPrivateKeyFile :: string where "defaultPrivateKeyFile = ''runner-private.pem''"
definition envConfigFile :: string where [simp]: "envConfigFile = ''RUNNER_CONFIG_FILE''"
definition envRunnerUuid :: string where [simp]: "envRunnerUuid = ''RUNNER_UUID''"
definition envApiUrl :: string where [simp]: "envApiUrl = ''RUNNER_API_URL''"
definition envAuthUsername :: string where [simp]: "envAuthUsername = ''RUNNER_API_USERNAME''"
definition envAuthPassword :: string where [simp]: "envAuthPassword = ''RUNNER_API_PASSWORD''"
definition envAuthClientId :: string where [simp]: "envAuthClientId = ''RUNNER_API_CLIENT_ID''"
definition envAuthClientSecret :: string where [simp]: "envAuthClientSecret = ''RUNNER_API_CLIENT_SECRET''"
definition envPrivateKeyFile :: string where [simp]: "envPrivateKeyFile = ''RUNNER_PRIVATE_KEY_FILE''"
definition envExecutionMode :: string where [simp]: "envExecutionMode = ''EXECUTION_MODE''"
definition envRunJsonFilePath :: string where [simp]: "envRunJsonFilePath = ''RUN_JSON_FILE_PATH''"

text \<open>A setting that an environment variable overrides when it is not empty.\<close>

definition override :: "runner_env \<Rightarrow> string \<Rightarrow> string \<Rightarrow> string" where
  "override E name old = (let v = re_Getenv E name in if v \<noteq> [] then v else old)"

definition applyEnvVars :: "runner_env \<Rightarrow> runner_config \<Rightarrow> runner_config" where
  "applyEnvVars E c =
     (let api = tc_RunApiBackend c
      in c\<lparr>tc_RunnerUuid := override E envRunnerUuid (tc_RunnerUuid c),
           tc_RunApiBackend :=
             \<lparr>rac_Url = override E envApiUrl (rac_Url api),
              rac_User = override E envAuthUsername (rac_User api),
              rac_Password = override E envAuthPassword (rac_Password api),
              rac_ClientId = override E envAuthClientId (rac_ClientId api),
              rac_ClientSecret = override E envAuthClientSecret (rac_ClientSecret api)\<rparr>,
           tc_PrivateKeyFile :=
             (let v = re_Getenv E envPrivateKeyFile
              in if v \<noteq> [] then v
                 else if tc_PrivateKeyFile c = [] then defaultPrivateKeyFile else tc_PrivateKeyFile c)\<rparr>)"

definition applyPrivateKeyFile :: "runner_env \<Rightarrow> string \<Rightarrow> runner_config \<Rightarrow> runner_config" where
  "applyPrivateKeyFile E path c =
     (if path = [] then c
      else (case re_ReadFile E path of Ok keyData \<Rightarrow> c\<lparr>tc_PrivateKey := keyData\<rparr> | _ \<Rightarrow> c))"

definition single_run_mode :: "runner_env \<Rightarrow> bool" where
  "single_run_mode E = (re_Getenv E envExecutionMode = ''single-run'')"

definition validateAuthConfig :: "runner_env \<Rightarrow> runner_config \<Rightarrow> unit res" where
  "validateAuthConfig E c =
     (let api = tc_RunApiBackend c;
          basic = (rac_User api \<noteq> [] \<and> rac_Password api \<noteq> []);
          key = (rac_ClientId api \<noteq> [] \<and> rac_ClientSecret api \<noteq> [])
      in if single_run_mode E
         then (if re_Getenv E envRunJsonFilePath = []
               then Err (ErrorString ''RUN_JSON_FILE_PATH environment variable is required in single-run mode'')
               else Ok ())
         else if \<not> basic \<and> \<not> key
         then Err (ErrorString ''authentication required in polling mode: set either user+password (Basic auth) or clientId+clientSecret (API key auth)'')
         else Ok ())"

definition validateRunnerUuid :: "runner_config \<Rightarrow> unit res" where
  "validateRunnerUuid c =
     (if tc_RunnerUuid c = []
      then Err (ErrorString ''runnerUuid is required and must not be empty. Set it via RUNNER_UUID environment variable or runner-config.yml'')
      else Ok ())"

definition read_config_file :: "runner_env \<Rightarrow> runner_config res" where
  "read_config_file E =
     (let v = re_Getenv E envConfigFile; path = (if v = [] then defaultConfigFile else v)
      in case re_ReadFile E path of
           Ok fileData \<Rightarrow> re_Yaml E fileData
         | Err e \<Rightarrow> if is_not_exist e then Ok empty_runner_config else Err e
         | Panic p \<Rightarrow> Panic p)"

definition runner_ReadConfig :: "runner_env \<Rightarrow> runner_config res" where
  "runner_ReadConfig E =
     rbind (read_config_file E) (\<lambda>c0.
     let c1 = applyEnvVars E c0;
         c2 = applyPrivateKeyFile E (tc_PrivateKeyFile c1) c1
     in rbind (validateAuthConfig E c2) (\<lambda>_.
        rbind (validateRunnerUuid c2) (\<lambda>_. Ok c2)))"

section \<open>Start\<close>

text \<open>The package variable \<^verbatim>\<open>Crypto\<close> as \<^verbatim>\<open>main\<close> leaves it.\<close>

definition init_crypto :: "runner_env \<Rightarrow> key_parser \<Rightarrow> runner_config \<Rightarrow> cert_crypto option res" where
  "init_crypto E K c =
     (if \<not> single_run_mode E \<and> tc_PrivateKey c \<noteq> []
      then (case NewCertBasedDecryptor K (tc_PrivateKey c) of
              Ok crypto \<Rightarrow> Ok (Some crypto)
            | Err e \<Rightarrow> Panic (''failed to initialize crypto: private key could not be loaded: '' @ error_text e)
            | Panic p \<Rightarrow> Panic p)
      else Ok None)"

text \<open>The file of the run that \<^verbatim>\<open>executeSingleRun\<close> reads.\<close>

definition read_run_json :: "runner_env \<Rightarrow> string res" where
  "read_run_json E =
     (let path = re_Getenv E envRunJsonFilePath
      in if path = []
         then Panic ''RUN_JSON_FILE_PATH environment variable is required in single-run mode''
         else (case re_ReadFile E path of
                 Ok runJson \<Rightarrow> Ok runJson
               | Err e \<Rightarrow> Panic (''Failed to read run JSON file from '' @ path @ '': '' @ error_text e)
               | Panic p \<Rightarrow> Panic p))"

text \<open>The provider of terraform binaries, known by the directory it installs them in.\<close>

record tf_binaries =
  tfb_dir :: string

definition prepareInstallDir :: "runner_env \<Rightarrow> tf_binaries \<Rightarrow> unit res" where
  "prepareInstallDir E bin = re_MkdirAll E (tfb_dir bin)"

definition NewTfBin :: "runner_env \<Rightarrow> string \<Rightarrow> tf_binaries res" where
  "NewTfBin E parentInstallDir =
     (let installer = \<lparr>tfb_dir = parentInstallDir\<rparr>
      in case prepareInstallDir E installer of
           Ok _ \<Rightarrow> Ok installer
         | Err e \<Rightarrow> Err e
         | Panic p \<Rightarrow> Panic p)"

text \<open>The health server answers every request with 200; only its start can fail.\<close>

definition startHealthServer :: "runner_env \<Rightarrow> unit res" where
  "startHealthServer E =
     (let port = re_Getenv E ''PORT'';
          addr = '':'' @ (if port = [] then ''8100'' else port)
      in case re_Listen E addr of
           Ok _ \<Rightarrow> Ok ()
         | Err e \<Rightarrow> Panic (''Health server failed to bind on '' @ addr @ '': '' @ error_text e)
         | Panic p \<Rightarrow> Panic p)"

text \<open>What \<^verbatim>\<open>main\<close> starts: one run from a file, or the run manager.\<close>

datatype start = SingleRun string | Polling

definition runner_main :: "runner_env \<Rightarrow> key_parser \<Rightarrow> (runner_config \<times> cert_crypto option \<times> start) res" where
  "runner_main E K =
     (case runner_ReadConfig E of
        Err e \<Rightarrow> Panic (''cannot read config: '' @ error_text e)
      | Panic p \<Rightarrow> Panic p
      | Ok c \<Rightarrow>
          rbind (init_crypto E K c) (\<lambda>crypto.
          case NewTfBin E (tc_TfInstallDir c) of
            Err e \<Rightarrow> Panic (error_text e)
          | Panic p \<Rightarrow> Panic p
          | Ok _ \<Rightarrow>
              if single_run_mode E
              then rbind (read_run_json E) (\<lambda>runJson. Ok (c, crypto, SingleRun runJson))
              else rbind (startHealthServer E) (\<lambda>_. Ok (c, crypto, Polling))))"

section \<open>Lemmas\<close>

text \<open>A configuration that was read is complete for its mode.\<close>

lemma runner_ReadConfig_Ok:
  assumes "runner_ReadConfig E = Ok c"
  shows "tc_RunnerUuid c \<noteq> []" and "single_run_mode E \<Longrightarrow> re_Getenv E envRunJsonFilePath \<noteq> []"
    and "\<not> single_run_mode E \<Longrightarrow> NewAuthProvider (tc_RunApiBackend c) \<noteq> None"
  using assms
  by (auto simp: runner_ReadConfig_def validateAuthConfig_def validateRunnerUuid_def NewAuthProvider_def Let_def
      split: if_splits)

lemma init_crypto_polling:
  "runner_main E K = Ok (c, crypto, st) \<Longrightarrow>
     (crypto = None \<longleftrightarrow> single_run_mode E \<or> tc_PrivateKey c = []) \<and> (st = Polling \<longleftrightarrow> \<not> single_run_mode E)"
proof (cases "runner_ReadConfig E")
  case (Ok c0)
  assume "runner_main E K = Ok (c, crypto, st)"
  then show ?thesis
    using Ok
    by (cases "NewTfBin E (tc_TfInstallDir c0)") (auto simp: runner_main_def init_crypto_def split: res.splits if_splits)
qed (simp_all add: runner_main_def)

end
