(* ===== verification/ManualRunner.thy ===== *)
theory ManualRunner
  imports RunApi
begin

text \<open>
  The manual runner, \<^verbatim>\<open>manual-block-runner/manual\<close> (\<^verbatim>\<open>config.go\<close>, \<^verbatim>\<open>poll.go\<close>, \<^verbatim>\<open>run.go\<close>): it reports every run
  as succeeded and returns its inputs as outputs.

  Decoding YAML into nodes and nodes into the configuration, decoding a run, the files and the
  environment are parameters. A number of a run is kept as its text, so it is the same text in an output.
\<close>

section \<open>Configuration\<close>

record manual_config =
  mn_Uuid :: string
  mn_Url :: string
  mn_Username :: string
  mn_Password :: string
  mn_ClientId :: string
  mn_ClientSecret :: string

definition manual_defaultConfig :: manual_config where
  "manual_defaultConfig =
     \<lparr>mn_Uuid = ''d943b032-7836-4fef-a4a0-158817beecf3'', mn_Url = ''http://localhost:8301'', mn_Username = ''bb-api'',
      mn_Password = ''guest'', mn_ClientId = [], mn_ClientSecret = []\<rparr>"

datatype yaml_kind = DocumentNode | SequenceNode | MappingNode | ScalarNode | AliasNode

datatype yaml_node = YamlNode (yaml_kind: yaml_kind) (yaml_value: string) (yaml_content: "yaml_node list")

record manual_env =
  me_Getenv :: "string \<Rightarrow> string"
  me_LookupEnv :: "string \<Rightarrow> string option"
  me_ReadFile :: "string \<Rightarrow> string res"
  me_Yaml :: "string \<Rightarrow> yaml_node res"
  me_Decode :: "yaml_node \<Rightarrow> manual_config \<Rightarrow> manual_config res"
  me_Listen :: "string \<Rightarrow> unit res"

definition springKeySeparators :: "string \<Rightarrow> string" where
  "springKeySeparators s = filter (\<lambda>c. c \<noteq> CHR ''-'' \<and> c \<noteq> CHR ''_'') s"

text \<open>
  A match of the placeholder's expression at the start of a text, after the opening \<^verbatim>\<open>${\<close>: the name, the
  default (empty if there is none) and the text behind the match. The name ends at the first brace or colon.
\<close>

definition placeholder_at :: "string \<Rightarrow> (string \<times> string \<times> string) option" where
  "placeholder_at s =
     (let name = takeWhile (\<lambda>c. c \<noteq> CHR ''}'' \<and> c \<noteq> CHR '':'') s;
          rest = drop (length name) s
      in if name = [] then None
         else (case rest of
                 [] \<Rightarrow> None
               | c # rest' \<Rightarrow>
                   if c = CHR ''}'' then Some (name, [], rest')
                   else (let dflt = takeWhile (\<lambda>c. c \<noteq> CHR ''}'') rest'
                         in case drop (length dflt) rest' of
                              [] \<Rightarrow> None
                            | _ # rest'' \<Rightarrow> Some (name, dflt, rest''))))"

definition placeholder_value :: "manual_env \<Rightarrow> string \<Rightarrow> string \<Rightarrow> string" where
  "placeholder_value E name dflt = (case me_LookupEnv E name of Some v \<Rightarrow> v | None \<Rightarrow> dflt)"

lemma placeholder_shorter: "placeholder_at s = Some (n, d, rest) \<Longrightarrow> length rest < length s"
proof -
  assume a: "placeholder_at s = Some (n, d, rest)"
  have drop_less: "drop k u = c # v \<Longrightarrow> length v < length u" for k :: nat and u v :: string and c
    by (metis Suc_le_eq diff_le_self length_Cons length_drop)
  have "length (drop k u) \<le> length u" for k :: nat and u :: string by simp
  with a show ?thesis
    by (auto simp: placeholder_at_def Let_def split: if_splits list.splits dest!: drop_less)
qed

function springPlaceholder :: "manual_env \<Rightarrow> string \<Rightarrow> string" where
  "springPlaceholder E s =
     (case s of
        [] \<Rightarrow> []
      | c # t \<Rightarrow>
          (if c = CHR ''$'' \<and> HasPrefix t ''{''
           then (case placeholder_at (tl t) of
                   Some (name, dflt, rest) \<Rightarrow> placeholder_value E name dflt @ springPlaceholder E rest
                 | None \<Rightarrow> c # springPlaceholder E t)
           else c # springPlaceholder E t))"
  by pat_completeness auto

termination
  by (relation "measure (\<lambda>(E, s). length s)") (auto dest!: placeholder_shorter)

declare springPlaceholder.simps [simp del]

text \<open>The keys of a mapping are at the even positions of its contents.\<close>

fun resolve_keys :: "yaml_node list \<Rightarrow> yaml_node list" where
  "resolve_keys (YamlNode k v cs # val # rest) =
     YamlNode k (ToLower (springKeySeparators v)) cs # val # resolve_keys rest"
| "resolve_keys [YamlNode k v cs] = [YamlNode k (ToLower (springKeySeparators v)) cs]"
| "resolve_keys [] = []"

lemma size_resolve_keys: "size_list size (resolve_keys ns) = size_list size ns"
  by (induction ns rule: resolve_keys.induct) auto

lemma size_member: "n \<in> set ns \<Longrightarrow> size n \<le> size_list size ns"
  by (induction ns) auto

function resolveLikeSpring :: "manual_env \<Rightarrow> yaml_node \<Rightarrow> yaml_node" where
  "resolveLikeSpring E (YamlNode k v cs) =
     (let cs' = (if k = MappingNode then resolve_keys cs else cs);
          v' = (if k = ScalarNode then springPlaceholder E v else v)
      in YamlNode k v' (map (resolveLikeSpring E) cs'))"
  by pat_completeness auto

termination
proof (relation "measure (\<lambda>(E, n). size n)")
  fix E k v cs cs' v' n
  assume "cs' = (if k = MappingNode then resolve_keys cs else cs)" "n \<in> set cs'"
  then have "size n \<le> size_list size cs" using size_member [of n cs'] by (auto simp: size_resolve_keys split: if_splits)
  then show "((E, n), E, YamlNode k v cs) \<in> measure (\<lambda>(E, n). size n)" by simp
qed simp

definition readConfigFile :: "manual_env \<Rightarrow> string \<Rightarrow> manual_config \<Rightarrow> manual_config res" where
  "readConfigFile E configFile cfg =
     (case me_ReadFile E configFile of
        Err e \<Rightarrow> if is_not_exist e then Ok cfg else Err e
      | Panic p \<Rightarrow> Panic p
      | Ok data \<Rightarrow> rbind (me_Yaml E data) (\<lambda>root. me_Decode E (resolveLikeSpring E root) cfg))"

definition LoadConfig :: "manual_env \<Rightarrow> string \<Rightarrow> manual_config res" where
  "LoadConfig E configFile =
     rbind (wrap_res (''read '' @ configFile @ '': '') (readConfigFile E configFile manual_defaultConfig)) (\<lambda>cfg.
     Ok \<lparr>mn_Uuid = cmp_or (me_Getenv E ''RUNNER_UUID'') (mn_Uuid cfg),
         mn_Url = cmp_or (me_Getenv E ''RUNNER_API_URL'') (mn_Url cfg),
         mn_Username = cmp_or (me_Getenv E ''RUNNER_API_USERNAME'') (mn_Username cfg),
         mn_Password = cmp_or (me_Getenv E ''RUNNER_API_PASSWORD'') (mn_Password cfg),
         mn_ClientId = cmp_or (me_Getenv E ''RUNNER_API_CLIENT_ID'') (mn_ClientId cfg),
         mn_ClientSecret = cmp_or (me_Getenv E ''RUNNER_API_CLIENT_SECRET'') (mn_ClientSecret cfg)\<rparr>)"

section \<open>A run\<close>

definition stepId :: string where "stepId = ''manual''"
definition stepDisplayName :: string where "stepDisplayName = ''Manual Block Run''"
definition succeeded :: string where "succeeded = ''SUCCEEDED''"

definition sourceURLs :: "links_dto \<Rightarrow> string \<Rightarrow> (string \<times> string) res" where
  "sourceURLs links sourceId =
     (if lk_Href (link_RegisterSource links) = [] then Err (ErrorString ''the run has no registerSource link'')
      else if lk_Href (link_UpdateSource links) = [] then Err (ErrorString ''the run has no updateSource link'')
      else Ok (lk_Href (link_RegisterSource links), ReplaceAll (lk_Href (link_UpdateSource links)) ''{sourceId}'' (PathEscape sourceId)))"

definition outputType :: "string \<Rightarrow> string" where
  "outputType t =
     (if t = ''FILE'' \<or> t = ''SINGLE_SELECT'' then ''STRING''
      else if t = ''LIST'' \<or> t = ''MULTI_SELECT'' then ''CODE'' else t)"

definition outputsFrom :: "input_dto list \<Rightarrow> (string \<times> output_dto) list" where
  "outputsFrom inputs =
     foldl (\<lambda>m i. map_put (in_Key i)
              \<lparr>od_Value = in_Value i, od_Type = outputType (in_Type i), od_Sensitive = in_IsSensitive i\<rparr> m) [] inputs"

definition manual_update :: "run_details \<Rightarrow> any" where
  "manual_update run =
     JObj [(''status'', JStr succeeded), (''summary'', JNull),
           (''steps'', JArr [step_update_json
              \<lparr>su_Id = stepId, su_DisplayName = stepDisplayName, su_Status = Some succeeded, su_UserMessage = None,
               su_SystemMessage = None, su_Outputs = outputsFrom (rd_Inputs run)\<rparr>])]"

definition manual_ExecuteRun :: "http_env \<Rightarrow> manual_config \<Rightarrow> client_metadata \<Rightarrow> run_details \<Rightarrow> unit api" where
  "manual_ExecuteRun E cfg m run =
     bnd (wrap_err (''run '' @ rd_Uuid run @ '': '') (liftres (sourceURLs (rd_Links run) (mn_Uuid cfg)))) (\<lambda>(registerURL, updateURL).
     let client = NewClientWithHTTP (mn_Url cfg) (mn_Uuid cfg) (BearerTokenAuth (rd_RunToken run)) m
     in bnd (wrap_err (''register as source of run '' @ rd_Uuid run @ '': '')
               (RegisterSourceAt E client registerURL
                  \<lparr>reg_Source = \<lparr>src_Id = mn_Uuid cfg, src_ExternalId = None, src_ExternalUrl = None\<rparr>,
                   reg_Steps = [\<lparr>sr_Id = stepId, sr_DisplayName = stepDisplayName, sr_Status = None\<rparr>]\<rparr>)) (\<lambda>_.
        bnd (wrap_err (''report run '' @ rd_Uuid run @ '': '') (PatchStatusAt E client updateURL (manual_update run))) (\<lambda>_.
        ret ())))"

text \<open>\<open>parse\<close> is the decoder that keeps the text of numbers.\<close>

definition ExecuteRunJson ::
  "http_env \<Rightarrow> (string \<Rightarrow> run_details res) \<Rightarrow> manual_config \<Rightarrow> client_metadata \<Rightarrow> string \<Rightarrow> unit api" where
  "ExecuteRunJson E parse cfg m data =
     bnd (wrap_err ''parse run: '' (liftres (parse data))) (manual_ExecuteRun E cfg m)"

section \<open>Polling\<close>

definition NewPoller :: "manual_config \<Rightarrow> client_metadata \<Rightarrow> mesh_client" where
  "NewPoller cfg m =
     NewClientWithHTTP (mn_Url cfg) (mn_Uuid cfg)
       (if mn_ClientId cfg \<noteq> [] \<and> mn_ClientSecret cfg \<noteq> []
        then NewApiKeyAuth (mn_Url cfg) (mn_ClientId cfg) (mn_ClientSecret cfg)
        else BasicAuth (mn_Username cfg) (mn_Password cfg)) m"

text \<open>Whether the next run is fetched at once, or after a tick of the timer.\<close>

definition executeNextRun ::
  "http_env \<Rightarrow> dto_codec \<Rightarrow> (string \<Rightarrow> run_details res) \<Rightarrow> manual_config \<Rightarrow> client_metadata \<Rightarrow> bool api" where
  "executeNextRun E C parse cfg m =
     attempt (FetchRun E C (NewPoller cfg m) (mn_Uuid cfg)) (\<lambda>r.
     case r of
       Panic p \<Rightarrow> panic p
     | Err _ \<Rightarrow> ret False
     | Ok (_, data) \<Rightarrow>
         attempt (liftres (parse data)) (\<lambda>r.
         case r of
           Panic p \<Rightarrow> panic p
         | Err _ \<Rightarrow> ret False
         | Ok run \<Rightarrow> attempt (manual_ExecuteRun E cfg m run) (\<lambda>r.
             case r of Ok _ \<Rightarrow> ret True | Err _ \<Rightarrow> ret False | Panic p \<Rightarrow> panic p)))"

text \<open>
  The loop, over what its \<^verbatim>\<open>select\<close> sees when a round found no run: a tick (\<open>False\<close>) or the end of the
  context (\<open>True\<close>). \<open>n\<close> bounds the rounds; \<open>stopped i\<close> says whether the context was done before round \<open>i\<close>.
\<close>

fun poller_Run ::
  "http_env \<Rightarrow> dto_codec \<Rightarrow> (string \<Rightarrow> run_details res) \<Rightarrow> manual_config \<Rightarrow> client_metadata \<Rightarrow> (nat \<Rightarrow> bool) \<Rightarrow>
   nat \<Rightarrow> nat \<Rightarrow> unit api" where
  "poller_Run E C parse cfg m stopped 0 i = ret ()"
| "poller_Run E C parse cfg m stopped (Suc n) i =
     (if stopped i then ret ()
      else bnd (executeNextRun E C parse cfg m) (\<lambda>_. poller_Run E C parse cfg m stopped n (Suc i)))"

section \<open>Start\<close>

text \<open>
  \<^verbatim>\<open>main\<close> of \<^verbatim>\<open>manual-block-runner/main.go\<close>, up to the health server: the runner executes the run of a file and
  ends, or it polls. An error is the exit code 1.
\<close>

datatype manual_start = ManualRunFile string | ManualPolling

text \<open>The health server answers \<^verbatim>\<open>/healthz\<close> with 200; only its start can fail.\<close>

definition manual_startHealthServer :: "manual_env \<Rightarrow> unit res" where
  "manual_startHealthServer E =
     (let addr = '':'' @ cmp_or (cmp_or (me_Getenv E ''SERVER_PORT'') (me_Getenv E ''PORT'')) ''8104''
      in me_Listen E addr)"

definition manual_main :: "manual_env \<Rightarrow> (manual_config \<times> manual_start) res" where
  "manual_main E =
     rbind (LoadConfig E (cmp_or (me_Getenv E ''RUNNER_CONFIG_FILE'') ''runner-config.yml'')) (\<lambda>cfg.
     let runFile = me_Getenv E ''RUN_JSON_FILE_PATH''
     in if runFile \<noteq> []
        then rbind (me_ReadFile E runFile) (\<lambda>data. Ok (cfg, ManualRunFile data))
        else rbind (manual_startHealthServer E) (\<lambda>_. Ok (cfg, ManualPolling)))"

section \<open>Lemmas\<close>

text \<open>Every input is an output, and the last input with a key gives it.\<close>

lemma outputsFrom_of:
  "map_of (outputsFrom inputs) k =
     map_option (\<lambda>i. \<lparr>od_Value = in_Value i, od_Type = outputType (in_Type i), od_Sensitive = in_IsSensitive i\<rparr>)
       (find (\<lambda>i. in_Key i = k) (rev inputs))"
  by (simp add: outputsFrom_def foldl_map_put_of split: option.splits)

lemma outputType_idem [simp]: "outputType (outputType t) = outputType t"
  by (simp add: outputType_def)

text \<open>A text without a placeholder stays as it is.\<close>

lemma springPlaceholder_plain: "CHR ''$'' \<notin> set s \<Longrightarrow> springPlaceholder E s = s"
proof (induction s)
  case Nil
  show ?case by (simp add: springPlaceholder.simps)
next
  case (Cons c s)
  then show ?case by (subst springPlaceholder.simps) auto
qed

lemma springPlaceholder_value:
  assumes "n \<noteq> []" "CHR ''}'' \<notin> set n" "CHR '':'' \<notin> set n" "CHR ''}'' \<notin> set d"
  shows "springPlaceholder E (''${'' @ n @ '':'' @ d @ ''}'' @ rest) = placeholder_value E n d @ springPlaceholder E rest"
    and "springPlaceholder E (''${'' @ n @ ''}'' @ rest) = placeholder_value E n [] @ springPlaceholder E rest"
proof -
  have n: "takeWhile (\<lambda>c. c \<noteq> CHR ''}'' \<and> c \<noteq> CHR '':'') (n @ c # u) = n" if "c = CHR ''}'' \<or> c = CHR '':''" for c u
    using assms(2,3) that by (induction n) auto
  have d: "takeWhile (\<lambda>c. c \<noteq> CHR ''}'') (d @ CHR ''}'' # u) = d" for u
    using assms(4) by (induction d) auto
  have "placeholder_at (n @ '':'' @ d @ ''}'' @ rest) = Some (n, d, rest)"
    using assms(1) n [of "CHR '':''"] d by (simp add: placeholder_at_def)
  then show "springPlaceholder E (''${'' @ n @ '':'' @ d @ ''}'' @ rest) = placeholder_value E n d @ springPlaceholder E rest"
    by (subst springPlaceholder.simps) (simp add: HasPrefix_def)
  have "placeholder_at (n @ ''}'' @ rest) = Some (n, [], rest)"
    using assms(1) n [of "CHR ''}''"] by (simp add: placeholder_at_def)
  then show "springPlaceholder E (''${'' @ n @ ''}'' @ rest) = placeholder_value E n [] @ springPlaceholder E rest"
    by (subst springPlaceholder.simps) (simp add: HasPrefix_def)
qed

end
