(* ===== verification/InProcess.thy ===== *)
theory InProcess
  imports Kubernetes RunnerConfig ManualRunner SingleRunWorker
begin

text \<open>
  The dispatcher that executes runs inside the controller's process,
  \<^verbatim>\<open>run-controller/inprocess/dispatcher.go\<close>: a goroutine per run and a counter of the active ones.

  The state has the counter and the goroutines that are under way; \<open>inprocess_step\<close> is what the
  controller and the goroutines can do. What a goroutine executes is \<open>ExecuteDecryptedRun\<close> of the
  terraform runner or \<open>ExecuteRunJson\<close> of the manual one; their state is the API client's.
\<close>

section \<open>The dispatcher\<close>

record execution =
  ex_Uuid :: string
  ex_Type :: string
  ex_RunJson :: string

record inprocess =
  ip_active :: int
  ip_running :: "execution list"
  ip_dispatched :: nat

definition inprocess_init :: inprocess where
  "inprocess_init = \<lparr>ip_active = 0, ip_running = [], ip_dispatched = 0\<rparr>"

text \<open>\<^verbatim>\<open>NewDispatcher\<close>: the configurations of the two runners; \<open>tfBinaries\<close> is the outcome of \<^verbatim>\<open>NewTfBin\<close>.\<close>

definition inprocess_runner_config :: "string \<Rightarrow> string \<Rightarrow> runner_config" where
  "inprocess_runner_config runnerUuid apiUrl =
     empty_runner_config
       \<lparr>tc_TfCommandTimeoutMins := 60, tc_WsTimeoutMins := 5, tc_InitTimeoutMins := 3,
        tc_TfParentWorkingDir := ''/tmp/runner/wd'', tc_TfInstallDir := ''/tmp/runner/tfbin'',
        tc_RunnerUuid := runnerUuid,
        tc_RunApiBackend := (tc_RunApiBackend empty_runner_config)\<lparr>rac_Url := apiUrl\<rparr>\<rparr>"

definition inprocess_manual_config :: "string \<Rightarrow> string \<Rightarrow> manual_config" where
  "inprocess_manual_config runnerUuid apiUrl =
     \<lparr>mn_Uuid = runnerUuid, mn_Url = apiUrl, mn_Username = [], mn_Password = [], mn_ClientId = [], mn_ClientSecret = []\<rparr>"

definition NewDispatcher :: "string \<Rightarrow> string \<Rightarrow> unit res \<Rightarrow> (runner_config \<times> manual_config) res" where
  "NewDispatcher runnerUuid apiUrl tfBinaries =
     rbind tfBinaries (\<lambda>_. Ok (inprocess_runner_config runnerUuid apiUrl, inprocess_manual_config runnerUuid apiUrl))"

definition executor_types :: "string list" where
  "executor_types = [''TERRAFORM'', ''MANUAL'']"

definition inprocess_Dispatch :: "run_details \<Rightarrow> string \<Rightarrow> string \<Rightarrow> (inprocess, unit) prog" where
  "inprocess_Dispatch run decryptedRunJsonBase64 runnerType =
     (if runnerType \<notin> set executor_types then throw (NoHandlerError runnerType)
      else bnd (liftres (b64_decode decryptedRunJsonBase64)) (\<lambda>runJson.
           modify (\<lambda>s. s\<lparr>ip_active := ip_active s + 1,
             ip_running := ip_running s @ [\<lparr>ex_Uuid = rd_Uuid run, ex_Type = runnerType, ex_RunJson = runJson\<rparr>],
             ip_dispatched := Suc (ip_dispatched s)\<rparr>)))"

definition inprocess_CountActive :: "(inprocess, int) prog" where
  "inprocess_CountActive = gets ip_active"

definition inprocess_dispatcher :: "inprocess dispatcher" where
  "inprocess_dispatcher = \<lparr>dp_Dispatch = inprocess_Dispatch, dp_CountActive = inprocess_CountActive\<rparr>"

text \<open>
  \<^verbatim>\<open>newDispatcher\<close> of \<^verbatim>\<open>main.go\<close>; \<open>builtin\<close> says whether the binary was built with the dispatcher of this
  theory, which registers itself under its name.
\<close>

datatype built_dispatcher = KubernetesDispatcher kube_client string | InProcessDispatcher runner_config manual_config

definition newDispatcher ::
  "config_env \<Rightarrow> kube_env \<Rightarrow> unit res \<Rightarrow> bool \<Rightarrow> unit res \<Rightarrow> controller_config \<Rightarrow> client_metadata \<Rightarrow> built_dispatcher kube" where
  "newDispatcher E K connected builtin tfBinaries cfg m =
     (let name = ce_Getenv E ''RUNCONTROLLER_DISPATCHER''
      in if name = []
         then bnd (NewKubernetesDispatcher K connected cfg m) (\<lambda>(k, issuer). ret (KubernetesDispatcher k issuer))
         else if wif_Issuer (cc_Wif cfg) = WifIssuerKeycloak
         then panic (''The '' @ name @ '' dispatcher cannot issue Keycloak workload identity tokens; set workloadIdentityFederation.issuer to kubernetes or off'')
         else if \<not> (builtin \<and> name = ''inprocess'')
         then panic (''This binary does not contain the dispatcher '' @ quoted name @ ''; build it with -tags inprocess'')
         else (case NewDispatcher (cc_Uuid cfg) (ac_Url (cc_Api cfg)) tfBinaries of
                 Ok (tc, mc) \<Rightarrow> ret (InProcessDispatcher tc mc)
               | Err e \<Rightarrow> panic (''Failed to create the '' @ name @ '' dispatcher: '' @ error_text e)
               | Panic p \<Rightarrow> panic p))"

text \<open>
  \<^verbatim>\<open>main\<close> of the run controller, up to the loop that the controller then runs: the configuration, the
  dispatcher, the registration (with the outcomes of its waits, of which there may be too few), the
  controller. The servers for metrics and health are left out.
\<close>

definition discovered_issuer :: "built_dispatcher \<Rightarrow> string" where
  "discovered_issuer d = (case d of KubernetesDispatcher k issuer \<Rightarrow> issuer | InProcessDispatcher tc mc \<Rightarrow> [])"

definition registering :: "http_env \<Rightarrow> controller_config \<Rightarrow> string \<Rightarrow> bool list \<Rightarrow> unit option kube" where
  "registering E cfg issuer waits s =
     (case registerController E cfg issuer waits (ku_api s) of
        (None, a) \<Rightarrow> (Ok None, s\<lparr>ku_api := a\<rparr>)
      | (Some (Ok _), a) \<Rightarrow> (Ok (Some ()), s\<lparr>ku_api := a\<rparr>)
      | (Some (Err e), a) \<Rightarrow> (Err e, s\<lparr>ku_api := a\<rparr>)
      | (Some (Panic p), a) \<Rightarrow> (Panic p, s\<lparr>ku_api := a\<rparr>))"

definition controller_main ::
  "config_env \<Rightarrow> kube_env \<Rightarrow> key_parser \<Rightarrow> unit res \<Rightarrow> bool \<Rightarrow> unit res \<Rightarrow> client_metadata \<Rightarrow> bool list \<Rightarrow>
   (controller \<times> built_dispatcher) option kube" where
  "controller_main E K keys connected builtin tfBinaries m waits =
     bnd (liftres (ReadConfig E)) (\<lambda>cfg.
     bnd (newDispatcher E K connected builtin tfBinaries cfg m) (\<lambda>dispatcher.
     bnd (registering (kube_http K) cfg (discovered_issuer dispatcher) waits) (\<lambda>registered.
     case registered of
       None \<Rightarrow> ret None
     | Some _ \<Rightarrow> bnd (on_api (NewController keys cfg m)) (\<lambda>c. ret (Some (c, dispatcher))))))"

text \<open>
  The body of a goroutine: what it executes, up to the goroutines that the terraform runner starts
  itself. An error is logged and a panic recovered.
\<close>

definition execute_body ::
  "api_state retrier \<Rightarrow> http_env \<Rightarrow> dto_codec \<Rightarrow> (string \<Rightarrow> run_details res) \<Rightarrow> worker_os \<Rightarrow> client_metadata \<Rightarrow>
   runner_config \<Rightarrow> manual_config \<Rightarrow> execution \<Rightarrow> unit api" where
  "execute_body R E C parse os m tc mc x =
     (if ex_Type x = ''TERRAFORM''
      then bnd (ExecuteDecryptedRun R E C (NewRunApi (tc_RunApiBackend tc) (tc_RunnerUuid tc) m) os
             (tc_TfParentWorkingDir tc) (tc_TfCommandTimeoutMins tc) (ex_RunJson x)) (\<lambda>_. ret ())
      else ExecuteRunJson E parse mc m (ex_RunJson x))"

definition inprocess_execute ::
  "api_state retrier \<Rightarrow> http_env \<Rightarrow> dto_codec \<Rightarrow> (string \<Rightarrow> run_details res) \<Rightarrow> worker_os \<Rightarrow> client_metadata \<Rightarrow>
   runner_config \<Rightarrow> manual_config \<Rightarrow> execution \<Rightarrow> unit api" where
  "inprocess_execute R E C parse os m tc mc x s = (Ok (), snd (execute_body R E C parse os m tc mc x s))"

text \<open>A goroutine ends, however its run halts; and the steps of the process.\<close>

inductive inprocess_step :: "inprocess \<Rightarrow> inprocess \<Rightarrow> bool" where
  dispatched: "inprocess_Dispatch run json ty s = (r, s') \<Longrightarrow> inprocess_step s s'"
| finished: "ip_running s = xs @ x # ys \<Longrightarrow>
    inprocess_step s (s\<lparr>ip_active := ip_active s - 1, ip_running := xs @ ys\<rparr>)"

text \<open>\<^verbatim>\<open>Wait\<close> returns once the goroutines are done.\<close>

definition Wait_returns :: "inprocess \<Rightarrow> bool" where
  "Wait_returns s = (ip_running s = [])"

section \<open>Lemmas\<close>

text \<open>A controller that comes to its loop has a validated configuration, and keys that belong together.\<close>

lemma controller_main_ready:
  assumes "controller_main E K keys connected builtin tfBinaries m waits s = (Ok (Some (c, d)), s')"
  shows "ReadConfig E = Ok (ct_config c)" "ct_meta c = m"
    "\<exists>crypto. ct_crypto c = Some crypto \<and>
       NewCertBasedDecryptorWithValidation keys (cc_PrivateKey (ct_config c)) (cc_PublicKey (ct_config c)) = Ok crypto"
proof -
  obtain cfg s1 s2 where cfg: "ReadConfig E = Ok cfg" "on_api (NewController keys cfg m) s1 = (Ok c, s2)"
    using assms unfolding controller_main_def
    by (auto simp: liftres_def ret_def dest!: bnd_ok split: option.splits)
  then have "ct_config c = cfg \<and> ct_meta c = m \<and> (\<exists>crypto. ct_crypto c = Some crypto \<and>
       NewCertBasedDecryptorWithValidation keys (cc_PrivateKey cfg) (cc_PublicKey cfg) = Ok crypto)"
    by (auto simp: NewController_def on_api_def zoom_def ret_def panic_def dest!: bnd_ok split: prod.splits res.splits)
  with cfg(1) show "ReadConfig E = Ok (ct_config c)" "ct_meta c = m"
    "\<exists>crypto. ct_crypto c = Some crypto \<and>
       NewCertBasedDecryptorWithValidation keys (cc_PrivateKey (ct_config c)) (cc_PublicKey (ct_config c)) = Ok crypto"
    by simp_all
qed

lemma inprocess_Dispatch_cases:
  assumes "inprocess_Dispatch run json ty s = (r, s')"
  shows "s' = s \<and> r \<noteq> Ok () \<or>
    (\<exists>j. r = Ok () \<and> s' = s\<lparr>ip_active := ip_active s + 1,
       ip_running := ip_running s @ [\<lparr>ex_Uuid = rd_Uuid run, ex_Type = ty, ex_RunJson = j\<rparr>],
       ip_dispatched := Suc (ip_dispatched s)\<rparr>)"
  using assms
  by (auto simp: inprocess_Dispatch_def throw_def bnd_def liftres_def modify_def split: if_splits res.splits)

text \<open>The counter is the number of goroutines, in every state that can be reached.\<close>

definition count_exact :: "inprocess \<Rightarrow> bool" where
  "count_exact s \<longleftrightarrow> ip_active s = int (length (ip_running s))"

lemma count_exact_step: "inprocess_step s s' \<Longrightarrow> count_exact s \<Longrightarrow> count_exact s'"
proof (induction rule: inprocess_step.induct)
  case (dispatched run json ty s r s')
  from inprocess_Dispatch_cases [OF dispatched(1)] dispatched(2) show ?case by (auto simp: count_exact_def)
qed (simp add: count_exact_def)

interpretation inprocess: step_invariant inprocess_step count_exact
  by unfold_locales (rule count_exact_step)

interpretation inprocess_placement: run_placement inprocess_dispatcher ip_dispatched
  by unfold_locales
    (auto simp: inprocess_dispatcher_def inprocess_CountActive_def gets_def dest!: inprocess_Dispatch_cases)

text \<open>
  A placement whose count is exact in its good states: the runs that are active after a cycle never
  exceed the maximum, or what was active before it.
\<close>

locale counted_placement = run_placement D placed for D :: "'d dispatcher" and placed :: "'d \<Rightarrow> nat" +
  fixes good :: "'d \<Rightarrow> bool" and active :: "'d \<Rightarrow> nat"
  assumes counts: "good d \<Longrightarrow> dp_CountActive D d = (Ok (int (active d)), d)"
    and dispatch_good: "good d \<Longrightarrow> dp_Dispatch D run json ty d = (r, d') \<Longrightarrow> good d'"
    and dispatch_active: "good d \<Longrightarrow> dp_Dispatch D run json ty d = (r, d') \<Longrightarrow> active d' \<le> Suc (active d)"
begin

lemma processNextRun_active:
  assumes "processNextRun E D c (a, d) = (r, (a', d'))" "good d"
  shows "good d' \<and> active d' \<le> Suc (active d)"
proof -
  let ?fetch = "ctl_FetchRunDetails (ctl_http E) (ctl_codec E) (ct_config c) (ct_meta c) (cc_Uuid (ct_config c))"
  obtain x a1 where f: "?fetch a = (x, a1)" by fastforce
  then have via: "via_api ?fetch (a, d) = (x, (a1, d))" by (simp add: via_api_run)
  have "d' = d \<or> (\<exists>run dec t y. dp_Dispatch D run dec t d = (y, d'))"
  proof (cases x)
    case (Ok jr)
    obtain j run where jr: "jr = (j, run)" by fastforce
    have p: "process_run E D c j run (a1, d) = (r, (a', d'))"
      using assms via Ok jr by (simp add: processNextRun_def attempt_def)
    show ?thesis by (rule process_run_cases [OF p]) (auto simp: Ok jr)
  qed (use assms via in \<open>auto simp: processNextRun_def attempt_def ret_def panic_def\<close>)
  then show ?thesis using assms(2) dispatch_good dispatch_active by auto
qed

lemma availableCapacity_counts:
  assumes "availableCapacity D c (a, d) = (r, s')" "good d" "0 \<le> cc_MaxConcurrentJobs (ct_config c)"
  shows "r = Ok (max (cc_MaxConcurrentJobs (ct_config c) - int (active d)) 0) \<and> s' = (a, d)"
proof -
  have "via_dispatcher (dp_CountActive D) (a, d) = (Ok (int (active d)), (a, d))"
    using counts [OF assms(2)] by (simp add: via_dispatcher_run)
  then show ?thesis using assms(1,3) by (auto simp: availableCapacity_def Let_def attempt_def ret_def)
qed

end

interpretation inprocess_count: counted_placement inprocess_dispatcher ip_dispatched count_exact "\<lambda>s. length (ip_running s)"
  by unfold_locales
    (auto simp: inprocess_dispatcher_def inprocess_CountActive_def gets_def count_exact_def dest!: inprocess_Dispatch_cases)

section \<open>The controller and its goroutines\<close>

text \<open>
  The loop of the controller interleaved with the goroutines of the runs: a cycle asks for the capacity
  and makes at most that many rounds, and a run can end before any of them. The state has the rounds
  that are left of the cycle.
\<close>

inductive inprocess_cycle ::
  "ctl_env \<Rightarrow> controller \<Rightarrow> (api_state \<times> inprocess) \<times> nat \<Rightarrow> (api_state \<times> inprocess) \<times> nat \<Rightarrow> bool" for E c where
  tick: "availableCapacity inprocess_dispatcher c s = (Ok capacity, s') \<Longrightarrow>
    inprocess_cycle E c (s, 0) (s', nat capacity)"
| skipped: "via_api (measure_api (inc (jobsAtCapacitySkips run_metrics) [cc_Uuid (ct_config c)])) s = (Ok (), s') \<Longrightarrow>
    inprocess_cycle E c (s, 0) (s', 0)"
| next_run: "processNextRun E inprocess_dispatcher c s = (Ok x, s') \<Longrightarrow>
    inprocess_cycle E c (s, Suc n) (s', if x = RunProcessed then n else 0)"
| context_done: "inprocess_cycle E c (s, n) (s, 0)"
| run_ends: "ip_running d = xs @ x # ys \<Longrightarrow>
    inprocess_cycle E c ((a, d), n) ((a, d\<lparr>ip_active := ip_active d - 1, ip_running := xs @ ys\<rparr>), n)"

text \<open>A cycle of the controller's own loop is such a sequence of steps.\<close>

lemma drain_rounds_cycle:
  "drain_rounds E inprocess_dispatcher c halts n i s = (Ok (), s') \<Longrightarrow> (inprocess_cycle E c)\<^sup>*\<^sup>* (s, n) (s', 0)"
proof (induction n arbitrary: i s)
  case (Suc n)
  show ?case
  proof (cases "halts i")
    case True
    then show ?thesis using Suc.prems context_done [of E c s "Suc n"] by (auto simp: ret_def)
  next
    case False
    then obtain x s1 where x: "processNextRun E inprocess_dispatcher c s = (Ok x, s1)"
      and rest: "(if x \<noteq> RunProcessed then ret () else drain_rounds E inprocess_dispatcher c halts n (Suc i)) s1 = (Ok (), s')"
      using Suc.prems by (auto simp: bnd_def split: prod.splits res.splits)
    have "(inprocess_cycle E c)\<^sup>*\<^sup>* (s1, if x = RunProcessed then n else 0) (s', 0)"
      using rest Suc.IH [of "Suc i" s1] by (cases "x = RunProcessed") (auto simp: ret_def)
    then show ?thesis using next_run [OF x, of n] by (rule converse_rtranclp_into_rtranclp [rotated])
  qed
qed (simp add: ret_def)

lemma drainRuns_cycle:
  assumes "drainRuns E inprocess_dispatcher c halts s = (Ok (), s')"
  shows "(inprocess_cycle E c)\<^sup>*\<^sup>* (s, 0) (s', 0)"
proof -
  obtain capacity s1 where cap: "availableCapacity inprocess_dispatcher c s = (Ok capacity, s1)"
    and rest: "(if capacity \<le> 0 then via_api (measure_api (inc (jobsAtCapacitySkips run_metrics) [cc_Uuid (ct_config c)]))
      else drain_rounds E inprocess_dispatcher c halts (nat capacity) 0) s1 = (Ok (), s')"
    using assms by (auto simp: drainRuns_def bnd_def split: prod.splits res.splits)
  have "(inprocess_cycle E c)\<^sup>*\<^sup>* (s1, nat capacity) (s', 0)"
    using rest drain_rounds_cycle [of E c halts "nat capacity" 0 s1 s'] skipped [of c s1 s' E] by (cases "capacity \<le> 0") auto
  then show ?thesis using tick [OF cap] by (rule converse_rtranclp_into_rtranclp [rotated])
qed

text \<open>The count is exact, and what is active and what the cycle may still start stay within the maximum.\<close>

definition within_maximum :: "controller \<Rightarrow> (api_state \<times> inprocess) \<times> nat \<Rightarrow> bool" where
  "within_maximum c st \<longleftrightarrow> count_exact (snd (fst st)) \<and>
     length (ip_running (snd (fst st))) + snd st \<le> nat (cc_MaxConcurrentJobs (ct_config c))"

lemma within_maximum_step:
  assumes "inprocess_cycle E c st st'" "within_maximum c st" "0 \<le> cc_MaxConcurrentJobs (ct_config c)"
  shows "within_maximum c st'"
  using assms(1)
proof cases
  case (tick s capacity s')
  obtain a d where s: "s = (a, d)" by fastforce
  have d: "count_exact d" "length (ip_running d) \<le> nat (cc_MaxConcurrentJobs (ct_config c))"
    using assms(2) by (simp_all add: within_maximum_def tick s)
  from inprocess_count.availableCapacity_counts [OF tick(3) [unfolded s] d(1) assms(3)] d show ?thesis
    by (simp add: within_maximum_def tick)
next
  case (skipped s s')
  then show ?thesis using assms(2) by (auto simp: within_maximum_def via_api_def zoom_def split: prod.splits)
next
  case (next_run s x s' n)
  obtain a d a' d' where s: "s = (a, d)" "s' = (a', d')" by fastforce
  have d: "count_exact d" "length (ip_running d) + Suc n \<le> nat (cc_MaxConcurrentJobs (ct_config c))"
    using assms(2) by (simp_all add: within_maximum_def next_run s)
  from inprocess_count.processNextRun_active [OF next_run(3) [unfolded s] d(1)] d show ?thesis
    by (simp add: within_maximum_def next_run s)
next
  case (run_ends d xs x ys a n)
  then show ?thesis using assms(2) by (simp add: within_maximum_def count_exact_def)
qed (use assms(2) in \<open>auto simp: within_maximum_def\<close>)

end
