(* ===== verification/RunnerProperties.thy ===== *)
theory RunnerProperties
  imports InProcess ModeProperties
begin

text \<open>
  Properties of the start of the terraform runner, of the dispatcher inside the controller's process,
  and of the manual runner.
\<close>

section \<open>Runs in the process\<close>

text \<open>
  C39: when the controller executes its runs itself, the counter is the number of the goroutines that
  execute one, and it never exceeds the configured maximum, however its cycles and the ends of runs interleave.
\<close>

theorem inprocess_within_maximum:
  assumes "(inprocess_cycle E c)\<^sup>*\<^sup>* ((a, inprocess_init), 0) ((a', d), n)"
    and "0 \<le> cc_MaxConcurrentJobs (ct_config c)"
  shows "ip_active d = int (length (ip_running d)) \<and> ip_active d \<le> cc_MaxConcurrentJobs (ct_config c)"
proof -
  have "within_maximum c st'" if "(inprocess_cycle E c)\<^sup>*\<^sup>* st st'" "within_maximum c st" for st st'
    using that by (induction rule: rtranclp_induct) (auto intro: within_maximum_step assms(2))
  from this [OF assms(1)] have "within_maximum c ((a', d), n)"
    using assms(2) by (simp add: within_maximum_def count_exact_def inprocess_init_def)
  then show ?thesis using assms(2) by (simp add: within_maximum_def count_exact_def, linarith)
qed

text \<open>A cycle of the sample's controller, whose maximum is two: it fetches a run and dispatches it.\<close>

definition sample_cycle_env :: ctl_env where
  "sample_cycle_env = sample_ctl_env ''TERRAFORM''"

lemma sample_inprocess_run:
  "\<exists>a1 d1. processNextRun sample_cycle_env inprocess_dispatcher sample_controller (sample_api_state, inprocess_init) =
     (Ok RunProcessed, (a1, d1)) \<and> ip_active d1 = 1"
proof -
  obtain a1 where f: "ctl_FetchRunDetails (sample_http 200 ''{}'') (ctl_codec sample_cycle_env) sample_ctl_config
      defaultMetadata ''c'' sample_api_state = (Ok (b64_encode ''{}'', sample_details ''APPLY''), a1)"
    by (simp add: sample_cycle_env_def ctl_FetchRunDetails_def Prelude.deferred_def observe_def FetchRun_def fresh_auth_def bnd_def http_NewRequest_def ret_def setHeaders_def
      newMeshClient_def api_NewAuthProvider_def http_Do_def liftres_def ReadAll_def wrap_err_def attempt_def
      sample_ctl_env_def sample_codec_def sample_http_def sample_ctl_config_def sample_details_def Let_def
      del: b64_encode.simps)
  have dec: "decryptRunDetails (ctl_aead sample_cycle_env) (ctl_codec sample_cycle_env) (ctl_impls sample_cycle_env)
      (b64_encode ''{}'') None = Ok (b64_encode ''j'')"
    using b64_roundtrip [of "''{}''"]
    by (simp add: sample_cycle_env_def decryptRunDetails_def decrypt_implementation_def GetImplementationType_def
        to_impl_type_def sample_ctl_env_def sample_codec_def sample_impl_def sample_impls_def sample_details_def
        del: b64_encode.simps)
  have ty: "GetImplementationType (ctl_codec sample_cycle_env) (sample_details ''APPLY'') = Ok ImplTerraform"
    by (simp add: GetImplementationType_def to_impl_type_def sample_cycle_env_def sample_ctl_env_def)
  have env: "ctl_http sample_cycle_env = sample_http 200 ''{}''" "ct_config sample_controller = sample_ctl_config"
    "ct_meta sample_controller = defaultMetadata" "cc_Uuid sample_ctl_config = ''c''" "ct_crypto sample_controller = None"
    by (simp_all add: sample_cycle_env_def sample_ctl_env_def sample_controller_def sample_ctl_config_def)
  have "fst (inprocess_Dispatch (sample_details ''APPLY'') (b64_encode ''j'') ''TERRAFORM'' inprocess_init) = Ok ()"
    "ip_active (snd (inprocess_Dispatch (sample_details ''APPLY'') (b64_encode ''j'') ''TERRAFORM'' inprocess_init)) = 1"
    by (simp_all add: inprocess_Dispatch_def executor_types_def b64_roundtrip bnd_def liftres_def modify_def
        inprocess_init_def del: b64_encode.simps)
  then obtain d1 where disp: "inprocess_Dispatch (sample_details ''APPLY'') (b64_encode ''j'') ''TERRAFORM'' inprocess_init =
      (Ok (), d1)" "ip_active d1 = 1"
    by (metis prod.collapse)
  have "via_api (ctl_FetchRunDetails (sample_http 200 ''{}'') (ctl_codec sample_cycle_env) sample_ctl_config defaultMetadata ''c'')
      (sample_api_state, inprocess_init) = (Ok (b64_encode ''{}'', sample_details ''APPLY''), (a1, inprocess_init))"
    using f by (simp add: via_api_run del: b64_encode.simps)
  moreover have "via_dispatcher (inprocess_Dispatch (sample_details ''APPLY'') (b64_encode ''j'') ''TERRAFORM'') (a1, inprocess_init) =
      (Ok (), (a1, d1))"
    using disp by (simp add: via_dispatcher_run del: b64_encode.simps)
  ultimately have "processNextRun sample_cycle_env inprocess_dispatcher sample_controller (sample_api_state, inprocess_init) =
      (Ok RunProcessed, (a1, d1))"
    using dec ty
    by (simp add: processNextRun_def process_run_def env attempt_def liftres_def ret_def inprocess_dispatcher_def
        ToRunnerType_def del: b64_encode.simps)
  then show ?thesis using disp(2) by blast
qed

theorem inprocess_within_maximum_witness:
  "\<exists>a d n. (inprocess_cycle sample_cycle_env sample_controller)\<^sup>*\<^sup>* ((sample_api_state, inprocess_init), 0) ((a, d), n) \<and>
    ip_active d = 1 \<and> ip_active d = int (length (ip_running d)) \<and> ip_active d \<le> 2"
proof -
  have max: "cc_MaxConcurrentJobs (ct_config sample_controller) = 2"
    by (simp add: sample_controller_def sample_ctl_config_def)
  have "availableCapacity inprocess_dispatcher sample_controller (sample_api_state, inprocess_init) =
      (Ok 2, (sample_api_state, inprocess_init))"
    by (simp add: availableCapacity_def max Let_def attempt_def ret_def via_dispatcher_def zoom_def inprocess_dispatcher_def
        inprocess_CountActive_def gets_def inprocess_init_def)
  from inprocess_cycle.tick [OF this, of sample_cycle_env] have t: "inprocess_cycle sample_cycle_env sample_controller
      ((sample_api_state, inprocess_init), 0) ((sample_api_state, inprocess_init), Suc 1)" by (simp add: numeral_2_eq_2)
  obtain a1 d1 where r: "processNextRun sample_cycle_env inprocess_dispatcher sample_controller (sample_api_state, inprocess_init) =
     (Ok RunProcessed, (a1, d1))" "ip_active d1 = 1"
    using sample_inprocess_run by blast
  from t inprocess_cycle.next_run [OF r(1), of 1] have s: "(inprocess_cycle sample_cycle_env sample_controller)\<^sup>*\<^sup>*
      ((sample_api_state, inprocess_init), 0) ((a1, d1), 1)"
    by (simp add: converse_rtranclp_into_rtranclp r_into_rtranclp)
  from inprocess_within_maximum [OF s] r(2) have "ip_active d1 = int (length (ip_running d1)) \<and> ip_active d1 \<le> 2"
    by (simp add: max)
  then show ?thesis using r(2) s by blast
qed

section \<open>The start of the terraform runner\<close>

text \<open>
  A runner that polls starts without a private key, although its configuration is validated; the
  first encrypted input of a run then panics it (a nil pointer), which ends the process.
\<close>

lemma polling_without_key_panics:
  assumes "runner_main E K = Ok (c, crypto, Polling)" "tc_PrivateKey c = []"
    and "app_Crypto (cmd_app cmd) = crypto" "var_isSensitive v"
    and "var_Type v \<in> {DATA_TYPE_CODE, DATA_TYPE_STRING, DATA_TYPE_FILE}"
  shows "\<exists>p. decrypt_var cmd v s = (Panic p, s)"
  using init_crypto_polling [OF assms(1)] assms(2-5)
  by (auto simp: decrypt_var_def decryptIfSensitive_def DecryptMeshCertBased_def liftres_def)

section \<open>The manual runner\<close>

text \<open>The requests the manual runner makes about a run carry the token of the run.\<close>

definition run_authorized :: "run_details \<Rightarrow> http_request \<Rightarrow> bool" where
  "run_authorized run req \<longleftrightarrow> map_of (req_Headers req) ''Authorization'' = Some (''Bearer '' @ rd_RunToken run)"


definition sample_manual :: manual_config where
  "sample_manual = manual_defaultConfig"

definition manual_details :: run_details where
  "manual_details = (sample_details ''APPLY'')\<lparr>rd_Inputs := [mode_input ''v''],
     rd_Links := sample_links\<lparr>link_RegisterSource := \<lparr>lk_Href = ''http://m/reg'', lk_Templated = False\<rparr>,
       link_UpdateSource := \<lparr>lk_Href = ''http://m/upd'', lk_Templated = True\<rparr>\<rparr>\<rparr>"


end
