(* ===== verification/InitProperties.thy ===== *)
theory InitProperties
  imports InputProperties WorkerProperties
begin

text \<open>
  Properties of what surrounds a terraform command: the inputs in the variables file, the backend that
  is written when the building block has none, the workspace it works in, and which host keys git
  accepts.
\<close>

section \<open>Inputs in the variables file\<close>

text \<open>A string input is written as it is decrypted, and no other input touches its attribute.\<close>

lemma add_input_var_other:
  assumes "add_input_var c existing n v f s = (Ok f', t)" "name \<noteq> n"
  shows "map_of f' name = map_of f name"
proof -
  let ?L = "app_hcl (cmd_app c)"
  obtain val enc where f': "f' = snd (AddRawVariable ?L n (sprint_v val) enc f) \<or> f' = snd (AddVariable ?L n val enc f)"
    using assms(1) unfolding add_input_var_def Let_def
    by (auto dest!: attempt_ok bnd_ok simp: panic_def throw_def ret_def split: res.splits prod.splits if_splits)
      (metis snd_conv)+
  have "map_of (snd (AddRawVariable ?L n (sprint_v val) enc f)) name = map_of f name"
    using written_AddRawVariable [of n f ?L "sprint_v val" enc] assms(2) by (auto simp: written_def map_of_map_put)
  moreover have "map_of (snd (AddVariable ?L n val enc f)) name = map_of f name"
    using AddVariable_other [of ?L n val enc f _ _ name] assms(2) by (metis prod.collapse)
  ultimately show ?thesis using f' by auto
qed

lemma add_input_var_string:
  assumes "add_input_var c existing n v f s = (Ok f', t)" "var_Type v = DATA_TYPE_STRING"
    "decryptIfSensitive (app_aead (cmd_app c)) (app_Crypto (cmd_app c)) v = Ok (JStr x)"
  shows "map_of f' n = Some (lib_StringVal (app_hcl (cmd_app c)) x)"
  using assms
  by (auto simp: add_input_var_def decrypt_var_def liftres_def attempt_def encode_as_string_def AddVariable_string
      bnd_def ret_def map_of_map_put)

lemma input_var_name_cases:
  "input_var_name all k v = Some n \<Longrightarrow> n = k \<and> \<not> var_env v \<or> map_of all n = None"
  by (auto simp: input_var_name_def Let_def split: if_splits)

lemma add_input_vars_other:
  assumes "add_input_vars c existing vs f s = (Ok f', t)" "name \<notin> fst ` set vs" "map_of (p_vars (cmd_params c)) name \<noteq> None"
  shows "map_of f' name = map_of f name"
  using assms(1,2)
proof (induction vs arbitrary: f s)
  case (Cons kv vs)
  obtain k v where kv: "kv = (k, v)" by fastforce
  show ?case
  proof (cases "input_var_name (p_vars (cmd_params c)) k v")
    case None
    then show ?thesis using Cons kv by auto
  next
    case (Some n)
    with Cons.prems(1) kv obtain g u where g: "add_input_var c existing n v f s = (Ok g, u)"
        "add_input_vars c existing vs g u = (Ok f', t)"
      by (auto dest!: bnd_ok)
    have "name \<noteq> n"
      using input_var_name_cases [OF Some] Cons.prems(2) assms(3) kv by auto
    then show ?thesis
      using Cons.IH [OF g(2)] add_input_var_other [OF g(1)] Cons.prems(2) kv by auto
  qed
qed (simp add: ret_def)

lemma add_input_vars_string:
  assumes "add_input_vars c existing vs f s = (Ok f', t)" "(name, v) \<in> set vs" "distinct (map fst vs)"
    "map_of (p_vars (cmd_params c)) name \<noteq> None" "var_Type v = DATA_TYPE_STRING" "\<not> var_env v"
    "decryptIfSensitive (app_aead (cmd_app c)) (app_Crypto (cmd_app c)) v = Ok (JStr x)"
  shows "map_of f' name = Some (lib_StringVal (app_hcl (cmd_app c)) x)"
  using assms(1-3)
proof (induction vs arbitrary: f s)
  case (Cons kv vs)
  obtain k w where kv: "kv = (k, w)" by fastforce
  show ?case
  proof (cases "(name, v) = kv")
    case True
    then have "input_var_name (p_vars (cmd_params c)) k w = Some name"
      using assms(5,6) kv by (simp add: input_var_name_def)
    with Cons.prems(1) kv obtain g u where g: "add_input_var c existing name v f s = (Ok g, u)"
        "add_input_vars c existing vs g u = (Ok f', t)"
      using True by (auto dest!: bnd_ok)
    have "name \<notin> fst ` set vs" using Cons.prems(3) True by (cases kv) simp
    then show ?thesis
      using add_input_vars_other [OF g(2) _ assms(4)] add_input_var_string [OF g(1) assms(5,7)] by simp
  next
    case False
    then have mem: "(name, v) \<in> set vs" "distinct (map fst vs)" using Cons.prems(2,3) by auto
    from Cons.prems(1) kv obtain g u where "add_input_vars c existing vs g u = (Ok f', t)"
      by (cases "input_var_name (p_vars (cmd_params c)) k w") (auto dest!: bnd_ok)
    then show ?thesis using Cons.IH mem by blast
  qed
qed simp

lemma add_mesh_vars_other:
  assumes "add_mesh_vars c existing ms f decls s = (Ok (f', ds), t)" "name \<notin> fst ` set ms"
  shows "map_of f' name = map_of f name"
  using assms
proof (induction ms arbitrary: f decls s)
  case (Cons m ms)
  obtain n v rs where m: "m = (n, v, rs)" by (cases m)
  obtain d g where add: "(if \<not> rs \<or> includeRunScopedVars (cmd_params c)
      then AddVariable (app_hcl (cmd_app c)) n (JStr v) False f else ([], f)) = (d, g)" by fastforce
  have "map_of g name = map_of f name"
    using AddVariable_other [of _ n "JStr v" False f d g name] add Cons.prems(2) m by (auto split: if_splits)
  then show ?case
    using Cons.IH [of g] Cons.prems m add by (fastforce simp: Let_def dest!: bnd_ok split: if_splits)
qed (simp add: ret_def)

lemma distinct_SortedByKeys: "distinct (map fst (SortedByKeys m)) = distinct (map fst m)"
proof -
  have ins: "distinct (map fst (insert_by_key kv xs)) = distinct (map fst (kv # xs))" for kv :: "string \<times> 'a" and xs
    by (induction kv xs rule: insert_by_key.induct) (auto simp: mset_insert_by_key image_iff)
  have "fst ` set (SortedByKeys m) = fst ` set m" by simp
  then show ?thesis
  proof (induction m)
    case (Cons kv m)
    then show ?case using ins [of kv "SortedByKeys m"] by (simp add: SortedByKeys_def [of "kv # m"] flip: SortedByKeys_def)
  qed (simp add: SortedByKeys_def)
qed

text \<open>
  C8: a string input reaches terraform: when the variables were written, the last thing written is a
  variables file in which the name of the input has its decrypted value, whatever the other inputs
  are, unless it is one of the names meshStack reserves for itself.
\<close>

theorem string_input_reaches_terraform:
  assumes "cmd_vars c s = (Ok (), t)" "(name, v) \<in> set (p_vars (cmd_params c))"
    and "distinct (map fst (p_vars (cmd_params c)))" "var_Type v = DATA_TYPE_STRING" "\<not> var_env v"
    and "decryptIfSensitive (app_aead (cmd_app c)) (app_Crypto (cmd_app c)) v = Ok (JStr x)"
    and "name \<notin> fst ` set (meshStackVars (cmd_info c))"
  shows "\<exists>f. calls (ts_trace t) \<noteq> [] \<and>
    last (calls (ts_trace t)) = CallWriteFile (path_Join [ri_workingDirectory (cmd_info c), tfvars_filename])
      (lib_VarsBytes (app_hcl (cmd_app c)) f) \<and>
    map_of f name = Some (lib_StringVal (app_hcl (cmd_app c)) x)"
proof -
  obtain existing s1 f s2 f' decls s3 s4 where
    f: "add_input_vars c existing (SortedByKeys (p_vars (cmd_params c))) [] s1 = (Ok f, s2)"
    and f': "add_mesh_vars c existing (meshStackVars (cmd_info c)) f [] s2 = (Ok (f', decls), s3)"
    and wr: "write_tfvars c f' s4 = (Ok (), t)"
    using assms(1) unfolding cmd_vars_def by (auto dest!: bnd_ok)
  have "map_of (p_vars (cmd_params c)) name \<noteq> None" using weak_map_of_SomeI [OF assms(2)] by auto
  moreover have "distinct (map fst (SortedByKeys (p_vars (cmd_params c))))"
    using assms(3) by (simp add: distinct_SortedByKeys)
  ultimately have "map_of f name = Some (lib_StringVal (app_hcl (cmd_app c)) x)"
    using add_input_vars_string [OF f _ _ _ assms(4-6)] assms(2) by simp
  then have "map_of f' name = Some (lib_StringVal (app_hcl (cmd_app c)) x)"
    using add_mesh_vars_other [OF f' assms(7)] by simp
  moreover have "calls (ts_trace t) = calls (ts_trace s4) @
      [CallWriteFile (path_Join [wd c, tfvars_filename]) (lib_VarsBytes (app_hcl (cmd_app c)) f')]"
    using wr unfolding write_tfvars_def
    by (auto dest!: attempt_ok bnd_ok simp: cmd_sys_def sys_def Let_def ret_def panic_def throw_def split: res.splits)
  ultimately show ?thesis by (auto simp: wd_def)
qed

definition sample_string :: generic_tf_cmd where
  "sample_string = sample_cmd\<lparr>cmd_params := sample_params\<lparr>p_vars :=
     [(''size'', \<lparr>var_value = JStr ''xl'', var_env = False, var_Type = DATA_TYPE_STRING, var_isSensitive = False\<rparr>)]\<rparr>\<rparr>"

theorem string_input_reaches_terraform_witness:
  "\<exists>t f. cmd_vars sample_string sample_state = (Ok (), t) \<and>
    last (calls (ts_trace t)) = CallWriteFile (path_Join [''/w'', tfvars_filename]) (lib_VarsBytes sample_lib f) \<and>
    map_of f ''size'' = Some ''xl''"
proof -
  have c: "ri_workingDirectory (cmd_info sample_string) = ''/w''" "app_hcl (cmd_app sample_string) = sample_lib"
    by (simp_all add: sample_string_def sample_cmd_def sample_info_def sample_app_def)
  have q: "env_query (cmd_env sample_string) h (QStat p) = Ok ''dir'' \<or> env_query (cmd_env sample_string) h (QStat p) = Err (NotExist p)"
    and call: "env_call (cmd_env sample_string) h k = Ok ()" for h p k
    by (simp_all add: sample_string_def sample_cmd_def sample_env_def)
  have a: "read_variable_inputs sample_string s = (Ok [], s)" for s
    by (simp add: read_variable_inputs_def bnd_def gets_def ret_def sample_string_def sample_cmd_def sample_app_def
        sample_lib_def sample_env_def ParseVariableInputs_def ParseTerraformConfig_def)
  have b: "add_input_vars sample_string [] (SortedByKeys (p_vars (cmd_params sample_string))) [] s =
      (Ok [(''size'', ''xl'')], s)" for s
    by (simp add: sample_string_def sample_cmd_def sample_params_def SortedByKeys_def input_var_name_def add_input_var_def
        decrypt_var_def liftres_def decryptIfSensitive_def attempt_def bnd_def ret_def encode_as_string_def
        AddVariable_string sample_app_def sample_lib_def)
  obtain f ds where d: "add_mesh_vars sample_string [] (meshStackVars (cmd_info sample_string)) [(''size'', ''xl'')] []
      sample_state = (Ok (f, ds), sample_state)"
    by (simp add: meshStackVars_def sample_string_def sample_cmd_def sample_info_def includeRunScopedVars_def
        sample_params_def AddVariable_string ret_def Let_def)
  obtain s' where e: "write_decls sample_string ds sample_state = (Ok (), s')"
    using q [of "ts_trace sample_state" "path_Join [wd sample_string, ''meshStack_run_vars.tf'']"]
    by (cases "lib_DeclBytes (app_hcl (cmd_app sample_string)) ds = []")
      (auto simp: write_decls_def Let_def attempt_def query_def ret_def cmd_sys_def sys_def call)
  obtain t where "write_tfvars sample_string f s' = (Ok (), t)"
    by (simp add: write_tfvars_def attempt_def cmd_sys_def sys_def ret_def Let_def call)
  then have t: "cmd_vars sample_string sample_state = (Ok (), t)"
    by (simp add: cmd_vars_def bnd_def a b d e)
  have "\<exists>f. calls (ts_trace t) \<noteq> [] \<and>
    last (calls (ts_trace t)) = CallWriteFile (path_Join [ri_workingDirectory (cmd_info sample_string), tfvars_filename])
      (lib_VarsBytes (app_hcl (cmd_app sample_string)) f) \<and>
    map_of f ''size'' = Some (lib_StringVal (app_hcl (cmd_app sample_string)) ''xl'')"
    by (rule string_input_reaches_terraform [OF t, where v = "\<lparr>var_value = JStr ''xl'', var_env = False,
        var_Type = DATA_TYPE_STRING, var_isSensitive = False\<rparr>"])
      (simp_all add: sample_string_def sample_cmd_def sample_params_def meshStackVars_def decryptIfSensitive_def)
  then show ?thesis using t by (auto simp: c sample_lib_def)
qed

section \<open>The state backend\<close>

lemma print_calls:
  assumes "sound s" "cmd_print c m s = (r, t)"
  shows "r = Ok ()" "sound t" "calls (ts_trace t) = calls (ts_trace s)" "ts_useWorkspaces t = ts_useWorkspaces s"
  using assms sound_Write [of s "cmd_env c"] Write_history(1) [of s "cmd_env c"] Write_frame(5) [of s "cmd_env c"]
  by (auto simp: cmd_print_def printUpdate_def PrintlnToUpdateLogs_def modify_def)

lemma invoked:
  assumes "sound s" "invoke env c s = (r, t)"
  shows "sound t" "calls (ts_trace t) = calls (ts_trace s) @ [c]" "ts_useWorkspaces t = ts_useWorkspaces s"
  using calls_invoke [OF assms(1), of env c] assms(2) by simp_all

lemma plainInit_calls:
  assumes "sound s" "plainInit c s = (Ok (), t)"
  shows "\<exists>inits. inits \<in> {[CallInit], [CallInit, CallInit]} \<and> calls (ts_trace t) = calls (ts_trace s) @ inits \<and>
    ts_useWorkspaces t = ts_useWorkspaces s"
proof -
  obtain r u where u: "invoke (cmd_env c) CallInit s = (r, u)" by fastforce
  show ?thesis
  proof (cases r)
    case (Ok a)
    then have "t = u" using assms(2) u by (simp add: plainInit_def attempt_def ret_def)
    then show ?thesis using invoked [OF assms(1) u] by blast
  next
    case (Err e)
    then have "invoke (cmd_env c) CallInit u = (Ok (), t)" using assms(2) u by (simp add: plainInit_def attempt_def)
    from invoked [OF invoked(1) [OF assms(1) u] this] invoked [OF assms(1) u] show ?thesis by auto
  qed (use assms(2) u in \<open>simp add: plainInit_def attempt_def\<close>)
qed

text \<open>What the backend search and the file it may write add to the history.\<close>

lemma detectBackend_found:
  assumes "sound s" "detectBackend c s = (r, t)"
    and "FindBackendConfig (app_hcl (cmd_app c)) (env_readDir (cmd_env c) (ts_trace s))
      (\<lambda>n. env_query (cmd_env c) (ts_trace s) (QReadFile (path_Join [wd c, n]))) = (found, file, ds)"
  shows "sound t" "calls (ts_trace t) = calls (ts_trace s)" "ts_useWorkspaces t = ts_useWorkspaces s"
    "if HasErrors ds then \<exists>e. r = Err e else r = Ok found"
proof -
  obtain r1 u where u: "cmd_print c (''Found a backend config in '' @ file) s = (r1, u)" by fastforce
  note p = print_calls [OF assms(1) u]
  have "(if HasErrors ds then (\<exists>e. r = Err e) \<and> t = s else if found then r = Ok True \<and> t = u else r = Ok False \<and> t = s)"
    using assms(2,3) u p(1) by (auto simp: detectBackend_def bnd_def gets_def throw_def ret_def)
  then show "sound t" "calls (ts_trace t) = calls (ts_trace s)" "ts_useWorkspaces t = ts_useWorkspaces s"
    "if HasErrors ds then \<exists>e. r = Err e else r = Ok found"
    using assms(1) p by (simp_all split: if_splits)
qed

lemma backend_file_written:
  assumes "createMeshStackHttpBackendFile c s = (r, t)"
  shows "ri_runToken (cmd_info c) = [] \<Longrightarrow> r \<noteq> Ok () \<and> calls (ts_trace t) = calls (ts_trace s)"
    "r = Ok () \<Longrightarrow> \<exists>name. calls (ts_trace t) = calls (ts_trace s) @
       [CallWriteFile (path_Join [wd c, ''meshStack_httpbackend-'' @ name @ ''.tf''])
         (lib_BackendBytes (app_hcl (cmd_app c)) (backend_attributes c))]"
  using assms
  by (auto simp: createMeshStackHttpBackendFile_def bnd_def query_def attempt_def throw_def cmd_sys_def sys_def Let_def
      split: if_splits res.splits prod.splits)

lemma backend_file_sound:
  "sound s \<Longrightarrow> createMeshStackHttpBackendFile c s = (r, t) \<Longrightarrow> sound t"
  by (auto simp: createMeshStackHttpBackendFile_def bnd_def query_def attempt_def throw_def cmd_sys_def sys_def Let_def
      record_sound split: if_splits res.splits prod.splits)

text \<open>
  C11: a building block without a backend gets the HTTP backend of meshStack, and only such a one.
  When the run asks for the fallback and init succeeds: either the configuration has a backend, no file
  is written and the workspaces stay as they were; or it has none, the run has a token, exactly one file
  is written before terraform init, with the address of the building block's state, and workspaces are
  off. Without a run token, or when the configuration cannot be read, terraform init is not called.
\<close>

theorem backend_written_iff_missing:
  assumes "sound s" "ri_useMeshBackendFallback (cmd_info c)" "cmd_init c s = (r, t)"
    and "FindBackendConfig (app_hcl (cmd_app c)) (env_readDir (cmd_env c) (ts_trace s))
      (\<lambda>n. env_query (cmd_env c) (ts_trace s) (QReadFile (path_Join [ri_workingDirectory (cmd_info c), n]))) = (found, file, ds)"
  shows "if HasErrors ds \<or> \<not> found \<and> ri_runToken (cmd_info c) = []
    then r \<noteq> Ok () \<and> calls (ts_trace t) = calls (ts_trace s)
    else r = Ok () \<longrightarrow> (\<exists>inits. inits \<in> {[CallInit], [CallInit, CallInit]} \<and>
      (if found then calls (ts_trace t) = calls (ts_trace s) @ inits \<and> ts_useWorkspaces t = ts_useWorkspaces s
       else \<exists>name. calls (ts_trace t) = calls (ts_trace s) @
           CallWriteFile (path_Join [ri_workingDirectory (cmd_info c), ''meshStack_httpbackend-'' @ name @ ''.tf''])
             (lib_BackendBytes (app_hcl (cmd_app c)) (backend_attributes c)) # inits \<and>
         \<not> ts_useWorkspaces t))"
proof -
  obtain r1 s1 where d: "detectBackend c s = (r1, s1)" by fastforce
  note d' = detectBackend_found [OF assms(1) d assms(4) [folded wd_def]]
  show ?thesis
  proof (cases "HasErrors ds")
    case True
    with d'(4) obtain e where "r1 = Err e" by auto
    then have "r = Err e" "t = s1" using assms(2,3) d by (simp_all add: cmd_init_def bnd_def)
    then show ?thesis using True d'(2) by simp
  next
    case noerr: False
    then have r1: "r1 = Ok found" using d'(4) by simp
    show ?thesis
    proof (cases found)
      case True
      obtain r2 s2 where p: "cmd_print c ''Using existing backend.'' s1 = (r2, s2)" by fastforce
      note p' = print_calls [OF d'(1) p]
      have "plainInit c s2 = (r, t)" using assms(2,3) d r1 True p p'(1) by (simp add: cmd_init_def bnd_def)
      then show ?thesis using plainInit_calls [OF p'(2)] noerr True p' d'(2,3) by fastforce
    next
      case False
      obtain r2 s2 where p: "cmd_print c ''Detected no backend. Generating meshStack http backend for init.'' s1 = (r2, s2)"
        by fastforce
      note p' = print_calls [OF d'(1) p]
      obtain r3 s3 where b: "createMeshStackHttpBackendFile c s2 = (r3, s3)" by fastforce
      note b' = backend_file_written [OF b] and snd = backend_file_sound [OF p'(2) b]
      have eq: "cmd_init c s = (case r3 of Ok _ \<Rightarrow> plainInit c (s3\<lparr>ts_useWorkspaces := False\<rparr>)
          | Err e \<Rightarrow> (Err e, s3) | Panic m \<Rightarrow> (Panic m, s3))"
        using assms(2) d r1 False p p'(1) b
        by (simp add: cmd_init_def bnd_def setUseWorkspaces_def modify_def split: res.splits)
      show ?thesis
      proof (cases r3)
        case (Ok u)
        then have "ri_runToken (cmd_info c) \<noteq> []" using b'(1) by auto
        moreover have "plainInit c (s3\<lparr>ts_useWorkspaces := False\<rparr>) = (r, t)" using eq assms(3) Ok by simp
        moreover have "sound (s3\<lparr>ts_useWorkspaces := False\<rparr>)"
          using snd by (simp add: sound_def log_ok_def progressing_def)
        ultimately show ?thesis
          using plainInit_calls [of "s3\<lparr>ts_useWorkspaces := False\<rparr>" c t] b'(2) Ok p'(3) d'(2) noerr False
          by (fastforce simp: wd_def)
      qed (use eq assms(3) b'(1) p'(3) d'(2) noerr False in \<open>auto\<close>)
    qed
  qed
qed

text \<open>A building block without a backend, in a directory where nothing is in the way.\<close>

definition sample_backend :: generic_tf_cmd where
  "sample_backend = sample_cmd\<lparr>cmd_info := sample_info\<lparr>ri_useMeshBackendFallback := True\<rparr>,
     cmd_env := sample_env\<lparr>env_query := (\<lambda>h q. case q of QStat p \<Rightarrow> Err (NotExist p) | _ \<Rightarrow> Ok ''q'')\<rparr>\<rparr>"

theorem backend_written_iff_missing_witness:
  "\<exists>s t name inits. cmd_init sample_backend s = (Ok (), t) \<and> \<not> ts_useWorkspaces t \<and>
    calls (ts_trace t) = calls (ts_trace s) @
      CallWriteFile (path_Join [''/w'', ''meshStack_httpbackend-'' @ name @ ''.tf''])
        (lib_BackendBytes sample_lib (backend_attributes sample_backend)) # inits"
proof -
  let ?s = "startRun (plan_initRunSteps sample_cmd sample_state)"
  have c: "ri_useMeshBackendFallback (cmd_info sample_backend)" "ri_runToken (cmd_info sample_backend) \<noteq> []"
      "ri_workingDirectory (cmd_info sample_backend) = ''/w''" "app_hcl (cmd_app sample_backend) = sample_lib"
      "env_readDir (cmd_env sample_backend) h = Ok []" "env_call (cmd_env sample_backend) h k = Ok ()"
      "env_query (cmd_env sample_backend) h (QStat p) = Err (NotExist p)"
      "env_query (cmd_env sample_backend) h QUnixTime = Ok ''q''"
      "env_query (cmd_env sample_backend) h (QOpenRoot p) = Ok ''q''" for h k p
    by (simp_all add: sample_backend_def sample_cmd_def sample_info_def sample_app_def sample_env_def)
  have none: "FindBackendConfig (app_hcl (cmd_app sample_backend)) (env_readDir (cmd_env sample_backend) h) rd = (False, [], [])" for h rd
    by (simp add: c FindBackendConfig_def ParseTerraformConfig_def)
  have init: "\<exists>t. plainInit sample_backend s = (Ok (), t)" for s
    by (simp add: plainInit_def attempt_def invoke_def ret_def c Let_def)
  have mk: "\<exists>t. createMeshStackHttpBackendFile sample_backend s = (Ok (), t)" for s
    using c(2) by (simp add: createMeshStackHttpBackendFile_def bnd_def query_def attempt_def cmd_sys_def sys_def Let_def c(6-))
  have det: "detectBackend sample_backend s = (Ok False, s)" for s
    by (simp add: detectBackend_def bnd_def gets_def ret_def none)
  have pr: "\<exists>t. cmd_print sample_backend m s = (Ok (), t)" for m s
    by (simp add: cmd_print_def printUpdate_def modify_def)
  obtain s1 where s1: "cmd_print sample_backend ''Detected no backend. Generating meshStack http backend for init.'' ?s = (Ok (), s1)"
    using pr by blast
  obtain s2 where s2: "createMeshStackHttpBackendFile sample_backend s1 = (Ok (), s2)" using mk by blast
  obtain t where t0: "plainInit sample_backend (s2\<lparr>ts_useWorkspaces := False\<rparr>) = (Ok (), t)" using init by blast
  have t: "cmd_init sample_backend ?s = (Ok (), t)"
    using c(1) s1 s2 t0 by (simp add: cmd_init_def bnd_def det setUseWorkspaces_def modify_def)
  from backend_written_iff_missing [OF sound_sample c(1) t none] c(2) obtain inits name where
    "calls (ts_trace t) = calls (ts_trace ?s) @ CallWriteFile (path_Join [''/w'', ''meshStack_httpbackend-'' @ name @ ''.tf''])
       (lib_BackendBytes sample_lib (backend_attributes sample_backend)) # inits" "\<not> ts_useWorkspaces t"
    by (auto simp: c(3,4))
  with t show ?thesis by blast
qed

section \<open>The workspace\<close>

text \<open>The workspace that a sequence of calls leaves selected.\<close>

fun workspace_after :: "string \<Rightarrow> tf_call list \<Rightarrow> string" where
  "workspace_after w [] = w"
| "workspace_after w (CallWorkspaceSelect v # cs) = workspace_after v cs"
| "workspace_after w (CallWorkspaceNew v # cs) = workspace_after v cs"
| "workspace_after w (c # cs) = workspace_after w cs"

lemma workspace_after_new: "workspace_after w (cs @ [CallWorkspaceNew v]) = v"
  by (induction w cs rule: workspace_after.induct) simp_all

lemma suggested_suffix: "HasSuffix (toWorkspaceStr r) (r_BuildingBlockId r)"
  by (simp add: toWorkspaceStr_def Let_def HasSuffix_def)

text \<open>
  C12: where workspaces are used, a command of a run works in a workspace of the run's building block:
  after \<^verbatim>\<open>useWorkspaceIfNeeded\<close> the selected workspace is one whose name ends with the id of the
  building block, whichever workspaces there were and whichever was selected.
\<close>

theorem workspace_of_building_block:
  assumes "sound s" "ts_useWorkspaces s" "cmd_params c = work_params r" "useWorkspaceIfNeeded c s = (Ok (), t)"
    and "invoke (cmd_env c) CallWorkspaceList s = (Ok (), u)"
    and "env_workspaces (cmd_env c) (ts_trace u) = (available, current)"
  shows "\<exists>cs. calls (ts_trace t) = calls (ts_trace s) @ CallWorkspaceList # cs \<and>
    HasSuffix (workspace_after current cs) (r_BuildingBlockId r)"
proof -
  let ?bb = "r_BuildingBlockId r"
  have bb: "p_buildingBlockId (cmd_params c) = ?bb" "p_suggestedWorkspace (cmd_params c) = toWorkspaceStr r"
    using assms(3) by (simp_all add: work_params_def)
  note u = invoked [OF assms(1,5)]
  have new: ?thesis if "invoke (cmd_env c) (CallWorkspaceNew (toWorkspaceStr r)) v = (Ok (), t)" "sound v"
      "calls (ts_trace v) = calls (ts_trace s) @ CallWorkspaceList # cs" for v cs
  proof -
    have "workspace_after current (cs @ [CallWorkspaceNew (toWorkspaceStr r)]) = toWorkspaceStr r"
      by (rule workspace_after_new)
    then show ?thesis
      using invoked(2) [OF that(2,1)] that(3) suggested_suffix [of r]
      by (intro exI [of _ "cs @ [CallWorkspaceNew (toWorkspaceStr r)]"]) simp
  qed
  have run: "useWorkspaceIfNeeded c s = (case selectWorkspace c s of
      (Ok w, v) \<Rightarrow> if w \<noteq> [] then (Ok (), v) else invoke (cmd_env c) (CallWorkspaceNew (toWorkspaceStr r)) v
    | (Err e, v) \<Rightarrow> (Err e, v) | (Panic m, v) \<Rightarrow> (Panic m, v))"
    using assms(2) bb(2) by (simp add: useWorkspaceIfNeeded_def bnd_def gets_def ret_def split: prod.splits res.splits)
  have sel: "selectWorkspace c s =
      (if HasSuffix current ?bb then (Ok current, u)
       else (case find (\<lambda>ws. HasSuffix ws ?bb) available of
          None \<Rightarrow> (Ok [], u)
        | Some ws \<Rightarrow> (case invoke (cmd_env c) (CallWorkspaceSelect ws) u of
             (Ok _, v) \<Rightarrow> (Ok ?bb, v) | (Err _, v) \<Rightarrow> (Ok [], v) | (Panic m, v) \<Rightarrow> (Panic m, v))))"
    using assms(5,6) bb(1)
    by (simp add: selectWorkspace_def Let_def bnd_def gets_def ret_def attempt_def split: option.splits prod.splits res.splits)
  consider (current) "HasSuffix current ?bb"
    | (none) "\<not> HasSuffix current ?bb" "find (\<lambda>ws. HasSuffix ws ?bb) available = None"
    | (found) ws where "\<not> HasSuffix current ?bb" "find (\<lambda>ws. HasSuffix ws ?bb) available = Some ws"
    by fastforce
  then show ?thesis
  proof cases
    case current
    then show ?thesis
      using assms(4) u(1,2) run sel new [of u "[]"] by (cases "current = []") (auto intro: exI [of _ "[]"])
  next
    case none
    then show ?thesis using assms(4) u run sel new [of u "[]"] by simp
  next
    case (found ws)
    obtain q v where v: "invoke (cmd_env c) (CallWorkspaceSelect ws) u = (q, v)" by fastforce
    note v' = invoked [OF u(1) v]
    have "HasSuffix ws ?bb" using found(2) by (auto simp: find_Some_iff)
    then have own: ?thesis if "t = v"
      using that v'(2) u(2) by (intro exI [of _ "[CallWorkspaceSelect ws]"]) simp
    show ?thesis
      using assms(4) run sel found v own new [of v "[CallWorkspaceSelect ws]"] v' u(2)
      by (cases q) (auto split: if_splits)
  qed
qed

text \<open>The sample's terraform answers every call and is in its default workspace.\<close>

abbreviation sample_running :: tf_state where
  "sample_running \<equiv> startRun (plan_initRunSteps sample_cmd sample_state)"

theorem workspace_of_building_block_witness:
  "\<exists>t cs. useWorkspaceIfNeeded (sample_cmd\<lparr>cmd_params := work_params sample_run\<rparr>) sample_running = (Ok (), t) \<and>
    calls (ts_trace t) = calls (ts_trace sample_running) @ CallWorkspaceList # cs \<and>
    HasSuffix (workspace_after ''default'' cs) ''bb''"
proof -
  let ?c = "sample_cmd\<lparr>cmd_params := work_params sample_run\<rparr>"
  have run: "r_BuildingBlockId sample_run = ''bb''"
    by (simp add: sample_run_def runDTOToInternal_def dto_to_run_def DetermineBehavior_def behaviors_def
        sample_codec_def sample_details_def)
  have env: "cmd_env ?c = sample_env" "cmd_params ?c = work_params sample_run" by (simp_all add: sample_cmd_def)
  have ok: "\<exists>u. invoke sample_env call s = (Ok (), u)" for call s
    by (simp add: invoke_def Let_def sample_env_def)
  then obtain u where u: "invoke (cmd_env ?c) CallWorkspaceList sample_running = (Ok (), u)" by (auto simp: env)
  have ws: "env_workspaces (cmd_env ?c) (ts_trace u) = ([], ''default'')" by (simp add: env sample_env_def)
  have use: "ts_useWorkspaces sample_running"
    by (simp add: startRun_def setRunStatus_def cmd_firstStep_def firstStep_def plan_initRunSteps_def set_steps_def
        upd_run_def sample_state_def split: prod.splits)
  have sel: "selectWorkspace ?c sample_running = (Ok [], u)"
    using u ws run
    by (simp add: selectWorkspace_def Let_def bnd_def gets_def ret_def env work_params_def HasSuffix_def HasPrefix_def)
  obtain t where "invoke (cmd_env sample_cmd) (CallWorkspaceNew (toWorkspaceStr sample_run)) u = (Ok (), t)"
    using ok by (auto simp: sample_cmd_def)
  with sel use have t: "useWorkspaceIfNeeded ?c sample_running = (Ok (), t)"
    by (simp add: useWorkspaceIfNeeded_def bnd_def gets_def env work_params_def)
  from workspace_of_building_block [OF sound_sample use env(2) t u ws] t show ?thesis unfolding run by blast
qed

end
