(* ===== verification/StatusHeap.thy ===== *)
theory StatusHeap
  imports TfInvariants
begin

text \<open>
  The pointers behind the status of a run: \<^verbatim>\<open>runstatus.go\<close> and \<^verbatim>\<open>runcontextinfo.go\<close>. In the code a
  status holds pointers to its steps, the goroutine of the command writes through them, and
  \<^verbatim>\<open>publishStatus\<close> clones the status for the goroutine that reports it. The other theories treat a
  status as a value. Here both statuses live on a heap of steps; \<open>heap_exec\<close> is what the code does to
  it, \<open>value_exec\<close> what the other theories do, and the two agree, as the clone shares no step with the
  original. (The maps of outputs and the strings are replaced as a whole and never changed in place.)
\<close>

section \<open>Statuses with pointers\<close>

type_synonym addr = nat

record status_ref =
  sf_Id :: string
  sf_Status :: execution_status
  sf_Steps :: "addr list"
  sf_CurrentStepIndex :: int
  sf_Summary :: "string option"
  sf_ChangesDetected :: "bool option"

text \<open>Addresses from \<open>sh_next\<close> on are free.\<close>

record status_heap =
  sh_cells :: "addr \<Rightarrow> step_status"
  sh_next :: addr
  sh_runStatus :: status_ref
  sh_reportStatus :: status_ref

definition deref :: "status_heap \<Rightarrow> status_ref \<Rightarrow> run_status" where
  "deref h r = \<lparr>run_Id = sf_Id r, run_Status = sf_Status r, run_Steps = map (sh_cells h) (sf_Steps r),
     run_CurrentStepIndex = sf_CurrentStepIndex r, run_Summary = sf_Summary r, run_ChangesDetected = sf_ChangesDetected r\<rparr>"

text \<open>What the goroutine of the command, and the one that reports, see.\<close>

definition view :: "status_heap \<Rightarrow> run_status \<times> run_status" where
  "view h = (deref h (sh_runStatus h), deref h (sh_reportStatus h))"

section \<open>The operations of the code\<close>

definition alloc_steps :: "step_status list \<Rightarrow> status_heap \<Rightarrow> addr list \<times> status_heap" where
  "alloc_steps sts h =
     (let as = [sh_next h..<sh_next h + length sts]
      in (as, h\<lparr>sh_cells := (\<lambda>a. if a \<in> set as then sts ! (a - sh_next h) else sh_cells h a),
                sh_next := sh_next h + length sts\<rparr>))"

definition heap_initSteps :: "step_status list \<Rightarrow> status_heap \<Rightarrow> status_heap" where
  "heap_initSteps sts h =
     (case alloc_steps sts h of (as, h1) \<Rightarrow>
        h1\<lparr>sh_runStatus := (sh_runStatus h1)\<lparr>sf_Steps := as, sf_CurrentStepIndex := 0\<rparr>\<rparr>)"

definition heap_currentStepStatus :: "status_ref \<Rightarrow> addr option" where
  "heap_currentStepStatus r =
     (if sf_CurrentStepIndex r \<ge> 0 \<and> sf_CurrentStepIndex r < int (length (sf_Steps r))
      then Some (sf_Steps r ! nat (sf_CurrentStepIndex r)) else None)"

definition write_step :: "addr \<Rightarrow> (step_status \<Rightarrow> step_status) \<Rightarrow> status_heap \<Rightarrow> status_heap" where
  "write_step a f h = h\<lparr>sh_cells := (sh_cells h)(a := f (sh_cells h a))\<rparr>"

definition heap_writeCurrent :: "(step_status \<Rightarrow> step_status) \<Rightarrow> status_heap \<Rightarrow> status_heap" where
  "heap_writeCurrent f h =
     (case heap_currentStepStatus (sh_runStatus h) of None \<Rightarrow> h | Some a \<Rightarrow> write_step a f h)"

definition heap_firstStep :: "status_heap \<Rightarrow> status_heap" where
  "heap_firstStep h =
     (if length (sf_Steps (sh_runStatus h)) = 0 then h
      else h\<lparr>sh_runStatus := (sh_runStatus h)\<lparr>sf_CurrentStepIndex := 0\<rparr>\<rparr>)"

definition heap_nextStep :: "status_heap \<Rightarrow> status_heap" where
  "heap_nextStep h =
     (let r = sh_runStatus h in
      if sf_CurrentStepIndex r + 1 < int (length (sf_Steps r))
      then h\<lparr>sh_runStatus := r\<lparr>sf_CurrentStepIndex := sf_CurrentStepIndex r + 1\<rparr>\<rparr> else h)"

text \<open>The loop of \<^verbatim>\<open>failRunAndNotFinishedSteps\<close>, from index \<open>idx\<close> on.\<close>

fun heap_fail_loop :: "int \<Rightarrow> int \<Rightarrow> addr list \<Rightarrow> status_heap \<Rightarrow> status_heap" where
  "heap_fail_loop cur idx [] h = h"
| "heap_fail_loop cur idx (a # as) h = heap_fail_loop cur (idx + 1) as (write_step a (fail_step cur idx) h)"

definition heap_failRun :: "status_heap \<Rightarrow> status_heap" where
  "heap_failRun h =
     (let h1 = heap_fail_loop (sf_CurrentStepIndex (sh_runStatus h)) 0 (sf_Steps (sh_runStatus h)) h
      in h1\<lparr>sh_runStatus := (sh_runStatus h1)\<lparr>sf_Status := FAILED\<rparr>\<rparr>)"

text \<open>\<^verbatim>\<open>clone\<close> copies each step to a cell of its own.\<close>

definition heap_clone :: "status_ref \<Rightarrow> status_heap \<Rightarrow> status_ref \<times> status_heap" where
  "heap_clone r h =
     (case alloc_steps (map (sh_cells h) (sf_Steps r)) h of (as, h1) \<Rightarrow> (r\<lparr>sf_Steps := as\<rparr>, h1))"

definition heap_publish :: "status_heap \<Rightarrow> status_heap" where
  "heap_publish h = (case heap_clone (sh_runStatus h) h of (r, h1) \<Rightarrow> h1\<lparr>sh_reportStatus := r\<rparr>)"

definition heap_reportFailed :: "status_heap \<Rightarrow> status_heap" where
  "heap_reportFailed h = h\<lparr>sh_reportStatus := (sh_reportStatus h)\<lparr>sf_Status := FAILED\<rparr>\<rparr>"

section \<open>Executions\<close>

datatype status_op =
    InitSteps "step_status list"
  | FirstStep
  | NextStep
  | WriteCurrent "step_status \<Rightarrow> step_status"
  | FailRun
  | SetRunStatus execution_status
  | SetChangesDetected bool
  | Publish
  | ReportFailed

fun heap_exec :: "status_heap \<Rightarrow> status_op \<Rightarrow> status_heap" where
  "heap_exec h (InitSteps sts) = heap_initSteps sts h"
| "heap_exec h FirstStep = heap_firstStep h"
| "heap_exec h NextStep = heap_nextStep h"
| "heap_exec h (WriteCurrent f) = heap_writeCurrent f h"
| "heap_exec h FailRun = heap_failRun h"
| "heap_exec h (SetRunStatus e) = h\<lparr>sh_runStatus := (sh_runStatus h)\<lparr>sf_Status := e\<rparr>\<rparr>"
| "heap_exec h (SetChangesDetected b) = h\<lparr>sh_runStatus := (sh_runStatus h)\<lparr>sf_ChangesDetected := Some b\<rparr>\<rparr>"
| "heap_exec h Publish = heap_publish h"
| "heap_exec h ReportFailed = heap_reportFailed h"

text \<open>The same on values, with the operations of the theory \<open>RunStatus\<close>.\<close>

fun value_exec :: "run_status \<times> run_status \<Rightarrow> status_op \<Rightarrow> run_status \<times> run_status" where
  "value_exec (r, p) (InitSteps sts) = (r\<lparr>run_Steps := sts, run_CurrentStepIndex := 0\<rparr>, p)"
| "value_exec (r, p) FirstStep = (snd (firstStep r), p)"
| "value_exec (r, p) NextStep = (snd (status_nextStep r), p)"
| "value_exec (r, p) (WriteCurrent f) = (update_current_step f r, p)"
| "value_exec (r, p) FailRun = (failRunAndNotFinishedSteps r, p)"
| "value_exec (r, p) (SetRunStatus e) = (r\<lparr>run_Status := e\<rparr>, p)"
| "value_exec (r, p) (SetChangesDetected b) = (r\<lparr>run_ChangesDetected := Some b\<rparr>, p)"
| "value_exec (r, p) Publish = (r, r)"
| "value_exec (r, p) ReportFailed = (r, p\<lparr>run_Status := FAILED\<rparr>)"

section \<open>Separation\<close>

text \<open>The run's steps are distinct cells, all cells are allocated, and no step is shared.\<close>

definition heap_ok :: "status_heap \<Rightarrow> bool" where
  "heap_ok h \<longleftrightarrow> distinct (sf_Steps (sh_runStatus h)) \<and> set (sf_Steps (sh_runStatus h)) \<subseteq> {..<sh_next h} \<and>
     set (sf_Steps (sh_reportStatus h)) \<subseteq> {..<sh_next h} - set (sf_Steps (sh_runStatus h))"

text \<open>A reference to cells that the run does not write.\<close>

definition frozen :: "status_heap \<Rightarrow> status_ref \<Rightarrow> bool" where
  "frozen h r \<longleftrightarrow> set (sf_Steps r) \<subseteq> {..<sh_next h} - set (sf_Steps (sh_runStatus h))"

lemma heap_ok_frozen: "heap_ok h \<Longrightarrow> frozen h (sh_reportStatus h)"
  by (simp add: heap_ok_def frozen_def)

lemma alloc_steps_simps:
  assumes "alloc_steps sts h = (as, h1)"
  shows "as = [sh_next h..<sh_next h + length sts]" "sh_next h1 = sh_next h + length sts"
    "sh_runStatus h1 = sh_runStatus h" "sh_reportStatus h1 = sh_reportStatus h"
    "map (sh_cells h1) as = sts" "a < sh_next h \<Longrightarrow> sh_cells h1 a = sh_cells h a"
  using assms by (auto simp: alloc_steps_def Let_def intro: nth_equalityI)

lemma deref_cong:
  "(\<And>a. a \<in> set (sf_Steps r) \<Longrightarrow> sh_cells h1 a = sh_cells h a) \<Longrightarrow> deref h1 r = deref h r"
  by (simp add: deref_def)

lemma fail_loop_frame [simp]:
  "sh_next (heap_fail_loop cur i as h) = sh_next h"
  "sh_runStatus (heap_fail_loop cur i as h) = sh_runStatus h"
  "sh_reportStatus (heap_fail_loop cur i as h) = sh_reportStatus h"
  by (induction cur i as h rule: heap_fail_loop.induct) (simp_all add: write_step_def)

lemma fail_loop_cells:
  "a \<notin> set as \<Longrightarrow> sh_cells (heap_fail_loop cur i as h) a = sh_cells h a"
  by (induction cur i as h rule: heap_fail_loop.induct) (simp_all add: write_step_def)

lemma fail_loop_steps:
  "distinct as \<Longrightarrow> k < length as \<Longrightarrow>
   sh_cells (heap_fail_loop cur i as h) (as ! k) = fail_step cur (i + int k) (sh_cells h (as ! k))"
proof (induction cur i as h arbitrary: k rule: heap_fail_loop.induct)
  case (2 cur i a as h)
  show ?case
  proof (cases k)
    case 0
    then show ?thesis using 2(2) by (simp add: fail_loop_cells write_step_def)
  next
    case (Suc m)
    then have "as ! m \<noteq> a" using 2(2,3) by auto
    then show ?thesis using 2 Suc by (simp add: write_step_def add.assoc)
  qed
qed simp

text \<open>Cells that are frozen stay frozen, and keep their contents, under every operation.\<close>

lemma frozen_exec:
  assumes "frozen h r"
  shows "frozen (heap_exec h op) r \<and> deref (heap_exec h op) r = deref h r"
proof -
  have old: "a < sh_next h" "a \<notin> set (sf_Steps (sh_runStatus h))" if "a \<in> set (sf_Steps r)" for a
    using assms that by (auto simp: frozen_def)
  show ?thesis
  proof (cases op)
    case (InitSteps sts)
    obtain as h1 where a: "alloc_steps sts h = (as, h1)" by fastforce
    note s = alloc_steps_simps [OF a]
    show ?thesis
      using InitSteps a s(1,2)
      by (fastforce simp: heap_initSteps_def frozen_def s(6) intro!: deref_cong dest: old(1))
  next
    case (WriteCurrent f)
    have "a \<noteq> b" if "a \<in> set (sf_Steps r)" "heap_currentStepStatus (sh_runStatus h) = Some b" for a b
      using old(2) [OF that(1)] that(2) by (auto simp: heap_currentStepStatus_def split: if_splits)
    then show ?thesis
      using WriteCurrent assms
      by (auto simp: heap_writeCurrent_def write_step_def frozen_def split: option.splits intro!: deref_cong)
  next
    case FailRun
    then show ?thesis
      using assms old(2) by (auto simp: heap_failRun_def Let_def frozen_def fail_loop_cells intro!: deref_cong)
  next
    case Publish
    obtain as h1 where a: "alloc_steps (map (sh_cells h) (sf_Steps (sh_runStatus h))) h = (as, h1)" by fastforce
    note s = alloc_steps_simps [OF a]
    show ?thesis
      using Publish a s(2,3)
      by (fastforce simp: heap_publish_def heap_clone_def frozen_def s(6) intro!: deref_cong dest: old)
  qed (use assms in \<open>auto simp: frozen_def deref_def heap_firstStep_def heap_nextStep_def heap_reportFailed_def Let_def\<close>)
qed

section \<open>Refinement\<close>

lemma deref_simps [simp]:
  "run_Status (deref h r) = sf_Status r" "run_CurrentStepIndex (deref h r) = sf_CurrentStepIndex r"
  "run_Steps (deref h r) = map (sh_cells h) (sf_Steps r)"
  by (simp_all add: deref_def)

lemma current_deref:
  "currentStepStatus (deref h r) = map_option (sh_cells h) (heap_currentStepStatus r)"
  by (simp add: currentStepStatus_def heap_currentStepStatus_def nat_less_iff)

lemma write_current_steps:
  assumes "distinct as" "i < length as"
  shows "map ((sh_cells h)(as ! i := v)) as = (map (sh_cells h) as)[i := v]"
  using assms by (intro nth_equalityI) (auto simp: nth_list_update nth_eq_iff_index_eq)

text \<open>Each operation on the heap does to the view what the operation on values does.\<close>

lemma view_writeCurrent:
  assumes "heap_ok h"
  shows "view (heap_writeCurrent f h) = value_exec (view h) (WriteCurrent f)"
proof (cases "heap_currentStepStatus (sh_runStatus h)")
  case None
  then show ?thesis
    using current_deref [of h "sh_runStatus h"] by (simp add: heap_writeCurrent_def view_def update_current_step_def)
next
  case (Some b)
  let ?r = "sh_runStatus h"
  have i: "nat (sf_CurrentStepIndex ?r) < length (sf_Steps ?r)" "b = sf_Steps ?r ! nat (sf_CurrentStepIndex ?r)"
    using Some by (auto simp: heap_currentStepStatus_def split: if_splits)
  have "distinct (sf_Steps ?r)" using assms by (simp add: heap_ok_def)
  then have "deref (write_step b f h) ?r = update_current_step f (deref h ?r)"
    using write_current_steps [OF _ i(1), of h "f (sh_cells h b)"] current_deref [of h ?r] Some i
    by (simp add: update_current_step_def write_step_def) (simp add: deref_def)
  then show ?thesis
    using frozen_exec [OF heap_ok_frozen [OF assms], of "WriteCurrent f"] Some
    by (simp add: heap_writeCurrent_def write_step_def view_def frozen_def)
qed

lemma view_failRun:
  assumes "heap_ok h"
  shows "deref (heap_failRun h) (sh_runStatus (heap_failRun h)) = failRunAndNotFinishedSteps (deref h (sh_runStatus h))"
proof -
  let ?r = "sh_runStatus h"
  have "distinct (sf_Steps ?r)" using assms by (simp add: heap_ok_def)
  then have "map (sh_cells (heap_fail_loop (sf_CurrentStepIndex ?r) 0 (sf_Steps ?r) h)) (sf_Steps ?r) =
      run_Steps (failRunAndNotFinishedSteps (deref h ?r))"
    using fail_loop_steps [of "sf_Steps ?r" _ "sf_CurrentStepIndex ?r" 0 h]
    by (intro nth_equalityI) (simp_all add: failRun_nth)
  then show ?thesis
    by (simp add: heap_failRun_def Let_def failRunAndNotFinishedSteps_def) (simp add: deref_def)
qed

lemma refine_publish:
  assumes "heap_ok h"
  shows "heap_ok (heap_publish h) \<and> view (heap_publish h) = value_exec (view h) Publish"
proof -
  from assms have run: "distinct (sf_Steps (sh_runStatus h))" "set (sf_Steps (sh_runStatus h)) \<subseteq> {..<sh_next h}"
    by (auto simp: heap_ok_def)
  obtain as h1 where a: "alloc_steps (map (sh_cells h) (sf_Steps (sh_runStatus h))) h = (as, h1)" by fastforce
  note s = alloc_steps_simps [OF a]
  have "deref h1 (sh_runStatus h) = deref h (sh_runStatus h)"
    using s(6) run(2) by (intro deref_cong) auto
  moreover have "deref h1 ((sh_runStatus h)\<lparr>sf_Steps := as\<rparr>) = deref h (sh_runStatus h)"
    using s(5) by (simp add: deref_def)
  ultimately show ?thesis
    using a s(1-4) run by (auto simp: heap_publish_def heap_clone_def view_def heap_ok_def deref_def)
qed

lemma refine_exec:
  assumes "heap_ok h"
  shows "heap_ok (heap_exec h op) \<and> view (heap_exec h op) = value_exec (view h) op"
proof -
  note fr = frozen_exec [OF heap_ok_frozen [OF assms], of op]
  show ?thesis
  proof (cases op)
    case (InitSteps sts)
    obtain as h1 where a: "alloc_steps sts h = (as, h1)" by fastforce
    show ?thesis
      using fr InitSteps a alloc_steps_simps(1-5) [OF a] assms
      by (simp add: heap_initSteps_def heap_ok_def frozen_def view_def) (auto simp: deref_def)
  next
    case (WriteCurrent f)
    then show ?thesis
      using fr view_writeCurrent [OF assms, of f] assms
      by (auto simp: heap_writeCurrent_def write_step_def heap_ok_def split: option.splits)
  next
    case FailRun
    then show ?thesis
      using fr view_failRun [OF assms] assms by (simp add: view_def heap_ok_def heap_failRun_def Let_def)
  next
    case Publish
    then show ?thesis using refine_publish [OF assms] by simp
  qed (use assms fr in \<open>auto simp: view_def heap_ok_def deref_def heap_firstStep_def firstStep_def heap_nextStep_def
      status_nextStep_def heap_reportFailed_def Let_def\<close>)
qed

lemma refine_execs:
  "heap_ok h \<Longrightarrow> heap_ok (foldl heap_exec h ops) \<and> view (foldl heap_exec h ops) = foldl value_exec (view h) ops"
  by (induction ops arbitrary: h) (auto simp: refine_exec)

lemma frozen_execs:
  "frozen h r \<Longrightarrow> deref (foldl heap_exec h ops) r = deref h r"
  using frozen_exec by (induction ops arbitrary: h) (simp, metis foldl_Cons)

text \<open>The changes of the status in the theories of the commands are executions on values.\<close>

abbreviation statuses :: "tf_state \<Rightarrow> run_status \<times> run_status" where
  "statuses s \<equiv> (ts_runStatus s, ts_reportStatus s)"

lemma context_operations:
  "statuses (commitStatus s) = value_exec (statuses s) Publish"
  "statuses (reportFailed s) = value_exec (statuses s) ReportFailed"
  "statuses (setRunStatus e s) = value_exec (statuses s) (SetRunStatus e)"
  "statuses (setCurrentStepStatus e s) = value_exec (statuses s) (WriteCurrent (\<lambda>t. t\<lparr>step_Status := e\<rparr>))"
  "statuses (upd_run failRunAndNotFinishedSteps s) = value_exec (statuses s) FailRun"
  "statuses (cmd_firstStep s) = value_exec (statuses s) FirstStep"
  by (simp_all add: reportFailed_def setRunStatus_def setCurrentStepStatus_def cmd_firstStep_def split: prod.splits)

lemma context_nextStep:
  assumes "\<not> ri_asyncRun ri" "run_CurrentStepIndex (ts_runStatus s) + 1 < int (length (run_Steps (ts_runStatus s)))"
  shows "statuses (cmd_nextStep ri s) = foldl value_exec (statuses s)
    [WriteCurrent (\<lambda>t. t\<lparr>step_Status := SUCCEEDED\<rparr>), NextStep,
     WriteCurrent (\<lambda>t. t\<lparr>step_Status := IN_PROGRESS, step_LogStartIdx := ts_logSize s\<rparr>)]"
  using assms by (simp add: cmd_nextStep_def status_nextStep_def)

text \<open>
  C16: the reporting goroutine shares nothing with the goroutine that runs the command: whatever the
  command does to the steps through its pointers, both see exactly what they would see if the two
  statuses were values, and a status that was read keeps its contents.
\<close>

theorem published_status_isolated:
  assumes "heap_ok h"
  shows "view (foldl heap_exec h ops) = foldl value_exec (view h) ops \<and>
    deref (foldl heap_exec h ops) (sh_reportStatus h) = deref h (sh_reportStatus h)"
  using refine_execs [OF assms] frozen_execs [OF heap_ok_frozen [OF assms]] by blast

text \<open>The heap as \<^verbatim>\<open>initRunContextInfo\<close> sets it up; a step is published, then it succeeds.\<close>

definition initial_heap :: "string \<Rightarrow> status_heap" where
  "initial_heap runId =
     (let r = \<lparr>sf_Id = runId, sf_Status = IN_PROGRESS, sf_Steps = [], sf_CurrentStepIndex = -1, sf_Summary = None,
               sf_ChangesDetected = None\<rparr>
      in \<lparr>sh_cells = (\<lambda>a. pending_step [] []), sh_next = 0, sh_runStatus = r, sh_reportStatus = r\<rparr>)"

theorem published_status_isolated_witness:
  "map step_Status (run_Steps (snd (view (foldl heap_exec (initial_heap ''r'')
     [InitSteps [pending_step ''a'' ''A''], Publish, WriteCurrent (\<lambda>t. t\<lparr>step_Status := SUCCEEDED\<rparr>)])))) = [PENDING] \<and>
   map step_Status (run_Steps (fst (view (foldl heap_exec (initial_heap ''r'')
     [InitSteps [pending_step ''a'' ''A''], Publish, WriteCurrent (\<lambda>t. t\<lparr>step_Status := SUCCEEDED\<rparr>)])))) = [SUCCEEDED]"
proof -
  let ?ops = "[InitSteps [pending_step ''a'' ''A''], Publish, WriteCurrent (\<lambda>t. t\<lparr>step_Status := SUCCEEDED\<rparr>)]"
  have ok: "heap_ok (initial_heap ''r'')" by (simp add: heap_ok_def initial_heap_def Let_def)
  note eq = published_status_isolated [OF ok, of ?ops, THEN conjunct1]
  show ?thesis
    unfolding eq
    by (simp add: initial_heap_def Let_def view_def deref_def pending_step_def update_current_step_def currentStepStatus_def)
qed

end
