(* ===== verification/JobDelivery.thy ===== *)
theory JobDelivery
  imports ModeProperties RunnerConfig SingleRunWorker
begin

text \<open>
  From the run controller to the terraform runner: the two programs meet in the job, whose environment
  and mounted secret \<^verbatim>\<open>run-controller/controller/kubernetes.go\<close> sets up, and which
  \<^verbatim>\<open>tf-block-runner/main.go\<close> reads. What Kubernetes does between them is a hypothesis, \<open>secrets_kept\<close>
  and \<open>pod_runs\<close>.
\<close>

section \<open>The runner in a job\<close>

text \<open>
  \<^verbatim>\<open>executeSingleRun\<close>, with the configuration that \<^verbatim>\<open>main\<close> read: what \<^verbatim>\<open>ExecuteDecryptedRun\<close> set up,
  if it did. The error is logged only, as Kubernetes would start a failed job again.
\<close>

definition unless_failed :: "'a api \<Rightarrow> 'a option api" where
  "unless_failed m =
     attempt m (\<lambda>r. case r of Ok x \<Rightarrow> ret (Some x) | Err _ \<Rightarrow> ret None | Panic p \<Rightarrow> panic p)"

definition executeSingleRun ::
  "runner_env \<Rightarrow> api_state retrier \<Rightarrow> http_env \<Rightarrow> dto_codec \<Rightarrow> client_metadata \<Rightarrow> worker_os \<Rightarrow> runner_config
     \<Rightarrow> (run_info \<times> tf_state) option api" where
  "executeSingleRun RE R E C m os c =
     bnd (liftres (read_run_json RE)) (\<lambda>runJson.
     unless_failed (ExecuteDecryptedRun R E C (NewRunApi (tc_RunApiBackend c) (tc_RunnerUuid c) m) os
       (tc_TfParentWorkingDir c) (tc_TfCommandTimeoutMins c) runJson))"

section \<open>Kubernetes\<close>

text \<open>A secret that one of the calls after \<open>h\<close> created.\<close>

definition created_with :: "kube_env \<Rightarrow> kube_call list \<Rightarrow> kube_call list \<Rightarrow> kube_secret \<Rightarrow> bool" where
  "created_with K h h' sec \<longleftrightarrow>
     (\<exists>i a. length h \<le> i \<and> i < length h' \<and> h' ! i = CreateSecret sec \<and> kube_CreateSecret K (take (Suc i) h') = Inr a)"

text \<open>A secret that was created under a name is found under it, with the data it was created with.\<close>

definition secrets_kept :: "kube_env \<Rightarrow> kube_call list \<Rightarrow> kube_call list \<Rightarrow> (string \<rightharpoonup> (string \<times> string) list) \<Rightarrow> bool" where
  "secrets_kept K h h' stored \<longleftrightarrow>
     (\<forall>sec. created_with K h h' sec \<longrightarrow> sec_Name sec \<noteq> [] \<longrightarrow> stored (sec_Name sec) = Some (sec_Data sec))"

text \<open>
  What the process in the pod of a job sees: the variables of its container, when no name is given
  twice, and a file for each key of a mounted secret.
\<close>

definition pod_runs :: "kube_job \<Rightarrow> (string \<rightharpoonup> (string \<times> string) list) \<Rightarrow> runner_env \<Rightarrow> bool" where
  "pod_runs j stored RE \<longleftrightarrow>
     (let c = pod_Container j in
      (distinct (map fst (ctr_Env c)) \<longrightarrow> (\<forall>(n, v) \<in> set (ctr_Env c). re_Getenv RE n = v)) \<and>
      (\<forall>m \<in> set (ctr_VolumeMounts c). \<forall>v \<in> set (pod_Volumes j). \<forall>name data.
         vol_Name v = vm_Name m \<and> vol_Source v = SecretVolume name \<and> stored name = Some data \<longrightarrow>
         (\<forall>(key, content) \<in> set data. re_ReadFile RE (vm_MountPath m @ ''/'' @ key) = Ok content)))"

section \<open>The calls of a dispatch\<close>

definition run_json_name :: "run_info_dto \<Rightarrow> string" where
  "run_json_name info = ''run-json-'' @ rid_Uuid info"

text \<open>The only job is that of the run, and the only secret with a name of its own is that of its JSON.\<close>

definition job_call ::
  "kube_env \<Rightarrow> controller_config \<Rightarrow> job_spec_template \<Rightarrow> run_info_dto \<Rightarrow> string \<Rightarrow> string \<Rightarrow> kube_call \<Rightarrow> bool" where
  "job_call K cfg spec info ty json64 c \<longleftrightarrow>
     (\<forall>j. c = CreateJob j \<longrightarrow> (\<exists>wif rq. j = runner_job cfg K spec info ty
        (renderSubjectTemplate serviceAccountNameTemplate info) (run_json_name info) wif rq)) \<and>
     (\<forall>sec. c = CreateSecret sec \<longrightarrow> sec_Name sec \<noteq> [] \<longrightarrow>
        (\<exists>bytes. b64_decode json64 = Ok bytes \<and>
           sec = run_json_secret cfg (cc_Namespace cfg) (run_json_name info) (rid_Uuid info) bytes))"

lemma job_call_simps [simp]:
  "job_call K cfg spec info ty j (GetJob n x)" "job_call K cfg spec info ty j (GetServiceAccount n x)"
  "job_call K cfg spec info ty j (CreateServiceAccount sa)" "job_call K cfg spec info ty j (GetSecret n x)"
  "job_call K cfg spec info ty j (UpdateSecret sec)" "job_call K cfg spec info ty j (DeleteSecret n x)"
  "job_call K cfg spec info ty j (CreateSecret (token_secret cfg ns r tok))"
  by (auto simp: job_call_def token_secret_def run_json_name_def)

lemma job_call_job:
  "job_call K cfg spec info ty j (CreateJob (runner_job cfg K spec info ty
     (renderSubjectTemplate serviceAccountNameTemplate info) (''run-json-'' @ rid_Uuid info) wif rq))"
  unfolding job_call_def run_json_name_def by (intro conjI allI impI; (drule kube_call.inject(2) [THEN iffD1])?; blast)

lemma createRunJsonSecret_calls:
  "emits ku_calls (job_call K cfg spec info ty json64)
     (createRunJsonSecret K cfg (cc_Namespace cfg) (''run-json-'' @ rid_Uuid info) json64 (rid_Uuid info))"
proof (cases "b64_decode json64")
  case (Ok bytes)
  then have bnd: "bnd (liftres (wrap_res p (b64_decode json64))) k = k bytes" for p and k :: "string \<Rightarrow> unit kube"
    by (simp add: bnd_def liftres_def fun_eq_iff)
  have "job_call K cfg spec info ty json64
      (CreateSecret (run_json_secret cfg (cc_Namespace cfg) (''run-json-'' @ rid_Uuid info) (rid_Uuid info) bytes))"
    using Ok by (simp add: job_call_def run_json_name_def)
  then show ?thesis
    unfolding createRunJsonSecret_def bnd by (auto intro!: emits_intros)
qed (auto simp: createRunJsonSecret_def emits_def bnd_def liftres_def)

lemma CreateRunnerJob_calls:
  "emits ku_calls (job_call K cfg spec info ty json64) (CreateRunnerJob K cfg k info json64 ty spec)"
  unfolding CreateRunnerJob_def create_runner_job_def place_job_def createServiceAccount_def createWifTokenSecret_def createTokenSecret_def
    setSecretOwnerReference_def delete_secret_def Let_def
  by (intro emits_intros createRunJsonSecret_calls job_call_job; simp)

text \<open>What the runner reads, in the pod of such a job.\<close>

lemma pod_environment:
  assumes "pod_runs (runner_job cfg K spec info ty sa name wif rq) stored RE"
    and "distinct (map fst (buildEnvVars cfg spec))"
  shows "re_Getenv RE ''RUN_JSON_FILE_PATH'' = runJsonFilePath" "re_Getenv RE ''RUNNER_UUID'' = cc_Uuid cfg"
    "re_Getenv RE ''RUNNER_API_URL'' = ac_Url (cc_Api cfg)"
    "(n, v) \<in> set (js_Env spec) \<Longrightarrow> re_Getenv RE n = v"
proof -
  have "\<forall>(n, v) \<in> set (buildEnvVars cfg spec). re_Getenv RE n = v"
    using assms by (simp add: pod_runs_def runner_job_def Let_def)
  then show "re_Getenv RE ''RUN_JSON_FILE_PATH'' = runJsonFilePath" "re_Getenv RE ''RUNNER_UUID'' = cc_Uuid cfg"
    "re_Getenv RE ''RUNNER_API_URL'' = ac_Url (cc_Api cfg)"
    "(n, v) \<in> set (js_Env spec) \<Longrightarrow> re_Getenv RE n = v"
    by (auto simp: buildEnvVars_def)
qed

lemma pod_run_json:
  assumes "pod_runs (runner_job cfg K spec info ty sa name wif rq) stored RE"
    and "stored name = Some [(''run.json'', bytes)]"
  shows "re_ReadFile RE runJsonFilePath = Ok bytes"
proof -
  let ?j = "runner_job cfg K spec info ty sa name wif rq"
  let ?m = "\<lparr>vm_Name = ''run-json'', vm_MountPath = ''/var/run/secrets/meshstack'', vm_ReadOnly = True\<rparr>"
  let ?v = "\<lparr>vol_Name = ''run-json'', vol_Source = SecretVolume name\<rparr>"
  have "?m \<in> set (ctr_VolumeMounts (pod_Container ?j))" "?v \<in> set (pod_Volumes ?j)"
    by (simp_all add: runner_job_def createVolumeMounts_def createVolumes_def)
  then have "re_ReadFile RE (vm_MountPath ?m @ ''/'' @ ''run.json'') = Ok bytes"
    using assms unfolding pod_runs_def Let_def by fastforce
  then show ?thesis by (simp add: runJsonFilePath_def)
qed

lemma single_run_config:
  assumes "single_run_mode RE" "runner_ReadConfig RE = Ok rc" "re_MkdirAll RE (tc_TfInstallDir rc) = Ok ()"
    and "read_run_json RE = Ok json"
  shows "runner_main RE KP = Ok (rc, None, SingleRun json)"
  using assms by (simp add: runner_main_def init_crypto_def NewTfBin_def prepareInstallDir_def)

lemma private_key_frame [simp]:
  "tc_RunnerUuid (applyPrivateKeyFile RE p c) = tc_RunnerUuid c"
  "tc_RunApiBackend (applyPrivateKeyFile RE p c) = tc_RunApiBackend c"
  by (auto simp: applyPrivateKeyFile_def split: res.splits)

lemma configured_names:
  assumes "runner_ReadConfig RE = Ok rc"
  shows "re_Getenv RE ''RUNNER_UUID'' \<noteq> [] \<Longrightarrow> tc_RunnerUuid rc = re_Getenv RE ''RUNNER_UUID''"
    "re_Getenv RE ''RUNNER_API_URL'' \<noteq> [] \<Longrightarrow> rac_Url (tc_RunApiBackend rc) = re_Getenv RE ''RUNNER_API_URL''"
proof -
  obtain c0 p where "rc = applyPrivateKeyFile RE p (applyEnvVars RE c0)"
    using assms unfolding runner_ReadConfig_def Let_def rbind_Ok by (auto split: res.splits)
  then show "re_Getenv RE ''RUNNER_UUID'' \<noteq> [] \<Longrightarrow> tc_RunnerUuid rc = re_Getenv RE ''RUNNER_UUID''"
    "re_Getenv RE ''RUNNER_API_URL'' \<noteq> [] \<Longrightarrow> rac_Url (tc_RunApiBackend rc) = re_Getenv RE ''RUNNER_API_URL''"
    by (simp_all add: applyEnvVars_def override_def Let_def)
qed

section \<open>Delivery\<close>

text \<open>The secret with the run, of a job that was created: what it holds is what the pod finds.\<close>

lemma run_json_stored:
  assumes "CreateRunnerJob K cfg k info dec ty spec s = (Ok (), s')"
    and "created_with K (ku_calls s) (ku_calls s') sec" "sec_Name sec = run_json_name info"
    and "secrets_kept K (ku_calls s) (ku_calls s') stored"
  obtains json where "b64_decode dec = Ok json" "stored (run_json_name info) = Some [(''run.json'', json)]"
proof -
  from emitsD [OF CreateRunnerJob_calls assms(1)] obtain cs where
    cs: "ku_calls s' = ku_calls s @ cs" "list_all (job_call K cfg spec info ty dec) cs" by blast
  have called: "job_call K cfg spec info ty dec x" if "x \<in> set cs" for x
    using cs(2) that by (simp add: list_all_iff)
  obtain i where i: "length (ku_calls s) \<le> i" "i < length (ku_calls s')" "ku_calls s' ! i = CreateSecret sec"
    using assms(2) by (auto simp: created_with_def)
  then have "cs ! (i - length (ku_calls s)) = CreateSecret sec" "i - length (ku_calls s) < length cs"
    by (auto simp: cs(1) nth_append)
  then have "CreateSecret sec \<in> set cs" by (metis nth_mem)
  then obtain json where json: "b64_decode dec = Ok json" "sec_Data sec = [(''run.json'', json)]"
    using called [of "CreateSecret sec"] assms(3) by (auto simp: job_call_def run_json_name_def run_json_secret_def)
  have "sec_Name sec \<noteq> []" by (simp add: assms(3) run_json_name_def)
  then have "stored (sec_Name sec) = Some (sec_Data sec)" using assms(2,4) unfolding secrets_kept_def by blast
  then show thesis using that json by (simp only: assms(3))
qed


text \<open>The sample controller, with a terraform runner, and the pod of its job.\<close>

definition delivery_spec :: job_spec_template where
  "delivery_spec = sample_spec\<lparr>js_Env := [(''EXECUTION_MODE'', ''single-run'')]\<rparr>"

definition delivery_controller :: controller where
  "delivery_controller =
     sample_controller\<lparr>ct_config := sample_ctl_config\<lparr>cc_Implementations := [(''TERRAFORM'', delivery_spec)]\<rparr>\<rparr>"

definition delivery_pod :: runner_env where
  "delivery_pod =
     \<lparr>re_Getenv = (\<lambda>n. case map_of (buildEnvVars (ct_config delivery_controller) delivery_spec) n of Some v \<Rightarrow> v | None \<Rightarrow> []),
      re_ReadFile = (\<lambda>f. if f = runJsonFilePath then Ok ''j'' else Err (NotExist f)), re_Yaml = (\<lambda>t. Err (ErrorString t)),
      re_MkdirAll = (\<lambda>d. Ok ()), re_Listen = (\<lambda>a. Ok ())\<rparr>"

lemmas delivery_defs = delivery_spec_def delivery_controller_def sample_controller_def kube_samples

lemma delivery_env [simp]:
  "buildEnvVars (ct_config delivery_controller) delivery_spec =
     [(''RUN_JSON_FILE_PATH'', runJsonFilePath), (''RUNNER_UUID'', ''c''), (''RUNNER_API_URL'', ''http://m''),
      (''EXECUTION_MODE'', ''single-run'')]"
  by (simp add: buildEnvVars_def delivery_defs)

lemma delivery_config [simp]:
  "cc_Namespace (ct_config delivery_controller) = ''ns''"
  "cc_Implementations (ct_config delivery_controller) = [(''TERRAFORM'', delivery_spec)]"
  "wif_issuer (cc_Wif (ct_config delivery_controller)) = ''off''"
  "ct_crypto delivery_controller = None"
  by (simp_all add: delivery_defs wif_issuer_def cmp_or_def)

text \<open>The calls of the dispatch.\<close>

definition delivery_calls :: "resource_requirements \<Rightarrow> kube_call list" where
  "delivery_calls rq =
     (let cfg = ct_config delivery_controller; info = GetRunInfo (sample_details ''APPLY'');
          account = renderSubjectTemplate serviceAccountNameTemplate info
      in [GetJob ''ns'' ''runner-id'', GetServiceAccount ''ns'' account, GetSecret ''ns'' ''run-json-id'',
          CreateSecret (run_json_secret cfg ''ns'' ''run-json-id'' ''id'' ''j''),
          CreateJob (runner_job cfg (sample_kube False) delivery_spec info ''TERRAFORM'' account ''run-json-id'' ([], []) rq),
          GetSecret ''ns'' ''run-json-id''])"

text \<open>The state after it: the calls, and the measurements of a job that was created.\<close>

definition delivered :: "kube_state \<Rightarrow> resource_requirements \<Rightarrow> kube_state" where
  "delivered s rq =
     noted [Inc ''run_controller_jobs_created_total'' [(''controller_uuid'', ''c'')],
            Observe ''run_controller_job_creation_duration_seconds'' [(''controller_uuid'', ''c'')]]
       (s\<lparr>ku_calls := ku_calls s @ delivery_calls rq\<rparr>)"

lemma sample_b64: "b64_encode ''j'' = ''ag=='' \<and> b64_decode ''ag=='' = Ok ''j''"
  by code_simp

lemma sample_delivered:
  "\<exists>rq. kube_Dispatch (sample_kube False) (ct_config delivery_controller) sample_kube_client (sample_details ''APPLY'')
     (b64_encode ''j'') ''TERRAFORM'' s = (Ok (), delivered s rq)"
proof -
  have uuid: "cc_Uuid (ct_config delivery_controller) = ''c''" by (simp add: delivery_defs)
  have info: "rid_Uuid (GetRunInfo (sample_details ''APPLY'')) = ''id''" by (simp add: GetRunInfo_def sample_details_def)
  have wif: "wifTokenVolumes (cc_Wif (ct_config delivery_controller)) ''ns'' [] = ([], [])"
    by (simp add: wifTokenVolumes_def WifIssuerKeycloak_def WifIssuerKubernetes_def)
  have "MustParse (sample_kube False) q = Ok q" for q by (simp add: MustParse_def sample_kube_def Let_def)
  then obtain rq where rq: "buildResourceRequirements (sample_kube False) (js_Resources delivery_spec) = Ok rq"
    by (cases "cmp_or (rsp_Cpu (res_Limits (js_Resources delivery_spec))) DefaultCpuLimit = []")
      (simp_all add: buildResourceRequirements_def)
  show ?thesis
    using sample_b64 info wif rq uuid
    by (intro exI [of _ rq])
      (simp add: delivered_def kube_Dispatch_def CreateRunnerJob_def create_runner_job_def Prelude.deferred_def job_step_def createServiceAccount_def createRunJsonSecret_def
        createWifTokenSecret_def place_job_def setSecretOwnerReference_def kube_do_def attempt_def bnd_def ret_def throw_def
        liftres_def wrap_err_def done_unless_def answer_def server_error_def estimateRunJsonSize_def
        EffectiveMaxRunJsonSize_def MaxKubernetesSecretSize_def SecretMetadataOverhead_def DecodedLen_def run_secrets_def
        for_each_def delivery_calls_def sample_kube_def sample_kube_client_def Let_def
        del: b64_encode.simps)
qed

lemma sample_placed_run:
  "\<exists>rq. process_run (sample_ctl_env ''TERRAFORM'') (kube_dispatcher (sample_kube False) (ct_config delivery_controller)
     sample_kube_client) delivery_controller ''e30='' (sample_details ''APPLY'') (a, s) =
     (Ok RunProcessed, (a, delivered s rq))"
proof -
  let ?E = "sample_ctl_env ''TERRAFORM''"
  have dec: "decryptRunDetails (ctl_aead ?E) (ctl_codec ?E) (ctl_impls ?E) ''e30='' (ct_crypto delivery_controller) =
      Ok (b64_encode ''j'')"
    using sample_failed_run by (auto simp: sample_controller_def)
  have ty: "GetImplementationType (ctl_codec ?E) (sample_details ''APPLY'') = Ok ImplTerraform"
    by (simp add: GetImplementationType_def to_impl_type_def sample_ctl_env_def)
  obtain rq where rq: "kube_Dispatch (sample_kube False) (ct_config delivery_controller) sample_kube_client
     (sample_details ''APPLY'') (b64_encode ''j'') ''TERRAFORM'' s = (Ok (), delivered s rq)"
    using sample_delivered by blast
  have "via_dispatcher (kube_Dispatch (sample_kube False) (ct_config delivery_controller) sample_kube_client
     (sample_details ''APPLY'') (b64_encode ''j'') ''TERRAFORM'') (a, s) = (Ok (), (a, delivered s rq))"
    using rq by (simp add: via_dispatcher_run del: b64_encode.simps)
  then show ?thesis
    using dec ty
    by (intro exI [of _ rq]) (simp add: process_run_def attempt_def liftres_def ret_def kube_dispatcher_def ToRunnerType_def
        del: b64_encode.simps)
qed

lemma delivery_created:
  "created_with (sample_kube False) [] (delivery_calls rq) sec \<longleftrightarrow>
     sec = run_json_secret (ct_config delivery_controller) ''ns'' ''run-json-id'' ''id'' ''j''"
proof -
  have "kube_CreateSecret (sample_kube False) h = Inr ''sec''" for h by (simp add: sample_kube_def Let_def)
  then show ?thesis
    by (auto simp: created_with_def delivery_calls_def Let_def less_Suc_eq numeral_eq_Suc)
qed

lemma delivery_pod_runs:
  "pod_runs (runner_job (ct_config delivery_controller) (sample_kube False) delivery_spec info ''TERRAFORM'' account
     ''run-json-id'' ([], []) rq) [''run-json-id'' \<mapsto> [(''run.json'', ''j'')]] delivery_pod"
proof -
  have "js_ExtraVolumeMounts delivery_spec = []" "js_ExtraVolumes delivery_spec = []"
    by (simp_all add: delivery_spec_def sample_spec_def)
  then show ?thesis
    by (simp add: pod_runs_def runner_job_def createVolumeMounts_def createVolumes_def delivery_pod_def runJsonFilePath_def)
qed

lemma delivery_read: "\<exists>rc. runner_ReadConfig delivery_pod = Ok rc"
  by (simp add: runner_ReadConfig_def read_config_file_def delivery_pod_def applyEnvVars_def override_def
      applyPrivateKeyFile_def validateAuthConfig_def validateRunnerUuid_def empty_runner_config_def single_run_mode_def
      defaultConfigFile_def defaultPrivateKeyFile_def runJsonFilePath_def Let_def)


end
