(* ===== verification/MetricsProperties.thy ===== *)
theory MetricsProperties
  imports JobDelivery
begin

text \<open>
  What the metrics of the run controller say about its work (\<open>Metrics\<close> has the collectors): the loop
  and the jobs are counted exactly; two outcomes are counted as something else, or not at all.
\<close>

section \<open>What a round measures\<close>

lemma emits_measure_api [emits_intros]:
  "length vs = length (co_Labels c) \<Longrightarrow> P (w (co_Name c) (zip (co_Labels c) vs)) \<Longrightarrow>
    emits as_measured P (measure_api (report w c vs))"
  by (simp add: emits_def)

lemma emits_via [emits_intros]:
  "emits as_measured P m \<Longrightarrow> emits (\<lambda>s. as_measured (fst s)) P (via_api m)"
  "emits (\<lambda>s. as_measured (fst s)) P (via_dispatcher m')"
  by (auto simp: emits_def via_api_def via_dispatcher_def zoom_def split: prod.splits) (metis snd_conv)

definition not_loop :: "measurement \<Rightarrow> bool" where
  "not_loop m \<longleftrightarrow> (\<forall>l. m \<noteq> Inc ''run_controller_loop_iterations_total'' l)"

lemma counted_not_loop: "list_all not_loop ms \<Longrightarrow> counted (controllerLoopIterations run_metrics) ms = 0"
  by (induction ms) (auto simp: counted_def not_loop_def)

lemma drainRuns_not_loop: "emits (\<lambda>s. as_measured (fst s)) not_loop (drainRuns E D c halts)"
proof -
  have failed: "emits as_measured not_loop (count_fetch_error cfg e)" for cfg e
    by (simp add: emits_def count_fetch_error_run not_loop_def)
  have fetch: "emits as_measured not_loop (ctl_FetchRunDetails H C cfg m n)" for H C cfg m n
    unfolding ctl_FetchRunDetails_def observe_def
    by (auto intro!: emits_intros measures_fresh failed simp: not_loop_def)
  have report: "emits as_measured not_loop (reportRunFailure H c u m)" for H u m
    unfolding reportRunFailure_def by (auto intro!: emits_intros api_measures_nothing)
  have process: "emits (\<lambda>s. as_measured (fst s)) not_loop (process_run E D c j run)" for j run
    unfolding process_run_def inc_def by (auto intro!: emits_intros report simp: not_loop_def)
  have round: "emits (\<lambda>s. as_measured (fst s)) not_loop (processNextRun E D c)"
    unfolding processNextRun_def by (auto intro!: emits_intros fetch process)
  have rounds: "emits (\<lambda>s. as_measured (fst s)) not_loop (drain_rounds E D c halts n i)" for n i
    by (induction n arbitrary: i) (auto intro!: emits_intros round)
  show ?thesis
    unfolding drainRuns_def availableCapacity_def Let_def inc_def
    by (auto intro!: emits_intros rounds simp: not_loop_def)
qed

section \<open>The counters\<close>

fun ticks :: "ctl_event list \<Rightarrow> nat" where
  "ticks (Tick halts # es) = Suc (ticks es)"
| "ticks _ = 0"

lemma Run_counts_ticks:
  "Run E D c es (a, d) = (Ok (), (a', d')) \<Longrightarrow>
    counted (controllerLoopIterations run_metrics) (as_measured a') =
    counted (controllerLoopIterations run_metrics) (as_measured a) + ticks es"
proof (induction es arbitrary: a d)
  case (Cons e es)
  show ?case
  proof (cases e)
    case (Tick halts)
    let ?a = "a\<lparr>as_measured := as_measured a @ [Inc ''run_controller_loop_iterations_total'' []]\<rparr>"
    obtain x a1 d1 where x: "drainRuns E D c halts (?a, d) = (x, (a1, d1))" by (metis prod.collapse)
    have rest: "Run E D c es (a1, d1) = (Ok (), (a', d'))"
      using Cons.prems x by (auto simp: Tick inc_def bnd_def via_api_def zoom_def split: res.splits)
    obtain ms where "as_measured a1 = as_measured ?a @ ms" "list_all not_loop ms"
      using emitsD [OF drainRuns_not_loop x] by auto
    then show ?thesis using Cons.IH [OF rest] counted_not_loop by (simp add: Tick)
  qed (use Cons.prems in \<open>simp add: ret_def\<close>)
qed (simp add: ret_def)

text \<open>
  C32: however many cycles the controller makes, and whatever fails in them, its counter of created jobs
  grows by exactly the jobs that were placed on the cluster; and when it has stopped, its counter of loop
  iterations has grown by the ticks it has seen.
\<close>

theorem jobs_counted_exactly:
  assumes "Run E (kube_dispatcher K (ct_config c) k) c es (a, d) = (r, (a', d'))"
  shows "counted (jobsCreatedTotal run_metrics) (as_measured (ku_api d')) + jobs_placed K d =
      counted (jobsCreatedTotal run_metrics) (as_measured (ku_api d)) + jobs_placed K d' \<and>
    (r = Ok () \<longrightarrow> counted (controllerLoopIterations run_metrics) (as_measured a') =
      counted (controllerLoopIterations run_metrics) (as_measured a) + ticks es)"
  using kube_counts.Run_steps [OF assms] Run_counts_ticks [of E _ c es a d a' d'] assms
  by (auto simp: created_count_def)

text \<open>The sample controller in one cycle with one round: it fetches a run and places its job.\<close>

definition one_cycle :: "ctl_event list" where
  "one_cycle = [Tick (\<lambda>i. i > 0), ContextDone]"

lemma sample_b64_fetched: "b64_encode ''{}'' = ''e30=''"
  by code_simp

lemma sample_fetched:
  "\<exists>a1. ctl_FetchRunDetails (sample_http 200 ''{}'') (ctl_codec (sample_ctl_env ''TERRAFORM'')) (ct_config delivery_controller)
      defaultMetadata ''c'' a = (Ok (''e30='', sample_details ''APPLY''), a1)"
  using sample_b64_fetched
  by (simp add: ctl_FetchRunDetails_def Prelude.deferred_def observe_def FetchRun_def fresh_auth_def bnd_def
      http_NewRequest_def ret_def setHeaders_def newMeshClient_def api_NewAuthProvider_def http_Do_def liftres_def
      ReadAll_def wrap_err_def attempt_def sample_ctl_env_def sample_codec_def sample_http_def delivery_controller_def
      sample_controller_def sample_ctl_config_def sample_details_def Let_def del: b64_encode.simps)

lemma sample_cycle:
  "\<exists>a' rq. Run (sample_ctl_env ''TERRAFORM'') (kube_dispatcher (sample_kube False) (ct_config delivery_controller)
      sample_kube_client) delivery_controller one_cycle (sample_api_state, sample_kube_state) =
      (Ok (), (a', delivered (sample_kube_state\<lparr>ku_calls := [ListJobs ''ns'' ''meshcloud.io/runner-id=c'']\<rparr>) rq))"
proof -
  let ?E = "sample_ctl_env ''TERRAFORM''" and ?c = delivery_controller
    and ?D = "kube_dispatcher (sample_kube False) (ct_config delivery_controller) sample_kube_client"
    and ?d = "sample_kube_state\<lparr>ku_calls := [ListJobs ''ns'' ''meshcloud.io/runner-id=c'']\<rparr>"
  let ?a = "sample_api_state\<lparr>as_measured := [Inc ''run_controller_loop_iterations_total'' []]\<rparr>"
  have cfg: "cc_MaxConcurrentJobs (ct_config ?c) = 2" "cc_Uuid (ct_config ?c) = ''c''" "ct_meta ?c = defaultMetadata"
    "ctl_http ?E = sample_http 200 ''{}''"
    by (simp_all add: delivery_defs sample_ctl_env_def)
  have "CountActiveJobs (sample_kube False) (ct_config ?c) sample_kube_state = (Ok 1, ?d)"
    by (simp add: CountActiveJobs_def bnd_def wrap_err_def attempt_def kube_do_def answer_def ret_def isJobFinished_def
        sample_kube_def sample_kube_state_def cfg Let_def)
  then have capacity: "availableCapacity ?D ?c (?a, sample_kube_state) = (Ok 1, (?a, ?d))"
    by (simp add: availableCapacity_def cfg Let_def attempt_def ret_def via_dispatcher_def zoom_def kube_dispatcher_def)
  obtain a1 where f: "ctl_FetchRunDetails (sample_http 200 ''{}'') (ctl_codec ?E) (ct_config ?c) defaultMetadata ''c'' ?a =
      (Ok (''e30='', sample_details ''APPLY''), a1)"
    using sample_fetched by blast
  obtain rq where p: "process_run ?E ?D ?c ''e30='' (sample_details ''APPLY'') (a1, ?d) = (Ok RunProcessed, (a1, delivered ?d rq))"
    using sample_placed_run by blast
  have "processNextRun ?E ?D ?c (?a, ?d) = (Ok RunProcessed, (a1, delivered ?d rq))"
    using f p by (simp add: processNextRun_def attempt_def via_api_def zoom_def cfg)
  then have "drainRuns ?E ?D ?c (\<lambda>i. i > 0) (?a, sample_kube_state) = (Ok (), (a1, delivered ?d rq))"
    using capacity by (simp add: drainRuns_def bnd_def ret_def)
  then have "Run ?E ?D ?c one_cycle (sample_api_state, sample_kube_state) = (Ok (), (a1, delivered ?d rq))"
    by (simp add: one_cycle_def inc_def bnd_def via_api_def zoom_def ret_def sample_api_state_def)
  then show ?thesis by blast
qed

theorem jobs_counted_exactly_witness:
  "\<exists>a' d'. Run (sample_ctl_env ''TERRAFORM'') (kube_dispatcher (sample_kube False) (ct_config delivery_controller)
      sample_kube_client) delivery_controller one_cycle (sample_api_state, sample_kube_state) = (Ok (), (a', d')) \<and>
    jobs_placed (sample_kube False) d' = 1 \<and>
    counted (jobsCreatedTotal run_metrics) (as_measured (ku_api d')) = 1 \<and>
    counted (controllerLoopIterations run_metrics) (as_measured a') = 1"
proof -
  obtain a' rq where run: "Run (sample_ctl_env ''TERRAFORM'') (kube_dispatcher (sample_kube False) (ct_config delivery_controller)
      sample_kube_client) delivery_controller one_cycle (sample_api_state, sample_kube_state) =
      (Ok (), (a', delivered (sample_kube_state\<lparr>ku_calls := [ListJobs ''ns'' ''meshcloud.io/runner-id=c'']\<rparr>) rq))"
    using sample_cycle by blast
  have "jobs_placed (sample_kube False) sample_kube_state = 0" "as_measured (ku_api sample_kube_state) = []"
    "as_measured sample_api_state = []" "ticks one_cycle = 1"
    by (simp_all add: jobs_placed_def sample_kube_state_def sample_api_state_def one_cycle_def)
  then show ?thesis
    using jobs_counted_exactly [OF run] run by (intro exI) (auto simp: delivered_def)
qed

section \<open>What the counters miss\<close>

text \<open>Every failure of a dispatch to a configured implementation is counted once, as a creation error.\<close>

lemma dispatch_failure_counted:
  assumes "kube_Dispatch K cfg k run json ty s = (r, s')" "map_of (cc_Implementations cfg) ty = Some spec" "\<forall>p. r \<noteq> Panic p"
  shows "counted (jobCreationErrors run_metrics) (as_measured (ku_api s')) =
    counted (jobCreationErrors run_metrics) (as_measured (ku_api s)) + (if r = Ok () then 0 else 1)"
  using kube_Dispatch_counts(2) [OF assms(1)] assms(2,3) by (cases r) (auto simp: error_count_def)

text \<open>A registration that fails because meshStack does not know the controller is counted neither way.\<close>

lemma unknown_controller_uncounted:
  assumes "putController E cfg api (json_Marshal (runner_json (BuildRunnerRegistrationDTO cfg (rga_wif api)))) s = (Ok 404, s')"
  shows "\<exists>e. api_RegisterController E cfg api s = (Err e, s') \<and> as_measured s' = as_measured s"
proof -
  have "emits as_measured (\<lambda>m. False) (putController E cfg api b)" for b
    unfolding putController_def by (auto intro!: emits_intros)
  from emitsD [OF this assms] have "as_measured s' = as_measured s" by (auto simp: list_all_iff)
  then show ?thesis using assms by (simp add: api_RegisterController_def attempt_def throw_def)
qed

text \<open>A cycle whose active jobs cannot be counted is reported as one at the maximum of jobs.\<close>

lemma failed_count_as_full:
  assumes "0 \<le> cc_MaxConcurrentJobs (ct_config c)" "dp_CountActive D d = (Err e, d')"
  shows "drainRuns E D c halts (a, d) = (Ok (), (a\<lparr>as_measured := as_measured a @
     [Inc ''run_controller_jobs_at_capacity_skips_total'' [(''controller_uuid'', cc_Uuid (ct_config c))]]\<rparr>, d'))"
  using assms
  by (simp add: drainRuns_def availableCapacity_def bnd_def Let_def attempt_def via_dispatcher_def via_api_def zoom_def
      ret_def inc_def)

end
