(* ===== verification/Spec2Isabelle.thy ===== *)
theory Spec2Isabelle
  imports TfProperties InputProperties ApiProperties WorkerProperties ControllerProperties
    ModeProperties RunnerProperties InitProperties StatusHeap JobDelivery MetricsProperties
begin

text \<open>
  A verification library for the Go programs of the repository: the terraform runner
  (\<^verbatim>\<open>tf-block-runner\<close>), the run controller (\<^verbatim>\<open>run-controller\<close>), the manual runner
  (\<^verbatim>\<open>manual-block-runner\<close>) and the API client they share (\<^verbatim>\<open>go-meshapi-client\<close>). All paths below are
  relative to \<^verbatim>\<open>src/\<close>.

  \<^bold>\<open>The program.\<close> A \<^emph>\<open>run\<close> is one execution of a building block: a terraform apply, plan or destroy with
  inputs, some of them encrypted for the runner. meshStack hands out runs through an HTTP API. The
  terraform runner either polls this API (a manager hands a token to one worker, the worker fetches a
  run, decrypts it as it goes, executes it and reports), or executes a single run that it is given
  decrypted. The run controller claims runs from the same API on behalf of several runners, decrypts
  them, and places each on a Kubernetes job with its secrets, or executes it in its own process; before,
  it registers with meshStack and obtains workload identity tokens from Keycloak. While a run is
  executed, one goroutine runs the command and publishes the status of the run, and another one samples
  the published status, sends it to meshStack, and learns from the answer whether to abort.

  \<^bold>\<open>Conventions.\<close> Go strings and byte slices are both lists of characters (bytes). A function that may
  return an error or panic returns \<open>'a res\<close>: \<open>Ok\<close>, \<open>Err\<close> with a \<open>go_error\<close> that keeps the wrapping, or
  \<open>Panic\<close>; an operation with state is a \<open>('s, 'a) prog\<close>, that is \<open>'s \<Rightarrow> 'a res \<times> 's\<close>, composed by \<open>bnd\<close> and
  by \<open>attempt\<close>, which hands an error (but no panic) to its continuation. Everything outside the
  repository is a parameter: a record of functions (\<open>tf_env\<close>, \<open>http_env\<close>, \<open>kc_env\<close>, \<open>kube_env\<close>, \<open>config_env\<close>,
  \<open>runner_env\<close>, \<open>manual_env\<close>, the codecs and the cryptographic primitives) that answers each call as an
  arbitrary function of the calls made so far, so that a theorem holds for every behaviour of terraform,
  git, the network, Kubernetes, Keycloak, the file system and the clock. What a proof needs to know of
  such a parameter is a named hypothesis: \<open>retry_contract\<close> for the package backoff, \<open>primitives_invert\<close>
  for AES-GCM and RSA-OAEP, \<open>codec_inverts\<close> for the JSON codecs; each is instantiated by a concrete
  function in a witness.
\<close>

text \<open>
  \<^bold>\<open>The theories.\<close>

  \<^item> \<open>Prelude\<close>: results, errors, programs, Go's string functions, and the generic locales
    \<open>step_invariant\<close> (an invariant of a step relation) and \<open>step_measure\<close> (a bound on its steps).
    \<open>GoStd\<close>: paths, JSON strings, URL escaping, maps and sorted iteration. \<open>Base64\<close>: the standard
    encoding with its round trip.

  \<^item> \<open>MeshCrypto\<close> (\<^verbatim>\<open>go-meshapi-client/crypto\<close>): the frames of encrypted values, the key checks and the
    panics. \<open>MeshapiClient\<close> (\<^verbatim>\<open>go-meshapi-client/meshapi\<close>): requests, credentials, the token cache,
    artifacts, registration and status updates. \<open>RunModel\<close>: the transfer types, their conversion to the
    runner's \<open>run\<close> and the decryption on use.

  \<^item> The terraform runner (\<^verbatim>\<open>tf-block-runner/tfrun\<close>). \<open>RunStatus\<close>: the status of a run, its steps, and
    when one status is progress over another; \<open>StatusHeap\<close>: the same with the pointers of the code.
    \<open>TfContext\<close>: the state of a command (\<open>tf_state\<close>: current
    and published status, log, flags, and the history of calls, log writes and publications), with the
    log callback. \<open>TfInvariants\<close>: the invariant of a command, and the locale \<open>tf_frame\<close> by which
    everything between two steps is shown to keep it. \<open>GitSource\<close> (\<^verbatim>\<open>gitsource.go\<close>, \<^verbatim>\<open>git.go\<close>,
    \<^verbatim>\<open>auth*.go\<close>), \<open>HclConfig\<close> (\<^verbatim>\<open>tfconfig_parse.go\<close>, \<^verbatim>\<open>backendsearch.go\<close>, \<^verbatim>\<open>tfcmd_vars.go\<close>), \<open>TfInputs\<close>
    (environment, files and variables), \<open>ScriptCmd\<close> (hook scripts), \<open>TfCmd\<close> (binaries, init, workspaces,
    backend, outputs), \<open>TfCommands\<close> (\<^verbatim>\<open>tfplan.go\<close>, \<^verbatim>\<open>tfapply.go\<close>, \<^verbatim>\<open>tfdestroy.go\<close>; the locale
    \<open>tf_command\<close> is the contract the three share). \<open>RunApi\<close>, \<open>StatusUpdate\<close>: fetching a run, and
    updates that are repeated. \<open>Worker\<close>: the polling worker and the goroutines of a run as the step
    relation \<open>watch_step\<close>; \<open>SingleRunWorker\<close>: the worker of a single run. \<open>Manager\<close>: the manager, its
    channels and its worker as a step relation. \<open>RunnerConfig\<close>: configuration and start.

  \<^item> The run controller (\<^verbatim>\<open>run-controller\<close>). \<open>ControllerConfig\<close>: configuration and validation.
    \<open>KeycloakWif\<close>: clients and tokens for workload identity. \<open>ControllerApi\<close>: claiming runs, reporting
    failures, registration. \<open>RunDecryption\<close>: decryption before the hand-over. \<open>Controller\<close>: the loop,
    over the locale \<open>run_placement\<close>, which \<open>Kubernetes\<close> (jobs and secrets) and \<open>InProcess\<close> (goroutines
    and their counter) interpret; \<open>InProcess\<close> also has the start of the program. \<open>Metrics\<close>: the
    collectors, their registration and the measurements, which the API client, the loop and the
    dispatchers record in the field \<open>as_measured\<close> of the API state. \<open>JobDelivery\<close>: from the controller's job to the terraform runner.

  \<^item> \<open>ManualRunner\<close> (\<^verbatim>\<open>manual-block-runner/manual\<close>): every run is reported as succeeded, with its
    inputs as outputs.

  \<^item> \<open>Samples\<close> holds the concrete inputs of the witnesses, and the theories named \<open>*Properties\<close> the
    properties C1 to C40 with their witnesses.
\<close>

text \<open>
  \<^bold>\<open>What is shown.\<close>

  \<^item> Commands (\<open>TfProperties\<close>). A plan, apply or destroy ends with a terminal status published last, or
    panics; every report on the way is consistent and makes progress over all earlier ones. A plan is
    uploaded before it is reported as succeeded; an apply of a saved plan never plans afresh and never
    applies after a failed download.

  \<^item> Inputs (\<open>InputProperties\<close>, \<open>InitProperties\<close>). Which environment variables terraform sees, which
    inputs reach it and how, which workspace and backend it works in, and the round trip of data URLs.

  \<^item> API (\<open>ApiProperties\<close>). The bearer of each request, the token cache, the size limit of artifacts,
    the repetition of transient failures only, and the round trip of encryption.

  \<^item> Workers (\<open>WorkerProperties\<close>). What the observer sends, under every interleaving with the command,
    is a progressing sequence of live updates and one final one; no state is stuck. The theories treat
    the status as a value; \<open>StatusHeap\<close> shows that the code's pointers to steps behave like that. The
    manager's two channels and goroutines refine a machine with one token; after a shutdown it stops
    within twelve steps (the longest path of the token to \<open>Returned\<close>, as \<open>token_rank\<close> counts it).

  \<^item> Controller (\<open>ControllerProperties\<close>, \<open>RunnerProperties\<close>). Keycloak clients and secrets are deleted
    again when a later step fails; a cycle never places more jobs than the capacity it computed; a claimed
    run is placed or reported as failed; a validated configuration is usable. For both dispatchers.
    The counters are exact (\<open>MetricsProperties\<close>): a job is counted as created when and only when it was.

  \<^item> Modes (\<open>ModeProperties\<close>, \<open>JobDelivery\<close>). A run that the controller places on a job is the run that
    the runner in the job executes, provided that Kubernetes keeps secrets and mounts them
    (\<open>secrets_kept\<close>, \<open>pod_runs\<close>). A run reaches terraform with the same inputs whether the runner
    polled it or the controller decrypted it.

  \<^bold>\<open>Loops, bounds and fuel.\<close> Loops over lists are structural recursions. A loop that polls forever is a
  step relation (\<open>watch_step\<close>, \<open>manager_step\<close>), or a function of the number of its rounds (\<open>poller_Run\<close>):
  a theorem about it holds for every number. \<open>drain_rounds\<close>, the controller's loop of one
  cycle, runs at most as often as there are free slots, which is its own bound in the code.
  \<open>registerController\<close> takes the list of outcomes of its waits. The repetition of a status update goes
  through the parameter \<open>retrier\<close>, whose contract says that it calls the operation a finite number of
  times, again after transient errors only. Sizes (\<^verbatim>\<open>ReadLimited\<close>, the run JSON of a secret) are natural
  numbers; the length prefixes of the encrypted frames are written out byte by byte.

  \<^bold>\<open>Not modelled.\<close> The local operator logs, the help texts and buckets of the metrics
  (of an observed duration, only that it is observed), the health servers once they have started, signal handlers, and the removal of
  temporary directories and closing of log files after a run. The terraform state machine itself, git, HCL, YAML and JSON decoding, TLS and the cryptographic
  primitives are parameters. The goroutines of a run share a status through a mutex: each critical
  section is one step. The Kotlin runners are a separate program.
\<close>

end
